(* ===== verification/Prelude.thy ===== *)
theory Prelude
  imports Main "HOL-Library.Word"
begin

text \<open>
  The shared vocabulary of the development.  Rust strings that the code only cuts at ASCII
  characters are \<^typ>\<open>string\<close>, read as the UTF-8 byte sequence that a Rust \<open>str\<close> is; texts whose
  Unicode properties the code inspects are lists of code points (\<open>ustr\<close>).  The functions below
  model the parts of the Rust standard library that the components use (\<open>str::split\<close>,
  \<open>slice::join\<close>, \<open>str::splitn\<close>, \<open>strip_prefix\<close>, \<open>trim\<close>, integer parsing and printing, saturating
  arithmetic) and the SQL statements over a table kept as the list of its rows.
\<close>

section \<open>Rewrite collections\<close>

named_theorems str_simps \<open>equations of the string library\<close>
named_theorems sql_simps \<open>equations of the table operations\<close>

section \<open>Results\<close>

text \<open>An \<open>anyhow::Result\<close>: \<^term>\<open>Inl\<close> carries the error message, \<^term>\<open>Inr\<close> the value.\<close>

type_synonym 'a res = "string + 'a"

definition res_bind :: "'e + 'a \<Rightarrow> ('a \<Rightarrow> 'e + 'b) \<Rightarrow> 'e + 'b" where
  "res_bind m f = (case m of Inl e \<Rightarrow> Inl e | Inr x \<Rightarrow> f x)"

lemma res_bind_simps [simp]:
  "res_bind (Inl e) f = Inl e"
  "res_bind (Inr x) f = f x"
  by (simp_all add: res_bind_def)

lemma res_bind_eq_Inr:
  "res_bind m f = Inr y \<longleftrightarrow> (\<exists>x. m = Inr x \<and> f x = Inr y)"
  by (cases m) auto

text \<open>Operations that fail stop a loop.\<close>

fun fold_res :: "('a \<Rightarrow> 's \<Rightarrow> 's res) \<Rightarrow> 'a list \<Rightarrow> 's \<Rightarrow> 's res" where
  "fold_res f [] s = Inr s"
| "fold_res f (x # xs) s = res_bind (f x s) (fold_res f xs)"

lemma fold_res_inv:
  assumes "fold_res f xs s = Inr s'" "P s" "\<And>x s s'. x \<in> set xs \<Longrightarrow> P s \<Longrightarrow> f x s = Inr s' \<Longrightarrow> P s'"
  shows "P s'"
  using assms by (induction xs arbitrary: s) (auto simp: res_bind_eq_Inr)

definition is_ok :: "'e + 'a \<Rightarrow> bool" where
  "is_ok r = (case r of Inl _ \<Rightarrow> False | Inr _ \<Rightarrow> True)"

lemma is_ok_simps [simp]: "\<not> is_ok (Inl e)" "is_ok (Inr x)"
  by (simp_all add: is_ok_def)

section \<open>Strings\<close>

text \<open>\<open>s.split(c)\<close>: the pieces between the occurrences of a character; never empty.\<close>

fun split_on :: "'a \<Rightarrow> 'a list \<Rightarrow> 'a list list" where
  "split_on c [] = [[]]"
| "split_on c (x # xs) =
     (if x = c then [] # split_on c xs
      else (case split_on c xs of [] \<Rightarrow> [[x]] | y # ys \<Rightarrow> (x # y) # ys))"

text \<open>\<open>xs.join(sep)\<close>.\<close>

fun join :: "'a list \<Rightarrow> 'a list list \<Rightarrow> 'a list" where
  "join sep [] = []"
| "join sep [x] = x"
| "join sep (x # y # zs) = x @ sep @ join sep (y # zs)"

text \<open>\<open>s.splitn(2, c)\<close>: \<^term>\<open>None\<close> when the iterator yields a single piece.\<close>

fun split_once :: "'a \<Rightarrow> 'a list \<Rightarrow> ('a list \<times> 'a list) option" where
  "split_once c [] = None"
| "split_once c (x # xs) =
     (if x = c then Some ([], xs)
      else (case split_once c xs of None \<Rightarrow> None | Some (k, v) \<Rightarrow> Some (x # k, v)))"

text \<open>\<open>s.strip_prefix(p)\<close> and \<open>s.starts_with(p)\<close>.\<close>

fun strip_prefix :: "'a list \<Rightarrow> 'a list \<Rightarrow> 'a list option" where
  "strip_prefix [] s = Some s"
| "strip_prefix (p # ps) [] = None"
| "strip_prefix (p # ps) (x # xs) = (if p = x then strip_prefix ps xs else None)"

definition starts_with :: "'a list \<Rightarrow> 'a list \<Rightarrow> bool" where
  "starts_with s p \<longleftrightarrow> take (length p) s = p"

definition strip_suffix :: "'a list \<Rightarrow> 'a list \<Rightarrow> 'a list option" where
  "strip_suffix p s = map_option rev (strip_prefix (rev p) (rev s))"

definition ends_with :: "'a list \<Rightarrow> 'a list \<Rightarrow> bool" where
  "ends_with s p \<longleftrightarrow> starts_with (rev s) (rev p)"

text \<open>\<open>trim_start_matches\<close>, \<open>trim_end_matches\<close> and \<open>trim\<close> with a character predicate.\<close>

definition trim_start :: "('a \<Rightarrow> bool) \<Rightarrow> 'a list \<Rightarrow> 'a list" where
  "trim_start P s = dropWhile P s"

definition trim_end :: "('a \<Rightarrow> bool) \<Rightarrow> 'a list \<Rightarrow> 'a list" where
  "trim_end P s = rev (dropWhile P (rev s))"

definition trim :: "('a \<Rightarrow> bool) \<Rightarrow> 'a list \<Rightarrow> 'a list" where
  "trim P s = trim_end P (trim_start P s)"

lemma split_on_nonempty [simp]: "split_on c s \<noteq> []"
  by (induction s) (auto split: list.splits)

lemma join_Cons [str_simps]: "ys \<noteq> [] \<Longrightarrow> join sep (x # ys) = x @ sep @ join sep ys"
  by (cases ys) simp_all

lemma join_append_single:
  "xs \<noteq> [] \<Longrightarrow> join sep (xs @ [y]) = join sep xs @ sep @ y"
  by (induction sep xs rule: join.induct) (simp_all add: join_Cons)

lemma join_split_on [simp]: "join [c] (split_on c s) = s"
proof (induction s)
  case Nil
  show ?case by simp
next
  case (Cons x s)
  obtain y ys where yys: "split_on c s = y # ys"
    by (cases "split_on c s") auto
  with Cons show ?case
    by (cases ys) (auto simp: str_simps)
qed

lemma split_on_no_sep: "c \<notin> set s \<Longrightarrow> split_on c s = [s]"
  by (induction s) auto

lemma split_on_append_sep: "c \<notin> set x \<Longrightarrow> split_on c (x @ c # s) = x # split_on c s"
  by (induction x) auto

lemma split_on_join:
  "xs \<noteq> [] \<Longrightarrow> \<forall>x\<in>set xs. c \<notin> set x \<Longrightarrow> split_on c (join [c] xs) = xs"
  by (induction "[c]" xs rule: join.induct)
    (simp_all add: split_on_no_sep split_on_append_sep)

lemma split_on_pieces: "x \<in> set (split_on c s) \<Longrightarrow> c \<notin> set x"
  by (induction s arbitrary: x) (auto split: list.splits if_splits)

lemma split_on_append:
  "split_on c (s @ t) =
     butlast (split_on c s) @ (last (split_on c s) @ hd (split_on c t)) # tl (split_on c t)"
proof (induction s)
  case Nil
  show ?case by (cases "split_on c t") auto
next
  case (Cons x s)
  then show ?case
    by (cases "split_on c s") (auto split: list.splits)
qed

lemma split_once_key [simp]: "c \<notin> set k \<Longrightarrow> split_once c (k @ c # v) = Some (k, v)"
  by (induction k) auto

lemma split_once_SomeD: "split_once c s = Some (k, v) \<Longrightarrow> s = k @ c # v \<and> c \<notin> set k"
  by (induction s arbitrary: k) (auto split: if_splits option.splits)

lemma split_once_Some:
  "split_once c s = Some (k, v) \<longleftrightarrow> s = k @ c # v \<and> c \<notin> set k"
  using split_once_SomeD [of c s k v] by auto

lemma split_once_None: "split_once c s = None \<longleftrightarrow> c \<notin> set s"
  by (induction s) (auto split: option.splits)

lemma strip_prefix_Some: "strip_prefix p s = Some t \<longleftrightarrow> s = p @ t"
  by (induction p s rule: strip_prefix.induct) auto

lemma strip_prefix_append [simp]: "strip_prefix p (p @ t) = Some t"
  by (simp add: strip_prefix_Some)

lemma starts_with_iff: "starts_with s p \<longleftrightarrow> (\<exists>t. s = p @ t)"
  by (auto simp: starts_with_def) (metis append_take_drop_id)

lemma strip_suffix_Some: "strip_suffix p s = Some t \<longleftrightarrow> s = t @ p"
  by (auto simp: strip_suffix_def strip_prefix_Some) (metis rev_append rev_rev_ident)+

lemma ends_with_iff: "ends_with s p \<longleftrightarrow> (\<exists>t. s = t @ p)"
  unfolding ends_with_def starts_with_iff by (metis rev_append rev_rev_ident)

lemma trim_end_idem [simp]: "trim_end P (trim_end P s) = trim_end P s"
proof -
  have "dropWhile P (dropWhile P xs) = dropWhile P xs" for xs
    by (induction xs) auto
  then show ?thesis by (simp add: trim_end_def)
qed

lemma trim_end_last: "trim_end P s \<noteq> [] \<Longrightarrow> \<not> P (last (trim_end P s))"
  unfolding trim_end_def by (simp add: last_rev hd_dropWhile)

lemma trim_end_id: "s = [] \<or> \<not> P (last s) \<Longrightarrow> trim_end P s = s"
  by (cases s rule: rev_cases) (auto simp: trim_end_def)

section \<open>Decimal integers\<close>

text \<open>The digits that \<open>format!("{n}")\<close> writes.\<close>

definition digit_char :: "nat \<Rightarrow> char" where
  "digit_char d = char_of (48 + d)"

definition digit_val :: "char \<Rightarrow> nat option" where
  "digit_val c = (let n = of_char c in if 48 \<le> n \<and> n \<le> (57::nat) then Some (n - 48) else None)"

fun show_nat :: "nat \<Rightarrow> string" where
  "show_nat n = (if n < 10 then [digit_char n] else show_nat (n div 10) @ [digit_char (n mod 10)])"

declare show_nat.simps [simp del]

definition show_int :: "int \<Rightarrow> string" where
  "show_int i = (if i < 0 then CHR ''-'' # show_nat (nat (- i)) else show_nat (nat i))"

text \<open>The digit loop of \<open>from_str_radix\<close> without the overflow test, which the callers do.\<close>

fun parse_digits :: "nat \<Rightarrow> string \<Rightarrow> nat option" where
  "parse_digits acc [] = Some acc"
| "parse_digits acc (c # cs) =
     (case digit_val c of None \<Rightarrow> None | Some d \<Rightarrow> parse_digits (10 * acc + d) cs)"

definition parse_nat :: "string \<Rightarrow> nat option" where
  "parse_nat s = (if s = [] then None else parse_digits 0 s)"

text \<open>
  \<open>str::parse::<T>()\<close> for an integer type with the range \<open>lo..=hi\<close>: an optional sign (\<open>-\<close> only
  for signed types), at least one digit, and an error outside the range.
\<close>

definition parse_int :: "int \<Rightarrow> int \<Rightarrow> string \<Rightarrow> int option" where
  "parse_int lo hi s =
     (let r = (case s of
         [] \<Rightarrow> None
       | c # cs \<Rightarrow>
           if c = CHR ''+'' then map_option int (parse_nat cs)
           else if c = CHR ''-'' \<and> lo < 0 then map_option (\<lambda>n. - int n) (parse_nat cs)
           else map_option int (parse_nat s))
      in case r of None \<Rightarrow> None | Some i \<Rightarrow> if lo \<le> i \<and> i \<le> hi then Some i else None)"

definition i32_min :: int where "i32_min = - (2 ^ 31)"
definition i32_max :: int where "i32_max = 2 ^ 31 - 1"
definition i64_min :: int where "i64_min = - (2 ^ 63)"
definition i64_max :: int where "i64_max = 2 ^ 63 - 1"
definition u32_max :: int where "u32_max = 2 ^ 32 - 1"

lemma of_char_digit_char: "d < 10 \<Longrightarrow> (of_char (digit_char d) :: nat) = 48 + d"
  by (simp add: digit_char_def of_char_of take_bit_nat_eq_self)

lemma digit_val_digit_char [simp]: "d < 10 \<Longrightarrow> digit_val (digit_char d) = Some d"
  by (simp add: digit_val_def of_char_digit_char)

lemma digit_char_nonsign:
  "d < 10 \<Longrightarrow> digit_char d \<noteq> CHR ''+''" "d < 10 \<Longrightarrow> digit_char d \<noteq> CHR ''-''"
  using of_char_digit_char [of d] by auto

lemma parse_digits_append:
  "parse_digits acc (s @ t) =
     (case parse_digits acc s of None \<Rightarrow> None | Some a \<Rightarrow> parse_digits a t)"
  by (induction acc s rule: parse_digits.induct) (auto split: option.splits)

lemma parse_digits_show_nat: "parse_digits 0 (show_nat n) = Some n"
proof (induction n rule: show_nat.induct)
  case (1 n)
  show ?case
  proof (cases "n < 10")
    case True
    then show ?thesis by (subst show_nat.simps) simp
  next
    case False
    then have "parse_digits 0 (show_nat (n div 10)) = Some (n div 10)"
      by (rule "1.IH")
    with False show ?thesis
      by (subst show_nat.simps) (simp add: parse_digits_append)
  qed
qed

lemma show_nat_nonempty [simp]: "show_nat n \<noteq> []"
  by (subst show_nat.simps) simp

lemma parse_nat_show_nat [simp]: "parse_nat (show_nat n) = Some n"
  by (simp add: parse_nat_def parse_digits_show_nat)

lemma show_nat_inject [simp]: "show_nat m = show_nat n \<longleftrightarrow> m = n"
  by (metis parse_nat_show_nat option.inject)

lemma show_nat_digits: "c \<in> set (show_nat n) \<Longrightarrow> \<exists>d<10. c = digit_char d"
proof (induction n rule: show_nat.induct)
  case (1 n)
  show ?case
  proof (cases "n < 10")
    case True
    with "1.prems" show ?thesis
      by (subst (asm) show_nat.simps) auto
  next
    case False
    with 1 show ?thesis
      by (subst (asm) (2) show_nat.simps) (auto intro: exI [of _ "n mod 10"])
  qed
qed

lemma show_nat_hd: "hd (show_nat n) \<noteq> CHR ''+''" "hd (show_nat n) \<noteq> CHR ''-''"
  using show_nat_digits [of "hd (show_nat n)" n] digit_char_nonsign by (metis hd_in_set show_nat_nonempty)+

lemma parse_int_show_nat:
  assumes "lo \<le> int n" "int n \<le> hi"
  shows "parse_int lo hi (show_nat n) = Some (int n)"
proof -
  obtain c cs where s: "show_nat n = c # cs"
    by (cases "show_nat n") auto
  with show_nat_hd [of n] have "c \<noteq> CHR ''+''" "c \<noteq> CHR ''-''" by auto
  then show ?thesis
    using assms parse_nat_show_nat [of n] unfolding parse_int_def s by simp
qed

lemma parse_int_show_int:
  assumes "lo \<le> i" "i \<le> hi"
  shows "parse_int lo hi (show_int i) = Some i"
proof (cases "i < 0")
  case True
  with assms show ?thesis by (simp add: show_int_def parse_int_def)
next
  case False
  with assms show ?thesis by (simp add: show_int_def parse_int_show_nat)
qed

lemma parse_int_range: "parse_int lo hi s = Some i \<Longrightarrow> lo \<le> i \<and> i \<le> hi"
  by (auto simp: parse_int_def Let_def split: option.splits if_splits)

text \<open>\<open>i64::saturating_add\<close> and \<open>i64::saturating_sub\<close>.\<close>

definition sat_i64 :: "int \<Rightarrow> int" where
  "sat_i64 x = max i64_min (min i64_max x)"

lemma sat_i64_id: "i64_min \<le> x \<Longrightarrow> x \<le> i64_max \<Longrightarrow> sat_i64 x = x"
  by (simp add: sat_i64_def)

lemma sat_i64_bounds: "i64_min \<le> sat_i64 x" "sat_i64 x \<le> i64_max"
  by (auto simp: sat_i64_def i64_min_def i64_max_def)

section \<open>Tables\<close>

text \<open>
  A table is the list of its rows in rowid order.  \<open>UPDATE .. WHERE\<close>, \<open>DELETE .. WHERE\<close> and
  \<open>SELECT .. WHERE\<close> are the three functions below; \<open>INSERT\<close> appends a row.
\<close>

definition upd_where :: "('r \<Rightarrow> bool) \<Rightarrow> ('r \<Rightarrow> 'r) \<Rightarrow> 'r list \<Rightarrow> 'r list" where
  "upd_where P f t = map (\<lambda>r. if P r then f r else r) t"

definition del_where :: "('r \<Rightarrow> bool) \<Rightarrow> 'r list \<Rightarrow> 'r list" where
  "del_where P t = filter (\<lambda>r. \<not> P r) t"

definition sel_where :: "('r \<Rightarrow> bool) \<Rightarrow> 'r list \<Rightarrow> 'r list" where
  "sel_where P t = filter P t"

text \<open>\<open>query_row_optional\<close> on a query that returns at most one row: the first match.\<close>

definition sel_one :: "('r \<Rightarrow> bool) \<Rightarrow> 'r list \<Rightarrow> 'r option" where
  "sel_one P t = find P t"

lemma upd_where_simps [simp, sql_simps]:
  "upd_where P f [] = []"
  "upd_where P f (r # t) = (if P r then f r else r) # upd_where P f t"
  by (simp_all add: upd_where_def)

lemma del_where_simps [simp, sql_simps]:
  "del_where P [] = []"
  "del_where P (r # t) = (if P r then del_where P t else r # del_where P t)"
  by (simp_all add: del_where_def)

lemma sel_where_simps [simp, sql_simps]:
  "sel_where P [] = []"
  "sel_where P (r # t) = (if P r then r # sel_where P t else sel_where P t)"
  by (simp_all add: sel_where_def)

lemma sel_one_simps [simp, sql_simps]:
  "sel_one P [] = None"
  "sel_one P (r # t) = (if P r then Some r else sel_one P t)"
  by (simp_all add: sel_one_def)

lemma set_upd_where: "set (upd_where P f t) = (\<lambda>r. if P r then f r else r) ` set t"
  by (simp add: upd_where_def)

lemma set_del_where: "set (del_where P t) = {r \<in> set t. \<not> P r}"
  by (simp add: del_where_def)

lemma set_sel_where: "set (sel_where P t) = {r \<in> set t. P r}"
  by (simp add: sel_where_def)

lemma length_upd_where [simp]: "length (upd_where P f t) = length t"
  by (simp add: upd_where_def)

lemma map_upd_where_key: "(\<And>r. k (f r) = k r) \<Longrightarrow> map k (upd_where P f t) = map k t"
  by (induction t) auto

lemma sel_one_Some: "sel_one P t = Some r \<Longrightarrow> r \<in> set t \<and> P r"
  by (induction t) (auto split: if_splits)

lemma sel_one_None: "sel_one P t = None \<longleftrightarrow> (\<forall>r\<in>set t. \<not> P r)"
  by (induction t) auto

lemma sel_one_append:
  "sel_one P (s @ t) = (case sel_one P s of None \<Rightarrow> sel_one P t | Some r \<Rightarrow> Some r)"
  by (induction s) auto

lemmas table_set_simps = set_upd_where set_del_where set_sel_where

end
