(* ===== verification/BTree_Map.thy ===== *)
theory BTree_Map
  imports Prelude
begin

text \<open>
  The interface of an ordered map and its model of \<open>std::collections::BTreeMap\<close>: the list of the
  bindings in ascending key order, which is what \<open>BTreeMap::iter\<close> walks.  The locale
  \<open>ordered_map\<close> names the operations the components call and the laws they rely on; it is
  interpreted on the sorted association list below.
\<close>

section \<open>Association lists\<close>

lemma alist_from_lookup:
  assumes "distinct (map fst xs)"
  shows "xs = map (\<lambda>k. (k, the (map_of xs k))) (map fst xs)"
proof -
  have "map (\<lambda>k. (k, the (map_of xs k))) (map fst xs) = map (\<lambda>p. p) xs"
    unfolding map_map comp_def by (rule map_cong) (auto simp: assms)
  then show ?thesis by simp
qed

lemma map_of_rev_distinct: "distinct (map fst xs) \<Longrightarrow> map_of (rev xs) = map_of xs"
  by (rule map_of_inject_set [THEN iffD2]) (auto simp: rev_map [symmetric])

section \<open>The interface\<close>

locale ordered_map =
  fixes empty :: "'m"
    and insert_kv :: "'k::linorder \<Rightarrow> 'v \<Rightarrow> 'm \<Rightarrow> 'm"
    and remove_k :: "'k \<Rightarrow> 'm \<Rightarrow> 'm"
    and get :: "'m \<Rightarrow> 'k \<Rightarrow> 'v option"
    and entries :: "'m \<Rightarrow> ('k \<times> 'v) list"
    and invar :: "'m \<Rightarrow> bool"
  assumes get_empty: "get empty k = None"
    and get_insert: "invar m \<Longrightarrow> get (insert_kv k v m) k' = (if k' = k then Some v else get m k')"
    and get_remove: "invar m \<Longrightarrow> get (remove_k k m) k' = (if k' = k then None else get m k')"
    and invar_empty: "invar empty"
    and invar_insert: "invar m \<Longrightarrow> invar (insert_kv k v m)"
    and invar_remove: "invar m \<Longrightarrow> invar (remove_k k m)"
    and entries_get: "invar m \<Longrightarrow> map_of (entries m) = get m"
    and entries_sorted: "invar m \<Longrightarrow> sorted_wrt (<) (map fst (entries m))"
    and entries_inject: "invar m \<Longrightarrow> invar m' \<Longrightarrow> entries m = entries m' \<Longrightarrow> m = m'"
begin

text \<open>Inserting a sequence of bindings, the later one winning on a repeated key.\<close>

definition insert_all :: "('k \<times> 'v) list \<Rightarrow> 'm \<Rightarrow> 'm" where
  "insert_all kvs m = fold (\<lambda>(k, v). insert_kv k v) kvs m"

lemma invar_insert_all: "invar m \<Longrightarrow> invar (insert_all kvs m)"
  unfolding insert_all_def by (induction kvs arbitrary: m) (auto simp: invar_insert)

lemma get_insert_all:
  "invar m \<Longrightarrow> get (insert_all kvs m) k =
     (case map_of (rev kvs) k of None \<Rightarrow> get m k | Some v \<Rightarrow> Some v)"
proof (induction kvs rule: rev_induct)
  case Nil
  then show ?case by (simp add: insert_all_def)
next
  case (snoc kv kvs)
  obtain a b where "kv = (a, b)" by (cases kv)
  with snoc invar_insert_all [OF snoc.prems, of kvs] show ?case
    by (simp add: insert_all_def get_insert)
qed

lemma keys_distinct: "invar m \<Longrightarrow> distinct (map fst (entries m))"
  using entries_sorted strict_sorted_iff by blast

text \<open>Two maps with the same lookups are the same map.\<close>

lemma map_ext:
  assumes "invar m" "invar m'" and same: "\<And>k. get m k = get m' k"
  shows "m = m'"
proof -
  have eq: "map_of (entries m) = map_of (entries m')"
    using assms by (auto simp: entries_get)
  then have "set (map fst (entries m)) = set (map fst (entries m'))"
    by (metis dom_map_of_conv_image_fst list.set_map)
  then have "map fst (entries m) = map fst (entries m')"
    using entries_sorted assms strict_sorted_equal by blast
  then have "entries m = entries m'"
    by (metis assms(1,2) eq keys_distinct alist_from_lookup)
  then show ?thesis using assms entries_inject by blast
qed

text \<open>Re-inserting the bindings of a map into the empty map rebuilds it.\<close>

lemma insert_all_entries: "invar m \<Longrightarrow> insert_all (entries m) empty = m"
proof (rule map_ext)
  assume inv: "invar m"
  then show "invar (insert_all (entries m) empty)"
    by (simp add: invar_insert_all invar_empty)
  fix k
  have "map_of (rev (entries m)) = map_of (entries m)"
    using keys_distinct [OF inv] by (rule map_of_rev_distinct)
  then show "get (insert_all (entries m) empty) k = get m k"
    by (simp add: get_insert_all invar_empty get_empty entries_get [OF inv] split: option.split)
qed

end

section \<open>The sorted association list\<close>

type_synonym ('k, 'v) btree = "('k \<times> 'v) list"

fun bt_insert :: "'k::linorder \<Rightarrow> 'v \<Rightarrow> ('k, 'v) btree \<Rightarrow> ('k, 'v) btree" where
  "bt_insert k v [] = [(k, v)]"
| "bt_insert k v ((k', v') # m) =
     (if k < k' then (k, v) # (k', v') # m
      else if k = k' then (k, v) # m
      else (k', v') # bt_insert k v m)"

definition bt_remove :: "'k \<Rightarrow> ('k, 'v) btree \<Rightarrow> ('k, 'v) btree" where
  "bt_remove k m = filter (\<lambda>(k', _). k' \<noteq> k) m"

definition bt_inv :: "('k::linorder, 'v) btree \<Rightarrow> bool" where
  "bt_inv m \<longleftrightarrow> sorted_wrt (<) (map fst m)"

definition bt_empty :: "('k, 'v) btree" where
  "bt_empty = []"

definition bt_entries :: "('k, 'v) btree \<Rightarrow> ('k \<times> 'v) list" where
  "bt_entries m = m"

lemma bt_insert_keys: "fst ` set (bt_insert k v m) = insert k (fst ` set m)"
  by (induction k v m rule: bt_insert.induct) auto

lemma bt_inv_Cons: "bt_inv ((k, v) # m) \<longleftrightarrow> bt_inv m \<and> (\<forall>k'\<in>fst ` set m. k < k')"
  by (auto simp: bt_inv_def)

lemma bt_inv_insert: "bt_inv m \<Longrightarrow> bt_inv (bt_insert k v m)"
  by (induction k v m rule: bt_insert.induct) (auto simp: bt_inv_Cons bt_insert_keys bt_inv_def)

lemma bt_get_insert: "map_of (bt_insert k v m) = (map_of m)(k \<mapsto> v)"
  by (induction k v m rule: bt_insert.induct) (auto simp: fun_eq_iff)

lemma bt_get_remove: "map_of (bt_remove k m) k' = (if k' = k then None else map_of m k')"
  by (induction m) (auto simp: bt_remove_def)

lemma bt_inv_remove: "bt_inv m \<Longrightarrow> bt_inv (bt_remove k m)"
  by (induction m) (auto simp: bt_remove_def bt_inv_def)

interpretation bt: ordered_map bt_empty bt_insert bt_remove map_of bt_entries bt_inv
proof (unfold_locales, goal_cases)
  case (2 m k v k')
  then show ?case by (simp add: bt_get_insert)
next
  case (8 m)
  then show ?case by (simp add: bt_inv_def bt_entries_def)
qed (auto simp: bt_empty_def bt_entries_def bt_get_remove bt_inv_insert bt_inv_remove,
     simp add: bt_inv_def)

end
