(* ===== verification/Params.thy ===== *)
theory Params
  imports BTree_Map
begin

text \<open>
  \<^verbatim>\<open>src/param.rs\<close>: the key-value parameter lists that messages, chats and contacts store in
  their \<open>param\<close> column.  \<open>Param\<close> is the key type with the ASCII byte that each key is written as,
  \<open>params\<close> the \<open>BTreeMap<Param, String>\<close> behind \<open>Params\<close>; the serialisation
  (\<open>fmt::Display\<close>), the parser (\<open>FromStr\<close>) and the typed accessors follow.  The lemmas show the
  map laws of the accessors and that parsing undoes printing.
\<close>

section \<open>Keys\<close>

datatype (plugins only: code size) Param =
  File | Filename | OverrideSenderDisplayname | Width | Height | Duration | MimeType | SendHtml
  | GuaranteeE2ee | ProtectQuote | ErroneousE2ee | ForcePlaintext | DeprecatedSkipAutocrypt
  | WantsMdn | Reaction | LastReactionTimestamp | LastReactionMsgId | LastReactionContactId
  | Bot | Forwarded | Quote | Summary1 | Cmd | Arg | Arg2 | Arg3 | Arg4
  | AttachChatAvatarAndDescription | WebrtcRoom | WebrtcAccepted | WebrtcHasVideoInitially
  | PrepForwards | SetLatitude | SetLongitude | Unpromoted | ProfileImage | Selftalk
  | LastSubject | Devicetalk | ListPost | ListId | StatusTimestamp | AvatarTimestamp
  | EphemeralSettingsTimestamp | SubjectTimestamp | GroupNameTimestamp
  | GroupDescriptionTimestamp | MemberListTimestamp | WebxdcDocument | WebxdcDocumentTimestamp
  | WebxdcSummary | WebxdcSummaryTimestamp | WebxdcIntegration | WebxdcIntegrateFor
  | DeleteRequestFor | TextEditFor | IsEdited | ContactAddedRemoved | PostMessageViewtype
  | PostMessageFileBytes

text \<open>The discriminant \<open>key as u8\<close>.\<close>

primrec Param_to_u8 :: "Param \<Rightarrow> char" where
  "Param_to_u8 File = CHR ''f''"
| "Param_to_u8 Filename = CHR ''v''"
| "Param_to_u8 OverrideSenderDisplayname = CHR ''O''"
| "Param_to_u8 Width = CHR ''w''"
| "Param_to_u8 Height = CHR ''h''"
| "Param_to_u8 Duration = CHR ''d''"
| "Param_to_u8 MimeType = CHR ''m''"
| "Param_to_u8 SendHtml = CHR ''T''"
| "Param_to_u8 GuaranteeE2ee = CHR ''c''"
| "Param_to_u8 ProtectQuote = CHR ''0''"
| "Param_to_u8 ErroneousE2ee = CHR ''e''"
| "Param_to_u8 ForcePlaintext = CHR ''u''"
| "Param_to_u8 DeprecatedSkipAutocrypt = CHR ''o''"
| "Param_to_u8 WantsMdn = CHR ''r''"
| "Param_to_u8 Reaction = CHR ''x''"
| "Param_to_u8 LastReactionTimestamp = CHR ''y''"
| "Param_to_u8 LastReactionMsgId = CHR ''Y''"
| "Param_to_u8 LastReactionContactId = CHR ''1''"
| "Param_to_u8 Bot = CHR ''b''"
| "Param_to_u8 Forwarded = CHR ''a''"
| "Param_to_u8 Quote = CHR ''q''"
| "Param_to_u8 Summary1 = CHR ''4''"
| "Param_to_u8 Cmd = CHR ''S''"
| "Param_to_u8 Arg = CHR ''E''"
| "Param_to_u8 Arg2 = CHR ''F''"
| "Param_to_u8 Arg3 = CHR ''G''"
| "Param_to_u8 Arg4 = CHR ''H''"
| "Param_to_u8 AttachChatAvatarAndDescription = CHR ''A''"
| "Param_to_u8 WebrtcRoom = CHR ''V''"
| "Param_to_u8 WebrtcAccepted = CHR ''7''"
| "Param_to_u8 WebrtcHasVideoInitially = CHR ''z''"
| "Param_to_u8 PrepForwards = CHR ''P''"
| "Param_to_u8 SetLatitude = CHR ''l''"
| "Param_to_u8 SetLongitude = CHR ''n''"
| "Param_to_u8 Unpromoted = CHR ''U''"
| "Param_to_u8 ProfileImage = CHR ''i''"
| "Param_to_u8 Selftalk = CHR ''K''"
| "Param_to_u8 LastSubject = CHR ''t''"
| "Param_to_u8 Devicetalk = CHR ''D''"
| "Param_to_u8 ListPost = CHR ''p''"
| "Param_to_u8 ListId = CHR ''s''"
| "Param_to_u8 StatusTimestamp = CHR ''j''"
| "Param_to_u8 AvatarTimestamp = CHR ''J''"
| "Param_to_u8 EphemeralSettingsTimestamp = CHR ''B''"
| "Param_to_u8 SubjectTimestamp = CHR ''C''"
| "Param_to_u8 GroupNameTimestamp = CHR ''g''"
| "Param_to_u8 GroupDescriptionTimestamp = CHR ''6''"
| "Param_to_u8 MemberListTimestamp = CHR ''k''"
| "Param_to_u8 WebxdcDocument = CHR ''R''"
| "Param_to_u8 WebxdcDocumentTimestamp = CHR ''W''"
| "Param_to_u8 WebxdcSummary = CHR ''N''"
| "Param_to_u8 WebxdcSummaryTimestamp = CHR ''Q''"
| "Param_to_u8 WebxdcIntegration = CHR ''3''"
| "Param_to_u8 WebxdcIntegrateFor = CHR ''2''"
| "Param_to_u8 DeleteRequestFor = CHR ''M''"
| "Param_to_u8 TextEditFor = CHR ''I''"
| "Param_to_u8 IsEdited = CHR ''L''"
| "Param_to_u8 ContactAddedRemoved = CHR ''5''"
| "Param_to_u8 PostMessageViewtype = CHR ''8''"
| "Param_to_u8 PostMessageFileBytes = CHR ''9''"

text \<open>The derived \<open>FromPrimitive::from_u8\<close>: the key with that discriminant.\<close>

definition Param_from_u8 :: "char \<Rightarrow> Param option" where
  "Param_from_u8 c = map_of [
     (CHR ''f'', File), (CHR ''v'', Filename), (CHR ''O'', OverrideSenderDisplayname)
     , (CHR ''w'', Width), (CHR ''h'', Height), (CHR ''d'', Duration), (CHR ''m'', MimeType)
     , (CHR ''T'', SendHtml), (CHR ''c'', GuaranteeE2ee), (CHR ''0'', ProtectQuote)
     , (CHR ''e'', ErroneousE2ee), (CHR ''u'', ForcePlaintext)
     , (CHR ''o'', DeprecatedSkipAutocrypt), (CHR ''r'', WantsMdn), (CHR ''x'', Reaction)
     , (CHR ''y'', LastReactionTimestamp), (CHR ''Y'', LastReactionMsgId)
     , (CHR ''1'', LastReactionContactId), (CHR ''b'', Bot), (CHR ''a'', Forwarded)
     , (CHR ''q'', Quote), (CHR ''4'', Summary1), (CHR ''S'', Cmd), (CHR ''E'', Arg)
     , (CHR ''F'', Arg2), (CHR ''G'', Arg3), (CHR ''H'', Arg4)
     , (CHR ''A'', AttachChatAvatarAndDescription), (CHR ''V'', WebrtcRoom)
     , (CHR ''7'', WebrtcAccepted), (CHR ''z'', WebrtcHasVideoInitially)
     , (CHR ''P'', PrepForwards), (CHR ''l'', SetLatitude), (CHR ''n'', SetLongitude)
     , (CHR ''U'', Unpromoted), (CHR ''i'', ProfileImage), (CHR ''K'', Selftalk)
     , (CHR ''t'', LastSubject), (CHR ''D'', Devicetalk), (CHR ''p'', ListPost)
     , (CHR ''s'', ListId), (CHR ''j'', StatusTimestamp), (CHR ''J'', AvatarTimestamp)
     , (CHR ''B'', EphemeralSettingsTimestamp), (CHR ''C'', SubjectTimestamp)
     , (CHR ''g'', GroupNameTimestamp), (CHR ''6'', GroupDescriptionTimestamp)
     , (CHR ''k'', MemberListTimestamp), (CHR ''R'', WebxdcDocument)
     , (CHR ''W'', WebxdcDocumentTimestamp), (CHR ''N'', WebxdcSummary)
     , (CHR ''Q'', WebxdcSummaryTimestamp), (CHR ''3'', WebxdcIntegration)
     , (CHR ''2'', WebxdcIntegrateFor), (CHR ''M'', DeleteRequestFor), (CHR ''I'', TextEditFor)
     , (CHR ''L'', IsEdited), (CHR ''5'', ContactAddedRemoved), (CHR ''8'', PostMessageViewtype)
     , (CHR ''9'', PostMessageFileBytes)] c"

section \<open>System messages\<close>

text \<open>\<open>SystemMessage\<close> of \<^verbatim>\<open>src/mimeparser.rs\<close>, the value behind \<^const>\<open>Cmd\<close>.\<close>

datatype (plugins only: code size) SystemMessage =
  Unknown | GroupNameChanged | GroupImageChanged | MemberAddedToGroup | MemberRemovedFromGroup
  | AutocryptSetupMessage | SecurejoinMessage | LocationStreamingEnabled | LocationOnly
  | EphemeralTimerChanged | ChatProtectionEnabled | ChatProtectionDisabled
  | InvalidUnencryptedMail | SecurejoinWait | SecurejoinWaitTimeout | MultiDeviceSync
  | WebxdcStatusUpdate | WebxdcInfoMessage | IrohNodeAddr | ChatE2ee | CallAccepted | CallEnded
  | GroupDescriptionChanged

primrec SystemMessage_to_i32 :: "SystemMessage \<Rightarrow> int" where
  "SystemMessage_to_i32 SystemMessage.Unknown = 0"
| "SystemMessage_to_i32 GroupNameChanged = 2"
| "SystemMessage_to_i32 GroupImageChanged = 3"
| "SystemMessage_to_i32 MemberAddedToGroup = 4"
| "SystemMessage_to_i32 MemberRemovedFromGroup = 5"
| "SystemMessage_to_i32 AutocryptSetupMessage = 6"
| "SystemMessage_to_i32 SecurejoinMessage = 7"
| "SystemMessage_to_i32 LocationStreamingEnabled = 8"
| "SystemMessage_to_i32 LocationOnly = 9"
| "SystemMessage_to_i32 EphemeralTimerChanged = 10"
| "SystemMessage_to_i32 ChatProtectionEnabled = 11"
| "SystemMessage_to_i32 ChatProtectionDisabled = 12"
| "SystemMessage_to_i32 InvalidUnencryptedMail = 13"
| "SystemMessage_to_i32 SecurejoinWait = 14"
| "SystemMessage_to_i32 SecurejoinWaitTimeout = 15"
| "SystemMessage_to_i32 MultiDeviceSync = 20"
| "SystemMessage_to_i32 WebxdcStatusUpdate = 30"
| "SystemMessage_to_i32 WebxdcInfoMessage = 32"
| "SystemMessage_to_i32 IrohNodeAddr = 40"
| "SystemMessage_to_i32 ChatE2ee = 50"
| "SystemMessage_to_i32 CallAccepted = 66"
| "SystemMessage_to_i32 CallEnded = 67"
| "SystemMessage_to_i32 GroupDescriptionChanged = 70"

definition SystemMessage_from_i32 :: "int \<Rightarrow> SystemMessage option" where
  "SystemMessage_from_i32 i = map_of [
     (0, Unknown), (2, GroupNameChanged), (3, GroupImageChanged), (4, MemberAddedToGroup)
     , (5, MemberRemovedFromGroup), (6, AutocryptSetupMessage), (7, SecurejoinMessage)
     , (8, LocationStreamingEnabled), (9, LocationOnly), (10, EphemeralTimerChanged)
     , (11, ChatProtectionEnabled), (12, ChatProtectionDisabled), (13, InvalidUnencryptedMail)
     , (14, SecurejoinWait), (15, SecurejoinWaitTimeout), (20, MultiDeviceSync)
     , (30, WebxdcStatusUpdate), (32, WebxdcInfoMessage), (40, IrohNodeAddr), (50, ChatE2ee)
     , (66, CallAccepted), (67, CallEnded), (70, GroupDescriptionChanged)] i"

section \<open>Parameter lists\<close>

type_synonym params = "(Param, string) btree"

datatype params_error = NotKeyValue string

instantiation Param :: linorder
begin

definition less_eq_Param :: "Param \<Rightarrow> Param \<Rightarrow> bool" where
  "less_eq_Param p q \<longleftrightarrow> (of_char (Param_to_u8 p) :: nat) \<le> of_char (Param_to_u8 q)"

definition less_Param :: "Param \<Rightarrow> Param \<Rightarrow> bool" where
  "less_Param p q \<longleftrightarrow> (of_char (Param_to_u8 p) :: nat) < of_char (Param_to_u8 q)"

instance
proof (standard, goal_cases)
  case (4 p q)
  have from_to: "Param_from_u8 (Param_to_u8 r) = Some r" for r
    by (cases r) (simp_all add: Param_from_u8_def)
  from 4 have "Param_to_u8 p = Param_to_u8 q"
    by (simp add: less_eq_Param_def)
  then show ?case by (metis from_to option.inject)
qed (auto simp: less_eq_Param_def less_Param_def)

end

abbreviation LF :: char where "LF \<equiv> CHR 0x0A"

text \<open>\<open>impl fmt::Display for Params\<close>: one \<open>key=value\<close> line per binding, newlines doubled.\<close>

definition show_binding :: "Param \<times> string \<Rightarrow> string" where
  "show_binding kv = Param_to_u8 (fst kv) # CHR ''='' # join [LF, LF] (split_on LF (snd kv))"

definition Params_to_string :: "params \<Rightarrow> string" where
  "Params_to_string p = join [LF] (map show_binding (bt_entries p))"

text \<open>
  \<open>Params::from_str\<close>.  The inner loop: while the next line is empty, skip it and append the line
  after it (or nothing at the end of the input) as a continuation of the value.
\<close>

fun take_continuations :: "string \<Rightarrow> string list \<Rightarrow> string \<times> string list" where
  "take_continuations v [] = (v, [])"
| "take_continuations v [s] = (if s \<noteq> [] then (v, [s]) else (v @ [LF], []))"
| "take_continuations v (s # t # ls) =
     (if s \<noteq> [] then (v, s # t # ls) else take_continuations (v @ LF # t) ls)"

lemma take_continuations_length: "length (snd (take_continuations v ls)) \<le> length ls"
  by (induction v ls rule: take_continuations.induct) auto

text \<open>The outer loop: a binding per line; a key whose first byte is unknown is ignored.\<close>

function params_parse_lines :: "string list \<Rightarrow> params \<Rightarrow> params_error + params" where
  "params_parse_lines [] inner = Inr inner"
| "params_parse_lines (line # lines) inner =
     (case split_once CHR ''='' line of
        None \<Rightarrow> Inl (NotKeyValue line)
      | Some (key, v) \<Rightarrow>
          params_parse_lines (snd (take_continuations v lines))
            (case key of
               [] \<Rightarrow> inner
             | b # _ \<Rightarrow>
                 (case Param_from_u8 b of
                    None \<Rightarrow> inner
                  | Some k \<Rightarrow> bt_insert k (fst (take_continuations v lines)) inner)))"
  by pat_completeness auto
termination
  by (relation "measure (\<lambda>(ls, _). length ls)") (auto simp: le_imp_less_Suc take_continuations_length)

definition Params_from_str :: "string \<Rightarrow> params_error + params" where
  "Params_from_str s = params_parse_lines (split_on LF s) bt_empty"

section \<open>Accessors\<close>

definition Params_new :: params where
  "Params_new = bt_empty"

definition Params_get :: "Param \<Rightarrow> params \<Rightarrow> string option" where
  "Params_get k p = map_of p k"

definition Params_exists :: "Param \<Rightarrow> params \<Rightarrow> bool" where
  "Params_exists k p \<longleftrightarrow> map_of p k \<noteq> None"

definition Params_set :: "Param \<Rightarrow> string \<Rightarrow> params \<Rightarrow> params" where
  "Params_set k v p = bt_insert k v p"

definition Params_remove :: "Param \<Rightarrow> params \<Rightarrow> params" where
  "Params_remove k p = bt_remove k p"

definition Params_set_optional :: "Param \<Rightarrow> string option \<Rightarrow> params \<Rightarrow> params" where
  "Params_set_optional k v p = (case v of Some v \<Rightarrow> Params_set k v p | None \<Rightarrow> Params_remove k p)"

definition Params_is_empty :: "params \<Rightarrow> bool" where
  "Params_is_empty p \<longleftrightarrow> p = []"

definition Params_len :: "params \<Rightarrow> nat" where
  "Params_len p = length p"

definition Params_get_int :: "Param \<Rightarrow> params \<Rightarrow> int option" where
  "Params_get_int k p = Option.bind (Params_get k p) (parse_int i32_min i32_max)"

definition Params_get_i64 :: "Param \<Rightarrow> params \<Rightarrow> int option" where
  "Params_get_i64 k p = Option.bind (Params_get k p) (parse_int i64_min i64_max)"

definition Params_get_bool :: "Param \<Rightarrow> params \<Rightarrow> bool option" where
  "Params_get_bool k p = map_option (\<lambda>v. v \<noteq> 0) (Params_get_int k p)"

definition Params_set_int :: "Param \<Rightarrow> int \<Rightarrow> params \<Rightarrow> params" where
  "Params_set_int k i p = Params_set k (show_int i) p"

definition Params_set_i64 :: "Param \<Rightarrow> int \<Rightarrow> params \<Rightarrow> params" where
  "Params_set_i64 k i p = Params_set k (show_int i) p"

definition Params_get_cmd :: "params \<Rightarrow> SystemMessage" where
  "Params_get_cmd p =
     (case Option.bind (Params_get_int Cmd p) SystemMessage_from_i32 of
        Some m \<Rightarrow> m | None \<Rightarrow> SystemMessage.Unknown)"

definition Params_set_cmd :: "SystemMessage \<Rightarrow> params \<Rightarrow> params" where
  "Params_set_cmd m p = Params_set_int Cmd (SystemMessage_to_i32 m) p"

text \<open>\<open>steal\<close> moves a binding out of \<open>src\<close>; both maps are returned.\<close>

definition Params_steal :: "params \<Rightarrow> Param \<Rightarrow> params \<Rightarrow> params \<times> params" where
  "Params_steal src k p =
     (let v = map_of src k; src' = bt_remove k src
      in case v of Some v \<Rightarrow> (bt_insert k v p, src') | None \<Rightarrow> (p, src'))"

text \<open>\<open>merge_in_params\<close> is \<open>BTreeMap::append\<close>: the new bindings overwrite.\<close>

definition Params_merge_in :: "params \<Rightarrow> params \<Rightarrow> params" where
  "Params_merge_in new p = fold (\<lambda>(k, v). bt_insert k v) new p"

section \<open>Keys and discriminants\<close>

lemma Param_from_to_u8 [simp]: "Param_from_u8 (Param_to_u8 k) = Some k"
  by (cases k) (simp_all add: Param_from_u8_def)

lemma Param_to_u8_inject [simp]: "Param_to_u8 k = Param_to_u8 k' \<longleftrightarrow> k = k'"
  by (metis Param_from_to_u8 option.inject)

lemma Param_to_u8_plain: "Param_to_u8 k \<noteq> CHR ''=''" "Param_to_u8 k \<noteq> LF"
  by (cases k; simp)+

lemma SystemMessage_from_to_i32 [simp]: "SystemMessage_from_i32 (SystemMessage_to_i32 m) = Some m"
  by (cases m) (simp_all add: SystemMessage_from_i32_def)

lemma SystemMessage_to_i32_range: "0 \<le> SystemMessage_to_i32 m" "SystemMessage_to_i32 m \<le> 70"
  by (cases m; simp)+

section \<open>The accessors are the operations of a map\<close>

abbreviation params_inv :: "params \<Rightarrow> bool" where
  "params_inv \<equiv> bt_inv"

lemmas params_defs =
  Params_new_def Params_get_def Params_exists_def Params_set_def Params_remove_def
  Params_set_optional_def Params_is_empty_def Params_len_def Params_get_int_def Params_get_i64_def
  Params_get_bool_def Params_set_int_def Params_set_i64_def Params_get_cmd_def Params_set_cmd_def
  Params_steal_def Params_merge_in_def

lemma params_inv_ops [intro]:
  "params_inv Params_new"
  "params_inv p \<Longrightarrow> params_inv (Params_set k v p)"
  "params_inv p \<Longrightarrow> params_inv (Params_remove k p)"
  by (auto simp: params_defs bt.invar_insert bt.invar_remove bt.invar_empty)

lemma params_inv_merge: "params_inv p \<Longrightarrow> params_inv (Params_merge_in new p)"
  unfolding Params_merge_in_def by (rule bt.invar_insert_all [unfolded bt.insert_all_def])

lemma Params_get_new [simp]: "Params_get k Params_new = None"
  by (simp add: Params_get_def Params_new_def bt_empty_def)

lemma Params_get_set [simp]:
  "Params_get k' (Params_set k v p) = (if k' = k then Some v else Params_get k' p)"
  by (simp add: params_defs bt_get_insert)

lemma Params_get_remove [simp]:
  "Params_get k' (Params_remove k p) = (if k' = k then None else Params_get k' p)"
  by (simp add: params_defs bt_get_remove)

section \<open>Printing and parsing\<close>

text \<open>The lines that the printed form of a value occupies.\<close>

fun interleave_empty :: "string list \<Rightarrow> string list" where
  "interleave_empty [] = []"
| "interleave_empty [x] = [x]"
| "interleave_empty (x # y # zs) = x # [] # interleave_empty (y # zs)"

lemma interleave_empty_eq: "interleave_empty (x # xs) = x # concat (map (\<lambda>y. [[], y]) xs)"
  by (induction xs arbitrary: x) auto

lemma join_interleave: "join [c, c] xs = join [c] (interleave_empty xs)"
  by (induction xs rule: interleave_empty.induct)
    (auto simp: str_simps interleave_empty_eq)

lemma split_on_join_concat:
  "xs \<noteq> [] \<Longrightarrow> split_on c (join [c] xs) = concat (map (split_on c) xs)"
proof (induction "[c]" xs rule: join.induct)
  case (3 x y zs)
  have "split_on c (x @ c # s) = split_on c x @ split_on c s" for s
    by (induction x) (auto split: list.splits)
  with 3 show ?case by simp
qed simp_all

definition binding_lines :: "Param \<times> string \<Rightarrow> string list" where
  "binding_lines kv =
     (Param_to_u8 (fst kv) # CHR ''='' # hd (split_on LF (snd kv))) #
       concat (map (\<lambda>y. [[], y]) (tl (split_on LF (snd kv))))"

lemma split_show_binding: "split_on LF (show_binding kv) = binding_lines kv"
proof -
  obtain y ys where yys: "split_on LF (snd kv) = y # ys"
    by (cases "split_on LF (snd kv)") auto
  have free: "\<forall>x\<in>set (y # ys). LF \<notin> set x"
    using split_on_pieces [of _ LF "snd kv"] unfolding yys by blast
  have "show_binding kv = join [LF] (binding_lines kv)"
    unfolding show_binding_def binding_lines_def join_interleave yys
    by (cases ys) (auto simp: interleave_empty_eq)
  moreover have "\<forall>x\<in>set (binding_lines kv). LF \<notin> set x"
    using free by (auto simp: binding_lines_def yys Param_to_u8_plain [symmetric])
  ultimately show ?thesis
    by (simp add: split_on_join binding_lines_def)
qed

lemma take_continuations_pieces:
  assumes "next = [] \<or> hd next \<noteq> []"
  shows "take_continuations v (concat (map (\<lambda>y. [[], y]) ys) @ next) = (join [LF] (v # ys), next)"
proof (induction ys arbitrary: v)
  case Nil
  show ?case
    using assms by (cases "next"; cases "tl next") auto
next
  case (Cons y ys)
  show ?case
    using Cons.IH [of "v @ LF # y"] by (cases ys) (simp_all add: str_simps)
qed

lemma params_parse_bindings:
  "params_parse_lines (concat (map binding_lines kvs)) p = Inr (bt.insert_all kvs p)"
proof (induction kvs arbitrary: p)
  case Nil
  show ?case by (simp add: bt.insert_all_def)
next
  case (Cons kv kvs)
  obtain k v where kv: "kv = (k, v)" by (cases kv)
  let ?next = "concat (map binding_lines kvs)"
  have "?next = [] \<or> hd ?next \<noteq> []"
    by (cases kvs) (auto simp: binding_lines_def)
  from take_continuations_pieces [OF this]
  have take: "take_continuations (hd (split_on LF v))
      (concat (map (\<lambda>y. [[], y]) (tl (split_on LF v))) @ ?next) = (v, ?next)"
    using join_split_on [of LF v] by (cases "split_on LF v") (auto simp del: join_split_on)
  have "split_once CHR ''='' (Param_to_u8 k # CHR ''='' # x) = Some ([Param_to_u8 k], x)" for x
    by (simp add: Param_to_u8_plain)
  moreover have "binding_lines kv =
      (Param_to_u8 k # CHR ''='' # hd (split_on LF v)) # concat (map (\<lambda>y. [[], y]) (tl (split_on LF v)))"
    by (simp add: binding_lines_def kv)
  ultimately show ?case
    by (simp add: take Cons.IH) (simp add: kv bt.insert_all_def)
qed

text \<open>C5: parsing the printed form of a non-empty parameter list gives the list back, whatever
  the values contain (newlines, equality signs, blank lines).\<close>

theorem params_roundtrip:
  assumes "params_inv p" and "\<not> Params_is_empty p"
  shows "Params_from_str (Params_to_string p) = Inr p"
proof -
  have "split_on LF (Params_to_string p) = concat (map binding_lines p)"
    using assms(2) unfolding Params_to_string_def bt_entries_def Params_is_empty_def
    by (simp add: split_on_join_concat comp_def split_show_binding)
  with assms(1) show ?thesis
    using bt.insert_all_entries [of p]
    by (simp add: Params_from_str_def params_parse_bindings bt_entries_def)
qed

theorem params_roundtrip_witness:
  "Params_from_str (Params_to_string [(Height, ''x''), (Width, LF # LF # ''a='')]) =
     Inr [(Height, ''x''), (Width, LF # LF # ''a='')]"
  by (rule params_roundtrip) (simp_all add: bt_inv_def less_Param_def Params_is_empty_def)

text \<open>C2: storing a 64-bit integer under a key and reading it back gives the integer, and no other
  key is affected.\<close>

theorem params_set_get_i64:
  assumes "i64_min \<le> i" and "i \<le> i64_max"
  shows "Params_get_i64 k (Params_set_i64 k i p) = Some i"
    and "k' \<noteq> k \<Longrightarrow> Params_get k' (Params_set_i64 k i p) = Params_get k' p"
  using assms by (simp_all add: Params_get_i64_def Params_set_i64_def parse_int_show_int)

end
