(* ===== verification/Configuration.thy ===== *)
theory Configuration
  imports Params
begin

text \<open>
  \<^verbatim>\<open>src/config.rs\<close> and the raw configuration accessors of \<^verbatim>\<open>src/sql.rs\<close>: the configuration
  keys with their names and defaults, the \<open>config\<close> table with the write-through cache in front of
  it, the environment override and the typed getters.  The table has a unique index on the key name,
  so it is a map from key names to values.  The lemmas show that the cache never returns a value
  other than the table's, and what each typed getter returns after a set.
\<close>

section \<open>Keys\<close>

datatype (plugins only: code size) Config =
  Addr | MailServer | MailUser | MailPw | MailPort | MailSecurity | ImapCertificateChecks
  | SendServer | SendUser | SendPw | SendPort | SendSecurity | ServerFlags | ProxyEnabled
  | ProxyUrl | Socks5Enabled | Socks5Host | Socks5Port | Socks5User | Socks5Password | Displayname
  | Selfstatus | Selfavatar | BccSelf | MdnsEnabled | MediaQuality | DeleteDeviceAfter
  | ConfiguredAddr | ConfiguredImapServers | ConfiguredMailServer | ConfiguredMailPort
  | ConfiguredMailSecurity | ConfiguredMailUser | ConfiguredMailPw
  | ConfiguredImapCertificateChecks | ConfiguredSmtpServers | ConfiguredSendServer
  | ConfiguredSendPort | ConfiguredSendSecurity | ConfiguredSendUser | ConfiguredSendPw
  | ConfiguredServerFlags | ConfiguredInboxFolder | ConfiguredTimestamp | ConfiguredProvider
  | Configured | IsChatmail | FixIsChatmail | IsMuted | PrivateTag | SysVersion
  | SysMsgsizeMaxRecommended | SysConfigKeys | Bot | SkipStartMessages | NotifyAboutWrongPw
  | LastHousekeeping | LastCantDecryptOutgoingMsgs | DisableIdle | DonationRequestNextCheck
  | DownloadLimit | SyncMsgs | DebugLogging | LastMsgId | GossipPeriod | KeyId | StatsSending
  | StatsLastSent | StatsLastUpdate | StatsId | StatsLastOldContactId | WebxdcIntegration
  | WebxdcRealtimeEnabled | DeviceToken | EncryptedDeviceToken | SimulateReceiveImfError
  | WhoCanCallMe | TeamProfile | ForceEncryption

text \<open>The serialised key: the variant name in snake case (\<open>as_ref\<close>).\<close>

primrec Config_as_ref :: "Config \<Rightarrow> string" where
  "Config_as_ref Addr = ''addr''"
| "Config_as_ref MailServer = ''mail_server''"
| "Config_as_ref MailUser = ''mail_user''"
| "Config_as_ref MailPw = ''mail_pw''"
| "Config_as_ref MailPort = ''mail_port''"
| "Config_as_ref MailSecurity = ''mail_security''"
| "Config_as_ref ImapCertificateChecks = ''imap_certificate_checks''"
| "Config_as_ref SendServer = ''send_server''"
| "Config_as_ref SendUser = ''send_user''"
| "Config_as_ref SendPw = ''send_pw''"
| "Config_as_ref SendPort = ''send_port''"
| "Config_as_ref SendSecurity = ''send_security''"
| "Config_as_ref ServerFlags = ''server_flags''"
| "Config_as_ref ProxyEnabled = ''proxy_enabled''"
| "Config_as_ref ProxyUrl = ''proxy_url''"
| "Config_as_ref Socks5Enabled = ''socks5_enabled''"
| "Config_as_ref Socks5Host = ''socks5_host''"
| "Config_as_ref Socks5Port = ''socks5_port''"
| "Config_as_ref Socks5User = ''socks5_user''"
| "Config_as_ref Socks5Password = ''socks5_password''"
| "Config_as_ref Displayname = ''displayname''"
| "Config_as_ref Selfstatus = ''selfstatus''"
| "Config_as_ref Selfavatar = ''selfavatar''"
| "Config_as_ref BccSelf = ''bcc_self''"
| "Config_as_ref MdnsEnabled = ''mdns_enabled''"
| "Config_as_ref MediaQuality = ''media_quality''"
| "Config_as_ref DeleteDeviceAfter = ''delete_device_after''"
| "Config_as_ref ConfiguredAddr = ''configured_addr''"
| "Config_as_ref ConfiguredImapServers = ''configured_imap_servers''"
| "Config_as_ref ConfiguredMailServer = ''configured_mail_server''"
| "Config_as_ref ConfiguredMailPort = ''configured_mail_port''"
| "Config_as_ref ConfiguredMailSecurity = ''configured_mail_security''"
| "Config_as_ref ConfiguredMailUser = ''configured_mail_user''"
| "Config_as_ref ConfiguredMailPw = ''configured_mail_pw''"
| "Config_as_ref ConfiguredImapCertificateChecks = ''configured_imap_certificate_checks''"
| "Config_as_ref ConfiguredSmtpServers = ''configured_smtp_servers''"
| "Config_as_ref ConfiguredSendServer = ''configured_send_server''"
| "Config_as_ref ConfiguredSendPort = ''configured_send_port''"
| "Config_as_ref ConfiguredSendSecurity = ''configured_send_security''"
| "Config_as_ref ConfiguredSendUser = ''configured_send_user''"
| "Config_as_ref ConfiguredSendPw = ''configured_send_pw''"
| "Config_as_ref ConfiguredServerFlags = ''configured_server_flags''"
| "Config_as_ref ConfiguredInboxFolder = ''configured_inbox_folder''"
| "Config_as_ref ConfiguredTimestamp = ''configured_timestamp''"
| "Config_as_ref ConfiguredProvider = ''configured_provider''"
| "Config_as_ref Configured = ''configured''"
| "Config_as_ref IsChatmail = ''is_chatmail''"
| "Config_as_ref FixIsChatmail = ''fix_is_chatmail''"
| "Config_as_ref IsMuted = ''is_muted''"
| "Config_as_ref PrivateTag = ''private_tag''"
| "Config_as_ref SysVersion = ''sys_version''"
| "Config_as_ref SysMsgsizeMaxRecommended = ''sys_msgsize_max_recommended''"
| "Config_as_ref SysConfigKeys = ''sys_config_keys''"
| "Config_as_ref Bot = ''bot''"
| "Config_as_ref SkipStartMessages = ''skip_start_messages''"
| "Config_as_ref NotifyAboutWrongPw = ''notify_about_wrong_pw''"
| "Config_as_ref LastHousekeeping = ''last_housekeeping''"
| "Config_as_ref LastCantDecryptOutgoingMsgs = ''last_cant_decrypt_outgoing_msgs''"
| "Config_as_ref DisableIdle = ''disable_idle''"
| "Config_as_ref DonationRequestNextCheck = ''donation_request_next_check''"
| "Config_as_ref DownloadLimit = ''download_limit''"
| "Config_as_ref SyncMsgs = ''sync_msgs''"
| "Config_as_ref DebugLogging = ''debug_logging''"
| "Config_as_ref LastMsgId = ''last_msg_id''"
| "Config_as_ref GossipPeriod = ''gossip_period''"
| "Config_as_ref KeyId = ''key_id''"
| "Config_as_ref StatsSending = ''stats_sending''"
| "Config_as_ref StatsLastSent = ''stats_last_sent''"
| "Config_as_ref StatsLastUpdate = ''stats_last_update''"
| "Config_as_ref StatsId = ''stats_id''"
| "Config_as_ref StatsLastOldContactId = ''stats_last_old_contact_id''"
| "Config_as_ref WebxdcIntegration = ''webxdc_integration''"
| "Config_as_ref WebxdcRealtimeEnabled = ''webxdc_realtime_enabled''"
| "Config_as_ref DeviceToken = ''device_token''"
| "Config_as_ref EncryptedDeviceToken = ''encrypted_device_token''"
| "Config_as_ref SimulateReceiveImfError = ''simulate_receive_imf_error''"
| "Config_as_ref WhoCanCallMe = ''who_can_call_me''"
| "Config_as_ref TeamProfile = ''team_profile''"
| "Config_as_ref ForceEncryption = ''force_encryption''"

text \<open>The \<open>props(default = ..)\<close> attributes.\<close>

definition Config_default :: "Config \<Rightarrow> string option" where
  "Config_default key = (case key of
     BccSelf \<Rightarrow> Some ''0''
   | MdnsEnabled \<Rightarrow> Some ''1''
   | DeleteDeviceAfter \<Rightarrow> Some ''0''
   | SkipStartMessages \<Rightarrow> Some ''0''
   | NotifyAboutWrongPw \<Rightarrow> Some ''0''
   | DisableIdle \<Rightarrow> Some ''0''
   | DownloadLimit \<Rightarrow> Some ''0''
   | SyncMsgs \<Rightarrow> Some ''1''
   | DebugLogging \<Rightarrow> Some ''0''
   | GossipPeriod \<Rightarrow> Some ''172800''
   | WebxdcRealtimeEnabled \<Rightarrow> Some ''1''
   | WhoCanCallMe \<Rightarrow> Some ''1''
   | ForceEncryption \<Rightarrow> Some ''1''
   | _ \<Rightarrow> None)"

definition Config_is_synced :: "Config \<Rightarrow> bool" where
  "Config_is_synced key =
     (key \<in> {Displayname, MdnsEnabled, Selfavatar, Selfstatus, ForceEncryption})"

definition Config_needs_io_restart :: "Config \<Rightarrow> bool" where
  "Config_needs_io_restart key = (key = ConfiguredAddr)"


section \<open>The table and its cache\<close>

record config_state =
  config_db :: "string \<rightharpoonup> string"
  config_cache :: "string \<rightharpoonup> string option"
  env_vars :: "string \<rightharpoonup> string"
  blobdir :: string
  dc_version :: string

text \<open>\<open>Sql::set_raw_config\<close>: the row is replaced or deleted, then the cache entry is set.\<close>

definition set_raw_config :: "string \<Rightarrow> string option \<Rightarrow> config_state \<Rightarrow> config_state" where
  "set_raw_config key val st =
     (let st1 = (case val of
          Some v \<Rightarrow> st\<lparr>config_db := (config_db st)(key \<mapsto> v)\<rparr>
        | None \<Rightarrow> st\<lparr>config_db := (config_db st)(key := None)\<rparr>)
      in st1\<lparr>config_cache := (config_cache st1)(key \<mapsto> val)\<rparr>)"

text \<open>\<open>Sql::get_raw_config\<close>: a cached answer is returned, otherwise the row is read and cached.\<close>

definition get_raw_config :: "string \<Rightarrow> config_state \<Rightarrow> string option \<times> config_state" where
  "get_raw_config key st =
     (case config_cache st key of
        Some c \<Rightarrow> (c, st)
      | None \<Rightarrow> (let val = config_db st key
                 in (val, st\<lparr>config_cache := (config_cache st)(key \<mapsto> val)\<rparr>)))"

definition uncache_raw_config :: "string \<Rightarrow> config_state \<Rightarrow> config_state" where
  "uncache_raw_config key st = st\<lparr>config_cache := (config_cache st)(key := None)\<rparr>"

text \<open>The value a read returns; the state it leaves differs in the cache entry only.\<close>

definition raw_config :: "config_state \<Rightarrow> string \<Rightarrow> string option" where
  "raw_config st key = fst (get_raw_config key st)"

definition set_raw_config_int :: "string \<Rightarrow> int \<Rightarrow> config_state \<Rightarrow> config_state" where
  "set_raw_config_int key val st = set_raw_config key (Some (show_int val)) st"

definition get_raw_config_int :: "config_state \<Rightarrow> string \<Rightarrow> int option" where
  "get_raw_config_int st key = Option.bind (raw_config st key) (parse_int i32_min i32_max)"

definition get_raw_config_u32 :: "config_state \<Rightarrow> string \<Rightarrow> int option" where
  "get_raw_config_u32 st key = Option.bind (raw_config st key) (parse_int 0 u32_max)"

definition get_raw_config_bool :: "config_state \<Rightarrow> string \<Rightarrow> bool" where
  "get_raw_config_bool st key = (case get_raw_config_int st key of None \<Rightarrow> False | Some x \<Rightarrow> x > 0)"

definition set_raw_config_bool :: "string \<Rightarrow> bool \<Rightarrow> config_state \<Rightarrow> config_state" where
  "set_raw_config_bool key val st = set_raw_config key (if val then Some ''1'' else None) st"

definition set_raw_config_int64 :: "string \<Rightarrow> int \<Rightarrow> config_state \<Rightarrow> config_state" where
  "set_raw_config_int64 key val st = set_raw_config key (Some (show_int val)) st"

definition get_raw_config_int64 :: "config_state \<Rightarrow> string \<Rightarrow> int option" where
  "get_raw_config_int64 st key = Option.bind (raw_config st key) (parse_int i64_min i64_max)"


section \<open>Typed getters\<close>

text \<open>\<open>get_abs_path\<close> on a path string: a leading component \<open>$BLOBDIR\<close> is replaced by the blob
  directory; what remains of the path loses leading separators and \<open>.\<close> components, and
  \<open>Path::join\<close> puts one separator in between.\<close>

fun trim_components :: "string \<Rightarrow> string" where
  "trim_components (CHR ''/'' # p) = trim_components p"
| "trim_components (CHR ''.'' # CHR ''/'' # p) = trim_components p"
| "trim_components p = (if p = ''.'' then [] else p)"

definition path_join :: "string \<Rightarrow> string \<Rightarrow> string" where
  "path_join dir p = (if dir = [] \<or> last dir = CHR ''/'' then dir @ p else dir @ ''/'' @ p)"

definition get_abs_path :: "string \<Rightarrow> string \<Rightarrow> string" where
  "get_abs_path dir path =
     (case strip_prefix ''$BLOBDIR'' path of
        Some rest \<Rightarrow> if rest = [] \<or> hd rest = CHR ''/'' then path_join dir (trim_components rest)
                     else path
      | None \<Rightarrow> path)"

definition ascii_upper :: "char \<Rightarrow> char" where
  "ascii_upper c = (let n = (of_char c :: nat) in if 97 \<le> n \<and> n \<le> 122 then char_of (n - 32) else c)"

definition config_exists :: "config_state \<Rightarrow> Config \<Rightarrow> bool" where
  "config_exists st key = (raw_config st (Config_as_ref key) \<noteq> None)"

definition RECOMMENDED_FILE_SIZE :: nat where
  "RECOMMENDED_FILE_SIZE = 24 * 1024 * 1024 div 4 * 3"

definition all_config_keys :: "Config list" where
  "all_config_keys = [
     Addr, MailServer, MailUser, MailPw, MailPort, MailSecurity, ImapCertificateChecks
 , SendServer, SendUser, SendPw, SendPort, SendSecurity, ServerFlags, ProxyEnabled
 , ProxyUrl, Socks5Enabled, Socks5Host, Socks5Port, Socks5User, Socks5Password, Displayname
 , Selfstatus, Selfavatar, BccSelf, MdnsEnabled, MediaQuality, DeleteDeviceAfter
 , ConfiguredAddr, ConfiguredImapServers, ConfiguredMailServer, ConfiguredMailPort
 , ConfiguredMailSecurity, ConfiguredMailUser, ConfiguredMailPw
 , ConfiguredImapCertificateChecks, ConfiguredSmtpServers, ConfiguredSendServer
 , ConfiguredSendPort, ConfiguredSendSecurity, ConfiguredSendUser, ConfiguredSendPw
 , ConfiguredServerFlags, ConfiguredInboxFolder, ConfiguredTimestamp, ConfiguredProvider
 , Configured, IsChatmail, FixIsChatmail, IsMuted, PrivateTag, SysVersion
 , SysMsgsizeMaxRecommended, SysConfigKeys, Bot, SkipStartMessages, NotifyAboutWrongPw
 , LastHousekeeping, LastCantDecryptOutgoingMsgs, DisableIdle, DonationRequestNextCheck
 , DownloadLimit, SyncMsgs, DebugLogging, LastMsgId, GossipPeriod, KeyId, StatsSending
 , StatsLastSent, StatsLastUpdate, StatsId, StatsLastOldContactId, WebxdcIntegration
 , WebxdcRealtimeEnabled, DeviceToken, EncryptedDeviceToken, SimulateReceiveImfError
 , WhoCanCallMe, TeamProfile, ForceEncryption]"

definition get_config_keys_string :: string where
  "get_config_keys_string =
     '' '' @ concat (map (\<lambda>key. Config_as_ref key @ '' '') all_config_keys) @ '' ''"

definition get_config_opt :: "config_state \<Rightarrow> Config \<Rightarrow> string option" where
  "get_config_opt st key =
     (case env_vars st (''DELTACHAT_'' @ map ascii_upper (Config_as_ref key)) of
        Some val \<Rightarrow> Some val
      | None \<Rightarrow>
         (case key of
            Selfavatar \<Rightarrow> map_option (get_abs_path (blobdir st)) (raw_config st (Config_as_ref key))
          | SysVersion \<Rightarrow> Some (dc_version st)
          | SysMsgsizeMaxRecommended \<Rightarrow> Some (show_nat RECOMMENDED_FILE_SIZE)
          | SysConfigKeys \<Rightarrow> Some get_config_keys_string
          | _ \<Rightarrow> raw_config st (Config_as_ref key)))"

definition get_config :: "config_state \<Rightarrow> Config \<Rightarrow> string option" where
  "get_config st key =
     (case get_config_opt st key of
        Some val \<Rightarrow> Some val
      | None \<Rightarrow>
         (case key of
            ConfiguredInboxFolder \<Rightarrow> Some ''INBOX''
          | Addr \<Rightarrow> get_config_opt st ConfiguredAddr
          | _ \<Rightarrow> Config_default key))"

definition get_config_int :: "config_state \<Rightarrow> Config \<Rightarrow> int" where
  "get_config_int st key =
     (case Option.bind (get_config st key) (parse_int i32_min i32_max) of Some x \<Rightarrow> x | None \<Rightarrow> 0)"

definition get_config_u32 :: "config_state \<Rightarrow> Config \<Rightarrow> int" where
  "get_config_u32 st key =
     (case Option.bind (get_config st key) (parse_int 0 u32_max) of Some x \<Rightarrow> x | None \<Rightarrow> 0)"

definition get_config_i64 :: "config_state \<Rightarrow> Config \<Rightarrow> int" where
  "get_config_i64 st key =
     (case Option.bind (get_config st key) (parse_int i64_min i64_max) of Some x \<Rightarrow> x | None \<Rightarrow> 0)"

definition get_config_bool_opt :: "config_state \<Rightarrow> Config \<Rightarrow> bool option" where
  "get_config_bool_opt st key =
     map_option (\<lambda>x. x \<noteq> 0) (Option.bind (get_config_opt st key) (parse_int i32_min i32_max))"

definition get_config_bool :: "config_state \<Rightarrow> Config \<Rightarrow> bool" where
  "get_config_bool st key =
     (case Option.bind (get_config st key) (parse_int i32_min i32_max) of
        Some x \<Rightarrow> x \<noteq> 0 | None \<Rightarrow> False)"

definition should_send_sync_msgs :: "config_state \<Rightarrow> bool" where
  "should_send_sync_msgs st \<longleftrightarrow>
     get_config_bool st SyncMsgs \<and> get_config_bool st BccSelf \<and> \<not> get_config_bool st Bot"

definition should_request_mdns :: "config_state \<Rightarrow> bool" where
  "should_request_mdns st =
     (case get_config_bool_opt st MdnsEnabled of
        Some val \<Rightarrow> val
      | None \<Rightarrow> \<not> get_config_bool st Bot)"

definition should_send_mdns :: "config_state \<Rightarrow> bool" where
  "should_send_mdns st = get_config_bool st MdnsEnabled"

definition get_config_delete_device_after :: "config_state \<Rightarrow> int option" where
  "get_config_delete_device_after st =
     (let x = get_config_int st DeleteDeviceAfter in if x = 0 then None else Some x)"

definition check_config :: "Config \<Rightarrow> string option \<Rightarrow> unit res" where
  "check_config key val =
     (if key \<in> {Socks5Enabled, ProxyEnabled, BccSelf, MdnsEnabled, Configured, Bot,
                NotifyAboutWrongPw, SyncMsgs, DisableIdle}
         \<and> val \<notin> {None, Some ''0'', Some ''1''}
      then Inl ''Boolean value must be either 0 or 1''
      else Inr ())"

definition from_bool :: "bool \<Rightarrow> string option" where
  "from_bool val = Some (if val then ''1'' else ''0'')"

definition bool_from_config :: "string option \<Rightarrow> bool" where
  "bool_from_config config =
     (case config of
        None \<Rightarrow> False
      | Some v \<Rightarrow> (case parse_int i32_min i32_max v of Some x \<Rightarrow> x \<noteq> 0 | None \<Rightarrow> False))"

definition set_ui_config :: "string \<Rightarrow> string option \<Rightarrow> config_state \<Rightarrow> config_state res" where
  "set_ui_config key val st =
     (if starts_with key ''ui.'' then Inr (set_raw_config key val st)
      else Inl ''set_ui_config(): prefix missing.'')"

definition get_ui_config :: "string \<Rightarrow> config_state \<Rightarrow> string option res" where
  "get_ui_config key st =
     (if starts_with key ''ui.'' then Inr (raw_config st key)
      else Inl ''get_ui_config(): prefix missing.'')"

definition get_primary_self_addr :: "config_state \<Rightarrow> string res" where
  "get_primary_self_addr st =
     (case get_config st ConfiguredAddr of
        Some a \<Rightarrow> Inr a
      | None \<Rightarrow> Inl ''No self addr configured'')"


section \<open>Coherence of the cache\<close>

lemmas raw_config_defs = raw_config_def get_raw_config_def set_raw_config_def uncache_raw_config_def

definition config_coherent :: "config_state \<Rightarrow> bool" where
  "config_coherent st \<longleftrightarrow> (\<forall>key c. config_cache st key = Some c \<longrightarrow> c = config_db st key)"

text \<open>The contract of a configuration store: reads see the last write of their key, whatever caching
  goes on in between.\<close>

locale raw_store =
  fixes put :: "string \<Rightarrow> string option \<Rightarrow> 's \<Rightarrow> 's"
    and fetch :: "string \<Rightarrow> 's \<Rightarrow> string option \<times> 's"
    and invar :: "'s \<Rightarrow> bool"
  assumes put_invar: "invar s \<Longrightarrow> invar (put k v s)"
    and fetch_invar: "invar s \<Longrightarrow> invar (snd (fetch k s))"
    and fetch_put: "invar s \<Longrightarrow> fst (fetch k' (put k v s)) = (if k' = k then v else fst (fetch k' s))"
    and fetch_fetch: "invar s \<Longrightarrow> fst (fetch k' (snd (fetch k s))) = fst (fetch k' s)"
begin

lemma put_put: "invar s \<Longrightarrow> fst (fetch k' (put k v (put k w s))) = fst (fetch k' (put k v s))"
  by (simp add: fetch_put put_invar)

lemma put_commute:
  "invar s \<Longrightarrow> k \<noteq> l \<Longrightarrow>
   fst (fetch k' (put k v (put l w s))) = fst (fetch k' (put l w (put k v s)))"
  by (simp add: fetch_put put_invar)

lemma reads_invisible:
  "invar s \<Longrightarrow> invar (fold (\<lambda>k s. snd (fetch k s)) ks s)
     \<and> fst (fetch k' (fold (\<lambda>k s. snd (fetch k s)) ks s)) = fst (fetch k' s)"
  by (induction ks arbitrary: s) (simp_all add: fetch_invar fetch_fetch)

end

interpretation cfg: raw_store set_raw_config get_raw_config config_coherent
  by unfold_locales
    (auto simp: config_coherent_def raw_config_defs Let_def split: option.splits)

lemma raw_config_coherent: "config_coherent st \<Longrightarrow> raw_config st key = config_db st key"
  by (auto simp: config_coherent_def raw_config_defs Let_def split: option.splits)

lemma raw_config_set: "raw_config (set_raw_config key val st) k = (if k = key then val else raw_config st k)"
  by (simp add: raw_config_defs Let_def split: option.splits)

lemma uncache_coherent: "config_coherent st \<Longrightarrow> config_coherent (uncache_raw_config key st)"
  by (simp add: config_coherent_def uncache_raw_config_def)

lemma set_raw_config_fields [simp]:
  "env_vars (set_raw_config key val st) = env_vars st"
  "blobdir (set_raw_config key val st) = blobdir st"
  "dc_version (set_raw_config key val st) = dc_version st"
  by (simp_all add: set_raw_config_def Let_def split: option.split)

datatype config_op = SetRaw string "string option" | GetRaw string | Uncache string

primrec run_config_op :: "config_op \<Rightarrow> config_state \<Rightarrow> config_state" where
  "run_config_op (SetRaw k v) st = set_raw_config k v st"
| "run_config_op (GetRaw k) st = snd (get_raw_config k st)"
| "run_config_op (Uncache k) st = uncache_raw_config k st"

lemma run_config_op_coherent: "config_coherent st \<Longrightarrow> config_coherent (run_config_op c st)"
  by (cases c) (simp_all add: cfg.put_invar cfg.fetch_invar uncache_coherent)

lemma run_config_ops_coherent: "config_coherent st \<Longrightarrow> config_coherent (fold run_config_op ops st)"
  by (induction ops arbitrary: st) (simp_all add: run_config_op_coherent)

primrec last_write :: "string \<Rightarrow> config_op \<Rightarrow> string option \<Rightarrow> string option" where
  "last_write key (SetRaw k v) old = (if k = key then v else old)"
| "last_write key (GetRaw k) old = old"
| "last_write key (Uncache k) old = old"

lemma run_config_op_db: "config_db (run_config_op c st) key = last_write key c (config_db st key)"
  by (cases c) (auto simp: raw_config_defs Let_def split: option.split)

lemma run_config_ops_db:
  "config_db (fold run_config_op ops st) key = fold (last_write key) ops (config_db st key)"
  by (induction ops arbitrary: st) (simp_all add: run_config_op_db)

text \<open>C6: After any sequence of configuration reads, writes and cache evictions on a coherent store, a
  read returns the value of the last write to its key, or the value the table held before when the
  sequence wrote none: the cache is invisible.\<close>

theorem config_read_last_write:
  assumes "config_coherent st"
  shows "fst (get_raw_config key (fold run_config_op ops st))
           = fold (last_write key) ops (config_db st key)"
  using raw_config_coherent [OF run_config_ops_coherent [OF assms]]
  by (simp add: raw_config_def run_config_ops_db)

definition config_state0 :: config_state where
  "config_state0 = \<lparr>config_db = Map.empty, config_cache = Map.empty, env_vars = Map.empty,
     blobdir = ''/b'', dc_version = ''2''\<rparr>"

theorem config_read_last_write_witness:
  "fst (get_raw_config ''bcc_self'' (fold run_config_op
      [GetRaw ''bcc_self'', SetRaw ''bcc_self'' (Some ''1''), GetRaw ''addr'', Uncache ''bcc_self'']
      config_state0)) = Some ''1''"
  using config_read_last_write [of config_state0 "''bcc_self''"
      "[GetRaw ''bcc_self'', SetRaw ''bcc_self'' (Some ''1''), GetRaw ''addr'', Uncache ''bcc_self'']"]
  by (simp add: config_coherent_def config_state0_def)


section \<open>Typed round trips\<close>

definition plain_key :: "Config \<Rightarrow> bool" where
  "plain_key key \<longleftrightarrow> key \<notin> {Selfavatar, SysVersion, SysMsgsizeMaxRecommended, SysConfigKeys}"

definition env_key :: "Config \<Rightarrow> string" where
  "env_key key = ''DELTACHAT_'' @ map ascii_upper (Config_as_ref key)"

lemma get_config_opt_set:
  "plain_key key \<Longrightarrow> env_vars st (env_key key) = None \<Longrightarrow>
   get_config_opt (set_raw_config (Config_as_ref key) val st) key = val"
  by (cases key) (simp_all add: get_config_opt_def plain_key_def env_key_def raw_config_set)

lemma get_config_set:
  "plain_key key \<Longrightarrow> env_vars st (env_key key) = None \<Longrightarrow>
   get_config (set_raw_config (Config_as_ref key) (Some val) st) key = Some val"
  by (simp add: get_config_def get_config_opt_set)

text \<open>C7: Setting a boolean option through \<open>from_bool\<close> and reading it with \<open>get_config_bool\<close> gives the
  boolean back for every key that is not computed, unless the environment overrides the key, and
  then the environment's value is what a read returns.\<close>

theorem get_config_bool_from_bool:
  assumes "plain_key key"
  shows "get_config_bool (set_raw_config (Config_as_ref key) (from_bool b) st) key
    = (case env_vars st (env_key key) of None \<Rightarrow> b | Some v \<Rightarrow> bool_from_config (Some v))"
proof (cases "env_vars st (env_key key)")
  case None
  have "parse_int i32_min i32_max ''1'' = Some 1" "parse_int i32_min i32_max ''0'' = Some 0"
    by code_simp+
  with assms None show ?thesis
    by (simp add: get_config_bool_def from_bool_def get_config_set)
next
  case (Some v)
  then have "get_config (set_raw_config (Config_as_ref key) (from_bool b) st) key = Some v"
    by (simp add: get_config_def get_config_opt_def env_key_def)
  with Some show ?thesis
    by (simp add: get_config_bool_def bool_from_config_def split: option.split)
qed

theorem get_config_bool_from_bool_witness:
  "get_config_bool (set_raw_config (Config_as_ref MdnsEnabled) (from_bool False) config_state0)
     MdnsEnabled = False"
  using get_config_bool_from_bool [of MdnsEnabled False config_state0]
  by (simp add: plain_key_def config_state0_def)

lemma raw_config_int64_roundtrip:
  "i64_min \<le> i \<Longrightarrow> i \<le> i64_max \<Longrightarrow>
   get_raw_config_int64 (set_raw_config_int64 key i st) key = Some i"
  by (simp add: get_raw_config_int64_def set_raw_config_int64_def raw_config_set parse_int_show_int)

end
