(* ===== verification/UText.thy ===== *)
theory UText
  imports Prelude
begin

text \<open>
  Rust \<open>str\<close> values whose Unicode properties matter, as lists of code points: the literals, the
  length in UTF-8 bytes, the Unicode white space test behind \<open>char::is_whitespace\<close>, \<open>str::trim\<close>,
  \<open>str::rsplitn(2, c)\<close> and integer parsing of such a text.
\<close>

type_synonym ustr = "nat list"

definition U :: "string \<Rightarrow> ustr" where
  "U s = map of_char s"

lemma U_simps [simp]: "U [] = []" "U (c # s) = of_char c # U s" "U (s @ t) = U s @ U t"
  by (simp_all add: U_def)

text \<open>\<open>char::len_utf8\<close> and \<open>str::len\<close>.\<close>

definition len_utf8 :: "nat \<Rightarrow> nat" where
  "len_utf8 c = (if c < 128 then 1 else if c < 2048 then 2 else if c < 65536 then 3 else 4)"

definition blen :: "ustr \<Rightarrow> nat" where
  "blen s = sum_list (map len_utf8 s)"

lemma len_utf8_pos: "1 \<le> len_utf8 c" "len_utf8 c \<le> 4"
  by (simp_all add: len_utf8_def)

lemma blen_simps [simp]: "blen [] = 0" "blen (c # s) = len_utf8 c + blen s" "blen (s @ t) = blen s + blen t"
  by (simp_all add: blen_def)

lemma length_le_blen: "length s \<le> blen s"
proof (induction s)
  case (Cons c s)
  then show ?case using len_utf8_pos(1) [of c] by simp
qed simp

text \<open>\<open>char::is_whitespace\<close>, the Unicode property \<open>White_Space\<close>.\<close>

definition is_whitespace :: "nat \<Rightarrow> bool" where
  "is_whitespace c \<longleftrightarrow>
     9 \<le> c \<and> c \<le> 13 \<or> c = 32 \<or> c = 0x85 \<or> c = 0xA0 \<or> c = 0x1680
     \<or> 0x2000 \<le> c \<and> c \<le> 0x200A \<or> c = 0x2028 \<or> c = 0x2029 \<or> c = 0x202F \<or> c = 0x205F \<or> c = 0x3000"

definition is_ascii_whitespace :: "nat \<Rightarrow> bool" where
  "is_ascii_whitespace c \<longleftrightarrow> c = 9 \<or> c = 10 \<or> c = 12 \<or> c = 13 \<or> c = 32"

abbreviation utrim :: "ustr \<Rightarrow> ustr" where
  "utrim \<equiv> trim is_whitespace"

text \<open>\<open>s.rsplitn(2, c)\<close>: the part after the last separator and the part before it.\<close>

definition rsplit_once :: "'a \<Rightarrow> 'a list \<Rightarrow> ('a list \<times> 'a list) option" where
  "rsplit_once c s = map_option (\<lambda>(a, b). (rev b, rev a)) (split_once c (rev s))"

lemma rsplit_once_Some: "rsplit_once c s = Some (a, b) \<longleftrightarrow> s = a @ c # b \<and> c \<notin> set b"
proof -
  have "rsplit_once c s = Some (a, b) \<longleftrightarrow> split_once c (rev s) = Some (rev b, rev a)"
    by (auto simp: rsplit_once_def)
  also have "\<dots> \<longleftrightarrow> rev s = rev b @ c # rev a \<and> c \<notin> set b"
    by (simp add: split_once_Some)
  also have "\<dots> \<longleftrightarrow> s = a @ c # b \<and> c \<notin> set b"
    by (metis append.assoc append_Cons append_Nil rev.simps(2) rev_append rev_rev_ident)
  finally show ?thesis .
qed

lemma rsplit_once_None: "rsplit_once c s = None \<longleftrightarrow> c \<notin> set s"
  by (simp add: rsplit_once_def split_once_None)

text \<open>\<open>s.split_ascii_whitespace()\<close> and \<open>s.parse::<iN>()\<close>.\<close>

function words_by :: "('a \<Rightarrow> bool) \<Rightarrow> 'a list \<Rightarrow> 'a list list" where
  "words_by P s =
     (case dropWhile P s of
        [] \<Rightarrow> []
      | x # xs \<Rightarrow> (x # takeWhile (\<lambda>c. \<not> P c) xs) # words_by P (dropWhile (\<lambda>c. \<not> P c) xs))"
  by pat_completeness auto
termination
proof (relation "measure (\<lambda>(P, s). length s)", goal_cases)
  case 1
  show ?case by simp
next
  case (2 P s x xs)
  have "length (dropWhile P s) \<le> length s"
    by (rule length_dropWhile_le)
  moreover have "length (dropWhile (\<lambda>c. \<not> P c) xs) \<le> length xs"
    by (rule length_dropWhile_le)
  ultimately show ?case using 2 by simp
qed

declare words_by.simps [simp del]

lemma words_by_Nil [simp]: "words_by P [] = []"
  by (simp add: words_by.simps)

definition u_parse_int :: "int \<Rightarrow> int \<Rightarrow> ustr \<Rightarrow> int option" where
  "u_parse_int lo hi s = (if list_all (\<lambda>c. c < 128) s then parse_int lo hi (map char_of s) else None)"

lemma trim_set: "set (trim P s) \<subseteq> set s"
proof -
  have "set (dropWhile P xs) \<subseteq> set xs" for xs :: "'a list"
    by (metis set_dropWhileD subsetI)
  then show ?thesis
    unfolding trim_def trim_end_def trim_start_def by (metis set_rev subset_trans)
qed

lemma trim_end_decomp: "trim_end P t @ rev (takeWhile P (rev t)) = t"
proof -
  have "rev (takeWhile P (rev t) @ dropWhile P (rev t)) = t" by simp
  then show ?thesis unfolding trim_end_def rev_append .
qed

lemma trim_hd:
  assumes "trim P s \<noteq> []"
  shows "\<not> P (hd (trim P s))"
proof -
  let ?t = "dropWhile P s"
  have u: "trim P s = trim_end P ?t" by (simp add: trim_def trim_start_def)
  then have "hd (trim P s) = hd (trim_end P ?t @ rev (takeWhile P (rev ?t)))"
    using assms by simp
  then have "hd (trim P s) = hd ?t" unfolding trim_end_decomp .
  moreover have "?t \<noteq> []" 
  proof
    assume "?t = []"
    then have "trim P s = trim_end P []" using u by (simp only:)
    then show False using assms by (simp add: trim_end_def)
  qed
  ultimately show ?thesis by (simp add: hd_dropWhile)
qed

lemma trim_id: "s = [] \<or> \<not> P (hd s) \<and> \<not> P (last s) \<Longrightarrow> trim P s = s"
  by (cases s) (auto simp: trim_def trim_start_def trim_end_id)

lemma trim_idem [simp]: "trim P (trim P s) = trim P s"
proof (rule trim_id)
  have "trim P s \<noteq> [] \<Longrightarrow> \<not> P (last (trim P s))"
    by (simp add: trim_def trim_end_last)
  with trim_hd [of P s] show "trim P s = [] \<or> \<not> P (hd (trim P s)) \<and> \<not> P (last (trim P s))"
    by blast
qed

end
