(* ===== verification/ContactTools.thy ===== *)
theory ContactTools
  imports UText
begin

text \<open>
  \<^verbatim>\<open>deltachat-contact-tools/src/lib.rs\<close>: sanitising of names and addresses, removal of
  bidirectional control characters, address normalisation and comparison, and the address parser.
  \<open>str::to_lowercase\<close> needs the Unicode case tables and is the parameter \<open>lc\<close> of the definitions that
  call it.  The lemmas show that sanitised text has balanced isolates and no override characters,
  that sanitising is idempotent, and that the address parser and printer are inverse.
\<close>

section \<open>Bidirectional control characters\<close>

definition RTLO_CHARACTERS :: "nat list" where
  "RTLO_CHARACTERS = [0x202A, 0x202B, 0x202C, 0x202D, 0x202E]"

definition ISOLATE_CHARACTERS :: "nat list" where
  "ISOLATE_CHARACTERS = [0x2066, 0x2067, 0x2068]"

definition POP_ISOLATE_CHARACTER :: nat where
  "POP_ISOLATE_CHARACTER = 0x2069"

text \<open>The loop of \<open>isolate_characters_are_valid\<close> with the nesting counter as an argument; the counter
  stays within \<open>-1..126\<close>, far from the limits of \<open>i32\<close>.\<close>

fun isolates_from :: "int \<Rightarrow> ustr \<Rightarrow> bool" where
  "isolates_from n [] = (n = 0)"
| "isolates_from n (c # cs) =
     (let n' = (if c \<in> set ISOLATE_CHARACTERS then n + 1
                else if c = POP_ISOLATE_CHARACTER then n - 1 else n)
      in if n' < 0 \<or> n' > 125 then False else isolates_from n' cs)"

definition isolate_characters_are_valid :: "ustr \<Rightarrow> bool" where
  "isolate_characters_are_valid s = isolates_from 0 s"

definition sanitize_bidi_characters :: "ustr \<Rightarrow> ustr" where
  "sanitize_bidi_characters s =
     (let s1 = filter (\<lambda>c. c \<notin> set RTLO_CHARACTERS) s
      in if isolate_characters_are_valid s1 then s1
         else filter (\<lambda>c. \<not> (c \<in> set ISOLATE_CHARACTERS \<or> POP_ISOLATE_CHARACTER = c)) s1)"


section \<open>Names\<close>

definition replace_newlines :: "ustr \<Rightarrow> ustr" where
  "replace_newlines s = map (\<lambda>c. if c = 10 \<or> c = 13 then 32 else c) s"

definition sanitize_single_line :: "ustr \<Rightarrow> ustr" where
  "sanitize_single_line s = sanitize_bidi_characters (utrim (replace_newlines s))"

definition sanitize_name :: "ustr \<Rightarrow> ustr" where
  "sanitize_name s =
     (let name = sanitize_single_line s
      in if length name \<ge> 2
            \<and> (hd name, last name) \<in> {(0x27, 0x27), (0x22, 0x22), (0x3C, 0x3E)}
         then utrim (butlast (tl name)) else name)"

text \<open>The first match of the regular expression \<open>(.*)<(.*)>\<close>.  A dot does not match a line feed, so
  the match lies in the first line with a \<open><\<close> before a \<open>>\<close>; both stars are greedy, so the
  closing bracket is the last of the line and the opening one the last before it.\<close>

definition addr_with_name_line :: "ustr \<Rightarrow> (ustr \<times> ustr) option" where
  "addr_with_name_line l =
     (case rsplit_once 0x3E l of None \<Rightarrow> None | Some (pre, _) \<Rightarrow> rsplit_once 0x3C pre)"

fun first_some :: "('a \<Rightarrow> 'b option) \<Rightarrow> 'a list \<Rightarrow> 'b option" where
  "first_some f [] = None"
| "first_some f (x # xs) = (case f x of Some y \<Rightarrow> Some y | None \<Rightarrow> first_some f xs)"

definition addr_with_name_regex :: "ustr \<Rightarrow> (ustr \<times> ustr) option" where
  "addr_with_name_regex s = first_some addr_with_name_line (split_on 10 s)"

definition sanitize_name_and_addr :: "ustr \<Rightarrow> ustr \<Rightarrow> ustr \<times> ustr" where
  "sanitize_name_and_addr name addr =
     (let (name1, addr1) = (case addr_with_name_regex addr of
            Some (g1, g2) \<Rightarrow> (if name = [] then g1 else name, g2)
          | None \<Rightarrow> (name, addr));
          name2 = sanitize_name name1
      in (if name2 = addr1 then [] else name2, addr1))"


section \<open>Addresses\<close>

definition addr_normalize :: "(ustr \<Rightarrow> ustr) \<Rightarrow> ustr \<Rightarrow> ustr" where
  "addr_normalize lc addr =
     (let norm = lc (utrim addr)
      in case strip_prefix (U ''mailto:'') norm of Some rest \<Rightarrow> rest | None \<Rightarrow> norm)"

definition addr_cmp :: "(ustr \<Rightarrow> ustr) \<Rightarrow> ustr \<Rightarrow> ustr \<Rightarrow> bool" where
  "addr_cmp lc addr1 addr2 = (addr_normalize lc addr1 = addr_normalize lc addr2)"

record EmailAddress =
  ea_local :: ustr
  ea_domain :: ustr

datatype addr_error =
  EmptyAddress | BadCharacter | EmptyLocal | MissingDomain | TrailingDot | MissingAt

definition EmailAddress_new :: "ustr \<Rightarrow> addr_error + EmailAddress" where
  "EmailAddress_new input =
     (if input = [] then Inl EmptyAddress
      else if list_ex (\<lambda>c. is_whitespace c \<or> c = 0x3C \<or> c = 0x3E) input then Inl BadCharacter
      else case rsplit_once 0x40 input of
          Some (local_part, domain) \<Rightarrow>
            if local_part = [] then Inl EmptyLocal
            else if domain = [] then Inl MissingDomain
            else if ends_with domain (U ''.'') then Inl TrailingDot
            else Inr \<lparr>ea_local = local_part, ea_domain = domain\<rparr>
        | None \<Rightarrow> Inl MissingAt)"

definition EmailAddress_to_string :: "EmailAddress \<Rightarrow> ustr" where
  "EmailAddress_to_string a = ea_local a @ U ''@'' @ ea_domain a"

definition may_be_valid_addr :: "ustr \<Rightarrow> bool" where
  "may_be_valid_addr addr = is_ok (EmailAddress_new addr)"

definition ContactAddress_new :: "(ustr \<Rightarrow> ustr) \<Rightarrow> ustr \<Rightarrow> ustr res" where
  "ContactAddress_new lc s =
     (let addr = addr_normalize lc s
      in if \<not> may_be_valid_addr addr then Inl ''invalid address'' else Inr addr)"


section \<open>Sanitised text\<close>

lemmas bidi_defs = RTLO_CHARACTERS_def ISOLATE_CHARACTERS_def POP_ISOLATE_CHARACTER_def

lemma isolates_from_plain:
  "list_all (\<lambda>c. \<not> (c \<in> set ISOLATE_CHARACTERS \<or> POP_ISOLATE_CHARACTER = c)) s \<Longrightarrow>
   0 \<le> n \<Longrightarrow> n \<le> 125 \<Longrightarrow> isolates_from n s = (n = 0)"
  by (induction s arbitrary: n) (auto simp: Let_def)

text \<open>Text whose isolates are closed leaves the nesting of what follows as it was, however deep the
  surrounding text is nested, within the limit of 125 levels.\<close>

lemma isolates_from_append: "isolates_from n s \<Longrightarrow> isolates_from n (s @ t) = isolates_from 0 t"
  by (induction s arbitrary: n) (auto simp: Let_def split: if_splits)

lemma sanitize_bidi_valid: "isolate_characters_are_valid (sanitize_bidi_characters s)"
  unfolding sanitize_bidi_characters_def isolate_characters_are_valid_def Let_def
  by (auto intro: isolates_from_plain [THEN iffD2] simp: list_all_iff)

lemma sanitize_bidi_set:
  "set (sanitize_bidi_characters s) \<subseteq> set s - set RTLO_CHARACTERS"
  by (auto simp: sanitize_bidi_characters_def Let_def)

lemma sanitize_bidi_id:
  "set s \<inter> set RTLO_CHARACTERS = {} \<Longrightarrow> isolate_characters_are_valid s \<Longrightarrow>
   sanitize_bidi_characters s = s"
  by (simp add: sanitize_bidi_characters_def Let_def disjoint_iff filter_id_conv)

lemma sanitize_bidi_idem: "sanitize_bidi_characters (sanitize_bidi_characters s) = sanitize_bidi_characters s"
  using sanitize_bidi_set [of s] sanitize_bidi_valid [of s] by (intro sanitize_bidi_id) auto

text \<open>C8: Sanitised texts compose: for any pieces of user input, the concatenation of their sanitised
  forms has balanced isolates, contains no embedding or override character, and sanitising it again
  changes nothing, so one piece cannot change the direction in which another is shown.\<close>

theorem sanitize_bidi_compose:
  "let out = concat (map sanitize_bidi_characters ss)
   in isolate_characters_are_valid out \<and> set out \<inter> set RTLO_CHARACTERS = {}
      \<and> sanitize_bidi_characters out = out"
proof -
  let ?out = "concat (map sanitize_bidi_characters ss)"
  have v: "isolate_characters_are_valid ?out"
    using sanitize_bidi_valid
    by (induction ss) (simp_all add: isolate_characters_are_valid_def isolates_from_append)
  moreover have "set ?out \<inter> set RTLO_CHARACTERS = {}"
    using sanitize_bidi_set by (simp add: disjoint_iff) blast
  ultimately show ?thesis by (simp add: Let_def sanitize_bidi_id)
qed

lemma sanitize_single_line_chars:
  "c \<in> set (sanitize_single_line s) \<Longrightarrow> c \<noteq> 10 \<and> c \<noteq> 13 \<and> c \<notin> set RTLO_CHARACTERS"
proof -
  assume "c \<in> set (sanitize_single_line s)"
  then have "c \<in> set (utrim (replace_newlines s)) - set RTLO_CHARACTERS"
    using sanitize_bidi_set [of "utrim (replace_newlines s)"] unfolding sanitize_single_line_def by blast
  then have "c \<in> set (replace_newlines s)" "c \<notin> set RTLO_CHARACTERS"
    using trim_set [of is_whitespace "replace_newlines s"] by blast+
  then show ?thesis by (auto simp: replace_newlines_def)
qed

text \<open>C9: A sanitised name is a single line without embedding or override characters, whatever quotes
  and brackets are peeled off.\<close>

theorem sanitize_name_chars:
  "set (sanitize_name s) \<inter> ({10, 13} \<union> set RTLO_CHARACTERS) = {}"
proof -
  let ?n = "sanitize_single_line s"
  have "set (utrim (butlast (tl ?n))) \<subseteq> set ?n"
  proof
    fix c assume "c \<in> set (utrim (butlast (tl ?n)))"
    then have "c \<in> set (tl ?n)" 
      using trim_set [of is_whitespace "butlast (tl ?n)"] by (blast intro: in_set_butlastD)
    then show "c \<in> set ?n" by (cases ?n) auto
  qed
  then have "set (sanitize_name s) \<subseteq> set ?n"
    by (simp add: sanitize_name_def Let_def)
  then show ?thesis using sanitize_single_line_chars [of _ s] by blast
qed

text \<open>The trimming of \<open>sanitize_single_line\<close> comes before the removal of override characters, so white
  space behind such a character survives and a second pass still changes the text.\<close>

lemma sanitize_single_line_not_trimmed:
  "sanitize_single_line (0x202A # U '' x'') = U '' x''"
  "sanitize_single_line (sanitize_single_line (0x202A # U '' x'')) = U ''x''"
  by (simp_all add: sanitize_single_line_def sanitize_bidi_characters_def bidi_defs replace_newlines_def
      trim_def trim_start_def trim_end_def is_whitespace_def isolate_characters_are_valid_def)


section \<open>Parsing and printing of addresses\<close>

lemma EmailAddress_new_InrD:
  assumes "EmailAddress_new s = Inr a"
  shows "s = EmailAddress_to_string a \<and> ea_local a \<noteq> [] \<and> ea_domain a \<noteq> [] \<and> 0x40 \<notin> set (ea_domain a)
    \<and> \<not> ends_with (ea_domain a) (U ''.'')"
  using assms
  by (auto simp: EmailAddress_new_def EmailAddress_to_string_def rsplit_once_Some
      split: if_splits option.splits)

text \<open>C10: An accepted address prints back to the text it was parsed from, and parsing what was printed
  gives the same local part and domain; the domain holds no \<open>@\<close> and does not end in a dot.\<close>

theorem EmailAddress_roundtrip:
  assumes "EmailAddress_new s = Inr a"
  shows "EmailAddress_to_string a = s \<and> EmailAddress_new (EmailAddress_to_string a) = Inr a
         \<and> 0x40 \<notin> set (ea_domain a) \<and> ea_local a \<noteq> [] \<and> last (ea_domain a) \<noteq> 0x2E"
proof -
  have "ends_with d (U ''.'') \<longleftrightarrow> d \<noteq> [] \<and> last d = 0x2E" for d
    by (cases d rule: rev_cases) (auto simp: ends_with_iff)
  with EmailAddress_new_InrD [OF assms] assms show ?thesis by metis
qed

theorem EmailAddress_roundtrip_witness:
  "EmailAddress_to_string \<lparr>ea_local = U ''a@b'', ea_domain = U ''x.org''\<rparr> = U ''a@b@x.org''"
  using EmailAddress_roundtrip [of "U ''a@b@x.org''" "\<lparr>ea_local = U ''a@b'', ea_domain = U ''x.org''\<rparr>"]
  by (simp add: EmailAddress_new_def is_whitespace_def rsplit_once_def ends_with_def starts_with_def)

lemma ContactAddress_valid: "ContactAddress_new lc s = Inr a \<Longrightarrow> may_be_valid_addr a \<and> a = addr_normalize lc s"
  by (auto simp: ContactAddress_new_def Let_def split: if_splits)

end
