(* ===== verification/Utf8.thy ===== *)
theory Utf8
  imports UText
begin

text \<open>
  UTF-8: the bytes of a Rust \<open>String\<close> and its code points.  Values that pass through the database or
  a parameter list are byte strings, texts whose characters matter are code points.
\<close>

definition utf8_char :: "nat \<Rightarrow> nat list" where
  "utf8_char c =
     (if c < 0x80 then [c]
      else if c < 0x800 then [0xC0 + c div 0x40, 0x80 + c mod 0x40]
      else if c < 0x10000 then [0xE0 + c div 0x1000, 0x80 + c div 0x40 mod 0x40, 0x80 + c mod 0x40]
      else [0xF0 + c div 0x40000, 0x80 + c div 0x1000 mod 0x40, 0x80 + c div 0x40 mod 0x40, 0x80 + c mod 0x40])"

definition utf8_encode :: "ustr \<Rightarrow> string" where
  "utf8_encode s = map char_of (concat (map utf8_char s))"

fun utf8_bytes :: "nat list \<Rightarrow> ustr" where
  "utf8_bytes [] = []"
| "utf8_bytes (a # bs) =
     (if a < 0x80 then a # utf8_bytes bs
      else case bs of
        [] \<Rightarrow> []
      | b # bs1 \<Rightarrow>
          if a < 0xE0 then ((a - 0xC0) * 0x40 + (b - 0x80)) # utf8_bytes bs1
          else case bs1 of
            [] \<Rightarrow> []
          | c # bs2 \<Rightarrow>
              if a < 0xF0 then ((a - 0xE0) * 0x1000 + (b - 0x80) * 0x40 + (c - 0x80)) # utf8_bytes bs2
              else case bs2 of
                [] \<Rightarrow> []
              | d # bs3 \<Rightarrow>
                  ((a - 0xF0) * 0x40000 + (b - 0x80) * 0x1000 + (c - 0x80) * 0x40 + (d - 0x80)) # utf8_bytes bs3)"

definition utf8_decode :: "string \<Rightarrow> ustr" where
  "utf8_decode s = utf8_bytes (map of_char s)"

lemma base64_digits:
  fixes c :: nat
  shows "c div 64 * 64 + c mod 64 = c" "c div 4096 * 4096 + c div 64 mod 64 * 64 + c mod 64 = c"
    "c div 262144 * 262144 + c div 4096 mod 64 * 4096 + c div 64 mod 64 * 64 + c mod 64 = c"
proof -
  have q: "c div 4096 = c div 64 div 64" "c div 262144 = c div 64 div 64 div 64"
    by (simp_all flip: div_mult2_eq)
  show "c div 64 * 64 + c mod 64 = c" by simp
  then show "c div 4096 * 4096 + c div 64 mod 64 * 64 + c mod 64 = c"
    using div_mult_mod_eq [of "c div 64" 64] unfolding q by linarith
  then show "c div 262144 * 262144 + c div 4096 mod 64 * 4096 + c div 64 mod 64 * 64 + c mod 64 = c"
    using div_mult_mod_eq [of "c div 64 div 64" 64] unfolding q by linarith
qed

lemma utf8_char_decode: "c \<le> 0x10FFFF \<Longrightarrow> utf8_bytes (utf8_char c @ bs) = c # utf8_bytes bs"
proof -
  assume c: "c \<le> 0x10FFFF"
  consider "c < 0x80" | "0x80 \<le> c" "c < 0x800" | "0x800 \<le> c" "c < 0x10000" | "0x10000 \<le> c"
    by linarith
  then show ?thesis
  proof cases
    case 2
    then have "c div 64 < 32" by (simp add: div_less_iff_less_mult)
    with 2 base64_digits(1) [of c] show ?thesis by (simp add: utf8_char_def)
  next
    case 3
    then have "c div 4096 < 16" by (simp add: div_less_iff_less_mult)
    with 3 base64_digits(2) [of c] show ?thesis by (simp add: utf8_char_def)
  next
    case 4
    with base64_digits(3) [of c] show ?thesis by (simp add: utf8_char_def)
  qed (simp add: utf8_char_def)
qed

lemma utf8_char_bytes: "c \<le> 0x10FFFF \<Longrightarrow> b \<in> set (utf8_char c) \<Longrightarrow> b < 256"
  by (auto simp: utf8_char_def split: if_splits)

lemma utf8_roundtrip: "list_all (\<lambda>c. c \<le> 0x10FFFF) s \<Longrightarrow> utf8_decode (utf8_encode s) = s"
proof -
  assume s: "list_all (\<lambda>c. c \<le> 0x10FFFF) s"
  then have "map (of_char \<circ> char_of) (concat (map utf8_char s)) = concat (map utf8_char s)"
    by (intro map_idI) (fastforce simp: list_all_iff intro: mod_less dest: utf8_char_bytes [rotated])
  moreover from s have "utf8_bytes (concat (map utf8_char s)) = s"
    by (induction s) (simp_all add: utf8_char_decode)
  ultimately show ?thesis by (simp add: utf8_decode_def utf8_encode_def)
qed

lemma utf8_encode_U: "list_all (\<lambda>c. of_char c < (128 :: nat)) s \<Longrightarrow> utf8_encode (U s) = s"
  by (induction s) (simp_all add: utf8_encode_def U_def utf8_char_def)

lemma utf8_encode_Nil [simp]: "utf8_encode [] = []" "utf8_decode [] = []"
  by (simp_all add: utf8_encode_def utf8_decode_def)

end
