(* ===== verification/Store.thy ===== *)
theory Store
  imports Configuration ContactTools Utf8
begin

text \<open>
  The data the components share: the enumerations stored in the database (chat type, blocking,
  contact origin, message state, view type, download state) with their discriminants, the header
  names, the rows of the tables as records, the events, and the context of an account with its
  tables.  A table is the list of its rows in \<open>rowid\<close> order, \<open>INSERT\<close> appends.  A column \<open>param\<close>
  holds a parsed parameter list; the round trip of printing and parsing is in \<^verbatim>\<open>Params\<close>.  The columns
  \<open>name_normalized\<close> and \<open>txt_normalized\<close>, which only serve searching, are left out.
\<close>

section \<open>Enumerations\<close>

datatype (plugins only: code size) Chattype =
  Single | Group | Mailinglist | OutBroadcast | InBroadcast

primrec Chattype_to_int :: "Chattype \<Rightarrow> nat" where
  "Chattype_to_int Single = 100"
| "Chattype_to_int Group = 120"
| "Chattype_to_int Mailinglist = 140"
| "Chattype_to_int OutBroadcast = 160"
| "Chattype_to_int InBroadcast = 165"

datatype Blocked = Not | Yes | Request

datatype (plugins only: code size) Origin =
  Unknown | MailinglistAddress | Hidden | IncomingUnknownFrom | IncomingUnknownCc
  | IncomingUnknownTo | UnhandledQrScan | UnhandledSecurejoinQrScan | IncomingReplyTo | IncomingCc
  | IncomingTo | CreateChat | OutgoingBcc | OutgoingCc | OutgoingTo | Internal | AddressBook
  | SecurejoinInvited | SecurejoinJoined | ManuallyCreated

primrec Origin_to_u32 :: "Origin \<Rightarrow> nat" where
  "Origin_to_u32 Unknown = 0"
| "Origin_to_u32 MailinglistAddress = 2"
| "Origin_to_u32 Hidden = 8"
| "Origin_to_u32 IncomingUnknownFrom = 16"
| "Origin_to_u32 IncomingUnknownCc = 32"
| "Origin_to_u32 IncomingUnknownTo = 64"
| "Origin_to_u32 UnhandledQrScan = 128"
| "Origin_to_u32 UnhandledSecurejoinQrScan = 129"
| "Origin_to_u32 IncomingReplyTo = 256"
| "Origin_to_u32 IncomingCc = 512"
| "Origin_to_u32 IncomingTo = 1024"
| "Origin_to_u32 CreateChat = 2048"
| "Origin_to_u32 OutgoingBcc = 4096"
| "Origin_to_u32 OutgoingCc = 8192"
| "Origin_to_u32 OutgoingTo = 16384"
| "Origin_to_u32 Internal = 262144"
| "Origin_to_u32 AddressBook = 524288"
| "Origin_to_u32 SecurejoinInvited = 16777216"
| "Origin_to_u32 SecurejoinJoined = 33554432"
| "Origin_to_u32 ManuallyCreated = 67108864"

instantiation Origin :: linorder
begin

definition less_eq_Origin :: "Origin \<Rightarrow> Origin \<Rightarrow> bool" where
  "less_eq_Origin a b \<longleftrightarrow> Origin_to_u32 a \<le> Origin_to_u32 b"

definition less_Origin :: "Origin \<Rightarrow> Origin \<Rightarrow> bool" where
  "less_Origin a b \<longleftrightarrow> Origin_to_u32 a < Origin_to_u32 b"

instance
proof
  fix a b :: Origin
  assume "a \<le> b" "b \<le> a"
  then have "Origin_to_u32 a = Origin_to_u32 b" by (simp add: less_eq_Origin_def)
  then show "a = b" by (cases a; cases b; simp)
qed (auto simp: less_eq_Origin_def less_Origin_def)

end

definition Origin_is_known :: "Origin \<Rightarrow> bool" where
  "Origin_is_known o1 \<longleftrightarrow> IncomingReplyTo \<le> o1"

datatype (plugins only: code size) MessageState =
  Undefined | InFresh | InNoticed | InSeen | OutDraft | OutPending | OutFailed | OutDelivered
  | OutMdnRcvd

primrec MessageState_to_int :: "MessageState \<Rightarrow> nat" where
  "MessageState_to_int Undefined = 0"
| "MessageState_to_int InFresh = 10"
| "MessageState_to_int InNoticed = 13"
| "MessageState_to_int InSeen = 16"
| "MessageState_to_int OutDraft = 19"
| "MessageState_to_int OutPending = 20"
| "MessageState_to_int OutFailed = 24"
| "MessageState_to_int OutDelivered = 26"
| "MessageState_to_int OutMdnRcvd = 28"

definition MessageState_can_fail :: "MessageState \<Rightarrow> bool" where
  "MessageState_can_fail s \<longleftrightarrow> s \<in> {OutPending, OutDelivered, OutMdnRcvd}"

definition MessageState_is_outgoing :: "MessageState \<Rightarrow> bool" where
  "MessageState_is_outgoing s \<longleftrightarrow> s \<in> {OutDraft, OutPending, OutFailed, OutDelivered, OutMdnRcvd}"

definition MessageState_with_mdns :: "MessageState \<Rightarrow> bool \<Rightarrow> MessageState" where
  "MessageState_with_mdns s has_mdns = (if s = OutDelivered \<and> has_mdns then OutMdnRcvd else s)"

datatype (plugins only: code size) Viewtype =
  Unknown | Text | Image | Gif | Sticker | Audio | Voice | Video | File | Call | Webxdc | Vcard

primrec Viewtype_to_int :: "Viewtype \<Rightarrow> nat" where
  "Viewtype_to_int Viewtype.Unknown = 0"
| "Viewtype_to_int Text = 10"
| "Viewtype_to_int Image = 20"
| "Viewtype_to_int Gif = 21"
| "Viewtype_to_int Sticker = 23"
| "Viewtype_to_int Audio = 40"
| "Viewtype_to_int Voice = 41"
| "Viewtype_to_int Video = 50"
| "Viewtype_to_int Viewtype.File = 60"
| "Viewtype_to_int Call = 71"
| "Viewtype_to_int Webxdc = 80"
| "Viewtype_to_int Vcard = 90"

text \<open>Reading the column: an integer without a view type is an error.\<close>

definition Viewtype_from_int :: "nat \<Rightarrow> Viewtype option" where
  "Viewtype_from_int n =
     map_of [(0, Viewtype.Unknown), (10, Text), (20, Image), (21, Gif), (23, Sticker), (40, Audio), (41, Voice),
       (50, Video), (60, Viewtype.File), (71, Call), (80, Webxdc), (90, Vcard)] n"

lemma Viewtype_from_to [simp]: "Viewtype_from_int (Viewtype_to_int v) = Some v"
  by (cases v) (simp_all add: Viewtype_from_int_def)

datatype (plugins only: code size) DownloadState =
  Done | Available | Failure | Undecipherable | InProgress

primrec DownloadState_to_int :: "DownloadState \<Rightarrow> nat" where
  "DownloadState_to_int Done = 0"
| "DownloadState_to_int Available = 10"
| "DownloadState_to_int Failure = 20"
| "DownloadState_to_int Undecipherable = 30"
| "DownloadState_to_int InProgress = 1000"

text \<open>The headers of a message (\<open>src/headerdef.rs\<close>).\<close>

datatype (plugins only: code size) HeaderDef =
  MessageId | Subject | Date | From_ | To | AutoSubmitted | Cc | Disposition | OriginalMessageId
  | AdditionalMessageIds | XMicrosoftOriginalMessageId | XMozillaDraftInfo | ListId | ListPost
  | ChatListId | ListHelp | References | InReplyTo | Precedence | ContentType | ContentId
  | ChatVersion | ChatGroupId | ChatGroupName | ChatGroupNameChanged | ChatGroupNameTimestamp
  | ChatGroupDescription | ChatGroupDescriptionChanged | ChatGroupDescriptionTimestamp
  | ChatVerified | ChatGroupAvatar | ChatUserAvatar | ChatVoiceMessage | ChatGroupMemberRemoved
  | ChatGroupMemberRemovedFpr | ChatGroupMemberAdded | ChatGroupMemberAddedFpr | ChatContent
  | ChatGroupPastMembers | ChatGroupMemberTimestamps | ChatGroupMemberFpr | ChatDuration
  | ChatDispositionNotificationTo | ChatWebrtcRoom | ChatWebrtcAccepted
  | ChatWebrtcHasVideoInitially | ChatDelete | ChatEdit | ChatBroadcastSecret | ChatPostMessageId
  | ChatPostMessageMetadata | ChatIsPostMessage | Autocrypt | AutocryptGossip | SecureJoin
  | SecureJoinGroup | SecureJoinFingerprint | SecureJoinInvitenumber | SecureJoinAuth | Sender
  | EphemeralTimer | Received | AuthenticationResults | IrohNodeAddr | IrohGossipTopic | HpOuter
  | TestHeader


section \<open>Identifiers\<close>

type_synonym chat_id = nat
type_synonym contact_id = nat
type_synonym msg_id = nat
type_synonym header_map = "HeaderDef \<Rightarrow> ustr option"

definition DC_CHAT_ID_TRASH :: chat_id where "DC_CHAT_ID_TRASH = 3"
definition DC_CHAT_ID_ARCHIVED_LINK :: chat_id where "DC_CHAT_ID_ARCHIVED_LINK = 6"
definition DC_CHAT_ID_LAST_SPECIAL :: chat_id where "DC_CHAT_ID_LAST_SPECIAL = 9"
definition DC_MSG_ID_LAST_SPECIAL :: msg_id where "DC_MSG_ID_LAST_SPECIAL = 9"
definition ContactId_UNDEFINED :: contact_id where "ContactId_UNDEFINED = 0"
definition ContactId_SELF :: contact_id where "ContactId_SELF = 1"
definition ContactId_INFO :: contact_id where "ContactId_INFO = 2"
definition ContactId_DEVICE :: contact_id where "ContactId_DEVICE = 5"
definition ContactId_LAST_SPECIAL :: contact_id where "ContactId_LAST_SPECIAL = 9"

lemmas id_defs [simp] = DC_CHAT_ID_TRASH_def DC_CHAT_ID_ARCHIVED_LINK_def DC_CHAT_ID_LAST_SPECIAL_def
  DC_MSG_ID_LAST_SPECIAL_def ContactId_UNDEFINED_def ContactId_SELF_def ContactId_INFO_def
  ContactId_DEVICE_def ContactId_LAST_SPECIAL_def

definition ChatId_is_special :: "chat_id \<Rightarrow> bool" where
  "ChatId_is_special c \<longleftrightarrow> c \<le> DC_CHAT_ID_LAST_SPECIAL"

definition ContactId_is_special :: "contact_id \<Rightarrow> bool" where
  "ContactId_is_special c \<longleftrightarrow> c \<le> ContactId_LAST_SPECIAL"

definition MsgId_is_special :: "msg_id \<Rightarrow> bool" where
  "MsgId_is_special m \<longleftrightarrow> m \<le> DC_MSG_ID_LAST_SPECIAL"

definition TIMESTAMP_SENT_TOLERANCE :: int where "TIMESTAMP_SENT_TOLERANCE = 60"


section \<open>Rows\<close>

record contact_row =
  c_id :: contact_id
  c_name :: ustr
  c_addr :: ustr
  c_fingerprint :: ustr
  c_origin :: Origin
  c_blocked :: bool
  c_last_seen :: int
  c_authname :: ustr
  c_param :: params
  c_verifier :: contact_id
  c_is_bot :: bool
  c_status :: ustr
  c_selfavatar_sent :: int

text \<open>A row with the column defaults of the schema.\<close>

definition contact_row0 :: "contact_id \<Rightarrow> contact_row" where
  "contact_row0 i = \<lparr>c_id = i, c_name = [], c_addr = [], c_fingerprint = [], c_origin = Origin.Unknown,
     c_blocked = False, c_last_seen = 0, c_authname = [], c_param = Params_new, c_verifier = 0,
     c_is_bot = False, c_status = [], c_selfavatar_sent = 0\<rparr>"

record chat_row =
  ch_id :: chat_id
  ch_type :: Chattype
  ch_name :: ustr
  ch_blocked :: Blocked
  ch_grpid :: ustr
  ch_param :: params
  ch_archived :: nat
  ch_muted_until :: int
  ch_ephemeral_timer :: "int option"
  ch_created_timestamp :: int
  ch_gossiped_timestamp :: int
  ch_protected :: bool
  ch_locations_send_begin :: int
  ch_locations_send_until :: int
  ch_locations_last_sent :: int

definition chat_row0 :: "chat_id \<Rightarrow> Chattype \<Rightarrow> chat_row" where
  "chat_row0 i t = \<lparr>ch_id = i, ch_type = t, ch_name = [], ch_blocked = Not, ch_grpid = [],
     ch_param = Params_new, ch_archived = 0, ch_muted_until = 0, ch_ephemeral_timer = None,
     ch_created_timestamp = 0, ch_gossiped_timestamp = 0, ch_protected = False, ch_locations_send_begin = 0,
     ch_locations_send_until = 0, ch_locations_last_sent = 0\<rparr>"

record cc_row =
  cc_chat :: chat_id
  cc_contact :: contact_id
  add_timestamp :: int
  remove_timestamp :: int

record msg_row =
  m_id :: msg_id
  m_rfc724_mid :: string
  m_pre_rfc724_mid :: string
  m_chat_id :: chat_id
  m_from_id :: contact_id
  m_to_id :: contact_id
  m_timestamp :: int
  m_timestamp_sent :: int
  m_timestamp_rcvd :: int
  m_type :: nat
  m_state :: MessageState
  m_hidden :: bool
  m_txt :: ustr
  m_param :: params
  m_ephemeral_timer :: int
  m_ephemeral_timestamp :: int
  m_location_id :: nat
  m_download_state :: nat
  m_deleted :: bool
  m_error :: ustr
  m_subject :: ustr
  m_in_reply_to :: string
  m_references :: string
  m_starred :: msg_id
  m_mime_modified :: bool
  m_msgrmsg :: nat

text \<open>A row with the column defaults of the schema.\<close>

definition msg_row0 :: "msg_id \<Rightarrow> msg_row" where
  "msg_row0 i = \<lparr>m_id = i, m_rfc724_mid = [], m_pre_rfc724_mid = [], m_chat_id = 0, m_from_id = 0,
     m_to_id = 0, m_timestamp = 0, m_timestamp_sent = 0, m_timestamp_rcvd = 0, m_type = 0,
     m_state = Undefined, m_hidden = False, m_txt = [], m_param = Params_new,
     m_ephemeral_timer = 0, m_ephemeral_timestamp = 0, m_location_id = 0, m_download_state = 0,
     m_deleted = False, m_error = [], m_subject = [], m_in_reply_to = [], m_references = [],
     m_starred = 0, m_mime_modified = False, m_msgrmsg = 1\<rparr>"

record imap_row =
  i_id :: nat
  i_transport_id :: nat
  i_folder :: string
  i_uid :: nat
  i_uidvalidity :: nat
  i_rfc724_mid :: string
  i_target :: string

record location_row =
  l_id :: nat
  l_independent :: bool
  l_timestamp :: int
  l_from_id :: contact_id
  l_chat_id :: chat_id

record token_row =
  tk_namespc :: nat
  tk_foreign_key :: ustr
  tk_token :: ustr
  tk_timestamp :: int

text \<open>The entered and the configured login parameters of a transport are stored as JSON texts.\<close>

record transport_row =
  t_id :: nat
  t_addr :: ustr
  t_entered_param :: ustr
  t_configured_param :: ustr
  t_add_timestamp :: int
  t_is_published :: bool

record smtp_row =
  sm_id :: nat
  sm_rfc724_mid :: string
  sm_recipients :: "ustr list"
  sm_mime :: string
  sm_msg_id :: msg_id
  sm_retries :: nat

record mdn_row =
  md_msg_id :: msg_id
  md_contact_id :: contact_id
  md_timestamp :: int

record reaction_row =
  r_msg_id :: msg_id
  r_contact_id :: contact_id
  r_reaction :: ustr

record smtp_mdn_row =
  sd_msg_id :: msg_id
  sd_from_id :: contact_id
  sd_rfc724_mid :: string
  sd_retries :: nat

record status_update_row =
  su_id :: nat
  su_msg_id :: msg_id
  su_update_item :: string
  su_uid :: "string option"

record smtp_status_update_row =
  ss_msg_id :: msg_id
  ss_first_serial :: nat
  ss_last_serial :: nat
  ss_descr :: ustr

record gossip_row =
  go_chat_id :: chat_id
  go_fingerprint :: ustr
  go_timestamp :: int


section \<open>Invitations\<close>

text \<open>\<^verbatim>\<open>src/securejoin/qrinvite.rs\<close>.\<close>

datatype (plugins only: code size) QrInvite =
  InviteContact (contact_id: contact_id) (fingerprint: ustr) (addrs: "ustr list")
    (invitenumber: ustr) (authcode: ustr) (is_v3: bool)
  | InviteGroup (contact_id: contact_id) (fingerprint: ustr) (addrs: "ustr list") (invite_name: ustr)
      (invite_grpid: ustr) (invitenumber: ustr) (authcode: ustr) (is_v3: bool)
  | InviteBroadcast (contact_id: contact_id) (fingerprint: ustr) (addrs: "ustr list") (invite_name: ustr)
      (invite_grpid: ustr) (invitenumber: ustr) (authcode: ustr) (is_v3: bool)

record bob_row =
  bo_id :: nat
  bo_invite :: QrInvite
  bo_chat_id :: chat_id


section \<open>Synchronisation of devices\<close>

text \<open>The items of \<^verbatim>\<open>src/sync.rs\<close> and the chat actions of \<^verbatim>\<open>src/chat.rs\<close> that devices of an account
  send to each other.\<close>

datatype Sync = Nosync | Sync

datatype ChatVisibility = VisNormal | VisArchived | VisPinned

datatype MuteDuration = NotMuted | MuteForever | MuteUntil int

datatype (plugins only: code size) SyncId =
  ContactAddr ustr | ContactFingerprint ustr | Grpid ustr | Msgids "string list" | SyncDevice

datatype (plugins only: code size) SyncAction =
  SyncBlock | SyncUnblock | SyncAccept | SetVisibility ChatVisibility | SetMuted MuteDuration
  | CreateOutBroadcast ustr ustr | CreateGroupEncrypted ustr | Rename ustr
  | SetContacts "ustr list" | SetPgpContacts "(ustr \<times> ustr) list" | SetDescription ustr | SyncDelete

record QrTokenData =
  qt_invitenumber :: ustr
  qt_auth :: ustr
  qt_grpid :: "ustr option"

record TransportData =
  td_addr :: ustr
  td_imap_folder :: "ustr option"
  td_configured :: ustr
  td_entered :: ustr
  td_timestamp :: int
  td_is_published :: bool

datatype (plugins only: code size) SyncData =
  AddQrToken QrTokenData | DeleteQrToken QrTokenData | AlterChat SyncId SyncAction
  | SyncConfig Config string | SaveMessage string string | DeleteMessages "string list"
  | SyncTransports "TransportData list" "(ustr \<times> int) list"

record SyncItem =
  si_timestamp :: int
  si_data :: SyncData


section \<open>Events and information messages\<close>

datatype (plugins only: code size) EventType =
  Info string
  | SmtpConnected string
  | ImapConnected string
  | SmtpMessageSent string
  | ImapMessageDeleted string
  | ImapMessageMoved string
  | ImapInboxIdle
  | NewBlobFile string
  | DeletedBlobFile string
  | Warning string
  | Error string
  | ErrorSelfNotInGroup string
  | MsgsChanged chat_id msg_id
  | ReactionsChanged chat_id msg_id contact_id
  | IncomingReaction chat_id contact_id msg_id ustr
  | IncomingWebxdcNotify chat_id contact_id msg_id ustr "ustr option"
  | IncomingMsg chat_id msg_id
  | IncomingMsgBunch
  | MsgsNoticed chat_id
  | MsgDelivered chat_id msg_id
  | MsgFailed chat_id msg_id
  | MsgRead chat_id msg_id
  | MsgReadCountChanged chat_id msg_id
  | MsgDeleted chat_id msg_id
  | ChatModified chat_id
  | ChatEphemeralTimerModified chat_id int
  | ChatDeleted chat_id
  | ContactsChanged "contact_id option"
  | LocationChanged "contact_id option"
  | ConfigureProgress nat "string option"
  | ImexProgress nat
  | ImexFileWritten string
  | SecurejoinInviterProgress contact_id chat_id Chattype nat
  | SecurejoinJoinerProgress contact_id nat
  | ConnectivityChanged
  | SelfavatarChanged
  | ConfigSynced Config
  | WebxdcStatusUpdate msg_id nat
  | WebxdcRealtimeData msg_id string
  | WebxdcRealtimeAdvertisementReceived msg_id
  | WebxdcInstanceDeleted msg_id
  | AccountsBackgroundFetchDone
  | ChatlistChanged
  | ChatlistItemChanged "chat_id option"
  | AccountsChanged
  | AccountsItemChanged
  | IncomingCall msg_id chat_id ustr bool
  | IncomingCallAccepted msg_id chat_id bool
  | OutgoingCallAccepted msg_id chat_id ustr
  | CallEnded msg_id chat_id
  | TransportsModified
  | EventChannelOverflow nat

text \<open>The texts that \<open>src/stock_str.rs\<close> renders in the user's language, by kind and arguments;
  \<open>EmptyMsg\<close> is the empty string, which marks a message for the trash.\<close>

datatype (plugins only: code size) StockMsg =
  EmptyMsg
  | MsgGroupLeft contact_id
  | MsgDelMember contact_id contact_id
  | MsgAddMember contact_id contact_id
  | MsgGrpName ustr ustr contact_id
  | MsgBroadcastNameChanged ustr ustr
  | MsgChatDescriptionChanged contact_id
  | MsgBroadcastImgChanged
  | MsgGrpImgDeleted contact_id
  | MsgGrpImgChanged contact_id
  | MessagesE2eeInfoMsg
  | NewGroupSendFirstMessage
  | ChatUnencryptedExplanation
  | SecureJoinStarted contact_id
  | SecureJoinBroadcastStarted contact_id
  | SecureJoinReplies contact_id
  | SecurejoinWaitMsg
  | MsgYouLeftBroadcast
  | SelfDeletedMsgBody
  | SelfMsg
  | DeviceMessages
  | DeviceMessagesHint
  | SavedMessages
  | ArchivedChats
  | UnencryptedEmail string
  | BroadcastIncompatibility
  | DonationRequest
  | SyncMsgSubject
  | SyncMsgBody
  | IncomingCallMsg bool
  | OutgoingCallMsg bool
  | CanceledCall
  | DeclinedCall
  | MissedCall
  | MsgYouJoinedBroadcast
  | MsgLocationEnabledBy contact_id
  | DraftMsg
  | ReplyNoun
  | ForwardedMsg
  | LocationMsg
  | MsgReacted ustr ustr ustr
  | ImageMsg
  | GifMsg
  | StickerMsg
  | VideoMsg
  | VoiceMessage
  | AudioMsg
  | FileMsg


section \<open>The context\<close>

text \<open>\<open>char::to_ascii_lowercase\<close>, \<open>char::to_ascii_uppercase\<close>.\<close>

definition to_ascii_lowercase :: "nat \<Rightarrow> nat" where
  "to_ascii_lowercase c = (if 65 \<le> c \<and> c \<le> 90 then c + 32 else c)"

definition to_ascii_uppercase :: "nat \<Rightarrow> nat" where
  "to_ascii_uppercase c = (if 97 \<le> c \<and> c \<le> 122 then c - 32 else c)"

text \<open>The tables of an account, with the last \<open>rowid\<close> handed out for tables declared \<open>AUTOINCREMENT\<close>, and
  what the operations leave for other tasks: the events, the interrupts of the SMTP, the inbox and the
  ephemeral loops.  The environment of an account is in the fields \<open>stock\<close>, which renders the texts of
  \<^verbatim>\<open>src/stock_str.rs\<close>, \<open>lower\<close> and \<open>upper\<close>, the Unicode case mappings, \<open>random_id\<close>, the source of random
  identifiers with the number \<open>random_used\<close> of them drawn so far, and \<open>generated_fingerprint\<close>, the
  fingerprint of the key that is generated when the account has none; \<open>login_json\<close> reads the address and the
  watched folder from the JSON forms of the entered and the configured login parameters, \<open>pseudo_param\<close> writes
  the JSON forms for a transport without servers, \<open>avatar_blob\<close> stores an image file as a blob and returns its
  name and its contents in base 64, and \<open>store_from_base64\<close> stores such contents and returns the path; \<open>parse_public_key\<close>
  reads an OpenPGP key and returns the relay addresses in its signature, if it has any.\<close>

record ctx =
  config :: config_state
  contacts :: "contact_row list"
  contacts_seq :: contact_id
  chats :: "chat_row list"
  chats_seq :: chat_id
  chats_contacts :: "cc_row list"
  chats_descriptions :: "chat_id \<rightharpoonup> ustr"
  broadcast_secrets :: "chat_id \<rightharpoonup> ustr"
  gossip_timestamp :: "gossip_row list"
  msgs :: "msg_row list"
  msgs_seq :: msg_id
  msgs_mdns :: "mdn_row list"
  reactions :: "reaction_row list"
  imap_tbl :: "imap_row list"
  smtp_tbl :: "smtp_row list"
  smtp_seq :: nat
  smtp_mdns :: "smtp_mdn_row list"
  imap_markseen :: "nat list"
  download_tbl :: "(string \<times> msg_id) list"
  available_post_msgs :: "string list"
  status_updates :: "status_update_row list"
  status_updates_seq :: nat
  smtp_status_updates :: "smtp_status_update_row list"
  debug_logging :: "msg_id option"
  locations :: "location_row list"
  locations_seq :: nat
  tokens :: "token_row list"
  bobstate :: "bob_row list"
  bobstate_seq :: nat
  multi_device_sync :: "(nat \<times> SyncItem) list"
  multi_device_sync_seq :: nat
  transports :: "transport_row list"
  transports_seq :: nat
  removed_transports :: "(ustr \<times> int) list"
  public_keys :: "ustr \<rightharpoonup> string"
  devmsglabels :: "string list"
  self_fingerprint :: "ustr option"
  generated_fingerprint :: ustr
  lower :: "ustr \<Rightarrow> ustr"
  upper :: "ustr \<Rightarrow> ustr"
  stock :: "StockMsg \<Rightarrow> ustr"
  random_id :: "nat \<Rightarrow> string"
  random_used :: nat
  login_json :: "ustr \<Rightarrow> ustr \<Rightarrow> (ustr \<times> ustr option) res"
  pseudo_param :: "ustr \<Rightarrow> ustr \<times> ustr"
  avatar_blob :: "string \<Rightarrow> (string \<times> string) res"
  store_from_base64 :: "string \<Rightarrow> string option res"
  parse_public_key :: "string \<Rightarrow> ustr list option res"
  events :: "EventType list"
  ephemeral_interrupts :: nat
  smtp_interrupts :: nat
  inbox_interrupts :: nat

definition ctx0 :: ctx where
  "ctx0 = \<lparr>config = config_state0, contacts = [], contacts_seq = 9, chats = [], chats_seq = 9,
     chats_contacts = [], chats_descriptions = Map.empty, broadcast_secrets = Map.empty,
     gossip_timestamp = [], msgs = [], msgs_seq = 9, msgs_mdns = [], reactions = [], imap_tbl = [],
     smtp_tbl = [], smtp_seq = 0, smtp_mdns = [], imap_markseen = [], download_tbl = [], available_post_msgs = [],
     status_updates = [], status_updates_seq = 0, smtp_status_updates = [], debug_logging = None, locations = [], locations_seq = 0, tokens = [], bobstate = [],
     bobstate_seq = 0, multi_device_sync = [], multi_device_sync_seq = 0, transports = [], transports_seq = 0,
     removed_transports = [], public_keys = Map.empty, devmsglabels = [], self_fingerprint = None,
     generated_fingerprint = replicate 40 48, lower = map to_ascii_lowercase, upper = map to_ascii_uppercase, stock = (\<lambda>_. []),
     random_id = show_nat, random_used = 0, login_json = (\<lambda>_ _. Inl ''JSON''), pseudo_param = (\<lambda>a. (a, a)),
     avatar_blob = (\<lambda>p. Inr (p, [])), store_from_base64 = (\<lambda>v. Inr (Some v)), parse_public_key = (\<lambda>_. Inr None), events = [], ephemeral_interrupts = 0, smtp_interrupts = 0,
     inbox_interrupts = 0\<rparr>"

definition emit_event :: "EventType \<Rightarrow> ctx \<Rightarrow> ctx" where
  "emit_event e s = s\<lparr>events := events s @ [e]\<rparr>"

lemma emit_event_fields [simp]:
  "config (emit_event e s) = config s" "contacts (emit_event e s) = contacts s"
  "contacts_seq (emit_event e s) = contacts_seq s" "chats (emit_event e s) = chats s"
  "chats_seq (emit_event e s) = chats_seq s" "chats_contacts (emit_event e s) = chats_contacts s"
  "chats_descriptions (emit_event e s) = chats_descriptions s"
  "broadcast_secrets (emit_event e s) = broadcast_secrets s"
  "gossip_timestamp (emit_event e s) = gossip_timestamp s" "msgs (emit_event e s) = msgs s"
  "msgs_seq (emit_event e s) = msgs_seq s" "msgs_mdns (emit_event e s) = msgs_mdns s"
  "reactions (emit_event e s) = reactions s" "imap_tbl (emit_event e s) = imap_tbl s"
  "smtp_tbl (emit_event e s) = smtp_tbl s" "smtp_seq (emit_event e s) = smtp_seq s"
  "locations (emit_event e s) = locations s" "locations_seq (emit_event e s) = locations_seq s"
  "tokens (emit_event e s) = tokens s" "bobstate (emit_event e s) = bobstate s"
  "bobstate_seq (emit_event e s) = bobstate_seq s"
  "multi_device_sync (emit_event e s) = multi_device_sync s"
  "multi_device_sync_seq (emit_event e s) = multi_device_sync_seq s"
  "transports (emit_event e s) = transports s" "transports_seq (emit_event e s) = transports_seq s"
  "removed_transports (emit_event e s) = removed_transports s"
  "public_keys (emit_event e s) = public_keys s" "self_fingerprint (emit_event e s) = self_fingerprint s"
  "devmsglabels (emit_event e s) = devmsglabels s"
  "generated_fingerprint (emit_event e s) = generated_fingerprint s"
  "lower (emit_event e s) = lower s" "upper (emit_event e s) = upper s"
  "stock (emit_event e s) = stock s" "random_id (emit_event e s) = random_id s"
  "random_used (emit_event e s) = random_used s"
  "login_json (emit_event e s) = login_json s"
  "pseudo_param (emit_event e s) = pseudo_param s"
  "avatar_blob (emit_event e s) = avatar_blob s"
  "store_from_base64 (emit_event e s) = store_from_base64 s"
  "parse_public_key (emit_event e s) = parse_public_key s"
  "ephemeral_interrupts (emit_event e s) = ephemeral_interrupts s"
  "smtp_mdns (emit_event e s) = smtp_mdns s"
  "imap_markseen (emit_event e s) = imap_markseen s"
  "download_tbl (emit_event e s) = download_tbl s"
  "available_post_msgs (emit_event e s) = available_post_msgs s"
  "status_updates (emit_event e s) = status_updates s"
  "status_updates_seq (emit_event e s) = status_updates_seq s"
  "smtp_status_updates (emit_event e s) = smtp_status_updates s"
  "debug_logging (emit_event e s) = debug_logging s"
  "inbox_interrupts (emit_event e s) = inbox_interrupts s"
  "smtp_interrupts (emit_event e s) = smtp_interrupts s" "events (emit_event e s) = events s @ [e]"
  by (simp_all add: emit_event_def)

text \<open>\<open>ChatIdBlocked::lookup_by_contact\<close>: the first row of the join of \<open>chats\<close> and \<open>chats_contacts\<close>.\<close>

definition lookup_by_contact :: "ctx \<Rightarrow> contact_id \<Rightarrow> (chat_id \<times> Blocked) option" where
  "lookup_by_contact s contact =
     map_option (\<lambda>c. (ch_id c, ch_blocked c))
       (sel_one (\<lambda>c. ch_type c = Single \<and> ch_id c > DC_CHAT_ID_LAST_SPECIAL
          \<and> list_ex (\<lambda>j. cc_chat j = ch_id c \<and> cc_contact j = contact) (chats_contacts s)) (chats s))"

text \<open>\<open>get_all_self_addrs\<close> orders by \<open>add_timestamp\<close> descending, then \<open>id\<close> descending.\<close>

definition get_all_self_addrs :: "ctx \<Rightarrow> ustr list" where
  "get_all_self_addrs s =
     map t_addr (rev (sort_key t_add_timestamp (sort_key t_id (transports s))))"

definition is_self_addr :: "(ustr \<Rightarrow> ustr) \<Rightarrow> ctx \<Rightarrow> ustr \<Rightarrow> bool" where
  "is_self_addr lc s addr \<longleftrightarrow>
     addr \<noteq> [] \<and> addr_cmp lc addr (case get_config (config s) ConfiguredAddr of
                                     Some a \<Rightarrow> utf8_decode a | None \<Rightarrow> [])
     \<or> list_ex (addr_cmp lc addr) (get_all_self_addrs s)"

text \<open>\<open>Context::is_configured\<close>.\<close>

definition is_configured :: "ctx \<Rightarrow> bool" where
  "is_configured s \<longleftrightarrow> transports s \<noteq> []"

text \<open>\<open>create_id\<close> and \<open>create_outgoing_rfc724_mid\<close>, with the next random identifier.\<close>

definition create_id :: "ctx \<Rightarrow> string \<times> ctx" where
  "create_id s = (random_id s (random_used s), s\<lparr>random_used := Suc (random_used s)\<rparr>)"

definition create_outgoing_rfc724_mid :: "ctx \<Rightarrow> string \<times> ctx" where
  "create_outgoing_rfc724_mid s =
     (random_id s (random_used s) @ ''@localhost'', s\<lparr>random_used := Suc (random_used s)\<rparr>)"

definition interrupt_inbox :: "ctx \<Rightarrow> ctx" where
  "interrupt_inbox s = s\<lparr>inbox_interrupts := Suc (inbox_interrupts s)\<rparr>"

definition interrupt_smtp :: "ctx \<Rightarrow> ctx" where
  "interrupt_smtp s = s\<lparr>smtp_interrupts := Suc (smtp_interrupts s)\<rparr>"

text \<open>\<^verbatim>\<open>src/context.rs\<close> and \<^verbatim>\<open>src/chatlist_events.rs\<close>: the events that changes of messages emit.\<close>

definition emit_chatlist_changed :: "ctx \<Rightarrow> ctx" where
  "emit_chatlist_changed s = emit_event ChatlistChanged s"

definition emit_chatlist_item_changed :: "chat_id \<Rightarrow> ctx \<Rightarrow> ctx" where
  "emit_chatlist_item_changed chat s = emit_event (ChatlistItemChanged (Some chat)) s"

definition emit_msgs_changed_without_ids :: "ctx \<Rightarrow> ctx" where
  "emit_msgs_changed_without_ids s = emit_event (MsgsChanged 0 0) s"

definition emit_msgs_changed :: "chat_id \<Rightarrow> msg_id \<Rightarrow> ctx \<Rightarrow> ctx" where
  "emit_msgs_changed chat msg s =
     emit_chatlist_item_changed chat (emit_chatlist_changed (emit_event (MsgsChanged chat msg) s))"

definition emit_msgs_changed_without_msg_id :: "chat_id \<Rightarrow> ctx \<Rightarrow> ctx" where
  "emit_msgs_changed_without_msg_id chat s =
     emit_chatlist_item_changed chat (emit_chatlist_changed (emit_event (MsgsChanged chat 0) s))"

definition emit_incoming_msg :: "chat_id \<Rightarrow> msg_id \<Rightarrow> ctx \<Rightarrow> ctx" where
  "emit_incoming_msg chat msg s =
     emit_chatlist_item_changed chat (emit_chatlist_changed (emit_event (IncomingMsg chat msg) s))"

definition emit_location_changed :: "contact_id option \<Rightarrow> ctx \<Rightarrow> ctx" where
  "emit_location_changed contact s =
     (let s' = emit_event (LocationChanged contact) s
      in case Option.bind (get_config (config s) Config.WebxdcIntegration) (parse_int 0 u32_max) of
           Some msg \<Rightarrow> emit_event (WebxdcStatusUpdate (nat msg) 0) s'
         | None \<Rightarrow> s')"

lemmas emit_defs [simp] = emit_chatlist_changed_def emit_chatlist_item_changed_def emit_msgs_changed_without_ids_def
  emit_msgs_changed_def emit_msgs_changed_without_msg_id_def emit_incoming_msg_def

end
