(* ===== verification/Merge.thy ===== *)
theory Merge
  imports Main
begin

text \<open>
  Replicated state that merges: every message contributes a value, and processing it joins that value
  into the abstract state.  When the join is associative, commutative and idempotent, the outcome
  depends neither on the order in which messages arrive nor on duplicates.  The group membership
  table, the group name and the group description are interpreted as instances.
\<close>

locale merge_state =
  fixes join :: "'l \<Rightarrow> 'l \<Rightarrow> 'l"
    and step :: "'e \<Rightarrow> 's \<Rightarrow> 's"
    and val :: "'e \<Rightarrow> 'l"
    and abs :: "'s \<Rightarrow> 'l"
    and valid :: "'e \<Rightarrow> bool"
    and inv :: "'s \<Rightarrow> bool"
  assumes join_assoc: "join (join x y) z = join x (join y z)"
    and join_comm: "join x y = join y x"
    and join_idem: "join x x = x"
    and step_abs: "valid e \<Longrightarrow> inv s \<Longrightarrow> abs (step e s) = join (val e) (abs s)"
    and step_inv: "valid e \<Longrightarrow> inv s \<Longrightarrow> inv (step e s)"
begin

lemma join_left_comm: "join x (join y z) = join y (join x z)"
  by (metis join_assoc join_comm)

lemma join_left_idem: "join x (join x y) = join x y"
  by (metis join_assoc join_idem)

lemma abs_fold:
  "list_all valid es \<Longrightarrow> inv s \<Longrightarrow> abs (fold step es s) = fold (\<lambda>e. join (val e)) es (abs s)"
  by (induction es arbitrary: s) (simp_all add: step_abs step_inv)

lemma inv_fold: "list_all valid es \<Longrightarrow> inv s \<Longrightarrow> inv (fold step es s)"
  by (induction es arbitrary: s) (simp_all add: step_inv)

end

sublocale merge_state \<subseteq> acc: comp_fun_idem "\<lambda>e. join (val e)"
  by unfold_locales (simp_all add: fun_eq_iff join_left_comm join_left_idem)

context merge_state
begin

lemma order_irrelevant:
  assumes "set es = set es'" "list_all valid es" "inv s"
  shows "abs (fold step es s) = abs (fold step es' s)"
proof -
  have "list_all valid es'" using assms by (simp add: list_all_iff)
  moreover have "fold (\<lambda>e. join (val e)) es x = fold (\<lambda>e. join (val e)) es' x" for x
    using acc.fold_set_fold [where xs = es and y = x] acc.fold_set_fold [where xs = es' and y = x]
      assms(1) by simp
  ultimately show ?thesis using assms(2,3) by (simp add: abs_fold)
qed

lemma replay:
  "list_all valid es \<Longrightarrow> inv s \<Longrightarrow> set ds \<subseteq> set es \<Longrightarrow> abs (fold step ds (fold step es s)) = abs (fold step es s)"
proof -
  assume "list_all valid es" "inv s" "set ds \<subseteq> set es"
  then have "abs (fold step (es @ ds) s) = abs (fold step es s)"
    by (intro order_irrelevant) (auto simp: list_all_iff)
  then show ?thesis by simp
qed

end

text \<open>With a neutral element the contributions can be joined on their own first.\<close>

locale merge_bot = merge_state +
  fixes bot :: 'a
  assumes join_bot: "join bot x = x"
begin

lemma fold_join_start: "fold (\<lambda>e. join (val e)) es x = join (fold (\<lambda>e. join (val e)) es bot) x"
proof (induction es arbitrary: x)
  case Nil
  show ?case by (simp add: join_bot)
next
  case (Cons e es)
  have "fold (\<lambda>e. join (val e)) es (join (val e) x)
        = join (fold (\<lambda>e. join (val e)) es bot) (join (val e) x)"
    by (rule Cons.IH)
  also have "\<dots> = join (join (fold (\<lambda>e. join (val e)) es bot) (val e)) x"
    by (simp add: join_assoc)
  also have "join (fold (\<lambda>e. join (val e)) es bot) (val e) = fold (\<lambda>e. join (val e)) es (join (val e) bot)"
    using Cons.IH [of "val e"] by (metis join_bot join_comm)
  finally show ?case by simp
qed

lemma abs_fold_join:
  "list_all valid es \<Longrightarrow> inv s \<Longrightarrow> abs (fold step es s) = join (fold (\<lambda>e. join (val e)) es bot) (abs s)"
  by (simp add: abs_fold fold_join_start [symmetric])

end

end
