(* ===== verification/Membership.thy ===== *)
theory Membership
  imports Store Merge
begin

text \<open>
  Group membership: the operations of \<^verbatim>\<open>src/chat.rs\<close> on the table \<open>chats_contacts\<close> and
  \<open>update_chats_contacts_timestamps\<close> of \<^verbatim>\<open>src/receive_imf.rs\<close>, which merges the member list of an
  incoming message.  A row holds the times of the last addition and the last removal; a contact is a
  member while the addition is not older.  The lemmas show that merging refines a last-writer-wins
  register per member, so that devices which received the same messages agree on the members, and
  that the local operations establish the membership they are called for.
\<close>

section \<open>The member table\<close>

definition cc_is :: "chat_id \<Rightarrow> contact_id \<Rightarrow> cc_row \<Rightarrow> bool" where
  "cc_is chat contact r \<longleftrightarrow> cc_chat r = chat \<and> cc_contact r = contact"

definition cc_find :: "cc_row list \<Rightarrow> chat_id \<Rightarrow> contact_id \<Rightarrow> cc_row option" where
  "cc_find t chat contact = sel_one (cc_is chat contact) t"

text \<open>\<open>INSERT .. ON CONFLICT (chat_id, contact_id) DO UPDATE SET .. WHERE ..\<close>: the flag tells whether
  a row was changed.\<close>

definition cc_upsert ::
  "cc_row \<Rightarrow> (cc_row \<Rightarrow> bool) \<Rightarrow> (cc_row \<Rightarrow> cc_row) \<Rightarrow> cc_row list \<Rightarrow> bool \<times> cc_row list" where
  "cc_upsert new cond upd t =
     (case cc_find t (cc_chat new) (cc_contact new) of
        None \<Rightarrow> (True, t @ [new])
      | Some r \<Rightarrow> if cond r then (True, upd_where (cc_is (cc_chat new) (cc_contact new)) upd t)
                 else (False, t))"

definition new_add :: "chat_id \<Rightarrow> contact_id \<Rightarrow> int \<Rightarrow> cc_row" where
  "new_add chat contact ts =
     \<lparr>cc_chat = chat, cc_contact = contact, add_timestamp = ts, remove_timestamp = 0\<rparr>"

definition new_remove :: "chat_id \<Rightarrow> contact_id \<Rightarrow> int \<Rightarrow> cc_row" where
  "new_remove chat contact ts =
     \<lparr>cc_chat = chat, cc_contact = contact, add_timestamp = 0, remove_timestamp = ts\<rparr>"

definition is_member_row :: "cc_row \<Rightarrow> bool" where
  "is_member_row r \<longleftrightarrow> add_timestamp r \<ge> remove_timestamp r"

definition is_contact_in_chat :: "cc_row list \<Rightarrow> chat_id \<Rightarrow> contact_id \<Rightarrow> bool" where
  "is_contact_in_chat t chat contact \<longleftrightarrow>
     list_ex (\<lambda>r. cc_is chat contact r \<and> is_member_row r) t"


section \<open>Local changes\<close>

definition update_chat_contacts_table ::
  "int \<Rightarrow> chat_id \<Rightarrow> contact_id list \<Rightarrow> cc_row list \<Rightarrow> cc_row list" where
  "update_chat_contacts_table timestamp chat cs t =
     fold (\<lambda>c t. snd (cc_upsert (new_add chat c timestamp) (\<lambda>r. True)
                        (\<lambda>r. r\<lparr>add_timestamp := remove_timestamp r\<rparr>) t)) cs
       (upd_where (\<lambda>r. cc_chat r = chat)
          (\<lambda>r. r\<lparr>remove_timestamp := max (add_timestamp r + 1) timestamp\<rparr>) t)"

definition add_to_chat_contacts_table ::
  "int \<Rightarrow> chat_id \<Rightarrow> contact_id list \<Rightarrow> cc_row list \<Rightarrow> cc_row list" where
  "add_to_chat_contacts_table timestamp chat cs t =
     fold (\<lambda>c t. snd (cc_upsert (new_add chat c timestamp) (\<lambda>r. True)
                        (\<lambda>r. r\<lparr>add_timestamp := max (remove_timestamp r) timestamp\<rparr>) t)) cs t"

definition remove_from_chat_contacts_table ::
  "int \<Rightarrow> chat_id \<Rightarrow> contact_id \<Rightarrow> cc_row list \<Rightarrow> bool \<times> cc_row list" where
  "remove_from_chat_contacts_table now chat contact t =
     (list_ex (cc_is chat contact) t,
      upd_where (cc_is chat contact)
        (\<lambda>r. r\<lparr>remove_timestamp := max (add_timestamp r + 1) now\<rparr>) t)"

definition remove_from_chat_contacts_table_without_trace ::
  "chat_id \<Rightarrow> contact_id \<Rightarrow> cc_row list \<Rightarrow> bool \<times> cc_row list" where
  "remove_from_chat_contacts_table_without_trace chat contact t =
     (list_ex (cc_is chat contact) t, del_where (cc_is chat contact) t)"


section \<open>Merging a received member list\<close>

text \<open>The two prepared statements of \<open>update_chats_contacts_timestamps\<close>.\<close>

definition add_statement :: "chat_id \<Rightarrow> contact_id \<Rightarrow> int \<Rightarrow> cc_row list \<Rightarrow> bool \<times> cc_row list" where
  "add_statement chat contact ts =
     cc_upsert (new_add chat contact ts)
       (\<lambda>r. ts > add_timestamp r \<and> ts \<ge> remove_timestamp r) (\<lambda>r. r\<lparr>add_timestamp := ts\<rparr>)"

definition remove_statement :: "chat_id \<Rightarrow> contact_id \<Rightarrow> int \<Rightarrow> cc_row list \<Rightarrow> bool \<times> cc_row list" where
  "remove_statement chat contact ts =
     cc_upsert (new_remove chat contact ts)
       (\<lambda>r. ts > remove_timestamp r \<and> ts > add_timestamp r) (\<lambda>r. r\<lparr>remove_timestamp := ts\<rparr>)"

fun run_statement ::
  "(contact_id \<Rightarrow> int \<Rightarrow> cc_row list \<Rightarrow> bool \<times> cc_row list) \<Rightarrow> contact_id option
   \<Rightarrow> contact_id option \<times> int \<Rightarrow> bool \<times> cc_row list \<Rightarrow> bool \<times> cc_row list" where
  "run_statement stmt ignored (None, ts) (modified, t) = (modified, t)"
| "run_statement stmt ignored (Some c, ts) (modified, t) =
     (if Some c = ignored then (modified, t)
      else let (m, t') = stmt c ts t in (modified \<or> m, t'))"

definition update_chats_contacts_timestamps ::
  "chat_id \<Rightarrow> contact_id option \<Rightarrow> contact_id option list \<Rightarrow> contact_id option list \<Rightarrow> int list
   \<Rightarrow> cc_row list \<Rightarrow> bool \<times> cc_row list" where
  "update_chats_contacts_timestamps chat ignored to_ids past_ids timestamps t =
     (if length timestamps \<noteq> length to_ids + length past_ids then (False, t)
      else
        fold (run_statement (remove_statement chat) None)
             (zip past_ids (drop (length to_ids) timestamps))
          (fold (run_statement (add_statement chat) ignored)
             (zip to_ids (take (length to_ids) timestamps)) (False, t)))"


section \<open>Last writer wins\<close>

type_synonym reg = "int \<times> bool"

definition reg_le :: "reg \<Rightarrow> reg \<Rightarrow> bool" where
  "reg_le x y \<longleftrightarrow> fst x < fst y \<or> fst x = fst y \<and> (snd x \<longrightarrow> snd y)"

fun reg_join :: "reg option \<Rightarrow> reg option \<Rightarrow> reg option" where
  "reg_join None y = y"
| "reg_join x None = x"
| "reg_join (Some x) (Some y) = Some (if reg_le x y then y else x)"

definition row_reg :: "cc_row \<Rightarrow> reg" where
  "row_reg r = (max (add_timestamp r) (remove_timestamp r), is_member_row r)"

definition cc_abs :: "cc_row list \<Rightarrow> chat_id \<times> contact_id \<Rightarrow> reg option" where
  "cc_abs t k = map_option row_reg (cc_find t (fst k) (snd k))"

lemma reg_join_None2 [simp]: "reg_join x None = x"
  by (cases x) simp_all

lemma reg_join_comm: "reg_join x y = reg_join y x"
  by (cases x; cases y) (auto simp: reg_le_def prod_eq_iff)

lemma reg_join_assoc: "reg_join (reg_join x y) z = reg_join x (reg_join y z)"
  by (cases x; cases y; cases z) (auto simp: reg_le_def prod_eq_iff)

lemma reg_join_idem [simp]: "reg_join x x = x"
  by (cases x) simp_all

text \<open>An upsert at the level of lookups.\<close>

lemma sel_one_upd_where_key:
  assumes "\<And>r. cc_chat (upd r) = cc_chat r" "\<And>r. cc_contact (upd r) = cc_contact r"
  shows "cc_find (upd_where (cc_is chat c) upd t) chat' c'
    = (if chat' = chat \<and> c' = c then map_option upd (cc_find t chat c) else cc_find t chat' c')"
  by (induction t) (auto simp: cc_find_def cc_is_def assms)

lemma cc_find_append: "cc_find (t @ u) chat c = (case cc_find t chat c of None \<Rightarrow> cc_find u chat c | Some r \<Rightarrow> Some r)"
  unfolding cc_find_def by (rule sel_one_append)

lemma cc_find_upsert:
  assumes "\<And>r. cc_chat (upd r) = cc_chat r" "\<And>r. cc_contact (upd r) = cc_contact r"
  shows "cc_find (snd (cc_upsert new cond upd t)) chat c
    = (if chat = cc_chat new \<and> c = cc_contact new
       then Some (case cc_find t chat c of None \<Rightarrow> new | Some r \<Rightarrow> if cond r then upd r else r)
       else cc_find t chat c)"
  by (auto simp: cc_upsert_def cc_find_append sel_one_upd_where_key assms split: option.splits)
    (auto simp: cc_find_def cc_is_def)

datatype entry = Entry chat_id contact_id int bool

primrec entry_step :: "entry \<Rightarrow> cc_row list \<Rightarrow> cc_row list" where
  "entry_step (Entry chat c ts added) t =
     snd ((if added then add_statement else remove_statement) chat c ts t)"

primrec entry_val :: "entry \<Rightarrow> chat_id \<times> contact_id \<Rightarrow> reg option" where
  "entry_val (Entry chat c ts added) = (\<lambda>k. if k = (chat, c) then Some (ts, added) else None)"

primrec entry_valid :: "entry \<Rightarrow> bool" where
  "entry_valid (Entry chat c ts added) \<longleftrightarrow> ts > 0"

definition reg_joins ::
  "(chat_id \<times> contact_id \<Rightarrow> reg option) \<Rightarrow> (chat_id \<times> contact_id \<Rightarrow> reg option)
   \<Rightarrow> chat_id \<times> contact_id \<Rightarrow> reg option" where
  "reg_joins f g = (\<lambda>k. reg_join (f k) (g k))"

text \<open>Each statement joins its time stamp into the register of its member.\<close>

lemma row_reg_add:
  "Some (row_reg (if ts > add_timestamp r \<and> ts \<ge> remove_timestamp r then r\<lparr>add_timestamp := ts\<rparr> else r))
   = reg_join (Some (ts, True)) (Some (row_reg r))"
  by (auto simp: row_reg_def is_member_row_def reg_le_def)

lemma row_reg_remove:
  "Some (row_reg (if ts > remove_timestamp r \<and> ts > add_timestamp r then r\<lparr>remove_timestamp := ts\<rparr> else r))
   = reg_join (Some (ts, False)) (Some (row_reg r))"
  by (auto simp: row_reg_def is_member_row_def reg_le_def)

lemma row_reg_new:
  "ts > 0 \<Longrightarrow> row_reg (new_add chat c ts) = (ts, True)"
  "ts > 0 \<Longrightarrow> row_reg (new_remove chat c ts) = (ts, False)"
  by (simp_all add: row_reg_def is_member_row_def new_add_def new_remove_def)

lemma cc_find_add_statement:
  "cc_find (snd (add_statement chat c ts t)) chat' c'
   = (if chat' = chat \<and> c' = c
      then Some (case cc_find t chat c of None \<Rightarrow> new_add chat c ts
           | Some r \<Rightarrow> if ts > add_timestamp r \<and> ts \<ge> remove_timestamp r
                      then r\<lparr>add_timestamp := ts\<rparr> else r)
      else cc_find t chat' c')"
  by (simp add: add_statement_def cc_find_upsert new_add_def cong: option.case_cong)

lemma cc_find_remove_statement:
  "cc_find (snd (remove_statement chat c ts t)) chat' c'
   = (if chat' = chat \<and> c' = c
      then Some (case cc_find t chat c of None \<Rightarrow> new_remove chat c ts
           | Some r \<Rightarrow> if ts > remove_timestamp r \<and> ts > add_timestamp r
                      then r\<lparr>remove_timestamp := ts\<rparr> else r)
      else cc_find t chat' c')"
  by (simp add: remove_statement_def cc_find_upsert new_remove_def cong: option.case_cong)

lemma entry_step_abs:
  assumes "entry_valid e"
  shows "cc_abs (entry_step e t) = reg_joins (entry_val e) (cc_abs t)"
proof
  fix k :: "chat_id \<times> contact_id"
  obtain chat c ts added where e: "e = Entry chat c ts added" by (cases e)
  show "cc_abs (entry_step e t) k = reg_joins (entry_val e) (cc_abs t) k"
  proof (cases "k = (chat, c)")
    case False
    then show ?thesis
      by (cases k) (auto simp: e cc_abs_def reg_joins_def cc_find_add_statement cc_find_remove_statement)
  next
    case True
    show ?thesis
    proof (cases "cc_find t chat c")
      case None
      with assms True show ?thesis
        by (simp add: e cc_abs_def reg_joins_def cc_find_add_statement cc_find_remove_statement row_reg_new)
    next
      case (Some r)
      with True show ?thesis
        unfolding e cc_abs_def reg_joins_def
        by (cases added) (simp_all only: entry_step.simps entry_val.simps if_True if_False fst_conv snd_conv
          cc_find_add_statement cc_find_remove_statement option.case option.map row_reg_add
          row_reg_remove simp_thms)
    qed
  qed
qed

section \<open>Uniqueness of rows\<close>

text \<open>The unique index on \<open>(chat_id, contact_id)\<close>.\<close>

definition cc_unique :: "cc_row list \<Rightarrow> bool" where
  "cc_unique t \<longleftrightarrow> distinct (map (\<lambda>r. (cc_chat r, cc_contact r)) t)"

lemma cc_unique_Nil: "cc_unique []"
  by (simp add: cc_unique_def)

lemma cc_find_None: "cc_find t chat c = None \<longleftrightarrow> (chat, c) \<notin> (\<lambda>r. (cc_chat r, cc_contact r)) ` set t"
  by (auto simp: cc_find_def sel_one_None cc_is_def)

lemma cc_unique_upd_where:
  assumes "\<And>r. cc_chat (upd r) = cc_chat r" "\<And>r. cc_contact (upd r) = cc_contact r"
  shows "cc_unique (upd_where P upd t) = cc_unique t"
  by (simp add: cc_unique_def map_upd_where_key assms)

lemma cc_unique_upsert:
  assumes "\<And>r. cc_chat (upd r) = cc_chat r" "\<And>r. cc_contact (upd r) = cc_contact r" "cc_unique t"
  shows "cc_unique (snd (cc_upsert new cond upd t))"
proof (cases "cc_find t (cc_chat new) (cc_contact new)")
  case None
  then have "(cc_chat new, cc_contact new) \<notin> (\<lambda>r. (cc_chat r, cc_contact r)) ` set t"
    by (simp only: cc_find_None) simp
  with None assms(3) show ?thesis by (simp add: cc_upsert_def cc_unique_def)
next
  case (Some r)
  with assms show ?thesis by (simp add: cc_upsert_def cc_unique_upd_where)
qed

lemma cc_unique_entry_step: "cc_unique t \<Longrightarrow> cc_unique (entry_step e t)"
  by (cases e) (simp add: add_statement_def remove_statement_def cc_unique_upsert)

lemma is_contact_in_chat_find:
  "cc_unique t \<Longrightarrow> is_contact_in_chat t chat c \<longleftrightarrow> (\<exists>r. cc_find t chat c = Some r \<and> is_member_row r)"
proof (induction t)
  case Nil
  show ?case by (simp add: is_contact_in_chat_def cc_find_def)
next
  case (Cons r t)
  then have "cc_unique t" by (simp add: cc_unique_def)
  moreover have "cc_is chat c r \<Longrightarrow> \<not> is_contact_in_chat t chat c"
    using Cons.prems by (auto simp: cc_unique_def is_contact_in_chat_def cc_is_def list_ex_iff image_iff)
  ultimately show ?case
    using Cons.IH by (auto simp: is_contact_in_chat_def cc_find_def)
qed

lemma is_contact_in_chat_abs:
  "cc_unique t \<Longrightarrow> is_contact_in_chat t chat c \<longleftrightarrow> (\<exists>ts. cc_abs t (chat, c) = Some (ts, True))"
  by (auto simp: is_contact_in_chat_find cc_abs_def row_reg_def)


section \<open>Merging\<close>

interpretation ent: merge_bot reg_joins entry_step entry_val cc_abs entry_valid cc_unique "\<lambda>k. None"
proof (unfold_locales, goal_cases)
  case (1 x y z)
  show ?case by (simp add: reg_joins_def reg_join_assoc)
next
  case (2 x y)
  show ?case by (simp add: reg_joins_def reg_join_comm)
qed (simp_all add: reg_joins_def entry_step_abs cc_unique_entry_step)


section \<open>Whole messages\<close>

record member_msg =
  mm_chat :: chat_id
  mm_from :: "contact_id option"
  mm_to :: "contact_id option list"
  mm_past :: "contact_id option list"
  mm_timestamps :: "int list"

definition process_members :: "member_msg \<Rightarrow> cc_row list \<Rightarrow> cc_row list" where
  "process_members m t =
     snd (update_chats_contacts_timestamps (mm_chat m) (mm_from m) (mm_to m) (mm_past m)
            (mm_timestamps m) t)"

text \<open>What a message says: the additions and removals with their times.\<close>

definition listed :: "chat_id \<Rightarrow> contact_id option \<Rightarrow> bool \<Rightarrow> (contact_id option \<times> int) list \<Rightarrow> entry list" where
  "listed chat ignored added ps =
     map (\<lambda>(c, ts). Entry chat (the c) ts added) (filter (\<lambda>(c, ts). c \<noteq> None \<and> c \<noteq> ignored) ps)"

definition msg_entries :: "member_msg \<Rightarrow> entry list" where
  "msg_entries m =
     (if length (mm_timestamps m) \<noteq> length (mm_to m) + length (mm_past m) then []
      else listed (mm_chat m) (mm_from m) True (zip (mm_to m) (take (length (mm_to m)) (mm_timestamps m)))
         @ listed (mm_chat m) None False (zip (mm_past m) (drop (length (mm_to m)) (mm_timestamps m))))"

definition valid_msg :: "member_msg \<Rightarrow> bool" where
  "valid_msg m \<longleftrightarrow> list_all (\<lambda>ts. ts > 0) (mm_timestamps m)"

lemma run_statement_fold:
  assumes "\<And>c ts t. entry_step (Entry chat c ts added) t = snd (stmt c ts t)"
  shows "snd (fold (run_statement stmt ignored) ps mt) = fold entry_step (listed chat ignored added ps) (snd mt)"
proof (induction ps arbitrary: mt)
  case Nil
  show ?case by (simp add: listed_def)
next
  case (Cons p ps)
  obtain c ts where p: "p = (c, ts)" by (cases p)
  obtain m t where mt: "mt = (m, t)" by (cases mt)
  show ?case
    using Cons.IH assms [symmetric]
    by (cases c) (auto simp: p mt listed_def Let_def split_beta)
qed

lemma process_members_entries: "process_members m t = fold entry_step (msg_entries m) t"
proof (cases "length (mm_timestamps m) = length (mm_to m) + length (mm_past m)")
  case True
  let ?add = "run_statement (add_statement (mm_chat m)) (mm_from m)"
  let ?rem = "run_statement (remove_statement (mm_chat m)) None"
  let ?xs = "zip (mm_to m) (take (length (mm_to m)) (mm_timestamps m))"
  let ?ys = "zip (mm_past m) (drop (length (mm_to m)) (mm_timestamps m))"
  have "snd (fold ?rem ?ys (fold ?add ?xs (False, t)))
        = fold entry_step (listed (mm_chat m) None False ?ys) (snd (fold ?add ?xs (False, t)))"
    by (rule run_statement_fold) simp
  also have "snd (fold ?add ?xs (False, t))
        = fold entry_step (listed (mm_chat m) (mm_from m) True ?xs) t"
    using run_statement_fold [of "mm_chat m" True "add_statement (mm_chat m)" "mm_from m" ?xs "(False, t)"]
    by simp
  finally show ?thesis
    using True by (simp add: process_members_def update_chats_contacts_timestamps_def msg_entries_def)
qed (simp add: process_members_def update_chats_contacts_timestamps_def msg_entries_def)

lemma listed_valid:
  "list_all (\<lambda>ts. ts > 0) tss \<Longrightarrow> list_all entry_valid (listed chat ignored added (zip xs tss))"
  by (auto simp: listed_def list_all_iff dest: set_zip_rightD)

lemma msg_entries_valid: "valid_msg m \<Longrightarrow> list_all entry_valid (msg_entries m)"
proof -
  assume "valid_msg m"
  then have "list_all (\<lambda>ts. ts > 0) (take n (mm_timestamps m))"
    "list_all (\<lambda>ts. ts > 0) (drop n (mm_timestamps m))" for n
    by (auto simp: valid_msg_def list_all_iff dest: in_set_takeD in_set_dropD)
  then show ?thesis by (simp add: msg_entries_def listed_valid)
qed

definition msg_val :: "member_msg \<Rightarrow> chat_id \<times> contact_id \<Rightarrow> reg option" where
  "msg_val m = fold (\<lambda>e. reg_joins (entry_val e)) (msg_entries m) (\<lambda>k. None)"

lemma cc_unique_entries: "cc_unique t \<Longrightarrow> cc_unique (fold entry_step es t)"
  by (induction es arbitrary: t) (simp_all add: cc_unique_entry_step)

lemma cc_unique_process: "cc_unique t \<Longrightarrow> cc_unique (process_members m t)"
  by (simp add: process_members_entries cc_unique_entries)

lemma cc_unique_processes: "cc_unique t \<Longrightarrow> cc_unique (fold process_members ms t)"
  by (induction ms arbitrary: t) (simp_all add: cc_unique_process)


interpretation mem: merge_bot reg_joins process_members msg_val cc_abs valid_msg cc_unique "\<lambda>k. None"
proof (unfold_locales, goal_cases)
  case (1 x y z)
  show ?case by (rule ent.join_assoc)
next
  case (2 x y)
  show ?case by (rule ent.join_comm)
next
  case (3 x)
  show ?case by (rule ent.join_idem)
next
  case (4 m s)
  then show ?case
    unfolding process_members_entries msg_val_def by (intro ent.abs_fold_join msg_entries_valid)
next
  case (5 m s)
  then show ?case by (simp add: cc_unique_process)
next
  case (6 x)
  show ?case by (rule ent.join_bot)
qed


section \<open>Convergence\<close>


definition msg_a :: member_msg where
  "msg_a = \<lparr>mm_chat = 12, mm_from = Some 13, mm_to = [Some 10, Some 11], mm_past = [], mm_timestamps = [5, 5]\<rparr>"

definition msg_b :: member_msg where
  "msg_b = \<lparr>mm_chat = 12, mm_from = Some 13, mm_to = [Some 10], mm_past = [Some 11], mm_timestamps = [5, 7]\<rparr>"

lemma msg_ab_valid: "valid_msg msg_a" "valid_msg msg_b"
  by (simp_all add: valid_msg_def msg_a_def msg_b_def)


text \<open>The outcome, in terms of the additions and removals that the messages list.\<close>

lemma reg_joins_app: "reg_joins f g k = reg_join (f k) (g k)"
  by (simp add: reg_joins_def)

lemma reg_le_simps: "reg_le x x" "\<not> reg_le x y \<Longrightarrow> reg_le y x" "reg_le x y \<Longrightarrow> reg_le y z \<Longrightarrow> reg_le x z"
  by (auto simp: reg_le_def)

definition joined :: "entry list \<Rightarrow> chat_id \<Rightarrow> contact_id \<Rightarrow> reg option \<Rightarrow> bool" where
  "joined es chat c x \<longleftrightarrow> (case x of
     None \<Rightarrow> \<forall>ts b. Entry chat c ts b \<notin> set es
   | Some (ts, b) \<Rightarrow> Entry chat c ts b \<in> set es
       \<and> (\<forall>ts' b'. Entry chat c ts' b' \<in> set es \<longrightarrow> reg_le (ts', b') (ts, b)))"

lemma joined_entries: "joined es chat c (fold (\<lambda>e. reg_joins (entry_val e)) es (\<lambda>k. None) (chat, c))"
proof (induction es rule: rev_induct)
  case Nil
  show ?case by (simp add: joined_def)
next
  case (snoc e es)
  let ?x = "fold (\<lambda>e. reg_joins (entry_val e)) es (\<lambda>k. None) (chat, c)"
  obtain chat' c' ts b where e: "e = Entry chat' c' ts b" by (cases e)
  have "joined (es @ [e]) chat c (reg_join (entry_val e (chat, c)) ?x)"
    using snoc.IH
    by (cases ?x; cases "reg_le (ts, b) (the ?x)") (auto simp: e joined_def intro: reg_le_simps)
  moreover have "fold (\<lambda>e. reg_joins (entry_val e)) (es @ [e]) (\<lambda>k. None) (chat, c)
      = reg_join (entry_val e (chat, c)) ?x"
    by simp (rule reg_joins_app)
  ultimately show ?case by simp
qed

lemma joined_member:
  assumes "joined es chat c x"
  shows "(\<exists>ts. x = Some (ts, True)) \<longleftrightarrow>
    (\<exists>ts. Entry chat c ts True \<in> set es \<and> (\<forall>ts'. Entry chat c ts' False \<in> set es \<longrightarrow> ts' \<le> ts))"
proof (cases x)
  case None
  with assms show ?thesis by (simp add: joined_def)
next
  case (Some p)
  obtain ts b where p: "p = (ts, b)" by (cases p)
  with assms Some have mem: "Entry chat c ts b \<in> set es"
    and le: "\<And>ts' b'. Entry chat c ts' b' \<in> set es \<Longrightarrow> ts' < ts \<or> ts' = ts \<and> (b' \<longrightarrow> b)"
    by (auto simp: joined_def reg_le_def)
  show ?thesis
  proof (cases b)
    case True
    with mem le Some p show ?thesis by force
  next
    case False
    have "\<not> ts \<le> ts'" if "Entry chat c ts' True \<in> set es" for ts'
      using le [OF that] False by simp
    with mem False Some p show ?thesis by simp blast
  qed
qed

lemma cc_abs_Nil: "cc_abs [] = (\<lambda>k. None)"
  by (simp add: fun_eq_iff cc_abs_def cc_find_def)

lemma processes_entries: "fold process_members ms t = fold entry_step (concat (map msg_entries ms)) t"
  by (induction ms arbitrary: t) (simp_all add: process_members_entries)




section \<open>Local changes take effect\<close>

text \<open>Upserting a list of contacts with an update that makes any row a member.\<close>

lemma upsert_members:
  assumes keys: "\<And>r. cc_chat (upd r) = cc_chat r" "\<And>r. cc_contact (upd r) = cc_contact r"
    and mem: "\<And>r. is_member_row (upd r)" and ts: "ts \<ge> 0"
    and f_def: "f = (\<lambda>c t. snd (cc_upsert (new_add chat c ts) (\<lambda>r. True) upd t))"
  shows "c \<in> set cs \<Longrightarrow> \<exists>r. cc_find (fold f cs t) chat c = Some r \<and> is_member_row r"
    and "chat' \<noteq> chat \<or> c \<notin> set cs \<Longrightarrow> cc_find (fold f cs t) chat' c = cc_find t chat' c"
    and "cc_unique t \<Longrightarrow> cc_unique (fold f cs t)"
proof -
  have step: "cc_find (f d t) chat' c' = (if chat' = chat \<and> c' = d
      then Some (case cc_find t chat d of None \<Rightarrow> new_add chat d ts | Some r \<Rightarrow> upd r)
      else cc_find t chat' c')" for d t chat' c'
    unfolding f_def by (simp add: cc_find_upsert keys new_add_def cong: option.case_cong)
  show other: "chat' \<noteq> chat \<or> c \<notin> set cs \<Longrightarrow> cc_find (fold f cs t) chat' c = cc_find t chat' c"
    for chat' c cs t
    by (induction cs arbitrary: t) (auto simp: step)
  show "\<exists>r. cc_find (fold f cs t) chat c = Some r \<and> is_member_row r" if "c \<in> set cs"
    using that
  proof (induction cs arbitrary: t)
    case (Cons d cs)
    show ?case
    proof (cases "c \<in> set cs")
      case True
      then show ?thesis using Cons.IH [of "f d t"] by simp
    next
      case False
      then have "c = d" using Cons.prems by simp
      moreover have "is_member_row (new_add chat d ts)"
        using ts by (simp add: is_member_row_def new_add_def)
      ultimately show ?thesis
        using other [of chat c cs "f d t"] False mem by (auto simp: step split: option.split)
    qed
  qed simp
  show "cc_unique t \<Longrightarrow> cc_unique (fold f cs t)"
    by (induction cs arbitrary: t) (simp_all add: f_def cc_unique_upsert keys)
qed

lemma find_bumped:
  "cc_find (upd_where (\<lambda>r. cc_chat r = chat) (\<lambda>r. r\<lparr>remove_timestamp := max (add_timestamp r + 1) ts\<rparr>) t) chat' c
   = map_option (\<lambda>r. if chat' = chat then r\<lparr>remove_timestamp := max (add_timestamp r + 1) ts\<rparr> else r)
       (cc_find t chat' c)"
  by (induction t) (auto simp: cc_find_def cc_is_def)

text \<open>C11: Replacing the member list makes exactly the listed contacts members of the chat and leaves
  every other chat alone.\<close>

theorem update_chat_contacts_table_exact:
  assumes "cc_unique t" "timestamp \<ge> 0"
  shows "is_contact_in_chat (update_chat_contacts_table timestamp chat cs t) chat' c
    \<longleftrightarrow> (if chat' = chat then c \<in> set cs else is_contact_in_chat t chat' c)"
proof -
  let ?t1 = "upd_where (\<lambda>r. cc_chat r = chat)
    (\<lambda>r. r\<lparr>remove_timestamp := max (add_timestamp r + 1) timestamp\<rparr>) t"
  let ?f = "\<lambda>c t. snd (cc_upsert (new_add chat c timestamp) (\<lambda>r. True) (\<lambda>r. r\<lparr>add_timestamp := remove_timestamp r\<rparr>) t)"
  have u1: "cc_unique ?t1" using assms(1) by (simp add: cc_unique_upd_where)
  have find: "c \<in> set cs \<Longrightarrow> \<exists>r. cc_find (fold ?f cs ?t1) chat c = Some r \<and> is_member_row r"
    "chat' \<noteq> chat \<or> c \<notin> set cs \<Longrightarrow> cc_find (fold ?f cs ?t1) chat' c = cc_find ?t1 chat' c"
    and u2: "cc_unique (fold ?f cs ?t1)"
    using assms(2) u1
    by (intro upsert_members [OF _ _ _ _ refl, where ts = timestamp]; simp add: is_member_row_def)+
  have "is_contact_in_chat (fold ?f cs ?t1) chat' c
      \<longleftrightarrow> (if chat' = chat then c \<in> set cs else is_contact_in_chat t chat' c)"
    unfolding is_contact_in_chat_find [OF u2] is_contact_in_chat_find [OF assms(1)]
    using find
    by (cases "chat' = chat"; cases "c \<in> set cs"; cases "cc_find t chat' c")
      (auto simp: find_bumped is_member_row_def)
  then show ?thesis by (simp add: update_chat_contacts_table_def)
qed

theorem update_chat_contacts_table_exact_witness:
  "\<not> is_contact_in_chat (update_chat_contacts_table 100 12 [10] (fold process_members [msg_a] [])) 12 11"
  using update_chat_contacts_table_exact [of "fold process_members [msg_a] []" 100 12 "[10]" 12 11]
  by (simp add: cc_unique_process cc_unique_Nil)

text \<open>C12: A contact that was added is a member and a contact that was removed is none, whatever time
  stamps the clock or earlier messages left in the table.\<close>

theorem add_remove_effective:
  assumes "cc_unique t" "timestamp \<ge> 0"
  shows "(c \<in> set cs \<longrightarrow> is_contact_in_chat (add_to_chat_contacts_table timestamp chat cs t) chat c)
    \<and> \<not> is_contact_in_chat (snd (remove_from_chat_contacts_table now chat c t)) chat c
    \<and> \<not> is_contact_in_chat (snd (remove_from_chat_contacts_table_without_trace chat c t)) chat c"
proof -
  let ?f = "\<lambda>c t. snd (cc_upsert (new_add chat c timestamp) (\<lambda>r. True)
    (\<lambda>r. r\<lparr>add_timestamp := max (remove_timestamp r) timestamp\<rparr>) t)"
  have "c \<in> set cs \<Longrightarrow> \<exists>r. cc_find (fold ?f cs t) chat c = Some r \<and> is_member_row r"
    and "cc_unique (fold ?f cs t)"
    using assms
    by (intro upsert_members [OF _ _ _ _ refl, where ts = timestamp]; simp add: is_member_row_def)+
  then have "c \<in> set cs \<longrightarrow> is_contact_in_chat (add_to_chat_contacts_table timestamp chat cs t) chat c"
    by (simp add: add_to_chat_contacts_table_def is_contact_in_chat_find)
  moreover have "\<not> is_contact_in_chat (snd (remove_from_chat_contacts_table now chat c t)) chat c"
    by (induction t)
      (auto simp: remove_from_chat_contacts_table_def is_contact_in_chat_def is_member_row_def cc_is_def)
  moreover have "\<not> is_contact_in_chat (snd (remove_from_chat_contacts_table_without_trace chat c t)) chat c"
    by (auto simp: remove_from_chat_contacts_table_without_trace_def is_contact_in_chat_def list_ex_iff
        set_del_where)
  ultimately show ?thesis by blast
qed

theorem add_remove_effective_witness:
  "is_contact_in_chat (add_to_chat_contacts_table 3 12 [11] (fold process_members [msg_a, msg_b] [])) 12 11"
  using add_remove_effective [of "fold process_members [msg_a, msg_b] []" 3 11 "[11]" 12 9]
  by (simp add: cc_unique_process cc_unique_Nil)

end
