(* ===== verification/GroupChanges.thy ===== *)
theory GroupChanges
  imports Membership "HOL-Library.List_Lexorder"
begin

text \<open>
  \<open>apply_group_changes\<close> of \<^verbatim>\<open>src/receive_imf.rs\<close> with what it calls: the contact lookups by
  fingerprint and by address, the guarded time stamps of \<^verbatim>\<open>src/update_helper.rs\<close>, the application of
  a new group name, description and avatar, and the member list update.  An in-memory \<open>Chat\<close> is the
  row that was loaded; \<open>time()\<close> is the argument \<open>now\<close>.  The lemmas show that a message from somebody
  who is not a member changes nothing, and that group name and description converge.
\<close>

section \<open>Received messages\<close>

datatype AvatarAction = Delete | Change string

record mime_msg =
  mh :: header_map
  mm_timestamp_sent :: int
  gossiped_keys :: "ustr \<rightharpoonup> ustr"
  mm_signature :: "ustr option"
  group_avatar :: "AvatarAction option"

definition was_encrypted :: "mime_msg \<Rightarrow> bool" where
  "was_encrypted m \<longleftrightarrow> mm_signature m \<noteq> None"

definition chat_group_member_timestamps :: "int \<Rightarrow> mime_msg \<Rightarrow> int list option" where
  "chat_group_member_timestamps now m =
     map_option (\<lambda>h. map (min (now + TIMESTAMP_SENT_TOLERANCE))
         (List.map_filter (u_parse_int i64_min i64_max) (words_by is_ascii_whitespace h)))
       (mh m ChatGroupMemberTimestamps)"


section \<open>Time stamps of settings\<close>

definition Params_update_timestamp :: "Param \<Rightarrow> int \<Rightarrow> params \<Rightarrow> bool \<times> params" where
  "Params_update_timestamp scope new_timestamp p =
     (let old_timestamp = (case Params_get_i64 scope p of Some x \<Rightarrow> x | None \<Rightarrow> 0)
      in if new_timestamp \<ge> old_timestamp then (True, Params_set_i64 scope new_timestamp p)
         else (False, p))"

definition chat_row_of :: "ctx \<Rightarrow> chat_id \<Rightarrow> chat_row option" where
  "chat_row_of s chat = sel_one (\<lambda>c. ch_id c = chat) (chats s)"

definition set_chat_param :: "chat_id \<Rightarrow> params \<Rightarrow> ctx \<Rightarrow> ctx" where
  "set_chat_param chat p s = s\<lparr>chats := upd_where (\<lambda>c. ch_id c = chat) (\<lambda>c. c\<lparr>ch_param := p\<rparr>) (chats s)\<rparr>"

definition ChatId_update_timestamp :: "chat_id \<Rightarrow> Param \<Rightarrow> int \<Rightarrow> ctx \<Rightarrow> (bool \<times> ctx) res" where
  "ChatId_update_timestamp chat scope new_timestamp s =
     (case chat_row_of s chat of
        None \<Rightarrow> Inl ''Query returned no rows''
      | Some c \<Rightarrow>
          let (update, p) = Params_update_timestamp scope new_timestamp (ch_param c)
          in Inr (update, if update then set_chat_param chat p s else s))"

definition update_contacts_timestamp :: "contact_id \<Rightarrow> Param \<Rightarrow> int \<Rightarrow> ctx \<Rightarrow> (bool \<times> ctx) res" where
  "update_contacts_timestamp contact scope new_timestamp s =
     (case sel_one (\<lambda>c. c_id c = contact) (contacts s) of
        None \<Rightarrow> Inl ''Query returned no rows''
      | Some c \<Rightarrow>
          let (update, p) = Params_update_timestamp scope new_timestamp (c_param c)
          in Inr (update,
               if update then s\<lparr>contacts := upd_where (\<lambda>c. c_id c = contact) (\<lambda>c. c\<lparr>c_param := p\<rparr>) (contacts s)\<rparr>
               else s))"


section \<open>Members of a chat\<close>

definition contact_of :: "ctx \<Rightarrow> contact_id \<Rightarrow> contact_row option" where
  "contact_of s contact = sel_one (\<lambda>c. c_id c = contact) (contacts s)"

text \<open>\<open>ORDER BY c.id=1, c.last_seen DESC, c.id DESC\<close> over the left join: three stable sorts, least
  significant key first.  A row without a contact has nulls, which come first in the first key and
  tie on the others.\<close>

definition ord_self :: "ctx \<Rightarrow> cc_row \<Rightarrow> nat" where
  "ord_self s r = (case contact_of s (cc_contact r) of None \<Rightarrow> 0 | Some c \<Rightarrow> if c_id c = 1 then 2 else 1)"

definition ord_seen :: "ctx \<Rightarrow> cc_row \<Rightarrow> int" where
  "ord_seen s r = (case contact_of s (cc_contact r) of None \<Rightarrow> 0 | Some c \<Rightarrow> - c_last_seen c)"

definition ord_id :: "ctx \<Rightarrow> cc_row \<Rightarrow> int" where
  "ord_id s r = (case contact_of s (cc_contact r) of None \<Rightarrow> 0 | Some c \<Rightarrow> - int (c_id c))"

definition get_chat_contacts :: "ctx \<Rightarrow> chat_id \<Rightarrow> contact_id list" where
  "get_chat_contacts s chat =
     map cc_contact (sort_key (ord_self s) (sort_key (ord_seen s) (sort_key (ord_id s)
       (filter (\<lambda>r. cc_chat r = chat \<and> is_member_row r) (chats_contacts s)))))"

definition get_past_chat_contacts :: "int \<Rightarrow> ctx \<Rightarrow> chat_id \<Rightarrow> contact_id list" where
  "get_past_chat_contacts now s chat =
     map cc_contact (sort_key (ord_self s) (sort_key (\<lambda>r. - remove_timestamp r) (sort_key (ord_id s)
       (filter (\<lambda>r. cc_chat r = chat \<and> add_timestamp r < remove_timestamp r
           \<and> sat_i64 (now - 60 * 24 * 3600) < remove_timestamp r) (chats_contacts s)))))"

text \<open>A \<open>BTreeSet\<close> of contact identifiers is its sorted list of elements.\<close>

definition bset :: "contact_id list \<Rightarrow> contact_id list" where
  "bset xs = sort (remdups xs)"

definition bset_diff :: "contact_id list \<Rightarrow> contact_id list \<Rightarrow> contact_id list" where
  "bset_diff xs ys = filter (\<lambda>x. x \<notin> set ys) xs"

definition bset_remove :: "contact_id \<Rightarrow> contact_id list \<Rightarrow> contact_id list" where
  "bset_remove x xs = filter (\<lambda>y. y \<noteq> x) xs"

definition is_key_contact :: "contact_row \<Rightarrow> bool" where
  "is_key_contact c \<longleftrightarrow> c_fingerprint c \<noteq> [] \<or> c_id c = ContactId_SELF"

definition nocase_eq :: "ustr \<Rightarrow> ustr \<Rightarrow> bool" where
  "nocase_eq a b \<longleftrightarrow>
     (let low = (\<lambda>c. if 65 \<le> c \<and> c \<le> 90 then c + 32 else c) in map low a = map low b)"

definition lookup_key_contact_by_fingerprint :: "ctx \<Rightarrow> ustr \<Rightarrow> contact_id option" where
  "lookup_key_contact_by_fingerprint s fp =
     (if fp = [] then None
      else case sel_one (\<lambda>c. c_fingerprint c = fp \<and> c_fingerprint c \<noteq> []) (contacts s) of
          Some c \<Rightarrow> Some (c_id c)
        | None \<Rightarrow> (case self_fingerprint s of
                     Some self_fp \<Rightarrow> if self_fp = fp then Some ContactId_SELF else None
                   | None \<Rightarrow> None))"

definition accepted_chats :: "ctx \<Rightarrow> contact_id \<Rightarrow> nat" where
  "accepted_chats s contact =
     length [(c, cc). c \<leftarrow> chats s, cc \<leftarrow> chats_contacts s, ch_id c = cc_chat cc \<and> ch_type c = Single
        \<and> ch_id c > DC_CHAT_ID_LAST_SPECIAL \<and> ch_blocked c = Not \<and> cc_contact cc = contact]"

definition lookup_key_contact_by_address ::
  "(ustr \<Rightarrow> ustr) \<Rightarrow> ctx \<Rightarrow> ustr \<Rightarrow> chat_id option \<Rightarrow> contact_id option" where
  "lookup_key_contact_by_address lc s addr chat =
     (let is_self = is_self_addr lc s addr;
          by_query = (case chat of
              Some chat \<Rightarrow>
                sel_one (\<lambda>c. nocase_eq (c_addr c) addr
                  \<and> list_ex (\<lambda>r. cc_contact r = c_id c \<and> cc_chat r = chat) (chats_contacts s)
                  \<and> c_fingerprint c \<noteq> []) (contacts s)
            | None \<Rightarrow>
                (case rev (sort_key (\<lambda>c. accepted_chats s (c_id c)) (sort_key c_last_seen (sort_key c_id
                    (filter (\<lambda>c. nocase_eq (c_addr c) addr \<and> c_fingerprint c \<noteq> []) (contacts s))))) of
                   [] \<Rightarrow> None
                 | c # _ \<Rightarrow> Some c))
      in if is_self \<and> (case chat of None \<Rightarrow> True
                        | Some chat \<Rightarrow> list_ex (\<lambda>r. cc_chat r = chat \<and> cc_contact r = 1) (chats_contacts s))
         then Some ContactId_SELF
         else map_option c_id by_query)"


section \<open>Name, description and avatar\<close>

type_synonym change_acc = "ctx \<times> bool \<times> StockMsg option"

definition get_or_insert :: "StockMsg option \<Rightarrow> StockMsg \<Rightarrow> StockMsg option" where
  "get_or_insert o1 x = (case o1 of None \<Rightarrow> Some x | Some y \<Rightarrow> Some y)"

definition is_broadcast :: "chat_row \<Rightarrow> bool" where
  "is_broadcast c \<longleftrightarrow> ch_type c = InBroadcast \<or> ch_type c = OutBroadcast"

definition group_name_timestamp :: "mime_msg \<Rightarrow> int option" where
  "group_name_timestamp m = Option.bind (mh m ChatGroupNameTimestamp) (u_parse_int i64_min i64_max)"

definition old_group_name :: "mime_msg \<Rightarrow> chat_row \<Rightarrow> ustr option" where
  "old_group_name m c =
     (case mh m ChatGroupNameChanged of
        Some old \<Rightarrow> Some (utrim old)
      | None \<Rightarrow> (case group_name_timestamp m of
                   Some ts \<Rightarrow> if ts = 0 then None else Some (ch_name c)
                 | None \<Rightarrow> None))"

definition new_group_name :: "mime_msg \<Rightarrow> ustr option" where
  "new_group_name m =
     (case mh m ChatGroupName of
        None \<Rightarrow> None
      | Some n \<Rightarrow> if blen (utrim n) < 200 then Some (sanitize_single_line (utrim n)) else None)"

definition apply_name_change ::
  "mime_msg \<Rightarrow> contact_id \<Rightarrow> bool \<Rightarrow> chat_row \<Rightarrow> change_acc \<Rightarrow> change_acc res" where
  "apply_name_change m from_id is_from_in_chat c acc =
     (case (old_group_name m c, new_group_name m) of
        (Some old_name, Some grpname) \<Rightarrow>
          (let (s, modified, better) = acc;
               chat_ts = (case Params_get_i64 GroupNameTimestamp (ch_param c) of Some x \<Rightarrow> x | None \<Rightarrow> 0);
               ts = (case group_name_timestamp m of Some x \<Rightarrow> x | None \<Rightarrow> mm_timestamp_sent m);
               better' = (if mh m ChatGroupNameChanged \<noteq> None
                  then if is_from_in_chat
                       then get_or_insert better
                         (if is_broadcast c
                          then MsgBroadcastNameChanged (sanitize_single_line old_name) grpname
                          else MsgGrpName (sanitize_single_line old_name) grpname from_id)
                       else Some EmptyMsg
                  else better)
           in if is_from_in_chat \<and> (chat_ts < ts \<or> chat_ts = ts \<and> grpname < ch_name c)
              then res_bind (ChatId_update_timestamp (ch_id c) GroupNameTimestamp ts s) (\<lambda>(upd, s1).
                if upd \<and> grpname \<noteq> ch_name c
                then Inr (s1\<lparr>chats := upd_where (\<lambda>r. ch_id r = ch_id c) (\<lambda>r. r\<lparr>ch_name := grpname\<rparr>) (chats s1)\<rparr>,
                          True, better')
                else Inr (s1, modified, better'))
              else Inr (s, modified, better'))
      | _ \<Rightarrow> Inr acc)"

definition get_chat_description :: "ctx \<Rightarrow> chat_id \<Rightarrow> ustr" where
  "get_chat_description s chat = (case chats_descriptions s chat of Some d \<Rightarrow> d | None \<Rightarrow> [])"

definition description_timestamp :: "mime_msg \<Rightarrow> int" where
  "description_timestamp m =
     (case Option.bind (mh m ChatGroupDescriptionTimestamp) (u_parse_int i64_min i64_max) of
        Some x \<Rightarrow> x | None \<Rightarrow> mm_timestamp_sent m)"

definition apply_description_change ::
  "mime_msg \<Rightarrow> contact_id \<Rightarrow> bool \<Rightarrow> chat_row \<Rightarrow> change_acc \<Rightarrow> change_acc res" where
  "apply_description_change m from_id is_from_in_chat c acc =
     (case mh m ChatGroupDescription of
        None \<Rightarrow> Inr acc
      | Some d \<Rightarrow>
          (let (s, modified, better) = acc;
               new_description = sanitize_bidi_characters (utrim d);
               old_description = get_chat_description s (ch_id c);
               old_ts = (case Params_get_i64 GroupDescriptionTimestamp (ch_param c) of Some x \<Rightarrow> x | None \<Rightarrow> 0);
               new_ts = description_timestamp m;
               better' = (if mh m ChatGroupDescriptionChanged \<noteq> None
                  then if is_from_in_chat then get_or_insert better (MsgChatDescriptionChanged from_id)
                       else Some EmptyMsg
                  else better)
           in if is_from_in_chat \<and> (old_ts < new_ts \<or> old_ts = new_ts \<and> old_description < new_description)
              then res_bind (ChatId_update_timestamp (ch_id c) GroupDescriptionTimestamp new_ts s) (\<lambda>(upd, s1).
                if upd \<and> new_description \<noteq> old_description
                then Inr (s1\<lparr>chats_descriptions := (chats_descriptions s1)(ch_id c \<mapsto> new_description)\<rparr>,
                          True, better')
                else Inr (s1, modified, better'))
              else Inr (s, modified, better')))"

definition avatar_msg :: "mime_msg \<Rightarrow> contact_id \<Rightarrow> bool \<Rightarrow> chat_row \<Rightarrow> StockMsg option \<Rightarrow> StockMsg option" where
  "avatar_msg m from_id is_from_in_chat c better =
     (case (mh m ChatContent, better, group_avatar m) of
        (Some v, None, Some action) \<Rightarrow>
          if v = U ''group-avatar-changed''
          then if is_from_in_chat
               then Some (if is_broadcast c then MsgBroadcastImgChanged
                          else case action of Delete \<Rightarrow> MsgGrpImgDeleted from_id
                                            | Change _ \<Rightarrow> MsgGrpImgChanged from_id)
               else Some EmptyMsg
          else better
      | _ \<Rightarrow> better)"

text \<open>The avatar is set in the loaded \<open>chat.param\<close>, which is then written to the row as a whole.\<close>

definition apply_avatar_change ::
  "mime_msg \<Rightarrow> contact_id \<Rightarrow> bool \<Rightarrow> chat_row \<Rightarrow> change_acc \<Rightarrow> change_acc \<times> chat_row" where
  "apply_avatar_change m from_id is_from_in_chat c acc =
     (let (s, modified, better) = acc;
          better' = avatar_msg m from_id is_from_in_chat c better
      in case group_avatar m of
           None \<Rightarrow> ((s, modified, better'), c)
         | Some action \<Rightarrow>
             if is_from_in_chat
             then let (upd, p) = Params_update_timestamp AvatarTimestamp (mm_timestamp_sent m) (ch_param c)
                  in if upd
                     then let p' = (case action of
                               Change img \<Rightarrow> Params_set ProfileImage img p
                             | Delete \<Rightarrow> Params_remove ProfileImage p)
                          in ((set_chat_param (ch_id c) p' s, True, better'), c\<lparr>ch_param := p'\<rparr>)
                     else ((s, modified, better'), c)
             else ((s, modified, better'), c))"

definition apply_chat_name_avatar_and_description_changes ::
  "mime_msg \<Rightarrow> contact_id \<Rightarrow> bool \<Rightarrow> chat_row \<Rightarrow> change_acc \<Rightarrow> (change_acc \<times> chat_row) res" where
  "apply_chat_name_avatar_and_description_changes m from_id is_from_in_chat c acc =
     res_bind (apply_name_change m from_id is_from_in_chat c acc) (\<lambda>acc1.
     res_bind (apply_description_change m from_id is_from_in_chat c acc1) (\<lambda>acc2.
       Inr (apply_avatar_change m from_id is_from_in_chat c acc2)))"


section \<open>Member list\<close>

record GroupChangesInfo =
  better_msg :: "StockMsg option"
  added_removed_id :: "contact_id option"
  silent :: bool
  extra_msgs :: "(StockMsg \<times> SystemMessage \<times> contact_id option) list"

text \<open>The header of an explicit removal or addition: the new state, the removed and the added contact,
  the message and whether it is silent.\<close>

definition explicit_change ::
  "(ustr \<Rightarrow> ustr) \<Rightarrow> mime_msg \<Rightarrow> contact_id \<Rightarrow> chat_id \<Rightarrow> contact_id list \<Rightarrow> bool \<Rightarrow> ctx
   \<Rightarrow> ctx \<times> contact_id option \<times> contact_id option \<times> StockMsg option \<times> bool" where
  "explicit_change lc m from_id chat chat_contacts is_from_in_chat s =
     (case mh m ChatGroupMemberRemoved of
        Some removed_addr \<Rightarrow>
          if \<not> is_from_in_chat then (s, None, None, Some EmptyMsg, False)
          else
            (case (case mh m ChatGroupMemberRemovedFpr of
                     Some fpr \<Rightarrow> lookup_key_contact_by_fingerprint s fpr
                   | None \<Rightarrow> lookup_key_contact_by_address lc s removed_addr (Some chat)) of
               Some rid \<Rightarrow>
                 (s, Some rid, None,
                  Some (if rid = from_id then MsgGroupLeft from_id else MsgDelMember rid from_id),
                  rid = from_id)
             | None \<Rightarrow> (s, None, None, None, False))
      | None \<Rightarrow>
          (case mh m ChatGroupMemberAdded of
             Some added_addr \<Rightarrow>
               if \<not> is_from_in_chat then (s, None, None, Some EmptyMsg, False)
               else
                 (case gossiped_keys m added_addr of
                    Some fp \<Rightarrow>
                      let s1 = (if from_id \<notin> set chat_contacts
                                then s\<lparr>chats_contacts := add_to_chat_contacts_table (mm_timestamp_sent m) chat
                                        [from_id] (chats_contacts s)\<rparr>
                                else s)
                      in (case lookup_key_contact_by_fingerprint s1 fp of
                            Some aid \<Rightarrow> (s1, None, Some aid, Some (MsgAddMember aid from_id), False)
                          | None \<Rightarrow> (s1, None, None, None, False))
                  | None \<Rightarrow> (s, None, None, None, False))
           | None \<Rightarrow> (s, None, None, None, False)))"

definition member_list_timestamp :: "ctx \<Rightarrow> chat_row \<Rightarrow> int" where
  "member_list_timestamp s c =
     (case Params_get_i64 MemberListTimestamp (ch_param c) of
        Some ts \<Rightarrow> ts
      | None \<Rightarrow> (case chat_row_of s (ch_id c) of Some r \<Rightarrow> ch_created_timestamp r | None \<Rightarrow> 0))"

definition member_list_is_stale :: "int \<Rightarrow> ctx \<Rightarrow> chat_row \<Rightarrow> bool" where
  "member_list_is_stale now s c \<longleftrightarrow>
     sat_i64 (now + TIMESTAMP_SENT_TOLERANCE) \<ge> sat_i64 (member_list_timestamp s c + 60 * 24 * 3600)"

definition drop_self_if :: "bool \<Rightarrow> contact_id list \<Rightarrow> contact_id list" where
  "drop_self_if b xs = (if b then bset_remove ContactId_SELF xs else xs)"

text \<open>The members to replace a stale list with, and the members after an explicit change.\<close>

definition stale_members :: "mime_msg \<Rightarrow> contact_id \<Rightarrow> chat_row \<Rightarrow> contact_id list \<Rightarrow> contact_id list" where
  "stale_members m from_id c to_flat =
     drop_self_if (was_encrypted m \<and> ch_grpid c = [])
       (bset (to_flat @ [ContactId_SELF] @ (if ContactId_is_special from_id then [] else [from_id])))"

definition replace_members :: "chat_id \<Rightarrow> contact_id list \<Rightarrow> cc_row list \<Rightarrow> cc_row list" where
  "replace_members chat cs t =
     del_where (\<lambda>r. cc_chat r = chat) t @ map (\<lambda>c. new_add chat c 0) cs"

definition explicit_members ::
  "mime_msg \<Rightarrow> contact_id \<Rightarrow> bool \<Rightarrow> chat_row \<Rightarrow> contact_id list \<Rightarrow> contact_id list \<Rightarrow> bool
   \<Rightarrow> contact_id option \<Rightarrow> contact_id option \<Rightarrow> contact_id list" where
  "explicit_members m from_id from_is_key c to_flat chat_contacts self_added added_id removed_id =
     (let n0 = (if self_added
          then bset (to_flat @ [ContactId_SELF]
                 @ (if \<not> ContactId_is_special from_id \<and> from_is_key \<noteq> (ch_grpid c = []) then [from_id] else []))
          else chat_contacts);
          n1 = (if mh m ChatVersion = None then bset (n0 @ to_flat) else n0);
          n2 = (case added_id of Some a \<Rightarrow> bset (a # n1) | None \<Rightarrow> n1);
          n3 = (case removed_id of Some r \<Rightarrow> bset_remove r n2 | None \<Rightarrow> n2)
      in drop_self_if (was_encrypted m \<and> ch_grpid c = []) n3)"

definition is_self_added :: "(ustr \<Rightarrow> ustr) \<Rightarrow> mime_msg \<Rightarrow> contact_id list \<Rightarrow> ctx \<Rightarrow> bool res" where
  "is_self_added lc m chat_contacts s =
     (case mh m ChatGroupMemberAdded of
        Some added_addr \<Rightarrow>
          res_bind (get_primary_self_addr (config s)) (\<lambda>self.
            Inr (addr_cmp lc (U self) added_addr \<and> ContactId_SELF \<notin> set chat_contacts))
      | None \<Rightarrow> Inr False)"

definition update_members ::
  "(ustr \<Rightarrow> ustr) \<Rightarrow> int \<Rightarrow> mime_msg \<Rightarrow> contact_id \<Rightarrow> bool \<Rightarrow> chat_row \<Rightarrow> contact_id option list
   \<Rightarrow> contact_id option list \<Rightarrow> contact_id list \<Rightarrow> contact_id option \<Rightarrow> contact_id option \<Rightarrow> bool \<Rightarrow> ctx
   \<Rightarrow> (ctx \<times> bool) res" where
  "update_members lc now m from_id from_is_key c to_ids past_ids chat_contacts added_id removed_id modified s =
     (let to_flat = List.map_filter id to_ids;
          with_table = (\<lambda>t. s\<lparr>chats_contacts := t\<rparr>)
      in res_bind
        (if from_is_key \<noteq> (ch_grpid c = []) \<and> member_list_is_stale now s c
         then Inr (with_table (replace_members (ch_id c) (stale_members m from_id c to_flat) (chats_contacts s)), True)
         else case chat_group_member_timestamps now m of
             Some timestamps \<Rightarrow>
               let (upd, t) = update_chats_contacts_timestamps (ch_id c) (Some from_id) to_ids past_ids
                     timestamps (chats_contacts s)
               in Inr (with_table t, modified \<or> upd)
           | None \<Rightarrow>
               res_bind (is_self_added lc m chat_contacts s) (\<lambda>self_added.
                 let new_members = explicit_members m from_id from_is_key c to_flat chat_contacts self_added
                       added_id removed_id
                 in if new_members \<noteq> chat_contacts
                    then Inr (with_table (update_chat_contacts_table (mm_timestamp_sent m) (ch_id c) new_members
                                (chats_contacts s)), True)
                    else Inr (s, modified)))
        (\<lambda>(s1, modified1).
          res_bind (ChatId_update_timestamp (ch_id c) MemberListTimestamp (mm_timestamp_sent m) s1)
            (\<lambda>(_, s2). Inr (s2, modified1))))"

definition group_changes_msgs ::
  "contact_id list \<Rightarrow> contact_id list \<Rightarrow> (StockMsg \<times> SystemMessage \<times> contact_id option) list" where
  "group_changes_msgs added_ids removed_ids =
     map (\<lambda>c. (MsgAddMember c ContactId_UNDEFINED, MemberAddedToGroup, Some c)) added_ids
     @ map (\<lambda>c. (MsgDelMember c ContactId_UNDEFINED, MemberRemovedFromGroup, Some c)) removed_ids"

text \<open>The messages about changes that no header announces, and the result.\<close>

definition group_changes_info ::
  "bool \<Rightarrow> contact_id list \<Rightarrow> contact_id list \<Rightarrow> contact_id option \<Rightarrow> contact_id option
   \<Rightarrow> StockMsg option \<Rightarrow> bool \<Rightarrow> GroupChangesInfo" where
  "group_changes_info is_chat_created chat_contacts new_chat_contacts added_id removed_id better silent1 =
     (let added_ids = bset_diff new_chat_contacts chat_contacts;
          removed_ids = bset_diff chat_contacts new_chat_contacts;
          already = (case added_id of Some a \<Rightarrow> a \<notin> set added_ids | None \<Rightarrow> False);
          added_ids' = (case added_id of Some a \<Rightarrow> bset_remove a added_ids | None \<Rightarrow> added_ids);
          removed_ids' = (case removed_id of Some r \<Rightarrow> bset_remove r removed_ids | None \<Rightarrow> removed_ids);
          extra = (if ContactId_SELF \<notin> set chat_contacts \<and> ContactId_SELF \<in> set new_chat_contacts then []
                   else group_changes_msgs added_ids' removed_ids')
      in \<lparr>better_msg = (if already \<and> extra = [] \<and> \<not> is_chat_created then Some EmptyMsg else better),
          added_removed_id = (case added_id of Some a \<Rightarrow> Some a | None \<Rightarrow> removed_id),
          silent = silent1, extra_msgs = extra\<rparr>)"

definition from_in_chat :: "contact_id list \<Rightarrow> contact_id \<Rightarrow> bool" where
  "from_in_chat chat_contacts from_id \<longleftrightarrow>
     ContactId_SELF \<notin> set chat_contacts \<or> from_id \<in> set chat_contacts"

definition apply_group_changes ::
  "(ustr \<Rightarrow> ustr) \<Rightarrow> int \<Rightarrow> mime_msg \<Rightarrow> chat_row \<Rightarrow> contact_id \<Rightarrow> contact_id option list
   \<Rightarrow> contact_id option list \<Rightarrow> bool \<Rightarrow> ctx \<Rightarrow> (GroupChangesInfo \<times> ctx) res" where
  "apply_group_changes lc now m c from_id to_ids past_ids is_chat_created s =
     (case contact_of s from_id of
        None \<Rightarrow> Inl ''contact not found''
      | Some from_row \<Rightarrow>
          let from_is_key = is_key_contact from_row
          in if \<not> (from_is_key \<or> ch_grpid c = []) then Inl ''not a key-contact''
             else if ch_type c \<noteq> Group then Inl ''not a group''
             else if ChatId_is_special (ch_id c) then Inl ''special chat''
             else
               let chat_contacts = bset (get_chat_contacts s (ch_id c));
                   is_from_in_chat = from_in_chat chat_contacts from_id;
                   (s1, removed_id, added_id, better1, silent1) =
                     explicit_change lc m from_id (ch_id c) chat_contacts is_from_in_chat s
               in res_bind (apply_chat_name_avatar_and_description_changes m from_id is_from_in_chat c
                              (s1, False, better1))
                    (\<lambda>((s2, modified2, better2), c2).
                  res_bind (if is_from_in_chat
                            then update_members lc now m from_id from_is_key c2 to_ids past_ids chat_contacts
                                   added_id removed_id modified2 s2
                            else Inr (s2, modified2))
                    (\<lambda>(s3, modified3).
                     let new_chat_contacts = bset (get_chat_contacts s3 (ch_id c));
                         info = group_changes_info is_chat_created chat_contacts new_chat_contacts
                                  added_id removed_id better2 silent1
                     in Inr (info,
                          if modified3
                          then emit_event (ChatlistItemChanged (Some (ch_id c)))
                                 (emit_event (ChatModified (ch_id c)) s3)
                          else s3))))"


section \<open>Messages of strangers\<close>

lemma apply_name_stranger:
  "\<exists>better. apply_name_change m from_id False c (s, modified, better0) = Inr (s, modified, better)"
  by (auto simp: apply_name_change_def Let_def split: option.splits)

lemma apply_description_stranger:
  "\<exists>better. apply_description_change m from_id False c (s, modified, better0) = Inr (s, modified, better)"
  by (auto simp: apply_description_change_def Let_def split: option.splits)

lemma apply_avatar_stranger:
  "\<exists>better. apply_avatar_change m from_id False c (s, modified, better0) = ((s, modified, better), c)"
  by (auto simp: apply_avatar_change_def Let_def split: option.splits)

lemma apply_all_stranger:
  "\<exists>better. apply_chat_name_avatar_and_description_changes m from_id False c (s, modified, better0)
     = Inr ((s, modified, better), c)"
proof -
  obtain b1 where b1: "apply_name_change m from_id False c (s, modified, better0) = Inr (s, modified, b1)"
    using apply_name_stranger by blast
  obtain b2 where b2: "apply_description_change m from_id False c (s, modified, b1) = Inr (s, modified, b2)"
    using apply_description_stranger by blast
  show ?thesis
    using apply_avatar_stranger [of m from_id c s modified b2]
    by (simp add: apply_chat_name_avatar_and_description_changes_def b1 b2)
qed

lemma explicit_change_stranger:
  "\<exists>better. explicit_change lc m from_id chat cs False s = (s, None, None, better, False)"
  by (auto simp: explicit_change_def split: option.split)


definition group_row :: chat_row where
  "group_row = (chat_row0 12 Group)\<lparr>ch_name := U ''b'', ch_grpid := U ''g''\<rparr>"

definition key_contact :: "contact_id \<Rightarrow> contact_row" where
  "key_contact i = (contact_row0 i)\<lparr>c_addr := U ''x'', c_fingerprint := U ''F''\<rparr>"

definition group_ctx :: ctx where
  "group_ctx = ctx0\<lparr>chats := [group_row], contacts := [key_contact 10, key_contact 11],
     chats_contacts := [new_add 12 1 5, new_add 12 10 5]\<rparr>"

definition mime_msg0 :: mime_msg where
  "mime_msg0 = \<lparr>mh = (\<lambda>h. None), mm_timestamp_sent = 100, gossiped_keys = Map.empty,
     mm_signature = Some (U ''F''), group_avatar = None\<rparr>"

lemma group_ctx_members: "get_chat_contacts group_ctx 12 = [1, 10]"
  by (simp add: get_chat_contacts_def group_ctx_def ctx0_def ord_self_def ord_seen_def ord_id_def contact_of_def
      key_contact_def contact_row0_def new_add_def is_member_row_def)



section \<open>Convergence of the group name\<close>

lemma sel_one_upd_where:
  "(\<And>r. P (f r) = P r) \<Longrightarrow> sel_one P (upd_where P f t) = map_option f (sel_one P t)"
  by (induction t) auto

lemma chat_row_of_upd:
  assumes "\<And>r. ch_id (f r) = ch_id r"
  shows "chat_row_of (s\<lparr>chats := upd_where (\<lambda>r. ch_id r = chat) f (chats s)\<rparr>) chat = map_option f (chat_row_of s chat)"
  by (simp add: chat_row_of_def sel_one_upd_where assms)

lemma chat_row_of_set_param:
  "chat_row_of (set_chat_param chat p s) chat = map_option (\<lambda>c. c\<lparr>ch_param := p\<rparr>) (chat_row_of s chat)"
  unfolding set_chat_param_def by (rule chat_row_of_upd) simp

lemma chat_row_of_id: "chat_row_of s chat = Some c \<Longrightarrow> ch_id c = chat"
  by (auto simp: chat_row_of_def dest: sel_one_Some)

definition scope_ts :: "Param \<Rightarrow> params \<Rightarrow> int" where
  "scope_ts scope p = (case Params_get_i64 scope p of Some x \<Rightarrow> x | None \<Rightarrow> 0)"

lemma scope_ts_set:
  "i64_min \<le> ts \<Longrightarrow> ts \<le> i64_max \<Longrightarrow> scope_ts scope (Params_set_i64 scope ts p) = ts"
  by (simp add: scope_ts_def Params_get_i64_def Params_set_i64_def parse_int_show_int)

lemma update_timestamp_newer:
  assumes "chat_row_of s chat = Some c" "scope_ts scope (ch_param c) \<le> ts"
  shows "ChatId_update_timestamp chat scope ts s = Inr (True, set_chat_param chat (Params_set_i64 scope ts (ch_param c)) s)"
  using assms by (simp add: ChatId_update_timestamp_def Params_update_timestamp_def scope_ts_def Let_def)

text \<open>A name change as a register: the later time stamp wins, the smaller name on equal time stamps.\<close>

fun name_join :: "(int \<times> ustr) option \<Rightarrow> (int \<times> ustr) option \<Rightarrow> (int \<times> ustr) option" where
  "name_join None y = y"
| "name_join x None = x"
| "name_join (Some (t1, n1)) (Some (t2, n2)) =
     Some (if t2 < t1 then (t1, n1) else if t1 < t2 then (t2, n2) else (t1, min n1 n2))"

definition name_ts :: "mime_msg \<Rightarrow> int" where
  "name_ts m = (case group_name_timestamp m of Some x \<Rightarrow> x | None \<Rightarrow> mm_timestamp_sent m)"

definition name_val :: "mime_msg \<Rightarrow> (int \<times> ustr) option" where
  "name_val m =
     (if mh m ChatGroupNameChanged \<noteq> None \<or> group_name_timestamp m \<notin> {None, Some 0}
      then map_option (\<lambda>n. (name_ts m, n)) (new_group_name m) else None)"

definition name_reg :: "chat_id \<Rightarrow> ctx \<Rightarrow> (int \<times> ustr) option" where
  "name_reg chat s = map_option (\<lambda>c. (scope_ts GroupNameTimestamp (ch_param c), ch_name c)) (chat_row_of s chat)"

text \<open>Loading the chat and applying the name change of a member's message.\<close>

definition recv_name :: "chat_id \<Rightarrow> mime_msg \<Rightarrow> ctx \<Rightarrow> ctx" where
  "recv_name chat m s =
     (case chat_row_of s chat of
        None \<Rightarrow> s
      | Some c \<Rightarrow> (case apply_name_change m 0 True c (s, False, None) of Inr (s', _) \<Rightarrow> s' | Inl _ \<Rightarrow> s))"

definition name_valid :: "mime_msg \<Rightarrow> bool" where
  "name_valid m \<longleftrightarrow> i64_min \<le> mm_timestamp_sent m \<and> mm_timestamp_sent m \<le> i64_max"

lemma u_parse_int_U:
  "list_all (\<lambda>c. of_char c < (128 :: nat)) s \<Longrightarrow> u_parse_int lo hi (U s) = parse_int lo hi s"
  by (simp add: u_parse_int_def U_def list_all_iff comp_def)

lemma u_parse_int_range: "u_parse_int lo hi s = Some i \<Longrightarrow> lo \<le> i \<and> i \<le> hi"
  by (auto simp: u_parse_int_def dest: parse_int_range split: if_splits)

lemma name_ts_range: "name_valid m \<Longrightarrow> i64_min \<le> name_ts m \<and> name_ts m \<le> i64_max"
  by (auto simp: name_ts_def name_valid_def group_name_timestamp_def bind_eq_Some_conv
      dest: u_parse_int_range split: option.split)

lemma recv_name_reg:
  assumes "name_valid m" "chat_row_of s chat = Some c"
  shows "name_reg chat (recv_name chat m s) = name_join (name_val m) (name_reg chat s)"
    and "\<exists>c'. chat_row_of (recv_name chat m s) chat = Some c'"
proof -
  have r: "i64_min \<le> name_ts m" "name_ts m \<le> i64_max" using name_ts_range [OF assms(1)] by auto
  have id: "ch_id c = chat" using assms(2) by (rule chat_row_of_id)
  have old: "(old_group_name m c = None) = (\<not> (mh m ChatGroupNameChanged \<noteq> None \<or> group_name_timestamp m \<notin> {None, Some 0}))"
    by (auto simp: old_group_name_def split: option.split)
  have upd: "scope_ts GroupNameTimestamp (ch_param c) \<le> name_ts m \<Longrightarrow>
      ChatId_update_timestamp chat GroupNameTimestamp (name_ts m) s
      = Inr (True, set_chat_param chat (Params_set_i64 GroupNameTimestamp (name_ts m) (ch_param c)) s)"
    by (rule update_timestamp_newer [OF assms(2)])
  note defs = recv_name_def apply_name_change_def assms(2) id name_reg_def name_val_def Let_def
    name_ts_def [symmetric] scope_ts_def [symmetric]
  have both: "name_reg chat (recv_name chat m s) = name_join (name_val m) (name_reg chat s)
      \<and> (\<exists>c'. chat_row_of (recv_name chat m s) chat = Some c')"
    using old r upd
    by (cases "old_group_name m c"; cases "new_group_name m")
      (auto simp: defs chat_row_of_upd chat_row_of_set_param scope_ts_set)
  then show "name_reg chat (recv_name chat m s) = name_join (name_val m) (name_reg chat s)"
    and "\<exists>c'. chat_row_of (recv_name chat m s) chat = Some c'" by blast+
qed

interpretation gname: merge_bot name_join "recv_name chat" name_val "name_reg chat" name_valid
  "\<lambda>s. \<exists>c. chat_row_of s chat = Some c" None
proof (unfold_locales, goal_cases)
  case (1 x y z)
  show ?case by (cases x; cases y; cases z) (auto simp: min_def)
next
  case (2 x y)
  show ?case by (cases x; cases y) (auto simp: min.commute)
next
  case (3 x)
  show ?case by (cases x) auto
qed (auto simp: recv_name_reg)


definition rename_msg :: "string \<Rightarrow> string \<Rightarrow> mime_msg" where
  "rename_msg name ts =
     mime_msg0\<lparr>mh := [ChatGroupName \<mapsto> U name, ChatGroupNameTimestamp \<mapsto> U ts]\<rparr>"

lemma group_ctx_row: "chat_row_of group_ctx 12 = Some group_row"
  by (simp add: chat_row_of_def group_ctx_def ctx0_def group_row_def chat_row0_def)



section \<open>Convergence of the description\<close>

fun description_join :: "(int \<times> ustr) option \<Rightarrow> (int \<times> ustr) option \<Rightarrow> (int \<times> ustr) option" where
  "description_join None y = y"
| "description_join x None = x"
| "description_join (Some (t1, d1)) (Some (t2, d2)) =
     Some (if t2 < t1 then (t1, d1) else if t1 < t2 then (t2, d2) else (t1, max d1 d2))"

definition description_val :: "mime_msg \<Rightarrow> (int \<times> ustr) option" where
  "description_val m =
     map_option (\<lambda>d. (description_timestamp m, sanitize_bidi_characters (utrim d))) (mh m ChatGroupDescription)"

definition description_reg :: "chat_id \<Rightarrow> ctx \<Rightarrow> (int \<times> ustr) option" where
  "description_reg chat s =
     map_option (\<lambda>c. (scope_ts GroupDescriptionTimestamp (ch_param c), get_chat_description s chat)) (chat_row_of s chat)"

definition recv_description :: "chat_id \<Rightarrow> mime_msg \<Rightarrow> ctx \<Rightarrow> ctx" where
  "recv_description chat m s =
     (case chat_row_of s chat of
        None \<Rightarrow> s
      | Some c \<Rightarrow> (case apply_description_change m 0 True c (s, False, None) of Inr (s', _) \<Rightarrow> s' | Inl _ \<Rightarrow> s))"

lemma description_timestamp_range:
  "name_valid m \<Longrightarrow> i64_min \<le> description_timestamp m \<and> description_timestamp m \<le> i64_max"
  by (auto simp: description_timestamp_def name_valid_def bind_eq_Some_conv dest: u_parse_int_range split: option.split)

lemma chat_row_of_descriptions [simp]: "chat_row_of (s\<lparr>chats_descriptions := d\<rparr>) chat = chat_row_of s chat"
  by (simp add: chat_row_of_def)

lemma set_chat_param_descriptions [simp]: "chats_descriptions (set_chat_param chat p s) = chats_descriptions s"
  by (simp add: set_chat_param_def)

lemma recv_description_reg:
  assumes "name_valid m" "chat_row_of s chat = Some c"
  shows "description_reg chat (recv_description chat m s) = description_join (description_val m) (description_reg chat s)
    \<and> (\<exists>c'. chat_row_of (recv_description chat m s) chat = Some c')"
proof -
  have r: "i64_min \<le> description_timestamp m" "description_timestamp m \<le> i64_max"
    using description_timestamp_range [OF assms(1)] by auto
  have id: "ch_id c = chat" using assms(2) by (rule chat_row_of_id)
  have upd: "scope_ts GroupDescriptionTimestamp (ch_param c) \<le> description_timestamp m \<Longrightarrow>
      ChatId_update_timestamp chat GroupDescriptionTimestamp (description_timestamp m) s
      = Inr (True, set_chat_param chat (Params_set_i64 GroupDescriptionTimestamp (description_timestamp m) (ch_param c)) s)"
    by (rule update_timestamp_newer [OF assms(2)])
  note defs = recv_description_def apply_description_change_def assms(2) id description_reg_def description_val_def
    Let_def scope_ts_def [symmetric] get_chat_description_def
  show ?thesis
    using r upd
    by (cases "mh m ChatGroupDescription")
      (auto simp: defs chat_row_of_set_param scope_ts_set max_def)
qed

interpretation gdesc: merge_bot description_join "recv_description chat" description_val "description_reg chat"
  name_valid "\<lambda>s. \<exists>c. chat_row_of s chat = Some c" None
proof (unfold_locales, goal_cases)
  case (1 x y z)
  show ?case by (cases x; cases y; cases z) (auto simp: max_def)
next
  case (2 x y)
  show ?case by (cases x; cases y) (auto simp: max.commute)
next
  case (3 x)
  show ?case by (cases x) auto
qed (auto simp: recv_description_reg)

text \<open>The group description converges in the same way; on equal time stamps the greater text wins.\<close>

theorem group_description_convergence:
  assumes "chat_row_of s chat = Some c" "set ms = set ms'" "\<forall>m\<in>set ms. name_valid m"
  shows "description_reg chat (fold (recv_description chat) ms s)
           = description_reg chat (fold (recv_description chat) ms' s)"
  using assms by (intro gdesc.order_irrelevant) (auto simp: list_all_iff)

theorem group_description_convergence_witness:
  "description_reg 12 (fold (recv_description 12)
       [mime_msg0\<lparr>mh := [ChatGroupDescription \<mapsto> U ''x'']\<rparr>, mime_msg0\<lparr>mh := [ChatGroupDescription \<mapsto> U ''y'']\<rparr>] group_ctx)
     = description_reg 12 (fold (recv_description 12)
       [mime_msg0\<lparr>mh := [ChatGroupDescription \<mapsto> U ''y'']\<rparr>, mime_msg0\<lparr>mh := [ChatGroupDescription \<mapsto> U ''x'']\<rparr>] group_ctx)"
  by (rule group_description_convergence [OF group_ctx_row])
    (auto simp: name_valid_def mime_msg0_def i64_min_def i64_max_def)


section \<open>An avatar in the same message\<close>

lemma chats_name_update_row:
  "chat_row_of (s\<lparr>chats := upd_where (\<lambda>r. ch_id r = chat) f (chats s)\<rparr>) chat = None \<longleftrightarrow> chat_row_of s chat = None"
  if "\<And>r. ch_id (f r) = ch_id r"
  using that by (simp add: chat_row_of_upd)

lemma update_timestamp_row:
  "ChatId_update_timestamp chat scope ts s = Inr (u, s') \<Longrightarrow> chat_row_of s' chat = None \<longleftrightarrow> chat_row_of s chat = None"
  by (auto simp: ChatId_update_timestamp_def Let_def split_beta chat_row_of_set_param split: option.splits if_splits)

lemma apply_name_row:
  "apply_name_change m from_id b c (s, modified, better) = Inr (s', modified', better') \<Longrightarrow>
   chat_row_of s' (ch_id c) = None \<longleftrightarrow> chat_row_of s (ch_id c) = None"
  by (auto simp: apply_name_change_def Let_def res_bind_eq_Inr chats_name_update_row
      dest: update_timestamp_row split: option.splits if_splits)

lemma apply_description_row:
  "apply_description_change m from_id b c (s, modified, better) = Inr (s', modified', better') \<Longrightarrow>
   chat_row_of s' (ch_id c) = None \<longleftrightarrow> chat_row_of s (ch_id c) = None"
  by (auto simp: apply_description_change_def Let_def res_bind_eq_Inr
      dest: update_timestamp_row split: option.splits if_splits)

text \<open>C13: When a member's message carries an avatar that is not older than the known one, the loaded
  parameters are written back as a whole: the time stamps of group name and description in the row
  are those from before the message, also when the same message changed name and description.\<close>

theorem avatar_restores_old_timestamps:
  assumes "chat_row_of s (ch_id c) = Some c" "group_avatar m = Some action"
    and "scope_ts AvatarTimestamp (ch_param c) \<le> mm_timestamp_sent m"
    and "apply_chat_name_avatar_and_description_changes m from_id True c (s, modified, better)
           = Inr ((s', modified', better'), c')"
    and "scope \<in> {GroupNameTimestamp, GroupDescriptionTimestamp}"
  shows "\<exists>r. chat_row_of s' (ch_id c) = Some r \<and> scope_ts scope (ch_param r) = scope_ts scope (ch_param c)"
proof -
  obtain s1 m1 b1 where 1: "apply_name_change m from_id True c (s, modified, better) = Inr (s1, m1, b1)"
    using assms(4) by (auto simp: apply_chat_name_avatar_and_description_changes_def res_bind_eq_Inr)
  with assms(4) obtain s2 m2 b2 where 2: "apply_description_change m from_id True c (s1, m1, b1) = Inr (s2, m2, b2)"
    and 3: "((s', modified', better'), c') = apply_avatar_change m from_id True c (s2, m2, b2)"
    by (auto simp: apply_chat_name_avatar_and_description_changes_def res_bind_eq_Inr)
  let ?p = "Params_set_i64 AvatarTimestamp (mm_timestamp_sent m) (ch_param c)"
  let ?q = "case action of Change img \<Rightarrow> Params_set ProfileImage img ?p | Delete \<Rightarrow> Params_remove ProfileImage ?p"
  have "s' = set_chat_param (ch_id c) ?q s2"
    using 3 assms(2,3)
    by (simp add: apply_avatar_change_def Params_update_timestamp_def Let_def scope_ts_def split: AvatarAction.splits)
  moreover obtain r2 where "chat_row_of s2 (ch_id c) = Some r2"
    using apply_description_row [OF 2] apply_name_row [OF 1] assms(1) by auto
  moreover have "scope_ts scope ?q = scope_ts scope (ch_param c)"
    using assms(5) by (auto simp: scope_ts_def Params_get_i64_def Params_set_i64_def split: AvatarAction.split)
  ultimately show ?thesis by (simp add: chat_row_of_set_param)
qed

text \<open>A rename at time 50 that comes with an avatar is stored without its time stamp.\<close>

theorem avatar_restores_old_timestamps_witness:
  "\<exists>s' modified' better' c'.
     apply_chat_name_avatar_and_description_changes ((rename_msg ''a'' ''50'')\<lparr>group_avatar := Some Delete\<rparr>)
       10 True group_row (group_ctx, False, None) = Inr ((s', modified', better'), c')
     \<and> name_reg 12 s' = Some (0, U ''a'')"
proof -
  let ?m = "(rename_msg ''a'' ''50'')\<lparr>group_avatar := Some Delete\<rparr>"
  have ts: "group_name_timestamp ?m = Some 50"
    by (simp add: group_name_timestamp_def rename_msg_def mime_msg0_def u_parse_int_U [of "''50''"] parse_int_def
        parse_nat_def digit_val_def i64_min_def i64_max_def del: U_simps)
  have id: "ch_id group_row = 12" "scope_ts k (ch_param group_row) = 0" for k
    by (simp_all add: group_row_def chat_row0_def scope_ts_def Params_get_i64_def Params_get_def Params_new_def bt_empty_def)
  have "\<exists>s' md b c'. apply_chat_name_avatar_and_description_changes ?m 10 True group_row (group_ctx, False, None)
      = Inr ((s', md, b), c') \<and> map_option ch_name (chat_row_of s' 12) = Some (U ''a'')"
    unfolding apply_chat_name_avatar_and_description_changes_def apply_name_change_def ts old_group_name_def
    using update_timestamp_newer [of group_ctx 12 group_row GroupNameTimestamp 50, OF group_ctx_row] id
    by (simp add: new_group_name_def rename_msg_def mime_msg0_def
        trim_def trim_start_def trim_end_def is_whitespace_def len_utf8_def sanitize_single_line_def
        replace_newlines_def sanitize_bidi_characters_def bidi_defs isolate_characters_are_valid_def
        scope_ts_def [symmetric] apply_description_change_def apply_avatar_change_def avatar_msg_def
        Params_update_timestamp_def chat_row_of_set_param chat_row_of_upd group_ctx_row group_row_def chat_row0_def Let_def) blast
  then obtain s' md b c' where
    1: "apply_chat_name_avatar_and_description_changes ?m 10 True group_row (group_ctx, False, None) = Inr ((s', md, b), c')"
    and 2: "map_option ch_name (chat_row_of s' 12) = Some (U ''a'')"
    by blast
  moreover have "\<exists>r. chat_row_of s' (ch_id group_row) = Some r
      \<and> scope_ts GroupNameTimestamp (ch_param r) = scope_ts GroupNameTimestamp (ch_param group_row)"
    by (rule avatar_restores_old_timestamps [OF _ _ _ 1])
      (simp_all add: id group_ctx_row rename_msg_def mime_msg0_def)
  ultimately show ?thesis by (auto simp: name_reg_def id)
qed

end
