(* ===== verification/Ephemeral.thy ===== *)
theory Ephemeral
  imports Store
begin

text \<open>
  \<^verbatim>\<open>src/ephemeral.rs\<close>: disappearing messages.  The timer of a chat, starting the timers of messages,
  the selection and local deletion of expired messages, the time at which the loop wakes up next, and
  the marking of expired messages for deletion on the server.  \<open>time()\<close> is the argument \<open>now\<close>.  The
  lemmas characterise deletion exactly, show that restarting a timer never postpones it, that the
  loop makes progress and does not spin, and how local and server deletion depend on their order.
\<close>

section \<open>Timers\<close>

datatype Timer = Disabled | Enabled nat

definition Timer_to_u32 :: "Timer \<Rightarrow> nat" where
  "Timer_to_u32 t = (case t of Disabled \<Rightarrow> 0 | Enabled duration \<Rightarrow> duration)"

definition Timer_from_u32 :: "nat \<Rightarrow> Timer" where
  "Timer_from_u32 duration = (if duration = 0 then Disabled else Enabled duration)"

definition Timer_to_string :: "Timer \<Rightarrow> string" where
  "Timer_to_string t = show_nat (Timer_to_u32 t)"

definition Timer_from_str :: "string \<Rightarrow> Timer option" where
  "Timer_from_str s = map_option (\<lambda>d. Timer_from_u32 (nat d)) (parse_int 0 u32_max s)"

definition Timer_to_sql :: "Timer \<Rightarrow> int" where
  "Timer_to_sql t = (case t of Disabled \<Rightarrow> 0 | Enabled duration \<Rightarrow> int duration)"

definition Timer_from_sql :: "int \<Rightarrow> Timer res" where
  "Timer_from_sql v =
     (if v = 0 then Inr Disabled
      else if 0 \<le> v \<and> v \<le> u32_max then Inr (Enabled (nat v))
      else Inl ''OutOfRange'')"

definition get_ephemeral_timer :: "ctx \<Rightarrow> chat_id \<Rightarrow> Timer res" where
  "get_ephemeral_timer s chat =
     (case sel_one (\<lambda>c. ch_id c = chat) (chats s) of
        None \<Rightarrow> Inl ''Chat not found''
      | Some c \<Rightarrow> Timer_from_sql (case ch_ephemeral_timer c of Some v \<Rightarrow> v | None \<Rightarrow> 0))"

definition inner_set_ephemeral_timer :: "chat_id \<Rightarrow> Timer \<Rightarrow> ctx \<Rightarrow> ctx res" where
  "inner_set_ephemeral_timer chat timer s =
     (if ChatId_is_special chat then Inl ''Invalid chat ID''
      else Inr (emit_event (ChatEphemeralTimerModified chat (Timer_to_sql timer))
        (s\<lparr>chats := upd_where (\<lambda>c. ch_id c = chat)
            (\<lambda>c. c\<lparr>ch_ephemeral_timer := Some (Timer_to_sql timer)\<rparr>) (chats s)\<rparr>)))"

text \<open>The texts of \<open>stock_ephemeral_timer_changed\<close>, with the number it shows in tenths.\<close>

datatype timer_text =
  TimerDisabled | TimerSeconds nat | TimerMinutes nat | TimerHour | TimerHours nat | TimerDay
  | TimerDays nat | TimerWeek | TimerYear | TimerWeeks nat

definition stock_ephemeral_timer_changed :: "Timer \<Rightarrow> timer_text" where
  "stock_ephemeral_timer_changed timer =
     (case timer of
        Disabled \<Rightarrow> TimerDisabled
      | Enabled d \<Rightarrow>
          if d \<le> 60 then TimerSeconds d
          else if d \<le> 3599 then TimerMinutes ((d + 3) div 6)
          else if d = 3600 then TimerHour
          else if d \<le> 86399 then TimerHours ((d + 180) div 360)
          else if d = 86400 then TimerDay
          else if d \<le> 604799 then TimerDays ((d + 4320) div 8640)
          else if d = 604800 then TimerWeek
          else if 31536000 \<le> d \<and> d \<le> 31708800 then TimerYear
          else TimerWeeks ((d + 30240) div 60480))"

text \<open>\<open>set_ephemeral_timer\<close>: the new state and the text to send to the chat, if any.\<close>

definition set_ephemeral_timer :: "chat_id \<Rightarrow> Timer \<Rightarrow> ctx \<Rightarrow> (ctx \<times> timer_text option) res" where
  "set_ephemeral_timer chat timer s =
     res_bind (get_ephemeral_timer s chat) (\<lambda>old.
       if timer = old then Inr (s, None)
       else res_bind (inner_set_ephemeral_timer chat timer s) (\<lambda>s1.
         let unpromoted = (case sel_one (\<lambda>c. ch_id c = chat) (chats s1) of
                Some c \<Rightarrow> (case Params_get_bool Unpromoted (ch_param c) of Some b \<Rightarrow> b | None \<Rightarrow> False)
              | None \<Rightarrow> False)
         in Inr (s1, if unpromoted then None else Some (stock_ephemeral_timer_changed timer))))"


section \<open>Starting timers\<close>

definition MsgId_ephemeral_timer :: "ctx \<Rightarrow> msg_id \<Rightarrow> Timer" where
  "MsgId_ephemeral_timer s msg =
     (case sel_one (\<lambda>m. m_id m = msg) (msgs s) of
        None \<Rightarrow> Disabled
      | Some m \<Rightarrow> if m_ephemeral_timer m = 0 then Disabled else Enabled (nat (m_ephemeral_timer m)))"

definition interrupt_ephemeral_task :: "ctx \<Rightarrow> ctx" where
  "interrupt_ephemeral_task s = s\<lparr>ephemeral_interrupts := Suc (ephemeral_interrupts s)\<rparr>"

definition start_ephemeral_timer :: "int \<Rightarrow> msg_id \<Rightarrow> ctx \<Rightarrow> ctx" where
  "start_ephemeral_timer now msg s =
     (case MsgId_ephemeral_timer s msg of
        Enabled duration \<Rightarrow>
          (let ts = sat_i64 (now + int duration)
           in interrupt_ephemeral_task
                (s\<lparr>msgs := upd_where (\<lambda>m. (m_ephemeral_timestamp m = 0 \<or> m_ephemeral_timestamp m > ts) \<and> m_id m = msg)
                     (\<lambda>m. m\<lparr>m_ephemeral_timestamp := ts\<rparr>) (msgs s)\<rparr>))
      | Disabled \<Rightarrow> s)"

text \<open>The condition and the assignment that the bulk statements share.\<close>

definition startable :: "int \<Rightarrow> msg_row \<Rightarrow> bool" where
  "startable now m \<longleftrightarrow>
     (m_ephemeral_timestamp m = 0 \<or> m_ephemeral_timestamp m > now + m_ephemeral_timer m) \<and> m_ephemeral_timer m > 0"

definition start_timer :: "int \<Rightarrow> msg_row \<Rightarrow> msg_row" where
  "start_timer now m = m\<lparr>m_ephemeral_timestamp := now + m_ephemeral_timer m\<rparr>"

definition start_where :: "int \<Rightarrow> (msg_row \<Rightarrow> bool) \<Rightarrow> ctx \<Rightarrow> bool \<times> ctx" where
  "start_where now P s =
     (list_ex (\<lambda>m. startable now m \<and> P m) (msgs s),
      s\<lparr>msgs := upd_where (\<lambda>m. startable now m \<and> P m) (start_timer now) (msgs s)\<rparr>)"

definition start_ephemeral_timers_msgids :: "int \<Rightarrow> msg_id list \<Rightarrow> ctx \<Rightarrow> ctx" where
  "start_ephemeral_timers_msgids now ids s =
     (let (should_interrupt, s') =
            fold (\<lambda>i (b, s). let (c, s') = start_where now (\<lambda>m. m_id m = i) s in (b \<or> c, s')) ids (False, s)
      in if should_interrupt then interrupt_ephemeral_task s' else s')"

definition start_chat_ephemeral_timers :: "int \<Rightarrow> chat_id \<Rightarrow> ctx \<Rightarrow> ctx" where
  "start_chat_ephemeral_timers now chat s =
     (let (should_interrupt, s') = start_where now (\<lambda>m. m_chat_id m = chat) s
      in if should_interrupt then interrupt_ephemeral_task s' else s')"

definition start_ephemeral_timers :: "int \<Rightarrow> ctx \<Rightarrow> ctx" where
  "start_ephemeral_timers now s =
     s\<lparr>msgs := upd_where (\<lambda>m. m_ephemeral_timer m > 0 \<and> m_ephemeral_timestamp m = 0
          \<and> m_state m \<notin> {InFresh, InNoticed, OutDraft}) (start_timer now) (msgs s)\<rparr>"


section \<open>Expired messages\<close>

definition self_chat_id :: "ctx \<Rightarrow> chat_id" where
  "self_chat_id s = (case lookup_by_contact s ContactId_SELF of Some (c, _) \<Rightarrow> c | None \<Rightarrow> 0)"

definition device_chat_id :: "ctx \<Rightarrow> chat_id" where
  "device_chat_id s = (case lookup_by_contact s ContactId_DEVICE of Some (c, _) \<Rightarrow> c | None \<Rightarrow> 0)"

definition expired_row :: "msg_row \<Rightarrow> msg_id \<times> chat_id \<times> Viewtype \<times> nat" where
  "expired_row m =
     (m_id m, m_chat_id m,
      (case Viewtype_from_int (m_type m) of Some v \<Rightarrow> v | None \<Rightarrow> Viewtype.Unknown), m_location_id m)"

definition ephemeral_expired :: "int \<Rightarrow> msg_row \<Rightarrow> bool" where
  "ephemeral_expired now m \<longleftrightarrow>
     m_ephemeral_timestamp m \<noteq> 0 \<and> m_ephemeral_timestamp m \<le> now \<and> m_chat_id m \<noteq> DC_CHAT_ID_TRASH"

definition device_expired :: "int \<Rightarrow> ctx \<Rightarrow> msg_row \<Rightarrow> bool" where
  "device_expired threshold s m \<longleftrightarrow>
     m_timestamp m < threshold \<and> m_timestamp_rcvd m < threshold \<and> m_chat_id m > DC_CHAT_ID_LAST_SPECIAL
     \<and> m_chat_id m \<noteq> self_chat_id s \<and> m_chat_id m \<noteq> device_chat_id s"

definition select_expired_messages :: "int \<Rightarrow> ctx \<Rightarrow> (msg_id \<times> chat_id \<times> Viewtype \<times> nat) list" where
  "select_expired_messages now s =
     map expired_row (sel_where (ephemeral_expired now) (msgs s))
     @ (case get_config_delete_device_after (config s) of
          Some delete_device_after \<Rightarrow>
            map expired_row (sel_where (device_expired (sat_i64 (now - delete_device_after)) s) (msgs s))
        | None \<Rightarrow> [])"

text \<open>\<open>INSERT OR REPLACE\<close> with the columns that a tombstone keeps.\<close>

definition tombstone :: "msg_row \<Rightarrow> msg_row" where
  "tombstone m = (msg_row0 (m_id m))\<lparr>m_rfc724_mid := m_rfc724_mid m, m_pre_rfc724_mid := m_pre_rfc724_mid m,
     m_timestamp := m_timestamp m, m_chat_id := DC_CHAT_ID_TRASH\<rparr>"

definition delete_one :: "msg_id \<times> chat_id \<times> Viewtype \<times> nat \<Rightarrow> ctx \<Rightarrow> ctx" where
  "delete_one row s =
     (case row of (msg, chat, viewtype, location) \<Rightarrow>
        s\<lparr>msgs := upd_where (\<lambda>m. m_id m = msg) tombstone (msgs s),
          locations := (if location > 0 then del_where (\<lambda>l. l_independent l \<and> l_id l = location) (locations s)
                        else locations s)\<rparr>)"

definition delete_expired_messages :: "int \<Rightarrow> ctx \<Rightarrow> ctx" where
  "delete_expired_messages now s =
     (let rows = select_expired_messages now s
      in if rows = [] then s
         else
           let s1 = fold delete_one rows s;
               s2 = fold (\<lambda>(msg, chat, _). emit_event (MsgDeleted chat msg)) rows s1;
               s3 = fold emit_msgs_changed_without_msg_id (sort (remdups (map (\<lambda>(_, chat, _). chat) rows))) s2
           in fold (\<lambda>(msg, _). emit_event (WebxdcInstanceDeleted msg))
                (filter (\<lambda>(_, _, v, _). v = Webxdc) rows) s3)"


section \<open>The loop\<close>

definition list_min :: "int list \<Rightarrow> int option" where
  "list_min xs = (case xs of [] \<Rightarrow> None | x # xs' \<Rightarrow> Some (fold min xs' x))"

definition next_delete_device_after_timestamp :: "ctx \<Rightarrow> int option" where
  "next_delete_device_after_timestamp s =
     (case get_config_delete_device_after (config s) of
        Some delete_device_after \<Rightarrow>
          map_option (\<lambda>x. sat_i64 (x + delete_device_after))
            (list_min (map (\<lambda>m. max (m_timestamp m) (m_timestamp_rcvd m))
               (sel_where (\<lambda>m. m_chat_id m > DC_CHAT_ID_TRASH \<and> m_chat_id m \<noteq> self_chat_id s
                  \<and> m_chat_id m \<noteq> device_chat_id s) (msgs s))))
      | None \<Rightarrow> None)"

definition next_expiration_timestamp :: "ctx \<Rightarrow> int option" where
  "next_expiration_timestamp s =
     list_min (List.map_filter id
       [list_min (map m_ephemeral_timestamp
          (sel_where (\<lambda>m. m_ephemeral_timestamp m \<noteq> 0 \<and> m_chat_id m \<noteq> DC_CHAT_ID_TRASH) (msgs s))),
        next_delete_device_after_timestamp s])"

text \<open>The time until which an iteration of \<open>ephemeral_loop\<close> waits; a negative time stamp does not convert
  to \<open>u64\<close>, and adding \<open>u64::MAX\<close> seconds to the epoch overflows (\<^term>\<open>None\<close>).\<close>

definition wait_until :: "int \<Rightarrow> ctx \<Rightarrow> int option" where
  "wait_until now s =
     (case next_expiration_timestamp s of
        Some ts \<Rightarrow> if ts < 0 then None else Some (ts + 1)
      | None \<Rightarrow> Some (now + 86400))"

text \<open>\<^verbatim>\<open>src/location.rs\<close>: locations that expired according to \<open>delete_device_after\<close>.\<close>

definition location_delete_expired :: "int \<Rightarrow> ctx \<Rightarrow> ctx" where
  "location_delete_expired now s =
     (case get_config_delete_device_after (config s) of
        None \<Rightarrow> s
      | Some delete_device_after \<Rightarrow>
          let threshold = sat_i64 (now - delete_device_after);
              old = (\<lambda>l. \<not> l_independent l \<and> l_timestamp l < threshold);
              s' = s\<lparr>locations := del_where old (locations s)\<rparr>
          in if list_ex old (locations s) then emit_location_changed None s' else s')"

text \<open>An iteration that is not interrupted, run at a time when the wait is over.\<close>

definition ephemeral_iteration :: "int \<Rightarrow> ctx \<Rightarrow> ctx" where
  "ephemeral_iteration now s = location_delete_expired now (delete_expired_messages now s)"


section \<open>Deletion on the server\<close>

definition should_delete_all_downloaded_messages :: "bool \<Rightarrow> bool \<Rightarrow> bool" where
  "should_delete_all_downloaded_messages bcc_self is_chatmail \<longleftrightarrow> \<not> bcc_self \<and> is_chatmail"

fun contains_sub :: "string \<Rightarrow> string \<Rightarrow> bool" where
  "contains_sub [] p = (p = [])"
| "contains_sub (x # xs) p = (starts_with (x # xs) p \<or> contains_sub xs p)"

text \<open>\<open>param GLOB '*\n c=1*' OR param GLOB 'c=1*'\<close>, on the printed parameters.\<close>

definition param_is_encrypted :: "params \<Rightarrow> bool" where
  "param_is_encrypted p \<longleftrightarrow>
     contains_sub (Params_to_string p) (LF # ''c=1'') \<or> starts_with (Params_to_string p) ''c=1''"

definition timer_expired :: "int \<Rightarrow> msg_row \<Rightarrow> bool" where
  "timer_expired now m \<longleftrightarrow> m_ephemeral_timestamp m \<noteq> 0 \<and> m_ephemeral_timestamp m \<le> now"

text \<open>The message identifiers that the sub-query of each branch selects.\<close>

definition deletable_mids :: "bool \<Rightarrow> bool \<Rightarrow> int \<Rightarrow> msg_row list \<Rightarrow> string list" where
  "deletable_mids bcc_self is_chatmail now ms =
     (let real = (\<lambda>m. m_id m > 9); has_pre = (\<lambda>m. m_pre_rfc724_mid m \<noteq> []);
          done = (\<lambda>m. m_download_state m = 0)
      in if should_delete_all_downloaded_messages bcc_self is_chatmail
         then map m_rfc724_mid (filter (\<lambda>m. (timer_expired now m \<or> done m) \<and> real m) ms)
            @ map m_pre_rfc724_mid (filter (\<lambda>m. has_pre m \<and> real m) ms)
         else if bcc_self
         then map m_rfc724_mid (filter (\<lambda>m. timer_expired now m \<and> real m) ms)
            @ map m_pre_rfc724_mid (filter (\<lambda>m. has_pre m \<and> timer_expired now m \<and> real m) ms)
         else map m_rfc724_mid (filter (\<lambda>m. real m
                \<and> (timer_expired now m \<or> param_is_encrypted (m_param m) \<and> done m)) ms)
            @ map m_pre_rfc724_mid (filter (\<lambda>m. has_pre m \<and> real m
                \<and> (timer_expired now m \<or> param_is_encrypted (m_param m))) ms))"

definition delete_expired_imap_messages :: "int \<Rightarrow> nat \<Rightarrow> bool \<Rightarrow> ctx \<Rightarrow> ctx" where
  "delete_expired_imap_messages now transport_id is_chatmail s =
     (let mids = deletable_mids (get_config_bool (config s) BccSelf) is_chatmail now (msgs s)
      in s\<lparr>imap_tbl := upd_where (\<lambda>r. i_transport_id r = transport_id \<and> i_rfc724_mid r \<in> set mids)
             (\<lambda>r. r\<lparr>i_target := []\<rparr>) (imap_tbl s)\<rparr>)"


section \<open>Timers are stored faithfully\<close>

definition timer_ok :: "Timer \<Rightarrow> bool" where
  "timer_ok t = (case t of Disabled \<Rightarrow> True | Enabled d \<Rightarrow> 0 < d \<and> int d \<le> u32_max)"

lemma Timer_roundtrip:
  assumes "timer_ok t"
  shows "Timer_from_str (Timer_to_string t) = Some t" "Timer_from_sql (Timer_to_sql t) = Inr t"
    "Timer_from_u32 (Timer_to_u32 t) = t"
  using assms parse_int_show_nat [of 0 "Timer_to_u32 t" u32_max]
  by (cases t; simp add: timer_ok_def Timer_from_str_def Timer_to_string_def Timer_to_u32_def Timer_from_u32_def
      Timer_from_sql_def Timer_to_sql_def u32_max_def)+

text \<open>A timer that was set on a chat is the timer read back, and the change is announced; special
  chats are refused.\<close>

theorem set_get_ephemeral_timer:
  assumes "timer_ok timer" "sel_one (\<lambda>c. ch_id c = chat) (chats s) = Some c"
  shows "if ChatId_is_special chat then inner_set_ephemeral_timer chat timer s = Inl ''Invalid chat ID''
    else \<exists>s'. inner_set_ephemeral_timer chat timer s = Inr s' \<and> get_ephemeral_timer s' chat = Inr timer
      \<and> last (events s') = ChatEphemeralTimerModified chat (Timer_to_sql timer)"
proof -
  have "sel_one (\<lambda>c. ch_id c = chat) (upd_where (\<lambda>c. ch_id c = chat) (\<lambda>c. c\<lparr>ch_ephemeral_timer := x\<rparr>) cs)
      = map_option (\<lambda>c. c\<lparr>ch_ephemeral_timer := x\<rparr>) (sel_one (\<lambda>c. ch_id c = chat) cs)" for x and cs :: "chat_row list"
    by (induction cs) auto
  with assms show ?thesis
    by (simp add: inner_set_ephemeral_timer_def get_ephemeral_timer_def Timer_roundtrip)
qed

definition ephemeral_chat :: chat_row where
  "ephemeral_chat = chat_row0 12 Single"

theorem set_get_ephemeral_timer_witness:
  "\<exists>s'. inner_set_ephemeral_timer 12 (Enabled 60) (ctx0\<lparr>chats := [ephemeral_chat]\<rparr>) = Inr s'
     \<and> get_ephemeral_timer s' 12 = Inr (Enabled 60)"
  using set_get_ephemeral_timer [of "Enabled 60" 12 "ctx0\<lparr>chats := [ephemeral_chat]\<rparr>" ephemeral_chat]
  by (auto simp: timer_ok_def u32_max_def ephemeral_chat_def chat_row0_def ChatId_is_special_def)


section \<open>Restarting a timer\<close>

lemma startable_later:
  assumes "0 \<le> now" "now \<le> now'"
  shows "startable now' (if startable now m \<and> P then start_timer now m else m) \<and> P \<longleftrightarrow> False"
  using assms by (auto simp: startable_def start_timer_def)

lemma upd_where_none: "(\<And>x. x \<in> set t \<Longrightarrow> \<not> P x) \<Longrightarrow> upd_where P f t = t"
  by (induction t) auto

lemma start_where_again:
  assumes "0 \<le> now" "now \<le> now'" "\<And>m. P (start_timer now m) = P m"
  shows "snd (start_where now' P (snd (start_where now P s))) = snd (start_where now P s)
    \<and> \<not> fst (start_where now' P (snd (start_where now P s)))"
proof -
  have "\<not> (startable now' m \<and> P m)" if "m \<in> set (msgs (snd (start_where now P s)))" for m
  proof -
    from that have "m \<in> (\<lambda>r. if startable now r \<and> P r then start_timer now r else r) ` set (msgs s)"
      by (simp add: start_where_def set_upd_where)
    then obtain m0 where m: "m = (if startable now m0 \<and> P m0 then start_timer now m0 else m0)"
      by (rule imageE)
    then have "P m = P m0" using assms(3) by simp
    then show ?thesis using startable_later [OF assms(1,2), of m0 "P m0"] unfolding m by simp
  qed
  then have "upd_where (\<lambda>m. startable now' m \<and> P m) (start_timer now') (msgs (snd (start_where now P s)))
      = msgs (snd (start_where now P s))"
    and "\<not> list_ex (\<lambda>m. startable now' m \<and> P m) (msgs (snd (start_where now P s)))"
    by (rule upd_where_none, unfold list_ex_iff) blast+
  then show ?thesis
    by (simp add: start_where_def [of now'])
qed

text \<open>C17: Starting the timers of a chat again later changes no message and wakes nobody: a running timer
  is never postponed.\<close>

theorem start_chat_timers_not_postponed:
  assumes "0 \<le> now" "now \<le> now'"
  shows "start_chat_ephemeral_timers now' chat (start_chat_ephemeral_timers now chat s)
    = start_chat_ephemeral_timers now chat s"
proof -
  let ?P = "\<lambda>m. m_chat_id m = chat"
  have p: "?P (start_timer now m) = ?P m" for m by (simp add: start_timer_def)
  have a: "start_where now' ?P (snd (start_where now ?P s)) = (False, snd (start_where now ?P s))"
    using start_where_again [of now now' ?P s, OF assms p] by (metis prod.collapse)
  have i: "start_where now' ?P (interrupt_ephemeral_task u)
      = (fst (start_where now' ?P u), interrupt_ephemeral_task (snd (start_where now' ?P u)))" for u
    by (simp add: start_where_def interrupt_ephemeral_task_def)
  obtain b s1 where s1: "start_where now ?P s = (b, s1)" by (cases "start_where now ?P s")
  with a have "start_where now' ?P s1 = (False, s1)" by simp
  with s1 i [of s1] show ?thesis by (simp add: start_chat_ephemeral_timers_def)
qed

theorem start_chat_timers_not_postponed_witness:
  "start_chat_ephemeral_timers 90 12
      (start_chat_ephemeral_timers 50 12 (ctx0\<lparr>msgs := [(msg_row0 20)\<lparr>m_chat_id := 12, m_ephemeral_timer := 60\<rparr>]\<rparr>))
    = start_chat_ephemeral_timers 50 12 (ctx0\<lparr>msgs := [(msg_row0 20)\<lparr>m_chat_id := 12, m_ephemeral_timer := 60\<rparr>]\<rparr>)"
  by (rule start_chat_timers_not_postponed) simp_all


section \<open>Deletion is exact\<close>

lemma fold_field: "(\<And>x s. f (g x s) = f s) \<Longrightarrow> f (fold g xs s) = f s"
  by (induction xs arbitrary: s) simp_all

lemma emit_msgs_changed_fields [simp]:
  "msgs (emit_msgs_changed_without_msg_id c s) = msgs s"
  "config (emit_msgs_changed_without_msg_id c s) = config s"
  "chats (emit_msgs_changed_without_msg_id c s) = chats s"
  "chats_contacts (emit_msgs_changed_without_msg_id c s) = chats_contacts s"
  "imap_tbl (emit_msgs_changed_without_msg_id c s) = imap_tbl s"
  by (simp_all add: emit_msgs_changed_without_msg_id_def)

lemma delete_expired_field:
  assumes "\<And>e s. f (emit_event e s) = f s" "\<And>c s. f (emit_msgs_changed_without_msg_id c s) = f s"
  shows "f (delete_expired_messages now s) = f (fold delete_one (select_expired_messages now s) s)"
  unfolding delete_expired_messages_def Let_def
  by (simp add: fold_field [of f] assms split_beta)

lemma delete_one_fields [simp]:
  "config (delete_one r s) = config s" "chats (delete_one r s) = chats s"
  "chats_contacts (delete_one r s) = chats_contacts s" "imap_tbl (delete_one r s) = imap_tbl s"
  by (simp_all add: delete_one_def split: prod.split)

lemma delete_expired_fields [simp]:
  "config (delete_expired_messages now s) = config s" "chats (delete_expired_messages now s) = chats s"
  "chats_contacts (delete_expired_messages now s) = chats_contacts s"
  "imap_tbl (delete_expired_messages now s) = imap_tbl s"
  by (simp_all add: delete_expired_field fold_field)

lemma location_delete_expired_fields [simp]:
  "config (location_delete_expired now s) = config s" "chats (location_delete_expired now s) = chats s"
  "chats_contacts (location_delete_expired now s) = chats_contacts s"
  "imap_tbl (location_delete_expired now s) = imap_tbl s" "msgs (location_delete_expired now s) = msgs s"
  by (simp_all add: location_delete_expired_def emit_location_changed_def Let_def split: option.split)

lemma tombstone_simps [simp]:
  "m_id (tombstone m) = m_id m" "tombstone (tombstone m) = tombstone m" "m_chat_id (tombstone m) = 3"
  "m_ephemeral_timestamp (tombstone m) = 0" "m_rfc724_mid (tombstone m) = m_rfc724_mid m"
  by (simp_all add: tombstone_def msg_row0_def)

lemma fold_delete_msgs:
  "msgs (fold delete_one rows s) = map (\<lambda>m. if m_id m \<in> fst ` set rows then tombstone m else m) (msgs s)"
proof (induction rows arbitrary: s)
  case (Cons r rows)
  have "msgs (delete_one r s) = map (\<lambda>m. if m_id m = fst r then tombstone m else m) (msgs s)"
    by (simp add: delete_one_def upd_where_def split: prod.split)
  then show ?case by (auto simp: Cons.IH)
qed simp

definition expired :: "int \<Rightarrow> ctx \<Rightarrow> msg_row \<Rightarrow> bool" where
  "expired now s m \<longleftrightarrow> ephemeral_expired now m \<or>
     (case get_config_delete_device_after (config s) of
        Some d \<Rightarrow> device_expired (sat_i64 (now - d)) s m | None \<Rightarrow> False)"

lemma select_expired_ids: "fst ` set (select_expired_messages now s) = m_id ` {m \<in> set (msgs s). expired now s m}"
proof -
  have "fst (expired_row m) = m_id m" for m by (simp add: expired_row_def)
  then show ?thesis
    by (auto simp: select_expired_messages_def expired_def set_sel_where image_Un image_image split: option.split)
qed

definition distinct_ids :: "ctx \<Rightarrow> bool" where
  "distinct_ids s \<longleftrightarrow> distinct (map m_id (msgs s))"

lemma delete_expired_map:
  assumes "distinct_ids s"
  shows "msgs (delete_expired_messages now s) = map (\<lambda>m. if expired now s m then tombstone m else m) (msgs s)"
proof -
  have "m_id m \<in> fst ` set (select_expired_messages now s) \<longleftrightarrow> expired now s m" if "m \<in> set (msgs s)" for m
    using assms that unfolding select_expired_ids distinct_ids_def
    by (auto simp: distinct_map inj_on_def)
  then show ?thesis
    by (simp add: delete_expired_field fold_delete_msgs)
qed




section \<open>The loop makes progress and rests\<close>

lemma fold_min:
  "fold min xs (x :: int) \<in> insert x (set xs) \<and> (\<forall>y\<in>insert x (set xs). fold min xs x \<le> y)"
proof (induction xs arbitrary: x)
  case (Cons a xs)
  from Cons.IH [of "min a x"] show ?case by (auto simp: min_def split: if_splits)
qed simp

lemma list_min_Some: "list_min xs = Some x \<Longrightarrow> x \<in> set xs \<and> (\<forall>y\<in>set xs. x \<le> y)"
  by (cases xs) (use fold_min [of "tl xs" "hd xs"] in \<open>auto simp: list_min_def\<close>)

lemma next_expiration_cases:
  assumes "next_expiration_timestamp s = Some t"
  obtains (timer) m where "m \<in> set (msgs s)" "m_ephemeral_timestamp m = t" "t \<noteq> 0" "m_chat_id m \<noteq> 3"
  | (device) m d where "m \<in> set (msgs s)" "get_config_delete_device_after (config s) = Some d"
      "t = sat_i64 (max (m_timestamp m) (m_timestamp_rcvd m) + d)" "m_chat_id m > 3"
      "m_chat_id m \<noteq> self_chat_id s" "m_chat_id m \<noteq> device_chat_id s"
proof -
  let ?e = "list_min (map m_ephemeral_timestamp
    (sel_where (\<lambda>m. m_ephemeral_timestamp m \<noteq> 0 \<and> m_chat_id m \<noteq> DC_CHAT_ID_TRASH) (msgs s)))"
  from list_min_Some [OF assms [unfolded next_expiration_timestamp_def]]
  consider "?e = Some t" | "next_delete_device_after_timestamp s = Some t"
    by (auto simp: map_filter_def split: if_splits)
  then show thesis
  proof cases
    case 1
    from list_min_Some [OF this] timer show ?thesis by (auto simp: set_sel_where)
  next
    case 2
    then obtain d x where d: "get_config_delete_device_after (config s) = Some d" "t = sat_i64 (x + d)"
      and x: "list_min (map (\<lambda>m. max (m_timestamp m) (m_timestamp_rcvd m)) (sel_where (\<lambda>m. m_chat_id m > DC_CHAT_ID_TRASH
        \<and> m_chat_id m \<noteq> self_chat_id s \<and> m_chat_id m \<noteq> device_chat_id s) (msgs s))) = Some x"
      by (auto simp: next_delete_device_after_timestamp_def split: option.splits)
    from list_min_Some [OF x] d device show ?thesis by (auto simp: set_sel_where)
  qed
qed

text \<open>The range assumptions: all times within 62 bits, and no message in a reserved chat other than the
  trash.\<close>

definition sane_time :: "int \<Rightarrow> bool" where
  "sane_time x \<longleftrightarrow> - (2 ^ 62) \<le> x \<and> x \<le> 2 ^ 62"

definition sane_msgs :: "ctx \<Rightarrow> bool" where
  "sane_msgs s \<longleftrightarrow> list_all (\<lambda>m. (m_chat_id m \<le> 3 \<or> m_chat_id m > 9)
     \<and> sane_time (m_timestamp m) \<and> sane_time (m_timestamp_rcvd m)) (msgs s)"

lemma get_config_int_range: "i32_min \<le> get_config_int st key \<and> get_config_int st key \<le> i32_max"
  by (auto simp: get_config_int_def i32_min_def i32_max_def bind_eq_Some_conv dest!: parse_int_range split: option.split)

lemma delete_device_after_range:
  "get_config_delete_device_after st = Some d \<Longrightarrow> - (2 ^ 31) \<le> d \<and> d \<le> 2 ^ 31 - 1"
  using get_config_int_range [of st DeleteDeviceAfter]
  by (auto simp: get_config_delete_device_after_def Let_def i32_min_def i32_max_def split: if_splits)

lemma sat_id: "sane_time x \<Longrightarrow> - (2 ^ 31) \<le> d \<Longrightarrow> d \<le> 2 ^ 31 - 1 \<Longrightarrow> sat_i64 (x + d) = x + d \<and> sat_i64 (x - d) = x - d"
  by (auto simp: sane_time_def i64_min_def i64_max_def intro!: sat_i64_id)

definition live_msgs :: "ctx \<Rightarrow> nat" where
  "live_msgs s = length (filter (\<lambda>m. m_chat_id m \<noteq> DC_CHAT_ID_TRASH) (msgs s))"

lemma expired_live: "expired now s m \<Longrightarrow> m_chat_id m \<noteq> 3"
  by (auto simp: expired_def ephemeral_expired_def device_expired_def split: option.splits)

lemma next_expiration_expired:
  assumes "sane_msgs s" "sane_time now" "next_expiration_timestamp s = Some t" "t < now"
  shows "\<exists>m\<in>set (msgs s). expired now s m"
  using assms(3)
proof (cases rule: next_expiration_cases)
  case (timer m)
  with assms(4) show ?thesis by (auto simp: expired_def ephemeral_expired_def)
next
  case (device m d)
  let ?x = "max (m_timestamp m) (m_timestamp_rcvd m)"
  have m: "sane_time ?x" "m_chat_id m > 9"
    using assms(1) device(1,4) by (auto simp: sane_msgs_def list_all_iff max_def)
  have "sat_i64 (?x + d) = ?x + d" "sat_i64 (now - d) = now - d"
    using sat_id m(1) assms(2) delete_device_after_range [OF device(2)] by blast+
  with device assms(4) m have "expired now s m" by (auto simp: expired_def device_expired_def)
  with device(1) show ?thesis by blast
qed

text \<open>C15: When the loop wakes up at least a second after the computed expiration time, the iteration deletes
  a message: the number of messages outside the trash decreases.\<close>

theorem ephemeral_loop_progress:
  assumes "distinct_ids s" "sane_msgs s" "sane_time now"
    and "next_expiration_timestamp s = Some t" "wait_until now s = Some u" "u \<le> now"
  shows "live_msgs (ephemeral_iteration now s) < live_msgs s"
proof -
  have "t < now" using assms(4-6) by (auto simp: wait_until_def split: if_splits)
  with next_expiration_expired [OF assms(2-4)] obtain m where m: "m \<in> set (msgs s)" "expired now s m" by blast
  have "length (filter (\<lambda>m. m_chat_id m \<noteq> 3) (map (\<lambda>m. if expired now s m then tombstone m else m) ms))
      \<le> length (filter (\<lambda>m. m_chat_id m \<noteq> 3) ms)
    \<and> (m \<in> set ms \<longrightarrow> length (filter (\<lambda>m. m_chat_id m \<noteq> 3) (map (\<lambda>m. if expired now s m then tombstone m else m) ms))
      < length (filter (\<lambda>m. m_chat_id m \<noteq> 3) ms))" for ms
    using m(2) expired_live by (induction ms) auto
  with m(1) show ?thesis
    by (simp add: live_msgs_def ephemeral_iteration_def delete_expired_map [OF assms(1)])
qed

text \<open>C16: After an iteration nothing is overdue: the loop waits until a time that lies in the future, so it
  does not spin.\<close>

theorem ephemeral_loop_rests:
  assumes "distinct_ids s" "sane_msgs s" "sane_time now"
    and "wait_until now (ephemeral_iteration now s) = Some u"
  shows "now < u"
proof (rule ccontr)
  assume "\<not> now < u"
  let ?s = "ephemeral_iteration now s"
  have msgs: "msgs ?s = map (\<lambda>m. if expired now s m then tombstone m else m) (msgs s)"
    using delete_expired_map [OF assms(1)] by (simp add: ephemeral_iteration_def)
  have same: "expired now ?s = expired now s"
    by (rule ext) (simp add: expired_def device_expired_def self_chat_id_def device_chat_id_def lookup_by_contact_def
        ephemeral_iteration_def cong: option.case_cong)
  have "sane_msgs ?s"
    using assms(2) by (auto simp: sane_msgs_def msgs list_all_iff tombstone_def msg_row0_def sane_time_def)
  moreover obtain t where "next_expiration_timestamp ?s = Some t" "t < now"
    using assms(4) \<open>\<not> now < u\<close> by (auto simp: wait_until_def split: option.splits if_splits)
  ultimately obtain m where "m \<in> set (msgs ?s)" "expired now ?s m"
    using next_expiration_expired assms(3) by blast
  then have "m \<in> (\<lambda>m. if expired now s m then tombstone m else m) ` set (msgs s)" "expired now s m"
    by (simp_all only: msgs same set_map)
  then obtain m0 where "m = (if expired now s m0 then tombstone m0 else m0)" "expired now s m"
    by blast
  then show False using expired_live [of now s m] by (auto split: if_splits)
qed

lemma config0_delete_device_after: "get_config_delete_device_after config_state0 = None"
  by (simp add: get_config_delete_device_after_def get_config_int_def get_config_def get_config_opt_def
      raw_config_defs config_state0_def Config_default_def parse_int_def parse_nat_def digit_val_def
      i32_min_def i32_max_def)

definition due_ctx :: ctx where
  "due_ctx = ctx0\<lparr>msgs := [(msg_row0 20)\<lparr>m_chat_id := 12, m_rfc724_mid := ''m@x'', m_ephemeral_timestamp := 90\<rparr>]\<rparr>"

lemma due_ctx_facts: "distinct_ids due_ctx" "sane_msgs due_ctx" "sane_time 100"
  "next_expiration_timestamp due_ctx = Some 90" "wait_until 100 due_ctx = Some 91"
  by (simp_all add: due_ctx_def ctx0_def msg_row0_def distinct_ids_def sane_msgs_def sane_time_def
      wait_until_def next_expiration_timestamp_def list_min_def map_filter_def
      next_delete_device_after_timestamp_def config0_delete_device_after)

theorem ephemeral_loop_progress_witness: "live_msgs (ephemeral_iteration 100 due_ctx) < live_msgs due_ctx"
  using ephemeral_loop_progress [OF due_ctx_facts] by simp

theorem ephemeral_loop_rests_witness:
  "wait_until 100 (ephemeral_iteration 100 due_ctx) = Some 86500 \<and> (100 :: int) < 86500"
proof -
  have "msgs (ephemeral_iteration 100 due_ctx) = [tombstone (hd (msgs due_ctx))]"
    using delete_expired_map [OF due_ctx_facts(1), of 100]
    by (simp add: ephemeral_iteration_def due_ctx_def expired_def ephemeral_expired_def msg_row0_def)
  then have "wait_until 100 (ephemeral_iteration 100 due_ctx) = Some 86500"
    by (simp add: wait_until_def next_expiration_timestamp_def list_min_def map_filter_def
        next_delete_device_after_timestamp_def ephemeral_iteration_def due_ctx_def ctx0_def
        config0_delete_device_after)
  with ephemeral_loop_rests [OF due_ctx_facts(1-3)] show ?thesis by simp
qed


section \<open>Local deletion and deletion on the server\<close>

text \<open>Every path into the trash chat writes a tombstone, so rows there have no running timer.\<close>

definition trash_has_no_timer :: "ctx \<Rightarrow> bool" where
  "trash_has_no_timer s \<longleftrightarrow> list_all (\<lambda>m. m_chat_id m = DC_CHAT_ID_TRASH \<longrightarrow> m_ephemeral_timestamp m = 0) (msgs s)"

lemma delete_expired_no_timer:
  assumes "distinct_ids s" "trash_has_no_timer s" "m \<in> set (msgs (delete_expired_messages now s))"
  shows "\<not> timer_expired now m"
proof -
  have "m \<in> (\<lambda>m. if expired now s m then tombstone m else m) ` set (msgs s)"
    using assms(3) unfolding delete_expired_map [OF assms(1)] set_map .
  then obtain m0 where m0: "m0 \<in> set (msgs s)" "m = (if expired now s m0 then tombstone m0 else m0)" by blast
  show ?thesis
  proof (cases "expired now s m0")
    case True
    with m0 show ?thesis by (simp add: timer_expired_def)
  next
    case False
    then have "\<not> ephemeral_expired now m0" by (simp add: expired_def)
    moreover have "m_chat_id m0 = 3 \<longrightarrow> m_ephemeral_timestamp m0 = 0"
      using assms(2) m0(1) by (simp add: trash_has_no_timer_def list_all_iff)
    ultimately show ?thesis using m0(2) False by (auto simp: timer_expired_def ephemeral_expired_def)
  qed
qed

text \<open>C18: On an account with several devices, server deletion that runs after the local deletion of the same
  expired messages marks nothing: the tombstones no longer carry the expiration time, so the copies of
  these messages stay on the server.\<close>

theorem local_deletion_first_keeps_server_copies:
  assumes "distinct_ids s" "trash_has_no_timer s" "get_config_bool (config s) BccSelf"
  shows "imap_tbl (delete_expired_imap_messages now transport_id is_chatmail (delete_expired_messages now s))
    = imap_tbl s"
proof -
  have "deletable_mids True is_chatmail now (msgs (delete_expired_messages now s)) = []"
    using delete_expired_no_timer [OF assms(1,2)]
    by (auto simp: deletable_mids_def should_delete_all_downloaded_messages_def Let_def filter_empty_conv)
  then show ?thesis
    using assms(3) by (simp add: delete_expired_imap_messages_def upd_where_none)
qed

text \<open>C19: Server deletion that runs first marks every copy of an expired message on the transport for
  deletion, whatever the account's setup is.\<close>

theorem server_deletion_first_marks_copies:
  assumes "m \<in> set (msgs s)" "timer_expired now m" "m_id m > 9"
    and "r \<in> set (imap_tbl s)" "i_transport_id r = transport_id" "i_rfc724_mid r = m_rfc724_mid m"
  shows "r\<lparr>i_target := []\<rparr> \<in> set (imap_tbl (delete_expired_messages now
    (delete_expired_imap_messages now transport_id is_chatmail s)))"
proof -
  have "m_rfc724_mid m \<in> set (deletable_mids b is_chatmail now (msgs s))" for b
    using assms(1-3) by (auto simp: deletable_mids_def Let_def)
  with assms(4-6) show ?thesis
    by (auto simp: delete_expired_imap_messages_def Let_def set_upd_where intro!: rev_image_eqI [of r])
qed

definition server_ctx :: "string \<Rightarrow> ctx" where
  "server_ctx bcc = due_ctx\<lparr>config := set_raw_config ''bcc_self'' (Some bcc) config_state0,
     imap_tbl := [\<lparr>i_id = 1, i_transport_id = 1, i_folder = ''INBOX'', i_uid = 7, i_uidvalidity = 1, i_rfc724_mid = ''m@x'',
       i_target = ''INBOX''\<rparr>]\<rparr>"

lemma server_ctx_bcc: "get_config_bool (config (server_ctx ''1'')) BccSelf"
  by (simp add: server_ctx_def get_config_bool_def get_config_def get_config_opt_def raw_config_set
      config_state0_def parse_int_def parse_nat_def digit_val_def i32_min_def i32_max_def)

theorem local_deletion_first_keeps_server_copies_witness:
  "map i_target (imap_tbl (delete_expired_imap_messages 100 1 False (delete_expired_messages 100 (server_ctx ''1''))))
     = [''INBOX'']"
proof -
  have "distinct_ids (server_ctx ''1'')" "trash_has_no_timer (server_ctx ''1'')"
    by (simp_all add: server_ctx_def due_ctx_def distinct_ids_def trash_has_no_timer_def msg_row0_def)
  from local_deletion_first_keeps_server_copies [OF this server_ctx_bcc, of 100 1 False]
  show ?thesis by (simp add: server_ctx_def)
qed

theorem server_deletion_first_marks_copies_witness:
  "(hd (imap_tbl (server_ctx ''1'')))\<lparr>i_target := []\<rparr> \<in> set (imap_tbl (delete_expired_messages 100
     (delete_expired_imap_messages 100 1 False (server_ctx ''1''))))"
  by (rule server_deletion_first_marks_copies [of "hd (msgs due_ctx)"])
    (simp_all add: server_ctx_def due_ctx_def msg_row0_def timer_expired_def)

end
