(* ===== verification/ImapSets.thy ===== *)
theory ImapSets
  imports Prelude
begin

text \<open>
  UID sets of \<^verbatim>\<open>src/imap.rs\<close>: \<open>build_sequence_sets\<close> and the iterator \<open>UidGrouper\<close>, which turn lists
  of message UIDs into the compact range syntax of IMAP commands, split where a command line would get
  too long.  A UID is a \<open>u32\<close>; \<open>end + 1\<close> wraps at \<open>2^32\<close>.  The lemmas show that the sets denote exactly
  the UIDs they were built from, in order, and bound their length.
\<close>

section \<open>Ranges\<close>

definition u32_succ :: "nat \<Rightarrow> nat" where
  "u32_succ n = (n + 1) mod 2 ^ 32"

record UidRange =
  r_start :: nat
  r_end :: nat

definition UidRange_to_string :: "UidRange \<Rightarrow> string" where
  "UidRange_to_string r =
     (if r_start r = r_end r then show_nat (r_start r)
      else show_nat (r_start r) @ '':'' @ show_nat (r_end r))"


section \<open>build\_sequence\_sets\<close>

text \<open>The first loop; \<open>ranges\<close> is kept with the last range first.\<close>

fun push_uid :: "nat \<Rightarrow> UidRange list \<Rightarrow> UidRange list" where
  "push_uid current (r # rs) =
     (if u32_succ (r_end r) = current then r\<lparr>r_end := current\<rparr> # rs
      else \<lparr>r_start = current, r_end = current\<rparr> # r # rs)"
| "push_uid current [] = [\<lparr>r_start = current, r_end = current\<rparr>]"

definition uid_ranges :: "nat list \<Rightarrow> UidRange list" where
  "uid_ranges uids = rev (fold push_uid uids [])"

definition range_uids :: "UidRange \<Rightarrow> nat list" where
  "range_uids r = [r_start r..<Suc (r_end r)]"

text \<open>The second loop with the accumulators \<open>result\<close>, \<open>last_uids\<close> and \<open>last_str\<close>.\<close>

definition push_range ::
  "UidRange \<Rightarrow> (nat list \<times> string) list \<times> nat list \<times> string \<Rightarrow> (nat list \<times> string) list \<times> nat list \<times> string" where
  "push_range r acc =
     (case acc of (result, last_uids, last_str) \<Rightarrow>
        let last_uids' = last_uids @ range_uids r;
            last_str' = (if last_str \<noteq> [] then last_str @ '','' else last_str) @ UidRange_to_string r
        in if length last_str' > 990 then (result @ [(last_uids', last_str')], [], [])
           else (result, last_uids', last_str'))"

definition build_sequence_sets :: "nat list \<Rightarrow> (nat list \<times> string) list" where
  "build_sequence_sets uids =
     (case fold push_range (uid_ranges uids) ([], [], []) of
        (result, last_uids, last_str) \<Rightarrow> filter (\<lambda>(_, s). s \<noteq> []) (result @ [(last_uids, last_str)]))"


section \<open>UidGrouper\<close>

type_synonym uid_row = "int \<times> nat \<times> string"

text \<open>The inner loop: rows of the folder that extend the range that ends in \<open>end_uid\<close>.\<close>

fun take_range :: "string \<Rightarrow> nat \<Rightarrow> uid_row list \<Rightarrow> nat \<times> int list \<times> uid_row list" where
  "take_range folder end_uid ((rowid, uid, f) # rows) =
     (if f = folder \<and> (uid = u32_succ end_uid \<or> uid = end_uid)
      then (case take_range folder uid rows of (e, ids, rest) \<Rightarrow> (e, rowid # ids, rest))
      else (end_uid, [], (rowid, uid, f) # rows))"
| "take_range folder end_uid [] = (end_uid, [], [])"

lemma take_range_shorter: "take_range folder e rows = (e', ids, rest) \<Longrightarrow> length rest \<le> length rows"
  by (induction folder e rows arbitrary: e' ids rest rule: take_range.induct)
    (auto split: if_splits prod.splits intro: le_SucI)

function take_ranges ::
  "string \<Rightarrow> string \<Rightarrow> int list \<Rightarrow> uid_row list \<Rightarrow> int list \<times> string \<times> uid_row list" where
  "take_ranges folder uid_set rowid_set rows =
     (if length uid_set < 1000 then
        (case rows of
           (rowid, uid, f) # rest \<Rightarrow>
             if f = folder then
               (case take_range folder uid rest of (e, ids, rest') \<Rightarrow>
                  take_ranges folder
                    ((if uid_set \<noteq> [] then uid_set @ '','' else uid_set)
                       @ UidRange_to_string \<lparr>r_start = uid, r_end = e\<rparr>)
                    (rowid_set @ rowid # ids) rest')
             else (rowid_set, uid_set, rows)
         | [] \<Rightarrow> (rowid_set, uid_set, rows))
      else (rowid_set, uid_set, rows))"
  by pat_completeness auto
termination
  by (relation "measure (\<lambda>(_, _, _, rows). length rows)") (auto dest!: sym [THEN take_range_shorter])

declare take_ranges.simps [simp del]

definition UidGrouper_next :: "uid_row list \<Rightarrow> ((string \<times> int list \<times> string) \<times> uid_row list) option" where
  "UidGrouper_next rows =
     (case rows of
        [] \<Rightarrow> None
      | (_, _, folder) # _ \<Rightarrow>
          (case take_ranges folder [] [] rows of (rowids, uid_set, rest) \<Rightarrow> Some ((folder, rowids, uid_set), rest)))"


section \<open>What a set denotes\<close>

text \<open>The reading of \<open>sequence-set\<close> by a server: single UIDs and ranges, separated by commas.\<close>

definition read_range :: "string \<Rightarrow> nat list option" where
  "read_range s =
     (case split_once (CHR '':'') s of
        None \<Rightarrow> map_option (\<lambda>n. [n]) (parse_nat s)
      | Some (a, b) \<Rightarrow>
          (case (parse_nat a, parse_nat b) of (Some x, Some y) \<Rightarrow> Some [x..<Suc y] | _ \<Rightarrow> None))"

definition read_uid_set :: "string \<Rightarrow> nat list option" where
  "read_uid_set s = map_option concat (those (map read_range (split_on (CHR '','') s)))"

lemma show_nat_chars: "CHR '','' \<notin> set (show_nat n)" "CHR '':'' \<notin> set (show_nat n)"
proof -
  have "digit_char d \<noteq> CHR '',''" "digit_char d \<noteq> CHR '':''" if "d < 10" for d
    using of_char_digit_char [OF that] that by auto
  then show "CHR '','' \<notin> set (show_nat n)" "CHR '':'' \<notin> set (show_nat n)"
    using show_nat_digits by metis+
qed

definition range_ok :: "UidRange \<Rightarrow> bool" where
  "range_ok r \<longleftrightarrow> r_start r \<le> r_end r \<and> r_end r < 2 ^ 32"

lemma read_range_to_string: "read_range (UidRange_to_string r) = Some (range_uids r)"
proof -
  have "split_once (CHR '':'') (show_nat n) = None" for n
    by (simp add: split_once_None show_nat_chars)
  then show ?thesis
    by (simp add: read_range_def UidRange_to_string_def range_uids_def show_nat_chars)
qed

lemma range_string_no_comma: "CHR '','' \<notin> set (UidRange_to_string r)"
  by (simp add: UidRange_to_string_def show_nat_chars)

lemma those_map_Some: "those (map (\<lambda>x. Some (f x)) xs) = Some (map f xs)"
  by (induction xs) simp_all

lemma read_joined:
  "rs \<noteq> [] \<Longrightarrow> read_uid_set (join '','' (map UidRange_to_string rs)) = Some (concat (map range_uids rs))"
  by (simp add: read_uid_set_def split_on_join range_string_no_comma read_range_to_string comp_def those_map_Some)

lemma length_show_nat: "n < 10 ^ Suc k \<Longrightarrow> length (show_nat n) \<le> Suc k"
proof (induction k arbitrary: n)
  case 0
  then show ?case by (simp add: show_nat.simps)
next
  case (Suc k)
  show ?case
  proof (cases "n < 10")
    case True
    then show ?thesis by (simp add: show_nat.simps)
  next
    case False
    have "n div 10 < 10 ^ Suc k" using Suc.prems by (simp add: less_mult_imp_div_less)
    from Suc.IH [OF this] False show ?thesis by (simp add: show_nat.simps [of n])
  qed
qed

lemma length_range_string: "range_ok r \<Longrightarrow> length (UidRange_to_string r) \<le> 21"
proof -
  assume "range_ok r"
  then have "r_start r < 10 ^ Suc 9" "r_end r < 10 ^ Suc 9" by (auto simp: range_ok_def)
  from length_show_nat [OF this(1)] length_show_nat [OF this(2)] show ?thesis
    by (simp add: UidRange_to_string_def)
qed


section \<open>Sequence sets are exact\<close>

definition uid_ok :: "nat \<Rightarrow> bool" where
  "uid_ok u \<longleftrightarrow> 0 < u \<and> u < 2 ^ 32"

lemma u32_succ_eq: "n < 2 ^ 32 \<Longrightarrow> 0 < u \<Longrightarrow> u32_succ n = u \<longleftrightarrow> u = Suc n \<and> u < 2 ^ 32"
  by (cases "Suc n = 2 ^ 32") (auto simp: u32_succ_def)

lemma push_uid_exact:
  assumes "uid_ok u" "\<forall>r\<in>set rs. range_ok r"
  shows "concat (map range_uids (rev (push_uid u rs))) = concat (map range_uids (rev rs)) @ [u]
    \<and> (\<forall>r\<in>set (push_uid u rs). range_ok r)"
proof (cases rs)
  case Nil
  with assms show ?thesis by (simp add: range_uids_def range_ok_def uid_ok_def)
next
  case (Cons r rs')
  with assms have r: "r_start r \<le> r_end r" "r_end r < 2 ^ 32" "0 < u" "u < 2 ^ 32"
    by (auto simp: range_ok_def uid_ok_def)
  then show ?thesis
    using assms(2) u32_succ_eq [OF r(2,3)] Cons
    by (auto simp: range_uids_def range_ok_def)
qed

lemma uid_ranges_exact:
  assumes "\<forall>u\<in>set uids. uid_ok u"
  shows "concat (map range_uids (uid_ranges uids)) = uids \<and> (\<forall>r\<in>set (uid_ranges uids). range_ok r)"
proof -
  have "(\<forall>r\<in>set rs. range_ok r) \<Longrightarrow>
      concat (map range_uids (rev (fold push_uid uids rs))) = concat (map range_uids (rev rs)) @ uids
      \<and> (\<forall>r\<in>set (fold push_uid uids rs). range_ok r)" for rs
    using assms
  proof (induction uids arbitrary: rs)
    case (Cons u uids)
    then have u: "concat (map range_uids (rev (push_uid u rs))) = concat (map range_uids (rev rs)) @ [u]"
      "\<forall>r\<in>set (push_uid u rs). range_ok r"
      using push_uid_exact [of u rs] by simp_all
    from Cons.IH [OF u(2)] Cons.prems(2) show ?case by (simp add: u(1) del: rev.simps)
  qed simp
  from this [of "[]"] show ?thesis by (simp add: uid_ranges_def)
qed

text \<open>The invariant of the second loop: the finished sets denote their UIDs, and the pending set is the
  rendering of the ranges that were pushed since.\<close>

definition sets_inv :: "nat list \<Rightarrow> (nat list \<times> string) list \<times> nat list \<times> string \<Rightarrow> bool" where
  "sets_inv uids acc \<longleftrightarrow> (case acc of (result, last_uids, last_str) \<Rightarrow>
     concat (map fst result) @ last_uids = uids
     \<and> (\<forall>(us, s)\<in>set result. read_uid_set s = Some us \<and> 990 < length s \<and> length s \<le> 1012)
     \<and> length last_str \<le> 990
     \<and> (\<exists>rs. last_uids = concat (map range_uids rs) \<and> last_str = join '','' (map UidRange_to_string rs)))"

lemma range_string_nonempty: "UidRange_to_string r \<noteq> []"
  by (simp add: UidRange_to_string_def)

lemma join_nonempty: "rs \<noteq> [] \<Longrightarrow> join '','' (map UidRange_to_string rs) \<noteq> []"
  by (cases rs; cases "tl rs") (auto simp: range_string_nonempty join_Cons)

lemma push_range_inv:
  assumes "sets_inv uids acc" "range_ok r"
  shows "sets_inv (uids @ range_uids r) (push_range r acc)"
proof -
  obtain result lu ls where acc: "acc = (result, lu, ls)" by (cases acc)
  with assms(1) obtain rs where rs: "lu = concat (map range_uids rs)" "ls = join '','' (map UidRange_to_string rs)"
    by (auto simp: sets_inv_def)
  let ?ls = "(if ls \<noteq> [] then ls @ '','' else ls) @ UidRange_to_string r"
  have ls: "?ls = join '','' (map UidRange_to_string (rs @ [r]))"
    using join_nonempty [of rs] by (cases "rs = []") (auto simp: rs join_append_single)
  have lu: "lu @ range_uids r = concat (map range_uids (rs @ [r]))" by (simp add: rs)
  have "read_uid_set ?ls = Some (lu @ range_uids r)"
    unfolding ls lu by (rule read_joined) simp
  moreover have "length ?ls \<le> 1012"
    using length_range_string [OF assms(2)] assms(1) by (auto simp: acc sets_inv_def)
  ultimately show ?thesis
    using assms(1) ls lu unfolding push_range_def acc sets_inv_def Let_def prod.case
    by (auto intro: exI [of _ "rs @ [r]"] exI [of _ "[]"])
qed

lemma push_ranges_inv:
  "sets_inv uids acc \<Longrightarrow> \<forall>r\<in>set rs. range_ok r \<Longrightarrow>
   sets_inv (uids @ concat (map range_uids rs)) (fold push_range rs acc)"
proof (induction rs arbitrary: uids acc)
  case (Cons r rs)
  with Cons.IH [OF push_range_inv, of uids acc r] show ?case by simp
qed simp

text \<open>C20: The sequence sets built from a list of UIDs cover exactly these UIDs in order, each string is read
  back by a server as its list, and no string is longer than 1012 characters.\<close>

theorem build_sequence_sets_exact:
  assumes "\<forall>u\<in>set uids. uid_ok u"
  shows "concat (map fst (build_sequence_sets uids)) = uids
    \<and> (\<forall>(us, s)\<in>set (build_sequence_sets uids). read_uid_set s = Some us \<and> length s \<le> 1012)"
proof -
  obtain result lu ls where acc: "fold push_range (uid_ranges uids) ([], [], []) = (result, lu, ls)"
    by (cases "fold push_range (uid_ranges uids) ([], [], [])")
  have "sets_inv [] ([], [], [])" by (auto simp: sets_inv_def intro: exI [of _ "[]"])
  from push_ranges_inv [OF this, of "uid_ranges uids"] uid_ranges_exact [OF assms]
  have inv: "sets_inv uids (result, lu, ls)" by (simp add: acc)
  then obtain rs where rs: "lu = concat (map range_uids rs)" "ls = join '','' (map UidRange_to_string rs)"
    by (auto simp: sets_inv_def)
  have keep: "filter (\<lambda>(_, s). s \<noteq> []) result = result"
    using inv by (auto simp: sets_inv_def filter_id_conv)
  have "ls = [] \<Longrightarrow> lu = []" "ls \<noteq> [] \<Longrightarrow> read_uid_set ls = Some lu"
    using join_nonempty [of rs] read_joined [of rs] by (cases "rs = []"; simp add: rs)+
  with inv keep show ?thesis
    by (cases "ls = []") (auto simp: build_sequence_sets_def acc sets_inv_def)
qed

theorem build_sequence_sets_exact_witness:
  "concat (map fst (build_sequence_sets [1, 2, 3, 7])) = [1, 2, 3, 7]"
  using build_sequence_sets_exact [of "[1, 2, 3, 7]"] by (simp add: uid_ok_def)


section \<open>Groups are exact\<close>

definition row_ok :: "uid_row \<Rightarrow> bool" where
  "row_ok r \<longleftrightarrow> uid_ok (fst (snd r))"

abbreviation row_uid :: "uid_row \<Rightarrow> nat" where
  "row_uid r \<equiv> fst (snd r)"

abbreviation row_folder :: "uid_row \<Rightarrow> string" where
  "row_folder r \<equiv> snd (snd r)"

text \<open>The rows that the inner loop consumes fill the range up to its end.\<close>

lemma take_range_exact:
  assumes "take_range folder e rows = (e', ids, rest)" "e < 2 ^ 32" "\<forall>r\<in>set rows. row_ok r"
  shows "\<exists>taken. rows = taken @ rest \<and> ids = map fst taken \<and> (\<forall>r\<in>set taken. row_folder r = folder)
    \<and> e \<le> e' \<and> e' < 2 ^ 32 \<and> {e..e'} = insert e (row_uid ` set taken)"
  using assms
proof (induction folder e rows arbitrary: e' ids rest rule: take_range.induct)
  case (1 folder e rowid uid f rows)
  show ?case
  proof (cases "f = folder \<and> (uid = u32_succ e \<or> uid = e)")
    case True
    obtain e1 ids1 rest1 where t: "take_range folder uid rows = (e1, ids1, rest1)"
      by (cases "take_range folder uid rows")
    have uid: "uid < 2 ^ 32" "uid = Suc e \<or> uid = e"
      using True 1(3,4) u32_succ_eq [of e uid] by (auto simp: row_ok_def uid_ok_def)
    have "\<forall>r\<in>set rows. row_ok r" using 1(4) by simp
    from 1(1) [OF True t uid(1) this] obtain taken where taken: "rows = taken @ rest1" "ids1 = map fst taken"
      "\<forall>r\<in>set taken. row_folder r = folder" "uid \<le> e1" "e1 < 2 ^ 32"
      "{uid..e1} = insert uid (row_uid ` set taken)"
      by blast
    have "e' = e1" "ids = rowid # ids1" "rest = rest1" using 1(2) True t by auto
    moreover have "{e..e1} = insert e {uid..e1}" using uid(2) taken(4) by auto
    ultimately show ?thesis
      using taken True uid(2) by (intro exI [of _ "(rowid, uid, f) # taken"]) auto
  next
    case False
    then show ?thesis using 1(2,3) by auto
  qed
qed auto

definition group_ok :: "string \<times> int list \<times> string \<Rightarrow> uid_row list \<Rightarrow> bool" where
  "group_ok g part \<longleftrightarrow> (case g of (folder, ids, uid_set) \<Rightarrow>
     part \<noteq> [] \<and> ids = map fst part \<and> (\<forall>r\<in>set part. row_folder r = folder)
     \<and> (\<exists>l. read_uid_set uid_set = Some l \<and> set l = row_uid ` set part) \<and> length uid_set \<le> 1021)"

lemma take_ranges_exact:
  assumes "take_ranges folder (join '','' (map UidRange_to_string rs)) ids rows = (ids', uid_set, rest)"
    and "\<forall>r\<in>set rows. row_ok r" "length (join '','' (map UidRange_to_string rs)) \<le> 1021"
  shows "\<exists>taken rs'. rows = taken @ rest \<and> ids' = ids @ map fst taken \<and> (\<forall>r\<in>set taken. row_folder r = folder)
    \<and> uid_set = join '','' (map UidRange_to_string (rs @ rs')) \<and> length uid_set \<le> 1021
    \<and> set (concat (map range_uids rs')) = row_uid ` set taken \<and> (taken \<noteq> [] \<longrightarrow> rs' \<noteq> [])
    \<and> (rows \<noteq> [] \<and> row_folder (hd rows) = folder \<and> length (join '','' (map UidRange_to_string rs)) < 1000 \<longrightarrow> taken \<noteq> [])"
  using assms
proof (induction "length rows" arbitrary: rows rs ids rule: less_induct)
  case less
  let ?us = "join '','' (map UidRange_to_string rs)"
  show ?case
  proof (cases "length ?us < 1000 \<and> rows \<noteq> [] \<and> row_folder (hd rows) = folder")
    case False
    then have "ids' = ids \<and> uid_set = ?us \<and> rest = rows"
      using less.prems(1) by (subst (asm) take_ranges.simps) (auto split: list.splits if_splits)
    with False less.prems(3) show ?thesis by (intro exI [of _ "[]"]) auto
  next
    case True
    then obtain rowid uid rows1 where rows: "rows = (rowid, uid, folder) # rows1" by (cases rows) auto
    obtain e ids1 rest1 where t: "take_range folder uid rows1 = (e, ids1, rest1)" by (cases "take_range folder uid rows1")
    have uid: "uid < 2 ^ 32" "\<forall>r\<in>set rows1. row_ok r" using less.prems(2) by (auto simp: rows row_ok_def uid_ok_def)
    from take_range_exact [OF t uid] obtain taken1 where taken1: "rows1 = taken1 @ rest1" "ids1 = map fst taken1"
      "\<forall>r\<in>set taken1. row_folder r = folder" "uid \<le> e" "e < 2 ^ 32" "{uid..e} = insert uid (row_uid ` set taken1)"
      by blast
    let ?r = "\<lparr>r_start = uid, r_end = e\<rparr>"
    let ?us' = "join '','' (map UidRange_to_string (rs @ [?r]))"
    have us': "(if ?us \<noteq> [] then ?us @ '','' else ?us) @ UidRange_to_string ?r = ?us'"
      using join_nonempty [of rs] by (cases "rs = []") (auto simp: join_append_single)
    have "take_ranges folder ?us' (ids @ rowid # ids1) rest1 = (ids', uid_set, rest)"
      using less.prems(1) True by (subst (asm) take_ranges.simps) (simp add: rows t us')
    moreover have "length ?us' \<le> 1021"
      using True length_range_string [of ?r] taken1(4,5) unfolding us' [symmetric]
      by (auto simp: range_ok_def)
    moreover have "length rest1 < length rows" "\<forall>r\<in>set rest1. row_ok r"
      using taken1(1) uid(2) by (auto simp: rows)
    ultimately obtain taken2 rs2 where taken2: "rest1 = taken2 @ rest" "ids' = (ids @ rowid # ids1) @ map fst taken2"
      "\<forall>r\<in>set taken2. row_folder r = folder" "uid_set = join '','' (map UidRange_to_string ((rs @ [?r]) @ rs2))"
      "length uid_set \<le> 1021" "set (concat (map range_uids rs2)) = row_uid ` set taken2"
      using less.hyps [of rest1 "rs @ [?r]" "ids @ rowid # ids1"] by blast
    have "set (range_uids ?r) = insert uid (row_uid ` set taken1)"
      using taken1(6) by (simp add: range_uids_def atLeastLessThanSuc_atLeastAtMost del: upt_Suc)
    with taken1 taken2 show ?thesis
      by (intro exI [of _ "(rowid, uid, folder) # taken1 @ taken2"] exI [of _ "?r # rs2"])
        (auto simp: rows)
  qed
qed

lemma UidGrouper_next_exact:
  assumes "UidGrouper_next rows = Some (g, rest)" "\<forall>r\<in>set rows. row_ok r"
  shows "\<exists>part. rows = part @ rest \<and> group_ok g part"
proof -
  obtain a b folder rows' where rows: "rows = (a, b, folder) # rows'"
    using assms(1) by (auto simp: UidGrouper_next_def split: list.splits prod.splits)
  then obtain ids us where g: "take_ranges folder [] [] rows = (ids, us, rest)" "g = (folder, ids, us)"
    using assms(1) by (auto simp: UidGrouper_next_def split: prod.splits)
  from take_ranges_exact [of folder "[]" "[]" rows ids us rest] g(1) assms(2) rows
  obtain taken rs' where "rows = taken @ rest" "ids = map fst taken" "\<forall>r\<in>set taken. row_folder r = folder"
    "us = join '','' (map UidRange_to_string rs')" "length us \<le> 1021"
    "set (concat (map range_uids rs')) = row_uid ` set taken" "rs' \<noteq> []" "taken \<noteq> []"
    by auto
  then show ?thesis
    using read_joined [of rs'] by (intro exI [of _ taken]) (simp add: group_ok_def g(2))
qed

text \<open>Running the iterator to its end.\<close>

lemma take_ranges_shorter: "take_ranges folder us ids rows = (ids', us', rest) \<Longrightarrow> length rest \<le> length rows"
proof (induction "length rows" arbitrary: us ids rows rule: less_induct)
  case less
  show ?case
  proof (cases "length us < 1000 \<and> rows \<noteq> [] \<and> row_folder (hd rows) = folder")
    case False
    then have "rest = rows"
      using less.prems by (subst (asm) take_ranges.simps) (auto split: list.splits if_splits)
    then show ?thesis by simp
  next
    case True
    then obtain rowid uid rows1 where rows: "rows = (rowid, uid, folder) # rows1" by (cases rows) auto
    obtain e ids1 rest1 where t: "take_range folder uid rows1 = (e, ids1, rest1)" by (cases "take_range folder uid rows1")
    have "length rest1 < length rows" using take_range_shorter [OF t] by (simp add: rows)
    moreover have "\<exists>us1 ids1. take_ranges folder us1 ids1 rest1 = (ids', us', rest)"
      using less.prems True by (subst (asm) take_ranges.simps) (auto simp: rows t)
    ultimately show ?thesis using less.hyps by fastforce
  qed
qed

lemma UidGrouper_next_shorter: "UidGrouper_next rows = Some (g, rest) \<Longrightarrow> length rest < length rows"
  by (auto simp: UidGrouper_next_def take_ranges.simps [of _ "[]"] split: list.splits prod.splits
      dest!: take_range_shorter take_ranges_shorter)

function uid_groups :: "uid_row list \<Rightarrow> (string \<times> int list \<times> string) list" where
  "uid_groups rows =
     (case UidGrouper_next rows of None \<Rightarrow> [] | Some (g, rest) \<Rightarrow> g # uid_groups rest)"
  by pat_completeness auto
termination
  by (relation "measure length") (auto dest: UidGrouper_next_shorter)



end
