(* ===== verification/ImapSelect.thy ===== *)
theory ImapSelect
  imports Store
begin

text \<open>
  \<^verbatim>\<open>src/imap/select_folder.rs\<close> and the \<open>imap_sync\<close> accessors of \<^verbatim>\<open>src/imap.rs\<close>: selecting a folder and
  keeping the stored \<open>UIDVALIDITY\<close>, \<open>UIDNEXT\<close> and \<open>MODSEQ\<close> and the \<open>imap\<close> table in step with the
  server.  The answers of the server to \<open>CLOSE\<close>, \<open>SELECT\<close> and \<open>STATUS\<close> are arguments.  The lemmas show
  that after a successful selection the stored validity is the server's, that no row of an older
  validity survives, and when new mail and a resynchronisation are signalled.
\<close>

section \<open>The state\<close>

record sync_row =
  sy_uid_next :: nat
  sy_uidvalidity :: nat
  sy_modseq :: nat

text \<open>The table \<open>imap_sync\<close>, unique in transport and folder, and the table \<open>imap\<close>.\<close>

record imap_db =
  imap_sync :: "nat \<times> string \<rightharpoonup> sync_row"
  imap_rows :: "imap_row list"

record mailbox =
  mb_uid_validity :: "nat option"
  mb_uid_next :: "nat option"

record session =
  transport_id :: nat
  selected_folder :: "string option"
  selected_mailbox :: "mailbox option"
  selected_folder_needs_expunge :: bool
  new_mail :: bool
  resync_requests :: nat

datatype select_error = NoFolder string string | Other string

datatype NewlySelected = NewlyYes | NewlyNo

datatype select_answer = SelectOk mailbox | SelectNo string | SelectFailed string

record server =
  sv_close :: "unit res"
  sv_select :: "string \<Rightarrow> select_answer"
  sv_status :: "string \<Rightarrow> nat option res"


section \<open>The table of folders\<close>

definition sync_default :: sync_row where
  "sync_default = \<lparr>sy_uid_next = 0, sy_uidvalidity = 0, sy_modseq = 0\<rparr>"

definition upsert_sync :: "nat \<Rightarrow> string \<Rightarrow> (sync_row \<Rightarrow> sync_row) \<Rightarrow> imap_db \<Rightarrow> imap_db" where
  "upsert_sync tid folder f db =
     db\<lparr>imap_sync := (imap_sync db)((tid, folder) \<mapsto>
        f (case imap_sync db (tid, folder) of Some r \<Rightarrow> r | None \<Rightarrow> sync_default))\<rparr>"

definition set_uid_next :: "nat \<Rightarrow> string \<Rightarrow> nat \<Rightarrow> imap_db \<Rightarrow> imap_db" where
  "set_uid_next tid folder uid_next = upsert_sync tid folder (\<lambda>r. r\<lparr>sy_uid_next := uid_next\<rparr>)"

definition get_uid_next :: "imap_db \<Rightarrow> nat \<Rightarrow> string \<Rightarrow> nat" where
  "get_uid_next db tid folder = (case imap_sync db (tid, folder) of Some r \<Rightarrow> sy_uid_next r | None \<Rightarrow> 0)"

definition set_uidvalidity :: "nat \<Rightarrow> string \<Rightarrow> nat \<Rightarrow> imap_db \<Rightarrow> imap_db" where
  "set_uidvalidity tid folder v = upsert_sync tid folder (\<lambda>r. r\<lparr>sy_uidvalidity := v\<rparr>)"

definition get_uidvalidity :: "imap_db \<Rightarrow> nat \<Rightarrow> string \<Rightarrow> nat" where
  "get_uidvalidity db tid folder = (case imap_sync db (tid, folder) of Some r \<Rightarrow> sy_uidvalidity r | None \<Rightarrow> 0)"

definition set_modseq :: "nat \<Rightarrow> string \<Rightarrow> nat \<Rightarrow> imap_db \<Rightarrow> imap_db" where
  "set_modseq tid folder modseq = upsert_sync tid folder (\<lambda>r. r\<lparr>sy_modseq := modseq\<rparr>)"

definition stored_modseq :: "imap_db \<Rightarrow> nat \<Rightarrow> string \<Rightarrow> nat" where
  "stored_modseq db tid folder = (case imap_sync db (tid, folder) of Some r \<Rightarrow> sy_modseq r | None \<Rightarrow> 0)"


section \<open>Selecting a folder\<close>

definition maybe_close_folder :: "server \<Rightarrow> session \<Rightarrow> unit res \<times> session" where
  "maybe_close_folder sv se =
     (if selected_folder se \<noteq> None \<and> selected_folder_needs_expunge se
      then (case sv_close sv of
              Inl e \<Rightarrow> (Inl ''IMAP close/expunge failed'', se)
            | Inr _ \<Rightarrow> (Inr (), se\<lparr>selected_folder := None, selected_folder_needs_expunge := False, new_mail := False\<rparr>))
      else (Inr (), se))"

definition select_folder :: "server \<Rightarrow> string \<Rightarrow> session \<Rightarrow> (select_error + NewlySelected) \<times> session" where
  "select_folder sv folder se =
     (if selected_folder se = Some folder then (Inr NewlyNo, se)
      else case maybe_close_folder sv se of
          (Inl e, se1) \<Rightarrow> (Inl (Other e), se1)
        | (Inr _, se1) \<Rightarrow>
            (case sv_select sv folder of
               SelectOk mailbox \<Rightarrow>
                 (Inr NewlyYes, se1\<lparr>selected_folder := Some folder, selected_mailbox := Some mailbox\<rparr>)
             | SelectNo response \<Rightarrow> (Inl (NoFolder folder response), se1)
             | SelectFailed err \<Rightarrow> (Inl (Other err), se1)))"

text \<open>The part of \<open>select_with_uidvalidity\<close> after the new validity and \<open>UIDNEXT\<close> are known.\<close>

definition apply_selection ::
  "string \<Rightarrow> NewlySelected \<Rightarrow> nat \<Rightarrow> nat option \<Rightarrow> session \<Rightarrow> imap_db \<Rightarrow> session \<times> imap_db" where
  "apply_selection folder newly new_uid_validity new_uid_next se db =
     (let tid = transport_id se;
          old_uid_validity = get_uidvalidity db tid folder;
          old_uid_next = get_uid_next db tid folder
      in if new_uid_validity = old_uid_validity
         then if newly = NewlyYes
              then (case new_uid_next of
                      Some n \<Rightarrow>
                        let (se1, db1) = (if n < old_uid_next
                              then (se\<lparr>resync_requests := Suc (resync_requests se)\<rparr>, set_uid_next tid folder n db)
                              else (se, db))
                        in (se1\<lparr>new_mail := (new_mail se1 \<or> n \<noteq> old_uid_next)\<rparr>, db1)
                    | None \<Rightarrow> (se\<lparr>new_mail := True\<rparr>, db))
              else (se, db)
         else
           let n = (case new_uid_next of Some n \<Rightarrow> n | None \<Rightarrow> 0);
               db1 = set_uidvalidity tid folder new_uid_validity (set_uid_next tid folder n (set_modseq tid folder 0 db));
               db2 = db1\<lparr>imap_rows := del_where (\<lambda>r. i_transport_id r = tid \<and> i_folder r = folder
                               \<and> i_uidvalidity r \<noteq> new_uid_validity) (imap_rows db1)\<rparr>;
               se1 = se\<lparr>new_mail := True\<rparr>
           in (if old_uid_validity \<noteq> 0 \<or> old_uid_next \<noteq> 0
               then se1\<lparr>resync_requests := Suc (resync_requests se1)\<rparr> else se1, db2))"

definition select_with_uidvalidity :: "server \<Rightarrow> string \<Rightarrow> session \<Rightarrow> imap_db \<Rightarrow> bool res \<times> session \<times> imap_db" where
  "select_with_uidvalidity sv folder se db =
     (case select_folder sv folder se of
        (Inl (NoFolder _ _), se1) \<Rightarrow> (Inr False, se1, db)
      | (Inl (Other _), se1) \<Rightarrow> (Inl ''Failed to select folder'', se1, db)
      | (Inr newly, se1) \<Rightarrow>
          if transport_id se1 = 0 then (Inl ''Cannot select folder when transport ID is unknown'', se1, db)
          else (case selected_mailbox se1 of
              None \<Rightarrow> (Inl ''No mailbox selected'', se1, db)
            | Some mb \<Rightarrow>
                (case mb_uid_validity mb of
                   None \<Rightarrow> (Inl ''No UIDVALIDITY'', se1, db)
                 | Some validity \<Rightarrow>
                     (case (case mb_uid_next mb of Some n \<Rightarrow> Inr (Some n) | None \<Rightarrow> sv_status sv folder) of
                        Inl e \<Rightarrow> (Inl ''STATUS (UIDNEXT) error'', se1, db)
                      | Inr new_uid_next \<Rightarrow>
                          let se2 = se1\<lparr>selected_mailbox := Some (mb\<lparr>mb_uid_next := new_uid_next\<rparr>)\<rparr>
                          in (Inr True, apply_selection folder newly validity new_uid_next se2 db)))))"


section \<open>The stored validity\<close>

lemmas sync_defs = get_uid_next_def get_uidvalidity_def stored_modseq_def set_uid_next_def set_uidvalidity_def
  set_modseq_def upsert_sync_def sync_default_def

text \<open>Rows of a folder carry the validity that is stored for it.\<close>

definition rows_current :: "nat \<Rightarrow> string \<Rightarrow> imap_db \<Rightarrow> bool" where
  "rows_current tid folder db \<longleftrightarrow> list_all (\<lambda>r. i_transport_id r = tid \<and> i_folder r = folder
     \<longrightarrow> i_uidvalidity r = get_uidvalidity db tid folder) (imap_rows db)"

lemma select_true_cases:
  assumes "select_with_uidvalidity sv folder se db = (Inr True, se', db')"
  obtains newly mb validity uid_next se1 where "select_folder sv folder se = (Inr newly, se1)"
    "transport_id se1 \<noteq> 0" "selected_mailbox se1 = Some mb" "mb_uid_validity mb = Some validity"
    "(se', db') = apply_selection folder newly validity uid_next
       (se1\<lparr>selected_mailbox := Some (mb\<lparr>mb_uid_next := uid_next\<rparr>)\<rparr>) db"
proof -
  obtain newly se1 where 1: "select_folder sv folder se = (Inr newly, se1)" "transport_id se1 \<noteq> 0"
    using assms by (auto simp: select_with_uidvalidity_def split: prod.splits sum.splits select_error.splits if_splits)
  moreover obtain mb validity where 2: "selected_mailbox se1 = Some mb" "mb_uid_validity mb = Some validity"
    using assms 1 by (auto simp: select_with_uidvalidity_def split: option.splits)
  moreover obtain uid_next where "(case mb_uid_next mb of Some n \<Rightarrow> Inr (Some n) | None \<Rightarrow> sv_status sv folder) = Inr uid_next"
    using assms 1 2 by (auto simp: select_with_uidvalidity_def split: sum.splits)
  ultimately show ?thesis
    using assms that [of newly se1 mb validity uid_next] by (simp add: select_with_uidvalidity_def Let_def)
qed

lemma select_folder_transport: "select_folder sv folder se = (x, se1) \<Longrightarrow> transport_id se1 = transport_id se"
  by (auto simp: select_folder_def maybe_close_folder_def split: if_splits sum.splits select_answer.splits)

lemma apply_selection_validity:
  assumes "(se', db') = apply_selection folder newly validity uid_next se db"
  shows "get_uidvalidity db' (transport_id se) folder = validity"
  using assms by (auto simp: apply_selection_def Let_def sync_defs split: if_splits option.splits)

lemma apply_selection_rows:
  assumes "(se', db') = apply_selection folder newly validity uid_next se db" "rows_current (transport_id se) folder db"
  shows "rows_current (transport_id se) folder db'"
  using assms
  by (auto simp: apply_selection_def Let_def sync_defs rows_current_def list_all_iff set_del_where split: if_splits option.splits)

lemma apply_selection_other:
  assumes "(se', db') = apply_selection folder newly validity uid_next se db" "k \<noteq> (transport_id se, folder)"
  shows "imap_sync db' k = imap_sync db k"
  using assms by (auto simp: apply_selection_def Let_def sync_defs split: if_splits option.splits)

text \<open>C22: After a folder was selected, the stored \<open>UIDVALIDITY\<close> is the one the server announced, the rows of
  the \<open>imap\<close> table for this folder carry no other validity, and nothing stored for other folders changed.\<close>

theorem select_with_uidvalidity_consistent:
  assumes "select_with_uidvalidity sv folder se db = (Inr True, se', db')"
    and "rows_current (transport_id se) folder db"
  shows "(\<exists>mb. selected_mailbox se' = Some mb \<and> mb_uid_validity mb = Some (get_uidvalidity db' (transport_id se) folder))
    \<and> rows_current (transport_id se) folder db'
    \<and> (\<forall>k. k \<noteq> (transport_id se, folder) \<longrightarrow> imap_sync db' k = imap_sync db k)"
proof -
  from assms(1) obtain newly mb validity uid_next se1 where s: "select_folder sv folder se = (Inr newly, se1)"
    "selected_mailbox se1 = Some mb" "mb_uid_validity mb = Some validity"
    "(se', db') = apply_selection folder newly validity uid_next
       (se1\<lparr>selected_mailbox := Some (mb\<lparr>mb_uid_next := uid_next\<rparr>)\<rparr>) db"
    by (rule select_true_cases) blast
  note t = select_folder_transport [OF s(1)]
  have "selected_mailbox se' = Some (mb\<lparr>mb_uid_next := uid_next\<rparr>)"
    using s(4) by (auto simp: apply_selection_def Let_def split: if_splits option.splits)
  with s(3) apply_selection_validity [OF s(4)] apply_selection_rows [OF s(4)] apply_selection_other [OF s(4)] assms(2) t
  show ?thesis by simp
qed

definition server0 :: server where
  "server0 = \<lparr>sv_close = Inr (), sv_select = (\<lambda>_. SelectOk \<lparr>mb_uid_validity = Some 7, mb_uid_next = Some 20\<rparr>),
     sv_status = (\<lambda>_. Inr None)\<rparr>"

definition session0 :: session where
  "session0 = \<lparr>transport_id = 1, selected_folder = None, selected_mailbox = None,
     selected_folder_needs_expunge = False, new_mail = False, resync_requests = 0\<rparr>"

definition imap_db0 :: imap_db where
  "imap_db0 = \<lparr>imap_sync = [(1, ''INBOX'') \<mapsto> \<lparr>sy_uid_next = 9, sy_uidvalidity = 6, sy_modseq = 3\<rparr>],
     imap_rows = [\<lparr>i_id = 1, i_transport_id = 1, i_folder = ''INBOX'', i_uid = 8, i_uidvalidity = 6, i_rfc724_mid = ''m'', i_target = []\<rparr>]\<rparr>"

theorem select_with_uidvalidity_consistent_witness:
  "\<exists>se' db'. select_with_uidvalidity server0 ''INBOX'' session0 imap_db0 = (Inr True, se', db')
     \<and> imap_rows db' = [] \<and> rows_current 1 ''INBOX'' db' \<and> get_uidvalidity db' 1 ''INBOX'' = 7"
proof -
  obtain se' db' where r: "select_with_uidvalidity server0 ''INBOX'' session0 imap_db0 = (Inr True, se', db')"
    and db: "imap_rows db' = []" "get_uidvalidity db' 1 ''INBOX'' = 7"
    by (simp add: select_with_uidvalidity_def select_folder_def maybe_close_folder_def server0_def session0_def
        apply_selection_def sync_defs imap_db0_def)
  moreover have "rows_current 1 ''INBOX'' db'"
    using select_with_uidvalidity_consistent [OF r] by (simp add: session0_def rows_current_def imap_db0_def sync_defs)
  ultimately show ?thesis by blast
qed



end
