(* ===== verification/ServerParams.thy ===== *)
theory ServerParams
  imports Prelude
begin

text \<open>
  \<^verbatim>\<open>src/configure/server_params.rs\<close>: expansion of incomplete server parameters into the list of
  candidates that the configuration tries.  The lemmas show that every candidate is complete, that
  what the user gave is never changed, that complete parameters are tried as they are, and that an
  unencrypted connection is only tried when it was asked for.
\<close>

section \<open>Parameters\<close>

datatype Protocol = Smtp | Imap

datatype Socket = Automatic | Ssl | Starttls | Plain

record ServerParams =
  protocol :: Protocol
  hostname :: string
  port :: nat
  socket :: Socket
  username :: string

definition expand_usernames :: "string \<Rightarrow> ServerParams \<Rightarrow> ServerParams list" where
  "expand_usernames addr p = (if username p = [] then [p\<lparr>username := addr\<rparr>] else [p])"

definition expand_hostnames :: "string \<Rightarrow> ServerParams \<Rightarrow> ServerParams list" where
  "expand_hostnames param_domain p =
     (if hostname p = [] then
        [p\<lparr>hostname := (case protocol p of Imap \<Rightarrow> ''imap.'' @ param_domain | Smtp \<Rightarrow> ''smtp.'' @ param_domain)\<rparr>,
         p\<lparr>hostname := ''mail.'' @ param_domain\<rparr>,
         p\<lparr>hostname := param_domain\<rparr>]
      else [p])"

definition infer_port :: "ServerParams \<Rightarrow> nat" where
  "infer_port p =
     (case socket p of
        Ssl \<Rightarrow> (case protocol p of Imap \<Rightarrow> 993 | Smtp \<Rightarrow> 465)
      | Starttls \<Rightarrow> (case protocol p of Imap \<Rightarrow> 143 | Smtp \<Rightarrow> 587)
      | Plain \<Rightarrow> (case protocol p of Imap \<Rightarrow> 143 | Smtp \<Rightarrow> 587)
      | Automatic \<Rightarrow> 0)"

definition expand_ports :: "ServerParams \<Rightarrow> ServerParams list" where
  "expand_ports p0 =
     (let p = (if port p0 = 0 then p0\<lparr>port := infer_port p0\<rparr> else p0)
      in if port p = 0 then
           [p\<lparr>socket := Ssl, port := (case protocol p of Imap \<Rightarrow> 993 | Smtp \<Rightarrow> 465)\<rparr>,
            p\<lparr>socket := Starttls, port := (case protocol p of Imap \<Rightarrow> 143 | Smtp \<Rightarrow> 587)\<rparr>]
         else if socket p = Automatic then [p\<lparr>socket := Ssl\<rparr>, p\<lparr>socket := Starttls\<rparr>]
         else [p])"

definition expand_param_vector :: "ServerParams list \<Rightarrow> string \<Rightarrow> string \<Rightarrow> ServerParams list" where
  "expand_param_vector v addr domain =
     concat (map expand_ports (concat (map (expand_hostnames domain) (concat (map (expand_usernames addr) v)))))"


section \<open>Candidates\<close>

definition complete :: "ServerParams \<Rightarrow> bool" where
  "complete p \<longleftrightarrow> username p \<noteq> [] \<and> hostname p \<noteq> [] \<and> port p \<noteq> 0 \<and> socket p \<noteq> Automatic"

text \<open>A candidate \<open>q\<close> agrees with what was given in \<open>p\<close>.\<close>

definition keeps :: "ServerParams \<Rightarrow> ServerParams \<Rightarrow> bool" where
  "keeps p q \<longleftrightarrow> protocol q = protocol p
     \<and> (username p \<noteq> [] \<longrightarrow> username q = username p)
     \<and> (hostname p \<noteq> [] \<longrightarrow> hostname q = hostname p)
     \<and> (port p \<noteq> 0 \<longrightarrow> port q = port p)
     \<and> (socket p \<noteq> Automatic \<longrightarrow> socket q = socket p)"

definition expand_one :: "string \<Rightarrow> string \<Rightarrow> ServerParams \<Rightarrow> ServerParams list" where
  "expand_one addr domain p = concat (map expand_ports (concat (map (expand_hostnames domain) (expand_usernames addr p))))"

lemma expand_param_vector_one: "expand_param_vector v addr domain = concat (map (expand_one addr domain) v)"
  by (induction v) (simp_all add: expand_param_vector_def expand_one_def)

lemmas expand_defs = expand_usernames_def expand_hostnames_def expand_ports_def infer_port_def Let_def

lemma expand_ports_complete:
  "q \<in> set (expand_ports p) \<Longrightarrow> port q \<noteq> 0 \<and> socket q \<noteq> Automatic \<and> username q = username p \<and> hostname q = hostname p
    \<and> protocol q = protocol p \<and> (port p \<noteq> 0 \<longrightarrow> port q = port p) \<and> (socket p \<noteq> Automatic \<longrightarrow> socket q = socket p)
    \<and> (socket q = Plain \<longrightarrow> socket p = Plain)"
  by (cases "protocol p"; cases "socket p") (auto simp: expand_defs split: if_splits)

lemma expand_one_sound:
  assumes "q \<in> set (expand_one addr domain p)" "addr \<noteq> []" "domain \<noteq> []"
  shows "complete q \<and> keeps p q \<and> (socket q = Plain \<longrightarrow> socket p = Plain)"
proof -
  from assms(1) obtain p1 p2 where p: "p1 \<in> set (expand_usernames addr p)" "p2 \<in> set (expand_hostnames domain p1)"
    and q: "q \<in> set (expand_ports p2)"
    unfolding expand_one_def by (simp only: set_concat set_map) blast
  have 1: "username p1 \<noteq> [] \<and> hostname p1 = hostname p \<and> protocol p1 = protocol p \<and> port p1 = port p
      \<and> socket p1 = socket p \<and> (username p \<noteq> [] \<longrightarrow> username p1 = username p)"
    using p(1) assms(2) by (cases "username p = []") (simp_all add: expand_usernames_def)
  have 2: "hostname p2 \<noteq> [] \<and> username p2 = username p1 \<and> protocol p2 = protocol p1 \<and> port p2 = port p1
      \<and> socket p2 = socket p1 \<and> (hostname p1 \<noteq> [] \<longrightarrow> hostname p2 = hostname p1)"
    using p(2) assms(3) by (cases "hostname p1 = []"; cases "protocol p1") (auto simp: expand_hostnames_def)
  note q = expand_ports_complete [OF q]
  from 1 2 q have "complete q" unfolding complete_def by presburger
  moreover from 1 2 q have "keeps p q" unfolding keeps_def by (intro conjI impI) metis+
  moreover from 1 2 q have "socket q = Plain \<longrightarrow> socket p = Plain" by presburger
  ultimately show ?thesis by blast
qed

text \<open>C25: Every candidate is complete, stems from an entry of the input whose given values it keeps, and is
  unencrypted only when that entry asked for it.\<close>

theorem expand_param_vector_sound:
  assumes "q \<in> set (expand_param_vector v addr domain)" "addr \<noteq> []" "domain \<noteq> []"
  shows "complete q \<and> (\<exists>p\<in>set v. keeps p q \<and> (socket q = Plain \<longrightarrow> socket p = Plain))"
proof -
  from assms(1) obtain p where p: "p \<in> set v" "q \<in> set (expand_one addr domain p)"
    by (auto simp: expand_param_vector_one)
  from expand_one_sound [OF p(2) assms(2,3)] p(1) show ?thesis by blast
qed

theorem expand_param_vector_sound_witness:
  "complete \<lparr>protocol = Imap, hostname = ''mail.x.org'', port = 993, socket = Ssl, username = ''a@x.org''\<rparr>"
  using expand_param_vector_sound
    [of "\<lparr>protocol = Imap, hostname = ''mail.x.org'', port = 993, socket = Ssl, username = ''a@x.org''\<rparr>"
        "[\<lparr>protocol = Imap, hostname = [], port = 0, socket = Automatic, username = []\<rparr>]" "''a@x.org''" "''x.org''"]
  by (simp add: expand_param_vector_def expand_defs)

lemma expand_one_complete: "complete p \<Longrightarrow> expand_one addr domain p = [p]"
  by (cases "socket p") (auto simp: complete_def expand_one_def expand_defs)

text \<open>Expansion is idempotent, and complete parameters are tried exactly as given and in their order.\<close>

theorem expand_param_vector_idem:
  assumes "addr \<noteq> []" "domain \<noteq> []"
  shows "expand_param_vector (expand_param_vector v addr domain) addr domain = expand_param_vector v addr domain
    \<and> (list_all complete v \<longrightarrow> expand_param_vector v addr domain = v)"
proof -
  have *: "list_all complete w \<Longrightarrow> expand_param_vector w addr domain = w" for w
    by (induction w) (simp_all add: expand_param_vector_one expand_one_complete)
  have "list_all complete (expand_param_vector v addr domain)"
    unfolding list_all_iff expand_param_vector_one
    by (auto dest: expand_one_sound [OF _ assms])
  from * [OF this] * [of v] show ?thesis by simp
qed

theorem expand_param_vector_idem_witness:
  "expand_param_vector (expand_param_vector [\<lparr>protocol = Smtp, hostname = [], port = 0, socket = Automatic, username = []\<rparr>]
      ''a@x.org'' ''x.org'') ''a@x.org'' ''x.org''
   = expand_param_vector [\<lparr>protocol = Smtp, hostname = [], port = 0, socket = Automatic, username = []\<rparr>] ''a@x.org'' ''x.org''"
  using expand_param_vector_idem [of "''a@x.org''" "''x.org''"] by simp

end
