(* ===== verification/ChatBase.thy ===== *)
theory ChatBase
  imports Ephemeral GroupChanges
begin

text \<open>
  What \<^verbatim>\<open>src/chat.rs\<close> and \<^verbatim>\<open>src/contact.rs\<close> share: fingerprints (\<^verbatim>\<open>src/key.rs\<close>), items for the other
  devices of the account (\<^verbatim>\<open>src/sync.rs\<close>), contacts and chats as they are loaded from the database, the
  identity of a chat across devices, and information messages.  The source of time is the argument
  \<open>now\<close>, which is the same for all calls of \<open>time()\<close> in one operation.  Row identifiers are not bounded.
\<close>

section \<open>Fingerprints\<close>

definition is_hexdigit :: "nat \<Rightarrow> bool" where
  "is_hexdigit c \<longleftrightarrow> 48 \<le> c \<and> c \<le> 57 \<or> 65 \<le> c \<and> c \<le> 70 \<or> 97 \<le> c \<and> c \<le> 102"

text \<open>A fingerprint is represented by its hexadecimal form \<open>Fingerprint::hex\<close>.\<close>

definition Fingerprint_from_str :: "(ustr \<Rightarrow> ustr) \<Rightarrow> ustr \<Rightarrow> ustr res" where
  "Fingerprint_from_str up input =
     (let hex_repr = filter is_hexdigit (up input)
      in if odd (length hex_repr) then Inl ''OddLength''
         else if length hex_repr = 40 \<or> length hex_repr = 64 then Inr (map to_ascii_uppercase hex_repr)
         else Inl ''wrong fingerprint length'')"

fun human_readable_from :: "nat \<Rightarrow> ustr \<Rightarrow> ustr" where
  "human_readable_from i [] = []"
| "human_readable_from i (c # cs) =
     (if i > 0 \<and> i mod 20 = 0 then [10] else if i > 0 \<and> i mod 4 = 0 then [32] else [])
     @ c # human_readable_from (Suc i) cs"

definition human_readable :: "ustr \<Rightarrow> ustr" where
  "human_readable fp = human_readable_from 0 fp"

text \<open>\<open>self_fingerprint\<close> generates the key of the account when there is none.\<close>

definition get_self_fingerprint :: "ctx \<Rightarrow> ustr \<times> ctx" where
  "get_self_fingerprint s =
     (case self_fingerprint s of
        Some fp \<Rightarrow> (fp, s)
      | None \<Rightarrow> (generated_fingerprint s, s\<lparr>self_fingerprint := Some (generated_fingerprint s)\<rparr>))"


section \<open>Items for other devices\<close>

definition add_sync_item :: "int \<Rightarrow> SyncData \<Rightarrow> ctx \<Rightarrow> ctx" where
  "add_sync_item now data s =
     (if should_send_sync_msgs (config s)
      then let i = Suc (multi_device_sync_seq s)
           in s\<lparr>multi_device_sync := multi_device_sync s @ [(i, \<lparr>si_timestamp = now, si_data = data\<rparr>)],
                multi_device_sync_seq := i\<rparr>
      else s)"

definition sync :: "int \<Rightarrow> SyncId \<Rightarrow> SyncAction \<Rightarrow> ctx \<Rightarrow> ctx" where
  "sync now i action s = interrupt_smtp (add_sync_item now (AlterChat i action) s)"


section \<open>Loading contacts\<close>

definition config_text :: "ctx \<Rightarrow> Config \<Rightarrow> ustr" where
  "config_text s key = (case get_config (config s) key of Some v \<Rightarrow> utf8_decode v | None \<Rightarrow> [])"

definition get_by_id_optional :: "ctx \<Rightarrow> contact_id \<Rightarrow> contact_row option" where
  "get_by_id_optional s i =
     map_option (\<lambda>c.
       if i = ContactId_SELF then
         c\<lparr>c_name := stock s SelfMsg, c_authname := config_text s Displayname,
           c_addr := config_text s ConfiguredAddr,
           c_fingerprint := (case self_fingerprint s of Some fp \<Rightarrow> fp | None \<Rightarrow> c_fingerprint c),
           c_status := config_text s Selfstatus\<rparr>
       else if i = ContactId_DEVICE then
         c\<lparr>c_name := stock s DeviceMessages, c_addr := U ''device@localhost'',
           c_status := stock s DeviceMessagesHint\<rparr>
       else c) (contact_of s i)"

definition get_by_id :: "ctx \<Rightarrow> contact_id \<Rightarrow> contact_row res" where
  "get_by_id s i = (case get_by_id_optional s i of Some c \<Rightarrow> Inr c | None \<Rightarrow> Inl ''contact not found'')"

definition Contact_fingerprint :: "ctx \<Rightarrow> contact_row \<Rightarrow> ustr option" where
  "Contact_fingerprint s c =
     (if c_fingerprint c = [] then None
      else case Fingerprint_from_str (upper s) (c_fingerprint c) of Inr fp \<Rightarrow> Some fp | Inl _ \<Rightarrow> None)"

definition get_display_name :: "contact_row \<Rightarrow> ustr" where
  "get_display_name c = (if c_name c \<noteq> [] then c_name c else if c_authname c \<noteq> [] then c_authname c else c_addr c)"

definition get_name_n_addr :: "contact_row \<Rightarrow> ustr" where
  "get_name_n_addr c =
     (if c_name c \<noteq> [] then c_name c @ U '' ('' @ c_addr c @ U '')''
      else if c_authname c \<noteq> [] then c_authname c @ U '' ('' @ c_addr c @ U '')''
      else c_addr c)"


section \<open>Loading chats\<close>

definition ChatVisibility_to_int :: "ChatVisibility \<Rightarrow> nat" where
  "ChatVisibility_to_int v = (case v of VisNormal \<Rightarrow> 0 | VisArchived \<Rightarrow> 1 | VisPinned \<Rightarrow> 2)"

definition ChatVisibility_from_int :: "nat \<Rightarrow> ChatVisibility" where
  "ChatVisibility_from_int n = (if n = 2 then VisPinned else if n = 1 then VisArchived else VisNormal)"

text \<open>A time before the epoch does not convert.\<close>

definition MuteDuration_to_int :: "MuteDuration \<Rightarrow> int res" where
  "MuteDuration_to_int d =
     (case d of NotMuted \<Rightarrow> Inr 0 | MuteForever \<Rightarrow> Inr (-1)
      | MuteUntil t \<Rightarrow> if 0 \<le> t then Inr t else Inl ''ToSqlConversionFailure'')"

definition MuteDuration_from_int :: "int \<Rightarrow> MuteDuration" where
  "MuteDuration_from_int n =
     (if n = 0 then NotMuted else if n = -1 then MuteForever else if n > 0 then MuteUntil n else NotMuted)"

definition is_self_talk :: "chat_row \<Rightarrow> bool" where
  "is_self_talk c \<longleftrightarrow> Params_exists Selftalk (ch_param c)"

definition is_device_talk :: "chat_row \<Rightarrow> bool" where
  "is_device_talk c \<longleftrightarrow> Params_exists Devicetalk (ch_param c)"

definition load_from_db :: "ctx \<Rightarrow> chat_id \<Rightarrow> chat_row res" where
  "load_from_db s chat =
     (case chat_row_of s chat of
        None \<Rightarrow> Inl ''Failed loading chat from database''
      | Some c \<Rightarrow>
          Inr (if chat = DC_CHAT_ID_ARCHIVED_LINK then c\<lparr>ch_name := stock s ArchivedChats\<rparr>
            else
              let c1 = (if ch_type c = Single \<and> ch_name c = [] then
                          c\<lparr>ch_name := (case get_chat_contacts s chat of
                             contact # _ \<Rightarrow> (case get_by_id s contact of
                                Inr k \<Rightarrow> get_display_name k | Inl _ \<Rightarrow> U ''Err [Name not found]'')
                           | [] \<Rightarrow> U ''Err [Name not found]'')\<rparr>
                        else c)
              in if is_self_talk c1 then c1\<lparr>ch_name := stock s SavedMessages\<rparr>
                 else if is_device_talk c1 then c1\<lparr>ch_name := stock s DeviceMessages\<rparr>
                 else c1))"

definition is_mailing_list :: "chat_row \<Rightarrow> bool" where
  "is_mailing_list c \<longleftrightarrow> ch_type c = Mailinglist"

definition is_contact_request :: "chat_row \<Rightarrow> bool" where
  "is_contact_request c \<longleftrightarrow> ch_blocked c = Request"

definition is_unpromoted :: "chat_row \<Rightarrow> bool" where
  "is_unpromoted c \<longleftrightarrow> (case Params_get_bool Unpromoted (ch_param c) of Some b \<Rightarrow> b | None \<Rightarrow> False)"

definition is_promoted :: "chat_row \<Rightarrow> bool" where
  "is_promoted c \<longleftrightarrow> \<not> is_unpromoted c"

definition is_muted :: "int \<Rightarrow> chat_row \<Rightarrow> bool" where
  "is_muted now c \<longleftrightarrow>
     (case MuteDuration_from_int (ch_muted_until c) of
        NotMuted \<Rightarrow> False | MuteForever \<Rightarrow> True | MuteUntil t \<Rightarrow> t > now)"

definition is_self_in_chat :: "ctx \<Rightarrow> chat_row \<Rightarrow> bool" where
  "is_self_in_chat s c \<longleftrightarrow>
     (case ch_type c of
        Single \<Rightarrow> True | OutBroadcast \<Rightarrow> True | Mailinglist \<Rightarrow> True
      | Group \<Rightarrow> is_contact_in_chat (chats_contacts s) (ch_id c) ContactId_SELF
      | InBroadcast \<Rightarrow> is_contact_in_chat (chats_contacts s) (ch_id c) ContactId_SELF)"

text \<open>The left join yields a null for a member without contact, which does not convert to \<open>bool\<close>.\<close>

definition is_encrypted :: "ctx \<Rightarrow> chat_row \<Rightarrow> bool res" where
  "is_encrypted s c =
     (if is_self_talk c then Inr True
      else case ch_type c of
        Single \<Rightarrow>
          (case sel_one (\<lambda>r. cc_chat r = ch_id c) (chats_contacts s) of
             None \<Rightarrow> Inr True
           | Some r \<Rightarrow>
               (case contact_of s (cc_contact r) of
                  None \<Rightarrow> Inl ''InvalidColumnType''
                | Some k \<Rightarrow> Inr (c_fingerprint k \<noteq> [] \<or> cc_contact r = ContactId_DEVICE)))
      | Group \<Rightarrow> Inr (ch_grpid c \<noteq> [])
      | Mailinglist \<Rightarrow> Inr False
      | OutBroadcast \<Rightarrow> Inr True
      | InBroadcast \<Rightarrow> Inr True)"

definition get_chat_id_by_grpid :: "ctx \<Rightarrow> ustr \<Rightarrow> (chat_id \<times> Blocked) option" where
  "get_chat_id_by_grpid s grpid =
     map_option (\<lambda>c. (ch_id c, ch_blocked c)) (sel_one (\<lambda>c. ch_grpid c = grpid) (chats s))"


section \<open>The identity of a chat across devices\<close>

text \<open>\<open>ORDER BY timestamp DESC, id DESC LIMIT 1\<close>.\<close>

definition newest :: "msg_row list \<Rightarrow> msg_row option" where
  "newest ms = (case rev (sort_key m_timestamp (sort_key m_id ms)) of [] \<Rightarrow> None | m # _ \<Rightarrow> Some m)"

definition get_parent_mime_headers :: "ctx \<Rightarrow> chat_id \<Rightarrow> MessageState \<Rightarrow> (string \<times> string \<times> string) option" where
  "get_parent_mime_headers s chat state_out_min =
     map_option (\<lambda>m. (m_rfc724_mid m, m_in_reply_to m, m_references m))
       (newest (filter (\<lambda>m. m_chat_id m = chat
          \<and> (MessageState_to_int InFresh \<le> MessageState_to_int (m_state m)
               \<and> MessageState_to_int (m_state m) \<le> MessageState_to_int InSeen
             \<or> MessageState_to_int state_out_min \<le> MessageState_to_int (m_state m))
          \<and> \<not> m_hidden m \<and> m_download_state m = 0 \<and> m_from_id m \<noteq> ContactId_INFO) (msgs s)))"

fun contacts_sync_id :: "ctx \<Rightarrow> bool \<Rightarrow> contact_id list \<Rightarrow> SyncId option \<Rightarrow> SyncId option res" where
  "contacts_sync_id s self_talk [] r = Inr r"
| "contacts_sync_id s self_talk (x # xs) r =
     (if x = ContactId_SELF \<and> \<not> self_talk then contacts_sync_id s self_talk xs r
      else if r \<noteq> None then Inr None
      else res_bind (get_by_id s x) (\<lambda>c.
        contacts_sync_id s self_talk xs
          (Some (case Contact_fingerprint s c of Some fp \<Rightarrow> ContactFingerprint fp | None \<Rightarrow> ContactAddr (c_addr c)))))"

definition get_sync_id :: "ctx \<Rightarrow> chat_row \<Rightarrow> SyncId option res" where
  "get_sync_id s c =
     (if ch_type c = Single then
        if is_device_talk c then Inr (Some SyncDevice)
        else contacts_sync_id s (is_self_talk c) (get_chat_contacts s (ch_id c)) None
      else if ch_grpid c \<noteq> [] then Inr (Some (Grpid (ch_grpid c)))
      else Inr (map_option (\<lambda>(mid, in_reply_to, _). Msgids [in_reply_to, mid])
                 (get_parent_mime_headers s (ch_id c) OutDelivered)))"

definition Chat_sync :: "int \<Rightarrow> chat_row \<Rightarrow> SyncAction \<Rightarrow> ctx \<Rightarrow> ctx res" where
  "Chat_sync now c action s =
     res_bind (get_sync_id s c) (\<lambda>i. Inr (case i of Some i \<Rightarrow> sync now i action s | None \<Rightarrow> s))"

text \<open>\<open>.log_err(context).ok()\<close> drops the error; nothing was written before it.\<close>

definition log_err :: "(ctx \<Rightarrow> ctx res) \<Rightarrow> ctx \<Rightarrow> ctx" where
  "log_err f s = (case f s of Inr s' \<Rightarrow> s' | Inl _ \<Rightarrow> s)"


section \<open>Information messages\<close>

text \<open>\<open>INSERT INTO msgs\<close>: the row gets the next identifier.\<close>

definition insert_msg :: "(msg_row \<Rightarrow> msg_row) \<Rightarrow> ctx \<Rightarrow> msg_id \<times> ctx" where
  "insert_msg f s =
     (let i = Suc (msgs_seq s) in (i, s\<lparr>msgs := msgs s @ [f (msg_row0 i)], msgs_seq := i\<rparr>))"

definition list_max :: "int list \<Rightarrow> int option" where
  "list_max xs = (case xs of [] \<Rightarrow> None | x # xs' \<Rightarrow> Some (fold max xs' x))"

definition join_timestamp :: "ctx \<Rightarrow> chat_id \<Rightarrow> int option" where
  "join_timestamp s chat =
     map_option add_timestamp (sel_one (\<lambda>r. cc_chat r = chat \<and> cc_contact r = ContactId_SELF) (chats_contacts s))"

definition calc_sort_timestamp :: "int \<Rightarrow> ctx \<Rightarrow> chat_id \<Rightarrow> int \<Rightarrow> bool \<Rightarrow> int" where
  "calc_sort_timestamp now s chat message_timestamp always_sort_to_bottom =
     (let t0 = min message_timestamp now;
          last_msg_time = (if always_sort_to_bottom
            then list_max (map m_timestamp (filter (\<lambda>m. m_chat_id m = chat \<and> m_state m \<noteq> OutDraft) (msgs s)))
            else None);
          t1 = (case last_msg_time of Some l \<Rightarrow> if l > t0 then l else t0 | None \<Rightarrow> t0)
      in case join_timestamp s chat of Some j \<Rightarrow> max t1 j | None \<Rightarrow> t1)"

definition add_info_msg_with_cmd ::
  "int \<Rightarrow> chat_id \<Rightarrow> ustr \<Rightarrow> SystemMessage \<Rightarrow> int option \<Rightarrow> int \<Rightarrow> string option \<Rightarrow> contact_id option
    \<Rightarrow> contact_id option \<Rightarrow> ctx \<Rightarrow> (msg_id \<times> ctx) res" where
  "add_info_msg_with_cmd now chat text cmd timestamp_sort timestamp_sent_rcvd parent from_id added_removed s0 =
     (let (rfc724_mid, s) = create_outgoing_rfc724_mid s0
      in res_bind (get_ephemeral_timer s chat) (\<lambda>ephemeral_timer.
        let p0 = (if cmd \<noteq> SystemMessage.Unknown then Params_set_cmd cmd Params_new else Params_new);
            p = (case added_removed of Some i \<Rightarrow> Params_set ContactAddedRemoved (show_nat i) p0 | None \<Rightarrow> p0);
            ts = (case timestamp_sort of Some t \<Rightarrow> t | None \<Rightarrow> calc_sort_timestamp now s chat now True);
            (i, s1) = insert_msg (\<lambda>m. m\<lparr>m_chat_id := chat,
               m_from_id := (case from_id of Some f \<Rightarrow> f | None \<Rightarrow> ContactId_INFO), m_to_id := ContactId_INFO,
               m_timestamp := ts, m_timestamp_sent := timestamp_sent_rcvd, m_timestamp_rcvd := timestamp_sent_rcvd,
               m_type := Viewtype_to_int Text, m_state := InNoticed, m_txt := text, m_rfc724_mid := rfc724_mid,
               m_ephemeral_timer := Timer_to_sql ephemeral_timer, m_param := p,
               m_in_reply_to := (case parent of Some q \<Rightarrow> q | None \<Rightarrow> [])\<rparr>) s
        in Inr (i, emit_msgs_changed chat i s1)))"

definition add_info_msg :: "int \<Rightarrow> chat_id \<Rightarrow> ustr \<Rightarrow> ctx \<Rightarrow> (msg_id \<times> ctx) res" where
  "add_info_msg now chat text s = add_info_msg_with_cmd now chat text SystemMessage.Unknown None now None None None s"

definition add_e2ee_notice :: "int \<Rightarrow> chat_id \<Rightarrow> int \<Rightarrow> ctx \<Rightarrow> ctx res" where
  "add_e2ee_notice now chat timestamp s =
     res_bind (add_info_msg_with_cmd now chat (stock s MessagesE2eeInfoMsg) ChatE2ee (Some 0) timestamp None None None s)
       (\<lambda>(_, s'). Inr s')"

definition add_start_info_message :: "int \<Rightarrow> chat_id \<Rightarrow> ustr \<Rightarrow> ctx \<Rightarrow> ctx res" where
  "add_start_info_message now chat text s =
     res_bind (add_info_msg_with_cmd now chat text SystemMessage.Unknown (Some 0) now None None None s)
       (\<lambda>(_, s'). Inr s')"


section \<open>Blocking a chat\<close>

definition ChatId_set_blocked :: "chat_id \<Rightarrow> Blocked \<Rightarrow> ctx \<Rightarrow> (bool \<times> ctx) res" where
  "ChatId_set_blocked chat new_blocked s =
     (if ChatId_is_special chat then Inl ''ignoring setting of Block-status''
      else Inr (list_ex (\<lambda>c. ch_id c = chat \<and> ch_blocked c \<noteq> new_blocked) (chats s),
        s\<lparr>chats := upd_where (\<lambda>c. ch_id c = chat \<and> ch_blocked c \<noteq> new_blocked)
                    (\<lambda>c. c\<lparr>ch_blocked := new_blocked\<rparr>) (chats s)\<rparr>))"

definition unblock_ex :: "int \<Rightarrow> Sync \<Rightarrow> chat_id \<Rightarrow> ctx \<Rightarrow> ctx res" where
  "unblock_ex now do_sync chat s =
     res_bind (ChatId_set_blocked chat Not s) (\<lambda>(_, s1).
       let s2 = emit_chatlist_changed s1
       in if do_sync = Sync
          then res_bind (load_from_db s2 chat) (\<lambda>c. Inr (log_err (Chat_sync now c SyncUnblock) s2))
          else Inr s2)"

end
