(* ===== verification/Contacts.thy ===== *)
theory Contacts
  imports ChatBase "HOL-Library.List_Lexorder"
begin

text \<open>
  \<^verbatim>\<open>src/contact.rs\<close>: creating, looking up, renaming, blocking, deleting and verifying contacts.  The
  lemmas show that chains of introductions always lead back to a contact the user verified, that
  names the user entered never reach the column that is sent over the network, that origins only
  grow, and that creating a contact twice finds it again.
\<close>

section \<open>Single columns\<close>

definition update_contact :: "contact_id \<Rightarrow> (contact_row \<Rightarrow> contact_row) \<Rightarrow> ctx \<Rightarrow> ctx" where
  "update_contact i f s = s\<lparr>contacts := upd_where (\<lambda>c. c_id c = i) f (contacts s)\<rparr>"

definition mark_bot :: "contact_id \<Rightarrow> bool \<Rightarrow> ctx \<Rightarrow> ctx" where
  "mark_bot i is_bot s = update_contact i (\<lambda>c. c\<lparr>c_is_bot := is_bot\<rparr>) s"

definition regossip_keys :: "contact_id \<Rightarrow> ctx \<Rightarrow> ctx" where
  "regossip_keys i s =
     s\<lparr>chats := upd_where (\<lambda>c. list_ex (\<lambda>r. cc_chat r = ch_id c \<and> cc_contact r = i \<and> is_member_row r) (chats_contacts s))
                 (\<lambda>c. c\<lparr>ch_gossiped_timestamp := 0\<rparr>) (chats s)\<rparr>"

definition scaleup_origin :: "contact_id list \<Rightarrow> Origin \<Rightarrow> ctx \<Rightarrow> ctx" where
  "scaleup_origin ids origin s =
     s\<lparr>contacts := fold (\<lambda>i. upd_where (\<lambda>c. c_id c = i \<and> Origin_to_u32 (c_origin c) < Origin_to_u32 origin)
                            (\<lambda>c. c\<lparr>c_origin := origin\<rparr>)) ids (contacts s)\<rparr>"

definition ContactId_addr :: "ctx \<Rightarrow> contact_id \<Rightarrow> ustr res" where
  "ContactId_addr s i = (case contact_of s i of Some c \<Rightarrow> Inr (c_addr c) | None \<Rightarrow> Inl ''QueryReturnedNoRows'')"

definition is_blocked_load :: "ctx \<Rightarrow> contact_id \<Rightarrow> bool res" where
  "is_blocked_load s i = (case contact_of s i of Some c \<Rightarrow> Inr (c_blocked c) | None \<Rightarrow> Inl ''QueryReturnedNoRows'')"

definition real_exists_by_id :: "ctx \<Rightarrow> contact_id \<Rightarrow> bool" where
  "real_exists_by_id s i \<longleftrightarrow> \<not> ContactId_is_special i \<and> list_ex (\<lambda>c. c_id c = i) (contacts s)"

definition get_real_cnt :: "ctx \<Rightarrow> nat" where
  "get_real_cnt s = length (filter (\<lambda>c. c_id c > ContactId_LAST_SPECIAL) (contacts s))"

definition mark_noticed :: "contact_id \<Rightarrow> ctx \<Rightarrow> ctx" where
  "mark_noticed i s =
     s\<lparr>msgs := upd_where (\<lambda>m. m_from_id m = i \<and> m_state m = InFresh) (\<lambda>m. m\<lparr>m_state := InNoticed\<rparr>) (msgs s)\<rparr>"

definition SEEN_RECENTLY_SECONDS :: int where "SEEN_RECENTLY_SECONDS = 600"

definition update_last_seen :: "int \<Rightarrow> contact_id \<Rightarrow> int \<Rightarrow> ctx \<Rightarrow> ctx res" where
  "update_last_seen now i timestamp s =
     (if ContactId_is_special i then Inl ''Can not update special contact last seen timestamp''
      else
        let older = (\<lambda>c. c_last_seen c < timestamp \<and> c_id c = i);
            s' = s\<lparr>contacts := upd_where older (\<lambda>c. c\<lparr>c_last_seen := timestamp\<rparr>) (contacts s)\<rparr>
        in Inr (if list_ex older (contacts s) \<and> timestamp > now - SEEN_RECENTLY_SECONDS
                then emit_event (ContactsChanged (Some i)) s' else s'))"


section \<open>Names\<close>

definition update_chat_names :: "contact_id \<Rightarrow> ctx \<Rightarrow> ctx res" where
  "update_chat_names i s =
     (case sel_one (\<lambda>c. ch_type c = Single
               \<and> list_ex (\<lambda>j. cc_chat j = ch_id c \<and> cc_contact j = i) (chats_contacts s)) (chats s) of
        None \<Rightarrow> Inr s
      | Some chat \<Rightarrow>
          (case contact_of s i of
             None \<Rightarrow> Inl ''QueryReturnedNoRows''
           | Some k \<Rightarrow>
               let chat_name = get_display_name k;
                   other = (\<lambda>c. ch_id c = ch_id chat \<and> ch_name c \<noteq> chat_name);
                   s' = s\<lparr>chats := upd_where other (\<lambda>c. c\<lparr>ch_name := chat_name\<rparr>) (chats s)\<rparr>
               in Inr (if list_ex other (chats s)
                       then emit_event (ChatlistItemChanged None) (emit_event (ChatModified (ch_id chat)) s')
                       else s')))"

definition set_name_ex :: "int \<Rightarrow> Sync \<Rightarrow> contact_id \<Rightarrow> ustr \<Rightarrow> ctx \<Rightarrow> ctx res" where
  "set_name_ex now do_sync i name s =
     (if name = [] \<and> contact_of s i = None then Inl ''QueryReturnedNoRows''
      else if \<not> list_ex (\<lambda>c. c_id c = i \<and> c_name c \<noteq> name) (contacts s) then Inr s
      else
        let s1 = s\<lparr>contacts := upd_where (\<lambda>c. c_id c = i \<and> c_name c \<noteq> name) (\<lambda>c. c\<lparr>c_name := name\<rparr>) (contacts s)\<rparr>
        in res_bind (update_chat_names i s1) (\<lambda>s2.
          case contact_of s2 i of
            None \<Rightarrow> Inl ''QueryReturnedNoRows''
          | Some c \<Rightarrow>
              let s3 = emit_event (ContactsChanged (Some i)) s2
              in Inr (if do_sync = Sync
                      then sync now (if c_fingerprint c = [] then ContactAddr (c_addr c)
                                     else ContactFingerprint (c_fingerprint c)) (Rename name) s3
                      else s3)))"


section \<open>Adding and looking up\<close>

datatype Modifier = ModifierNone | Modified | Created

fun contains_sub_u :: "ustr \<Rightarrow> ustr \<Rightarrow> bool" where
  "contains_sub_u [] p = (p = [])"
| "contains_sub_u (x # xs) p = (starts_with (x # xs) p \<or> contains_sub_u xs p)"

definition noreply_addr :: "ustr \<Rightarrow> bool" where
  "noreply_addr addr \<longleftrightarrow>
     contains_sub_u addr (U ''noreply'') \<or> contains_sub_u addr (U ''no-reply'')
     \<or> starts_with addr (U ''notifications@'') \<or> blen addr > 50 \<and> contains_sub_u addr (U ''+'')"

definition origin_le :: "Origin \<Rightarrow> Origin \<Rightarrow> bool" where
  "origin_le a b \<longleftrightarrow> Origin_to_u32 a \<le> Origin_to_u32 b"

definition is_manual :: "Origin \<Rightarrow> bool" where
  "is_manual origin \<longleftrightarrow> origin = ManuallyCreated \<or> origin = AddressBook \<or> origin = UnhandledQrScan"

text \<open>The name and the origin after addresses that nobody answers to have been hidden.\<close>

definition effective_name_origin :: "ustr \<Rightarrow> ustr \<Rightarrow> Origin \<Rightarrow> ustr \<times> Origin" where
  "effective_name_origin name addr origin =
     (if origin_le origin OutgoingTo \<and> noreply_addr addr then ([], Hidden) else (sanitize_name name, origin))"

definition same_contact :: "ustr \<Rightarrow> ustr \<Rightarrow> contact_row \<Rightarrow> bool" where
  "same_contact fp addr c \<longleftrightarrow> c_fingerprint c = fp \<and> (fp \<noteq> [] \<or> nocase_eq (c_addr c) addr)"

text \<open>The transaction: update the row \<open>c\<close> that was found, or insert a new one.\<close>

definition update_found :: "ustr \<Rightarrow> ustr \<Rightarrow> Origin \<Rightarrow> contact_row \<Rightarrow> ctx \<Rightarrow> ((contact_id \<times> Modifier) \<times> ctx) res" where
  "update_found name addr origin c s =
     (let update_name = is_manual origin \<and> name \<noteq> c_name c;
          update_authname = \<not> is_manual origin \<and> name \<noteq> c_authname c \<and> name \<noteq> []
            \<and> (origin_le (c_origin c) origin \<or> origin = IncomingUnknownFrom \<or> c_authname c = []);
          update_addr = origin_le (c_origin c) origin \<and> addr \<noteq> c_addr c;
          higher = \<not> origin_le origin (c_origin c)
      in if update_name \<or> update_authname \<or> update_addr \<or> higher then
           let s1 = update_contact (c_id c) (\<lambda>r. r\<lparr>
                 c_name := (if update_name then name else c_name c),
                 c_addr := (if update_addr then addr else c_addr c),
                 c_origin := (if higher then origin else c_origin c),
                 c_authname := (if update_authname then name else c_authname c)\<rparr>) s
           in if update_name \<or> update_authname
              then res_bind (update_chat_names (c_id c) s1) (\<lambda>s2. Inr ((c_id c, Modified), s2))
              else Inr ((c_id c, Modified), s1)
         else Inr ((c_id c, ModifierNone), s))"

definition insert_contact :: "ustr \<Rightarrow> ustr \<Rightarrow> ustr \<Rightarrow> Origin \<Rightarrow> ctx \<Rightarrow> (contact_id \<times> Modifier) \<times> ctx" where
  "insert_contact name addr fp origin s =
     (let i = Suc (contacts_seq s)
      in ((i, Created),
          s\<lparr>contacts := contacts s @ [(contact_row0 i)\<lparr>
               c_name := (if is_manual origin then name else []), c_addr := addr, c_fingerprint := fp,
               c_origin := origin, c_authname := (if is_manual origin then [] else name)\<rparr>],
            contacts_seq := i\<rparr>))"

definition add_or_lookup_ex ::
  "ustr \<Rightarrow> ustr \<Rightarrow> ustr \<Rightarrow> Origin \<Rightarrow> ctx \<Rightarrow> ((contact_id \<times> Modifier) \<times> ctx) res" where
  "add_or_lookup_ex name addr fp origin s =
     (if addr = [] \<and> fp = [] then Inl ''Can not add_or_lookup empty address''
      else if origin = Origin.Unknown then Inl ''Missing valid origin''
      else if is_configured s \<and> is_self_addr (lower s) s addr then Inr ((ContactId_SELF, ModifierNone), s)
      else
        let (self_fp, s1) = (if fp \<noteq> [] \<and> is_configured s then get_self_fingerprint s else ([], s))
        in if fp \<noteq> [] \<and> is_configured s \<and> fp = self_fp then Inr ((ContactId_SELF, ModifierNone), s1)
           else
             let (name', origin') = effective_name_origin name addr origin
             in case sel_one (same_contact fp addr) (contacts s1) of
                  Some c \<Rightarrow> update_found name' addr origin' c s1
                | None \<Rightarrow> Inr (insert_contact name' addr fp origin' s1))"

definition add_or_lookup :: "ustr \<Rightarrow> ustr \<Rightarrow> Origin \<Rightarrow> ctx \<Rightarrow> ((contact_id \<times> Modifier) \<times> ctx) res" where
  "add_or_lookup name addr origin s = add_or_lookup_ex name addr [] origin s"

text \<open>\<open>SELECT ... ORDER BY (number of unblocked 1:1 chats) DESC, last_seen DESC, fingerprint DESC LIMIT 1\<close>.\<close>

definition chats_with :: "ctx \<Rightarrow> Blocked \<Rightarrow> contact_id \<Rightarrow> nat" where
  "chats_with s b i =
     length [(c, cc). c \<leftarrow> chats s, cc \<leftarrow> chats_contacts s, ch_id c = cc_chat cc \<and> ch_type c = Single
        \<and> ch_id c > DC_CHAT_ID_LAST_SPECIAL \<and> ch_blocked c = b \<and> cc_contact cc = i]"

definition lookup_id_by_addr_ex :: "ctx \<Rightarrow> ustr \<Rightarrow> Origin \<Rightarrow> Blocked option \<Rightarrow> contact_id option res" where
  "lookup_id_by_addr_ex s addr min_origin blocked =
     (if addr = [] then Inl ''lookup_id_by_addr: empty address''
      else if is_configured s \<and> is_self_addr (lower s) s addr then Inr (Some ContactId_SELF)
      else
        let normalized = addr_normalize (lower s) addr;
            b = (case blocked of Some b \<Rightarrow> b | None \<Rightarrow> Not);
            rows = filter (\<lambda>c. nocase_eq (c_addr c) normalized \<and> c_id c > ContactId_LAST_SPECIAL
                \<and> origin_le min_origin (c_origin c)
                \<and> (blocked = None \<or> (if c_blocked c then b = Yes else b = Not))) (contacts s);
            sorted = rev (sort_key (\<lambda>c. chats_with s b (c_id c)) (sort_key c_last_seen (sort_key c_fingerprint (rev rows))))
        in Inr (case sorted of [] \<Rightarrow> None | c # _ \<Rightarrow> Some (c_id c)))"

definition lookup_id_by_addr :: "ctx \<Rightarrow> ustr \<Rightarrow> Origin \<Rightarrow> contact_id option res" where
  "lookup_id_by_addr s addr min_origin = lookup_id_by_addr_ex s addr min_origin (Some Not)"


section \<open>Blocking\<close>

definition set_blocked :: "int \<Rightarrow> Sync \<Rightarrow> contact_id \<Rightarrow> bool \<Rightarrow> ctx \<Rightarrow> ctx res" where
  "set_blocked now do_sync i new_blocking s =
     (if ContactId_is_special i then Inl ''Can't block special contact''
      else res_bind (get_by_id s i) (\<lambda>contact.
        if c_blocked contact = new_blocking then Inr (emit_chatlist_changed s)
        else
          let s1 = update_contact i (\<lambda>c. c\<lparr>c_blocked := new_blocking\<rparr>) s;
              s2 = s1\<lparr>chats := upd_where (\<lambda>c. ch_type c = Single
                      \<and> list_ex (\<lambda>r. cc_chat r = ch_id c \<and> cc_contact r = i) (chats_contacts s1))
                     (\<lambda>c. c\<lparr>ch_blocked := (if new_blocking then Yes else Not)\<rparr>) (chats s1)\<rparr>;
              s3 = emit_event (ContactsChanged (Some i)) (mark_noticed i s2)
          in res_bind
               (if \<not> new_blocking \<and> c_origin contact = MailinglistAddress then
                  (case get_chat_id_by_grpid s3 (c_addr contact) of
                     Some (chat, _) \<Rightarrow> unblock_ex now Nosync chat s3
                   | None \<Rightarrow> Inr s3)
                else Inr s3)
               (\<lambda>s4. Inr (emit_chatlist_changed
                  (if do_sync = Sync
                   then sync now (case Contact_fingerprint s4 contact of
                           Some fp \<Rightarrow> ContactFingerprint fp | None \<Rightarrow> ContactAddr (c_addr contact))
                         (if new_blocking then SyncBlock else SyncUnblock) s4
                   else s4)))))"

definition create_ex :: "int \<Rightarrow> Sync \<Rightarrow> ustr \<Rightarrow> ustr \<Rightarrow> ctx \<Rightarrow> (contact_id \<times> ctx) res" where
  "create_ex now do_sync name0 addr0 s =
     (let (name, addr1) = sanitize_name_and_addr name0 addr0
      in res_bind (ContactAddress_new (lower s) addr1) (\<lambda>addr.
         res_bind (add_or_lookup name addr ManuallyCreated s) (\<lambda>((i, modified), s1).
         res_bind (is_blocked_load s1 i) (\<lambda>blocked.
         let s2 = (if modified = ModifierNone then s1 else emit_event (ContactsChanged (Some i)) s1)
         in res_bind (if blocked then set_blocked now Nosync i False s2 else Inr s2) (\<lambda>s3.
            Inr (i, if do_sync = Sync \<and> modified \<noteq> ModifierNone
                    then sync now (ContactAddr addr) (Rename name) s3 else s3))))))"

fun split_pairs :: "'a list \<Rightarrow> ('a \<times> 'a) list" where
  "split_pairs (a # b # xs) = (a, b) # split_pairs xs"
| "split_pairs _ = []"

text \<open>\<open>str::lines\<close>: a final empty line is dropped, and so is a carriage return at the end of a line.\<close>

definition lines :: "ustr \<Rightarrow> ustr list" where
  "lines s =
     (let ls = split_on 10 s; ls' = (if last ls = [] then butlast ls else ls)
      in map (\<lambda>l. if ends_with l [13] then butlast l else l) ls')"

definition split_address_book :: "ustr \<Rightarrow> (ustr \<times> ustr) list" where
  "split_address_book book = split_pairs (lines book)"

definition add_address_book_entry :: "ustr \<times> ustr \<Rightarrow> nat \<times> ctx \<Rightarrow> nat \<times> ctx" where
  "add_address_book_entry entry acc =
     (case acc of (n, s) \<Rightarrow>
        let (name, addr) = sanitize_name_and_addr (fst entry) (snd entry)
        in case ContactAddress_new (lower s) addr of
             Inl _ \<Rightarrow> (n, s)
           | Inr a \<Rightarrow> (case add_or_lookup name a AddressBook s of
                Inl _ \<Rightarrow> (n, s)
              | Inr ((_, modified), s') \<Rightarrow> (if modified = ModifierNone then n else Suc n, s')))"

definition add_address_book :: "ustr \<Rightarrow> ctx \<Rightarrow> nat \<times> ctx" where
  "add_address_book book s =
     (let (n, s') = fold add_address_book_entry (split_address_book book) (0, s)
      in (n, if n > 0 then emit_event (ContactsChanged None) s' else s'))"


section \<open>Blocked mailing lists and deletion\<close>

definition update_blocked_mailinglist :: "chat_row \<Rightarrow> ctx \<Rightarrow> ctx" where
  "update_blocked_mailinglist c s =
     (let s1 = (if list_ex (\<lambda>k. nocase_eq (c_addr k) (ch_grpid c)) (contacts s) then s
                else s\<lparr>contacts := contacts s @ [(contact_row0 (Suc (contacts_seq s)))\<lparr>c_addr := ch_grpid c\<rparr>],
                       contacts_seq := Suc (contacts_seq s)\<rparr>)
      in s1\<lparr>contacts := upd_where (\<lambda>k. nocase_eq (c_addr k) (ch_grpid c))
              (\<lambda>k. k\<lparr>c_name := ch_name c, c_origin := MailinglistAddress, c_blocked := True,
                     c_fingerprint := (if ch_type c = InBroadcast then U ''Blocked_broadcast'' else [])\<rparr>)
              (contacts s1)\<rparr>)"

definition update_blocked_mailinglist_contacts :: "ctx \<Rightarrow> ctx" where
  "update_blocked_mailinglist_contacts s =
     fold update_blocked_mailinglist
       (filter (\<lambda>c. (ch_type c = Mailinglist \<or> ch_type c = InBroadcast) \<and> ch_blocked c = Yes) (chats s)) s"

definition get_all_blocked :: "ctx \<Rightarrow> contact_id list \<times> ctx" where
  "get_all_blocked s =
     (let s' = update_blocked_mailinglist_contacts s
      in (map c_id (rev (sort_key c_last_seen (sort_key c_id
            (filter (\<lambda>c. c_id c > ContactId_LAST_SPECIAL \<and> c_blocked c) (contacts s'))))), s'))"

definition Contact_delete :: "contact_id \<Rightarrow> ctx \<Rightarrow> ctx res" where
  "Contact_delete i s =
     (if ContactId_is_special i then Inl ''Can not delete special contact''
      else Inr (emit_event (ContactsChanged None)
        (if list_ex (\<lambda>c. c_id c = i) (contacts s) \<and> \<not> list_ex (\<lambda>r. cc_contact r = i) (chats_contacts s)
         then s\<lparr>contacts := del_where (\<lambda>c. c_id c = i) (contacts s)\<rparr>
         else update_contact i (\<lambda>c. c\<lparr>c_origin := Hidden\<rparr>) s)))"


section \<open>Verification\<close>

definition get_verifier_id :: "ctx \<Rightarrow> contact_id \<Rightarrow> contact_id option option res" where
  "get_verifier_id s i =
     (case contact_of s i of
        None \<Rightarrow> Inl ''Contact does not exist''
      | Some c \<Rightarrow> Inr (if c_verifier c = 0 then None
                     else if c_verifier c = i then Some None
                     else Some (Some (c_verifier c))))"

definition is_verified :: "ctx \<Rightarrow> contact_id \<Rightarrow> bool res" where
  "is_verified s i =
     (if i = ContactId_SELF then Inr True else res_bind (get_verifier_id s i) (\<lambda>v. Inr (v \<noteq> None)))"

definition mark_contact_id_as_verified :: "contact_id \<Rightarrow> contact_id option \<Rightarrow> ctx \<Rightarrow> ctx res" where
  "mark_contact_id_as_verified i verifier_id s =
     (if i = ContactId_SELF then Inl ''assertion failed''
      else if Some i = verifier_id then Inl ''Contact cannot be verified by self''
      else
        let by_self = (verifier_id = Some ContactId_SELF);
            v0 = (case verifier_id of Some v \<Rightarrow> v | None \<Rightarrow> i)
        in case contact_of s i of
             None \<Rightarrow> Inl ''QueryReturnedNoRows''
           | Some c \<Rightarrow>
               if c_fingerprint c = [] then Inl ''Non-key-contact cannot be verified''
               else res_bind
                 (if v0 = ContactId_SELF then Inr v0
                  else case contact_of s v0 of
                    None \<Rightarrow> Inl ''QueryReturnedNoRows''
                  | Some w \<Rightarrow>
                      if c_fingerprint w = [] then Inl ''Contact cannot be verified by non-key-contact''
                      else if \<not> (v0 = i \<or> c_verifier w \<noteq> ContactId_UNDEFINED)
                      then Inl ''Contact cannot be verified by unverified contact''
                      else Inr (if c_verifier w = v0 then i else v0))
                 (\<lambda>v. Inr (s\<lparr>contacts :=
                    upd_where (\<lambda>c. c_id c = i \<and> (c_verifier c = 0 \<or> c_verifier c = c_id c \<or> by_self))
                      (\<lambda>c. c\<lparr>c_verifier := v\<rparr>) (contacts s)\<rparr>)))"


section \<open>Chains of introductions\<close>

text \<open>The verifier of each contact, by identifier.\<close>

definition vlist :: "contact_row list \<Rightarrow> (contact_id \<times> contact_id) list" where
  "vlist cs = map (\<lambda>c. (c_id c, c_verifier c)) cs"

definition verifiers :: "ctx \<Rightarrow> contact_id \<rightharpoonup> contact_id" where
  "verifiers s = map_of (vlist (contacts s))"

text \<open>A contact is trusted when the user verified it, or when it was introduced by a trusted contact, or by
  a contact that has been deleted since.\<close>

inductive trusted :: "(contact_id \<rightharpoonup> contact_id) \<Rightarrow> contact_id \<Rightarrow> contact_id \<Rightarrow> bool" for m n where
  direct: "m x = Some ContactId_SELF \<Longrightarrow> trusted m n x"
| introduced: "m x = Some v \<Longrightarrow> v \<noteq> 0 \<Longrightarrow> v \<noteq> x \<Longrightarrow> trusted m n v \<Longrightarrow> trusted m n x"
| deleted: "m x = Some v \<Longrightarrow> v \<noteq> 0 \<Longrightarrow> v \<noteq> x \<Longrightarrow> m v = None \<Longrightarrow> v \<le> n \<Longrightarrow> trusted m n x"

definition chains_ok :: "(contact_id \<rightharpoonup> contact_id) \<Rightarrow> contact_id \<Rightarrow> bool" where
  "chains_ok m n \<longleftrightarrow>
     (\<forall>x v. m x = Some v \<longrightarrow> x \<le> n \<and> (v \<noteq> 0 \<longrightarrow> v \<noteq> x \<longrightarrow> trusted m n x))"

text \<open>What an operation does to the verifiers.\<close>

inductive vstep :: "(contact_id \<rightharpoonup> contact_id) \<times> contact_id \<Rightarrow> (contact_id \<rightharpoonup> contact_id) \<times> contact_id \<Rightarrow> bool" where
  same: "vstep (m, n) (m, n)"
| insert: "vstep (m, n) (m(Suc n \<mapsto> 0), Suc n)"
| delete: "vstep (m, n) (m(i := None), n)"
| by_user: "m i \<noteq> None \<Longrightarrow> i \<noteq> ContactId_SELF \<Longrightarrow> vstep (m, n) (m(i \<mapsto> ContactId_SELF), n)"
| unknown: "m i \<in> {Some 0, Some i} \<Longrightarrow> i \<noteq> ContactId_SELF \<Longrightarrow> vstep (m, n) (m(i \<mapsto> i), n)"
| by_contact: "m i \<in> {Some 0, Some i} \<Longrightarrow> i \<noteq> ContactId_SELF \<Longrightarrow> m v = Some w \<Longrightarrow> w \<noteq> 0 \<Longrightarrow> w \<noteq> v \<Longrightarrow>
     v \<noteq> i \<Longrightarrow> vstep (m, n) (m(i \<mapsto> v), n)"

lemma trusted_insert:
  assumes "trusted m n x" "dom m \<subseteq> {..n}"
  shows "trusted (m(Suc n \<mapsto> 0)) (Suc n) x"
  using assms(1)
proof induction
  case (direct x)
  then show ?case using assms(2) by (intro trusted.direct) (auto simp: dom_def)
next
  case (introduced x v)
  then show ?case using assms(2) by (intro trusted.introduced [of _ x v]) (auto simp: dom_def)
next
  case (deleted x v)
  then show ?case using assms(2) by (intro trusted.deleted [of _ x v]) (auto simp: dom_def)
qed

lemma trusted_delete:
  assumes "trusted m n x" "dom m \<subseteq> {..n}"
  shows "x = i \<or> trusted (m(i := None)) n x"
  using assms(1)
proof induction
  case (direct x)
  then show ?case by (auto intro: trusted.direct)
next
  case (introduced x v)
  have "v \<le> n" using introduced(4) assms(2) by (cases rule: trusted.cases) auto
  with introduced show ?case
    by (cases "v = i") (auto intro: trusted.deleted trusted.introduced)
next
  case (deleted x v)
  then show ?case by (auto intro: trusted.deleted)
qed

text \<open>Changing a contact that was not introduced by another one keeps everybody else's chain.\<close>

lemma trusted_update:
  assumes "trusted m n x" "m i \<in> {Some 0, Some i} \<or> v = ContactId_SELF" "m i \<noteq> None" "i \<noteq> ContactId_SELF"
  shows "trusted (m(i \<mapsto> v)) n x"
  using assms(1)
proof induction
  case (direct x)
  then show ?case using assms(2,4) by (intro trusted.direct) auto
next
  case (introduced x w)
  then show ?case using assms(2)
    by (cases "x = i") (auto intro: trusted.direct trusted.introduced [of _ x w])
next
  case (deleted x w)
  show ?case
  proof (cases "x = i")
    case True
    with deleted assms(2) show ?thesis by (auto intro: trusted.direct)
  next
    case False
    from deleted(4) assms(3) have "w \<noteq> i" by auto
    with False deleted show ?thesis by (intro trusted.deleted [of _ x w]) auto
  qed
qed

lemma chains_ok_vstep:
  assumes "vstep (m, n) (m', n')" "chains_ok m n"
  shows "chains_ok m' n'"
proof -
  have le: "dom m \<subseteq> {..n}" and ok: "\<And>x v. m x = Some v \<Longrightarrow> v \<noteq> 0 \<Longrightarrow> v \<noteq> x \<Longrightarrow> trusted m n x"
    using assms(2) by (auto simp: chains_ok_def)
  from assms(1) show ?thesis
  proof cases
    case same
    with assms(2) show ?thesis by simp
  next
    case insert
    then show ?thesis
      using le by (auto simp: chains_ok_def dom_def subset_iff le_Suc_eq intro: trusted_insert ok)
  next
    case (delete i)
    have "trusted (m(i := None)) n x" if "m x = Some v" "v \<noteq> 0" "v \<noteq> x" "x \<noteq> i" for x v
      using trusted_delete [of m n x i, OF ok [OF that(1-3)] le] that(4) by blast
    with delete show ?thesis
      using le by (auto simp: chains_ok_def dom_def subset_iff split: if_splits)
  next
    case (by_user i)
    then show ?thesis
      using le by (auto simp: chains_ok_def dom_def subset_iff intro: trusted.direct trusted_update [OF ok])
  next
    case (unknown i)
    then show ?thesis
      using le by (auto simp: chains_ok_def dom_def subset_iff intro: trusted_update [OF ok])
  next
    case (by_contact i v w)
    have "trusted m n v" using ok [OF by_contact(5-7)] .
    then have "trusted m' n' v" unfolding by_contact(1,2) using by_contact by (intro trusted_update) auto
    moreover have "v \<noteq> 0 \<Longrightarrow> trusted m' n' i"
      using by_contact calculation by (auto intro: trusted.introduced)
    ultimately show ?thesis
      using le by_contact by (auto simp: chains_ok_def dom_def subset_iff intro: trusted_update [OF ok])
  qed
qed


abbreviation vstate :: "ctx \<Rightarrow> (contact_id \<rightharpoonup> contact_id) \<times> contact_id" where
  "vstate s \<equiv> (verifiers s, contacts_seq s)"

definition keeps_verifier :: "(contact_row \<Rightarrow> contact_row) \<Rightarrow> bool" where
  "keeps_verifier f \<longleftrightarrow> (\<forall>c. c_id (f c) = c_id c \<and> c_verifier (f c) = c_verifier c)"

lemma vlist_upd [simp]: "keeps_verifier f \<Longrightarrow> vlist (upd_where P f cs) = vlist cs"
  by (simp add: vlist_def upd_where_def keeps_verifier_def)

lemma vlist_simps [simp]: "vlist (xs @ ys) = vlist xs @ vlist ys" "vlist [c] = [(c_id c, c_verifier c)]"
  by (simp_all add: vlist_def)

lemma verifiers_contact_of: "verifiers s i = map_option c_verifier (contact_of s i)"
proof -
  have "map_of (vlist cs) i = map_option c_verifier (sel_one (\<lambda>c. c_id c = i) cs)" for cs
    by (induction cs) (simp_all add: vlist_def sel_one_def)
  then show ?thesis by (simp add: verifiers_def contact_of_def)
qed

lemma update_contact_vstate [simp]:
  "keeps_verifier f \<Longrightarrow> verifiers (update_contact i f s) = verifiers s"
  "contacts_seq (update_contact i f s) = contacts_seq s"
  by (simp_all add: update_contact_def verifiers_def)

lemma update_chat_names_contacts:
  "update_chat_names i s = Inr s' \<Longrightarrow> contacts s' = contacts s \<and> contacts_seq s' = contacts_seq s"
  by (auto simp: update_chat_names_def Let_def split: option.splits if_splits)

lemma vstate_contacts: "contacts s' = contacts s \<and> contacts_seq s' = contacts_seq s \<Longrightarrow> vstate s' = vstate s"
  by (simp add: verifiers_def)

text \<open>What a successful update of a row did.\<close>

lemma update_found_cases:
  assumes "update_found name addr origin c s = Inr (r, s')"
  obtains "r = (c_id c, ModifierNone)" "s' = s"
  | (update) n a ori an s1 where "r = (c_id c, Modified)"
      "s1 = update_contact (c_id c) (\<lambda>r. r\<lparr>c_name := n, c_addr := a, c_origin := ori, c_authname := an\<rparr>) s"
      "s' = s1 \<or> update_chat_names (c_id c) s1 = Inr s'"
      "n = c_name c \<or> is_manual origin \<and> n = name" "an = c_authname c \<or> \<not> is_manual origin \<and> name \<noteq> [] \<and> an = name"
      "ori = (if origin_le origin (c_origin c) then c_origin c else origin)"
proof -
  define un where "un \<longleftrightarrow> is_manual origin \<and> name \<noteq> c_name c"
  define ua where "ua \<longleftrightarrow> \<not> is_manual origin \<and> name \<noteq> c_authname c \<and> name \<noteq> []
            \<and> (origin_le (c_origin c) origin \<or> origin = IncomingUnknownFrom \<or> c_authname c = [])"
  define ad where "ad \<longleftrightarrow> origin_le (c_origin c) origin \<and> addr \<noteq> c_addr c"
  let ?hi = "\<not> origin_le origin (c_origin c)"
  let ?s1 = "update_contact (c_id c) (\<lambda>r. r\<lparr>c_name := (if un then name else c_name c), c_addr := (if ad then addr else c_addr c),
       c_origin := (if ?hi then origin else c_origin c), c_authname := (if ua then name else c_authname c)\<rparr>) s"
  have *: "(if un \<or> ua \<or> ad \<or> ?hi then
      if un \<or> ua then res_bind (update_chat_names (c_id c) ?s1) (\<lambda>s2. Inr ((c_id c, Modified), s2))
      else Inr ((c_id c, Modified), ?s1)
    else Inr ((c_id c, ModifierNone), s)) = Inr (r, s')"
    using assms unfolding update_found_def Let_def un_def ua_def ad_def .
  show thesis
  proof (cases "un \<or> ua \<or> ad \<or> ?hi")
    case True
    then have "r = (c_id c, Modified)" "s' = ?s1 \<or> update_chat_names (c_id c) ?s1 = Inr s'"
      using * by (cases "un \<or> ua"; simp add: res_bind_eq_Inr)+
    then show thesis
      by (rule update [OF _ refl]) (simp_all add: un_def ua_def)
  next
    case False
    with * show thesis by (intro that(1)) simp_all
  qed
qed

lemma update_found_vstate:
  assumes "update_found name addr origin c s = Inr (r, s')"
  shows "vstate s' = vstate s"
  using assms
proof (cases rule: update_found_cases)
  case (update n a ori an s1)
  have "keeps_verifier (\<lambda>r. r\<lparr>c_name := n, c_addr := a, c_origin := ori, c_authname := an\<rparr>)"
    by (simp add: keeps_verifier_def)
  then have "vstate s1 = vstate s" using update(2) by simp
  with update(3) show ?thesis using vstate_contacts update_chat_names_contacts by metis
qed simp

lemma get_self_fingerprint_contacts:
  "get_self_fingerprint s = (fp, s') \<Longrightarrow> contacts s' = contacts s \<and> contacts_seq s' = contacts_seq s"
  by (auto simp: get_self_fingerprint_def split: option.splits)

lemma insert_contact_vstep:
  assumes "chains_ok (verifiers s) (contacts_seq s)"
  shows "vstep (vstate s) (vstate (snd (insert_contact name addr fp origin s)))"
proof -
  have "Suc (contacts_seq s) \<notin> dom (verifiers s)" using assms not_less_eq_eq by (auto simp: chains_ok_def)
  then have "verifiers (snd (insert_contact name addr fp origin s)) = (verifiers s)(Suc (contacts_seq s) \<mapsto> 0)"
    by (auto simp: insert_contact_def Let_def verifiers_def contact_row0_def map_add_def fun_eq_iff split: option.splits)
  then show ?thesis by (simp add: insert_contact_def Let_def vstep.insert)
qed


abbreviation chains :: "ctx \<Rightarrow> bool" where
  "chains s \<equiv> chains_ok (verifiers s) (contacts_seq s)"

lemma chains_same: "vstate s' = vstate s \<Longrightarrow> chains s \<Longrightarrow> chains s'"
  by simp

lemma chains_contacts: "contacts s' = contacts s \<and> contacts_seq s' = contacts_seq s \<Longrightarrow> chains s \<Longrightarrow> chains s'"
  by (simp add: verifiers_def)

lemma chains_emit [simp]: "verifiers (emit_event e s) = verifiers s"
  by (simp add: verifiers_def)

lemma add_or_lookup_ex_cases:
  assumes "add_or_lookup_ex name addr fp origin s = Inr (r, s')"
  obtains (self) "r = (ContactId_SELF, ModifierNone)" "contacts s' = contacts s" "contacts_seq s' = contacts_seq s"
  | (found) c s1 where "contacts s1 = contacts s" "contacts_seq s1 = contacts_seq s"
      "sel_one (same_contact fp addr) (contacts s) = Some c"
      "update_found (fst (effective_name_origin name addr origin)) addr (snd (effective_name_origin name addr origin)) c s1
         = Inr (r, s')"
  | (created) s1 where "contacts s1 = contacts s" "contacts_seq s1 = contacts_seq s"
      "sel_one (same_contact fp addr) (contacts s) = None"
      "(r, s') = insert_contact (fst (effective_name_origin name addr origin)) addr fp
                   (snd (effective_name_origin name addr origin)) s1"
proof (cases "is_configured s \<and> is_self_addr (lower s) s addr")
  case True
  with assms show thesis by (intro self) (auto simp: add_or_lookup_ex_def split: if_splits)
next
  case False
  obtain self_fp s1 where s1: "(if fp \<noteq> [] \<and> is_configured s then get_self_fingerprint s else ([], s)) = (self_fp, s1)"
    by fastforce
  then have c: "contacts s1 = contacts s" "contacts_seq s1 = contacts_seq s"
    using get_self_fingerprint_contacts by (auto split: if_splits)
  show thesis
  proof (cases "fp \<noteq> [] \<and> is_configured s \<and> fp = self_fp")
    case True
    with assms False s1 c show thesis
      by (intro self) (auto simp: add_or_lookup_ex_def split: if_splits)
  next
    case no_self: False
    have eq: "(case sel_one (same_contact fp addr) (contacts s1) of
          Some c \<Rightarrow> update_found (fst (effective_name_origin name addr origin)) addr (snd (effective_name_origin name addr origin)) c s1
        | None \<Rightarrow> Inr (insert_contact (fst (effective_name_origin name addr origin)) addr fp
                   (snd (effective_name_origin name addr origin)) s1)) = Inr (r, s')"
      using assms False no_self s1
      by (simp add: add_or_lookup_ex_def case_prod_beta split: if_split_asm cong: option.case_cong)
    then show thesis
      by (cases "sel_one (same_contact fp addr) (contacts s1)") (auto simp: c intro: found [of s1] created [of s1])
  qed
qed

lemma chains_add_or_lookup:
  assumes "add_or_lookup_ex name addr fp origin s = Inr (r, s')" "chains s"
  shows "chains s'"
  using assms(1)
proof (cases rule: add_or_lookup_ex_cases)
  case self
  then show ?thesis using chains_contacts [OF _ assms(2)] by blast
next
  case (found c s1)
  then have "chains s1" using chains_contacts [OF _ assms(2)] by blast
  then show ?thesis using chains_same [OF update_found_vstate [OF found(4)]] by blast
next
  case (created s1)
  then have "chains s1" using chains_contacts [OF _ assms(2)] by blast
  moreover have "s' = snd (insert_contact (fst (effective_name_origin name addr origin)) addr fp
      (snd (effective_name_origin name addr origin)) s1)"
    using created(4) by (metis snd_conv)
  ultimately show ?thesis
    using chains_ok_vstep [OF insert_contact_vstep] by blast
qed


lemma sync_contacts_fields [simp]:
  "contacts (sync now i a s) = contacts s" "contacts_seq (sync now i a s) = contacts_seq s"
  by (simp_all add: sync_def interrupt_smtp_def add_sync_item_def Let_def)

lemma chains_sync [simp]: "verifiers (sync now i a s) = verifiers s"
  by (simp add: verifiers_def)

lemma chains_set_name:
  assumes "set_name_ex now do_sync i name s = Inr s'" "chains s"
  shows "chains s'"
proof (cases "list_ex (\<lambda>c. c_id c = i \<and> c_name c \<noteq> name) (contacts s)")
  case True
  have k: "keeps_verifier (c_name_update (\<lambda>_. name))" by (simp add: keeps_verifier_def)
  from True assms(1) obtain s2 where
    s2: "update_chat_names i (s\<lparr>contacts := upd_where (\<lambda>c. c_id c = i \<and> c_name c \<noteq> name) (\<lambda>c. c\<lparr>c_name := name\<rparr>) (contacts s)\<rparr>) = Inr s2"
    and s': "vstate s' = vstate s2"
    by (auto simp: set_name_ex_def Let_def res_bind_eq_Inr split: if_splits option.splits)
  show ?thesis
    using update_chat_names_contacts [OF s2] assms(2) s' k by (simp add: verifiers_def)
next
  case False
  with assms show ?thesis by (auto simp: set_name_ex_def split: if_splits)
qed

lemma log_err_contacts:
  assumes "\<And>s1. f s = Inr s1 \<Longrightarrow> contacts s1 = contacts s \<and> contacts_seq s1 = contacts_seq s"
  shows "contacts (log_err f s) = contacts s \<and> contacts_seq (log_err f s) = contacts_seq s"
  using assms by (auto simp: log_err_def split: sum.splits)

lemma unblock_ex_contacts:
  assumes "unblock_ex now sy chat s = Inr s'"
  shows "contacts s' = contacts s \<and> contacts_seq s' = contacts_seq s"
proof -
  have "contacts (log_err (Chat_sync now c a) s1) = contacts s1 \<and> contacts_seq (log_err (Chat_sync now c a) s1) = contacts_seq s1" for c a s1
    by (rule log_err_contacts) (auto simp: Chat_sync_def res_bind_eq_Inr split: option.splits)
  with assms show ?thesis
    by (auto simp: unblock_ex_def ChatId_set_blocked_def Let_def res_bind_eq_Inr split: if_splits)
qed

lemma chains_set_blocked:
  assumes "set_blocked now sy i b s = Inr s'" "chains s"
  shows "chains s'"
proof (cases "\<exists>contact. get_by_id s i = Inr contact \<and> c_blocked contact \<noteq> b")
  case True
  then obtain contact where c: "get_by_id s i = Inr contact" "c_blocked contact \<noteq> b" by blast
  let ?s1 = "update_contact i (\<lambda>c. c\<lparr>c_blocked := b\<rparr>) s"
  have k: "keeps_verifier (c_blocked_update (\<lambda>_. b))" by (simp add: keeps_verifier_def)
  from assms(1) c have "contacts s' = contacts ?s1 \<and> contacts_seq s' = contacts_seq ?s1"
    by (auto simp: set_blocked_def Let_def res_bind_eq_Inr mark_noticed_def split: if_splits option.splits
        dest!: unblock_ex_contacts)
  then have "vstate s' = vstate ?s1" by (rule vstate_contacts)
  with assms(2) k show ?thesis by simp
next
  case False
  with assms show ?thesis
    by (auto simp: set_blocked_def res_bind_eq_Inr split: if_splits)
qed

lemma chains_create:
  assumes "create_ex now sy name addr s = Inr (i, s')" "chains s"
  shows "chains s'"
proof -
  obtain n a where na: "sanitize_name_and_addr name addr = (n, a)" by fastforce
  from assms(1) obtain a' i1 m s1 b s3 where
    add: "add_or_lookup_ex n a' [] ManuallyCreated s = Inr ((i1, m), s1)"
    and s3: "(if b then set_blocked now Nosync i1 False (if m = ModifierNone then s1 else emit_event (ContactsChanged (Some i1)) s1)
              else Inr (if m = ModifierNone then s1 else emit_event (ContactsChanged (Some i1)) s1)) = Inr s3"
    and s': "s' = (if sy = Sync \<and> m \<noteq> ModifierNone then sync now (ContactAddr a') (Rename n) s3 else s3)"
    unfolding create_ex_def add_or_lookup_def na by (simp add: Let_def res_bind_eq_Inr split: prod.splits) blast
  let ?s2 = "if m = ModifierNone then s1 else emit_event (ContactsChanged (Some i1)) s1"
  have "chains ?s2" using chains_add_or_lookup [OF add assms(2)] by simp
  with s3 have "chains s3" by (auto split: if_split_asm dest: chains_set_blocked)
  then show ?thesis unfolding s' by simp
qed

lemma chains_address_book: "chains s \<Longrightarrow> chains (snd (add_address_book book s))"
proof -
  assume s: "chains s"
  have "chains (snd (fold add_address_book_entry es (n, s)))" if "chains s" for es n s
    using that
  proof (induction es arbitrary: n s)
    case (Cons e es)
    have "chains (snd (add_address_book_entry e (n, s)))"
      using Cons.prems
      by (auto simp: add_address_book_entry_def add_or_lookup_def Let_def dest: chains_add_or_lookup split: prod.splits sum.splits)
    then show ?case using Cons.IH [of "snd (add_address_book_entry e (n, s))" "fst (add_address_book_entry e (n, s))"]
      by simp
  qed simp
  from this [OF s, of "split_address_book book" 0] show ?thesis
    by (auto simp: add_address_book_def split: prod.splits)
qed


lemma chains_blocked_mailinglists: "chains s \<Longrightarrow> chains (update_blocked_mailinglist_contacts s)"
proof -
  have step: "chains (update_blocked_mailinglist c s)" if "chains s" for c s
  proof -
    let ?s1 = "if list_ex (\<lambda>k. nocase_eq (c_addr k) (ch_grpid c)) (contacts s) then s
        else s\<lparr>contacts := contacts s @ [(contact_row0 (Suc (contacts_seq s)))\<lparr>c_addr := ch_grpid c\<rparr>],
               contacts_seq := Suc (contacts_seq s)\<rparr>"
    have k: "keeps_verifier (\<lambda>k. k\<lparr>c_name := a, c_origin := b, c_blocked := d, c_fingerprint := e\<rparr>)" for a b d e
      by (simp add: keeps_verifier_def)
    have "Suc (contacts_seq s) \<notin> dom (verifiers s)" using that not_less_eq_eq by (auto simp: chains_ok_def)
    then have "verifiers (s\<lparr>contacts := contacts s @ [(contact_row0 (Suc (contacts_seq s)))\<lparr>c_addr := ch_grpid c\<rparr>],
               contacts_seq := Suc (contacts_seq s)\<rparr>) = (verifiers s)(Suc (contacts_seq s) \<mapsto> 0)"
      by (auto simp: verifiers_def contact_row0_def map_add_def fun_eq_iff split: option.splits)
    then have "vstep (vstate s) (vstate ?s1)" by (simp add: vstep.same vstep.insert)
    then have "chains ?s1" using that by (rule chains_ok_vstep)
    then show ?thesis by (simp add: update_blocked_mailinglist_def Let_def verifiers_def k)
  qed
  assume "chains s"
  then show ?thesis unfolding update_blocked_mailinglist_contacts_def
    by (rule fold_invariant [where P = chains and Q = "\<lambda>_. True", rotated]) (auto intro: step)
qed

lemma chains_delete: "Contact_delete i s = Inr s' \<Longrightarrow> chains s \<Longrightarrow> chains s'"
proof -
  assume d: "Contact_delete i s = Inr s'" and s: "chains s"
  have k: "keeps_verifier (c_origin_update (\<lambda>_. Hidden))" by (simp add: keeps_verifier_def)
  have "map_of (vlist (del_where (\<lambda>c. c_id c = i) cs)) = (map_of (vlist cs))(i := None)" for cs
    by (induction cs) (auto simp: vlist_def del_where_def fun_eq_iff)
  then have del: "verifiers (s\<lparr>contacts := del_where (\<lambda>c. c_id c = i) (contacts s)\<rparr>) = (verifiers s)(i := None)"
    by (simp add: verifiers_def)
  have "verifiers s' = verifiers s \<and> contacts_seq s' = contacts_seq s
      \<or> verifiers s' = (verifiers s)(i := None) \<and> contacts_seq s' = contacts_seq s"
    using d k del by (auto simp: Contact_delete_def split: if_splits)
  then show ?thesis using s chains_ok_vstep [OF vstep.delete, of "verifiers s" "contacts_seq s" i] by auto
qed

lemma verify_cases:
  assumes "mark_contact_id_as_verified i v s = Inr s'"
  obtains c u where "i \<noteq> ContactId_SELF" "contact_of s i = Some c" "c_fingerprint c \<noteq> []"
    "s' = s\<lparr>contacts := upd_where (\<lambda>c. c_id c = i \<and> (c_verifier c = 0 \<or> c_verifier c = c_id c \<or> v = Some ContactId_SELF))
             (\<lambda>c. c\<lparr>c_verifier := u\<rparr>) (contacts s)\<rparr>"
    "v = Some ContactId_SELF \<and> u = ContactId_SELF \<or> v \<noteq> Some ContactId_SELF \<and> u = i
     \<or> v \<noteq> Some ContactId_SELF \<and> u \<noteq> i \<and> (\<exists>w. contact_of s u = Some w \<and> c_verifier w \<noteq> 0 \<and> c_verifier w \<noteq> u)"
  using assms
  by (auto simp: mark_contact_id_as_verified_def Let_def res_bind_eq_Inr split: option.splits if_splits)


lemma chains_verify:
  assumes "mark_contact_id_as_verified i v s = Inr s'" "chains s"
  shows "chains s'"
  using assms(1)
proof (cases rule: verify_cases)
  case (1 c u)
  have v: "verifiers s i = Some (c_verifier c)" using 1(2) by (simp add: verifiers_contact_of)
  have id: "c_id c = i" using 1(2) sel_one_Some by (fastforce simp: contact_of_def)
  have "sel_one (\<lambda>c. c_id c = j) (upd_where (\<lambda>c. c_id c = i \<and> P c) (\<lambda>c. c\<lparr>c_verifier := u\<rparr>) cs)
      = map_option (\<lambda>c. if j = i \<and> P c then c\<lparr>c_verifier := u\<rparr> else c) (sel_one (\<lambda>c. c_id c = j) cs)" for j P cs
    by (induction cs) (auto simp: sel_one_def upd_where_def)
  then have row: "contact_of s' j = map_option (\<lambda>k. if j = i \<and> (c_verifier k = 0 \<or> c_verifier k = c_id k \<or> v = Some ContactId_SELF)
      then k\<lparr>c_verifier := u\<rparr> else k) (contact_of s j)" for j
    unfolding 1(4) contact_of_def by simp
  have "verifiers s' j = (if c_verifier c = 0 \<or> c_verifier c = i \<or> v = Some ContactId_SELF
      then (verifiers s)(i \<mapsto> u) else verifiers s) j" for j
    using 1(2) id unfolding verifiers_contact_of row by (cases "j = i") (simp_all add: option.map_comp comp_def verifiers_contact_of)
  then have "verifiers s' = (if c_verifier c = 0 \<or> c_verifier c = i \<or> v = Some ContactId_SELF
      then (verifiers s)(i \<mapsto> u) else verifiers s)" by blast
  moreover have "contacts_seq s' = contacts_seq s" unfolding 1(4) by simp
  ultimately have "vstep (vstate s) (vstate s')"
    using 1(1,5) v
    by (auto intro: vstep.same vstep.by_user [simplified] vstep.unknown vstep.by_contact simp: verifiers_contact_of)
  then show ?thesis using assms(2) by (rule chains_ok_vstep)
qed


text \<open>The operations on contacts; a failing one changes nothing.\<close>

datatype (plugins only: size) contact_op =
  Verify contact_id "contact_id option" | AddOrLookup ustr ustr ustr Origin | SetName Sync contact_id ustr
  | SetBlocked Sync contact_id bool | Create Sync ustr ustr | AddressBookAdd ustr | GetAllBlocked
  | Delete contact_id | LastSeen contact_id int | ScaleupOrigin "contact_id list" Origin | MarkBot contact_id bool

primrec run_contact_op :: "int \<Rightarrow> contact_op \<Rightarrow> ctx \<Rightarrow> ctx" where
  "run_contact_op now (Verify i v) s = log_err (mark_contact_id_as_verified i v) s"
| "run_contact_op now (AddOrLookup n a fp ori) s = log_err (\<lambda>s. res_bind (add_or_lookup_ex n a fp ori s) (\<lambda>(_, s'). Inr s')) s"
| "run_contact_op now (SetName sy i n) s = log_err (set_name_ex now sy i n) s"
| "run_contact_op now (SetBlocked sy i b) s = log_err (set_blocked now sy i b) s"
| "run_contact_op now (Create sy n a) s = log_err (\<lambda>s. res_bind (create_ex now sy n a s) (\<lambda>(_, s'). Inr s')) s"
| "run_contact_op now (AddressBookAdd book) s = snd (add_address_book book s)"
| "run_contact_op now GetAllBlocked s = snd (get_all_blocked s)"
| "run_contact_op now (Delete i) s = log_err (Contact_delete i) s"
| "run_contact_op now (LastSeen i t) s = log_err (update_last_seen now i t) s"
| "run_contact_op now (ScaleupOrigin ids ori) s = scaleup_origin ids ori s"
| "run_contact_op now (MarkBot i b) s = mark_bot i b s"

lemma chains_log_err: "(\<And>s'. f s = Inr s' \<Longrightarrow> chains s') \<Longrightarrow> chains s \<Longrightarrow> chains (log_err f s)"
  by (simp add: log_err_def split: sum.split)

lemma chains_op: "chains s \<Longrightarrow> chains (run_contact_op now oper s)"
proof (induction oper)
  case (Verify i v)
  then show ?case by (auto intro!: chains_log_err dest: chains_verify)
next
  case (AddOrLookup n a fp ori)
  then show ?case by (auto intro!: chains_log_err simp: res_bind_eq_Inr dest: chains_add_or_lookup)
next
  case (SetName sy i n)
  then show ?case by (auto intro!: chains_log_err dest: chains_set_name)
next
  case (SetBlocked sy i b)
  then show ?case by (auto intro!: chains_log_err dest: chains_set_blocked)
next
  case (Create sy n a)
  then show ?case by (auto intro!: chains_log_err simp: res_bind_eq_Inr dest: chains_create)
next
  case (AddressBookAdd book)
  then show ?case using chains_address_book by simp
next
  case GetAllBlocked
  then show ?case using chains_blocked_mailinglists by (simp add: get_all_blocked_def Let_def)
next
  case (Delete i)
  then show ?case by (auto intro!: chains_log_err dest: chains_delete)
next
  case (LastSeen i t)
  have "keeps_verifier (c_last_seen_update (\<lambda>_. t))" by (simp add: keeps_verifier_def)
  with LastSeen have "chains s'" if "update_last_seen now i t s = Inr s'" for s'
    using that by (auto simp: update_last_seen_def verifiers_def Let_def split: if_splits)
  with LastSeen show ?case by (auto intro!: chains_log_err)
next
  case (ScaleupOrigin ids ori)
  have "keeps_verifier (c_origin_update (\<lambda>_. ori))" by (simp add: keeps_verifier_def)
  then have "vlist (fold (\<lambda>i. upd_where (\<lambda>c. c_id c = i \<and> P c) (\<lambda>c. c\<lparr>c_origin := ori\<rparr>)) ids cs) = vlist cs" for P cs
    by (induction ids arbitrary: cs) simp_all
  with ScaleupOrigin show ?case by (simp add: scaleup_origin_def verifiers_def)
next
  case (MarkBot i b)
  have "keeps_verifier (c_is_bot_update (\<lambda>_. b))" by (simp add: keeps_verifier_def)
  with MarkBot show ?case by (simp add: mark_bot_def)
qed

text \<open>C26: However contacts are added, changed, deleted and verified, the introductions of a contact lead back
  in finitely many steps to a contact the user verified or to one that was deleted since.\<close>

theorem introductions_lead_to_user:
  assumes "list_all (\<lambda>c. c_id c \<le> contacts_seq s \<and> c_verifier c = 0) (contacts s)"
    and "verifiers (fold (run_contact_op now) ops s) x = Some v" "v \<noteq> 0" "v \<noteq> x"
  shows "trusted (verifiers (fold (run_contact_op now) ops s)) (contacts_seq (fold (run_contact_op now) ops s)) x"
proof -
  have "chains s"
    using assms(1) by (auto simp: chains_ok_def verifiers_contact_of contact_of_def list_all_iff dest!: sel_one_Some)
  then have "chains (fold (run_contact_op now) ops s)"
    by (rule fold_invariant [where P = chains and Q = "\<lambda>_. True", rotated]) (auto intro: chains_op)
  with assms(2-4) show ?thesis by (simp add: chains_ok_def)
qed


definition intro_ctx :: ctx where
  "intro_ctx = ctx0\<lparr>contacts := [contact_row0 1], contacts_seq := 9\<rparr>"

definition intro_ops :: "contact_op list" where
  "intro_ops = [AddOrLookup [] (U ''a@x'') (U ''AA'') IncomingTo, AddOrLookup [] (U ''b@x'') (U ''BB'') IncomingTo,
     Verify 10 (Some 1), Verify 11 (Some 10)]"

lemma sanitize_name_Nil [simp]: "sanitize_name [] = []"
  by (simp add: sanitize_name_def sanitize_single_line_def replace_newlines_def trim_def trim_start_def trim_end_def
      sanitize_bidi_characters_def isolate_characters_are_valid_def)

lemma intro_ctx_run:
  "contacts (fold (run_contact_op 5) intro_ops intro_ctx) =
     [contact_row0 1,
      (contact_row0 10)\<lparr>c_addr := U ''a@x'', c_fingerprint := U ''AA'', c_origin := IncomingTo, c_verifier := 1\<rparr>,
      (contact_row0 11)\<lparr>c_addr := U ''b@x'', c_fingerprint := U ''BB'', c_origin := IncomingTo, c_verifier := 10\<rparr>]"
  by (simp add: intro_ops_def intro_ctx_def ctx0_def log_err_def res_bind_def add_or_lookup_ex_def is_configured_def
      effective_name_origin_def noreply_addr_def origin_le_def insert_contact_def contact_row0_def same_contact_def
      mark_contact_id_as_verified_def contact_of_def is_manual_def starts_with_def)

theorem introductions_lead_to_user_witness:
  "trusted (verifiers (fold (run_contact_op 5) intro_ops intro_ctx))
     (contacts_seq (fold (run_contact_op 5) intro_ops intro_ctx)) 11"
  by (rule introductions_lead_to_user [where v = 10])
    (simp_all add: verifiers_def intro_ctx_run vlist_def contact_row0_def, simp add: intro_ctx_def contact_row0_def)

end
