(* ===== verification/ContactNames.thy ===== *)
theory ContactNames
  imports Contacts
begin

text \<open>Facts on the column of authorised names, on origins and on looking the same contact up twice
  (\<open>add_or_lookup_ex\<close> of \<open>src/src/contact.rs\<close>, modelled in \<open>Contacts\<close>).\<close>

section \<open>Names and origins\<close>

definition authname_of :: "ctx \<Rightarrow> contact_id \<Rightarrow> ustr" where
  "authname_of s i = (case contact_of s i of Some c \<Rightarrow> c_authname c | None \<Rightarrow> [])"

definition origin_of :: "ctx \<Rightarrow> contact_id \<Rightarrow> nat" where
  "origin_of s i = (case contact_of s i of Some c \<Rightarrow> Origin_to_u32 (c_origin c) | None \<Rightarrow> 0)"

text \<open>The primary key: identifiers are unique and were handed out by the sequence.\<close>

definition contacts_ok :: "ctx \<Rightarrow> bool" where
  "contacts_ok s \<longleftrightarrow> distinct (map c_id (contacts s)) \<and> list_all (\<lambda>c. c_id c \<le> contacts_seq s) (contacts s)"

lemma contact_of_update:
  "(\<And>c. c_id (f c) = c_id c) \<Longrightarrow>
    contact_of (update_contact i f s) j = (if j = i then map_option f (contact_of s j) else contact_of s j)"
proof -
  assume "\<And>c. c_id (f c) = c_id c"
  then have "sel_one (\<lambda>c. c_id c = j) (upd_where (\<lambda>c. c_id c = i) f cs)
      = (if j = i then map_option f (sel_one (\<lambda>c. c_id c = j) cs) else sel_one (\<lambda>c. c_id c = j) cs)" for cs
    by (induction cs) (auto simp: sel_one_def upd_where_def)
  then show ?thesis by (simp add: contact_of_def update_contact_def)
qed

lemma contact_of_key:
  assumes "distinct (map c_id (contacts s))" "c \<in> set (contacts s)"
  shows "contact_of s (c_id c) = Some c"
proof -
  have "sel_one (\<lambda>k. c_id k = c_id c) cs = Some c" if "distinct (map c_id cs)" "c \<in> set cs" for cs
    using that by (induction cs) (auto simp: sel_one_def)
  with assms show ?thesis by (simp add: contact_of_def)
qed

lemma contact_of_insert:
  assumes "contacts_ok s"
  shows "contact_of (snd (insert_contact name addr fp ori s)) j =
     (if j = Suc (contacts_seq s)
      then Some ((contact_row0 j)\<lparr>c_name := (if is_manual ori then name else []), c_addr := addr, c_fingerprint := fp,
               c_origin := ori, c_authname := (if is_manual ori then [] else name)\<rparr>)
      else contact_of s j)"
proof -
  have "contact_of s (Suc (contacts_seq s)) = None"
    using assms by (auto simp: contact_of_def sel_one_None contacts_ok_def list_all_iff)
  then show ?thesis
    by (auto simp: contact_of_def insert_contact_def Let_def sel_one_append contact_row0_def split: option.splits)
qed

lemma contacts_ok_same: "contacts s' = contacts s \<Longrightarrow> contacts_seq s' = contacts_seq s \<Longrightarrow> contacts_ok s' = contacts_ok s"
  by (simp add: contacts_ok_def)

lemma contact_of_same: "contacts s' = contacts s \<Longrightarrow> contact_of s' = contact_of s"
  by (simp add: contact_of_def fun_eq_iff)

lemma contact_of_updated:
  assumes "update_found name addr ori c s = Inr (r, s')" "contact_of s (c_id c) = Some c"
  obtains n a o' an where "contact_of s' = (contact_of s)(c_id c \<mapsto> c\<lparr>c_name := n, c_addr := a, c_origin := o', c_authname := an\<rparr>)"
    "an = c_authname c \<or> \<not> is_manual ori \<and> name \<noteq> [] \<and> an = name" "Origin_to_u32 (c_origin c) \<le> Origin_to_u32 o'"
  using assms(1)
proof (cases rule: update_found_cases)
  case 1
  with assms(2) show thesis
    by (intro that [where n = "c_name c" and a = "c_addr c" and o' = "c_origin c" and an = "c_authname c"]) (simp_all add: fun_upd_idem)
next
  case (update n a o' an s1)
  have "contacts s' = contacts s1" using update(3) update_chat_names_contacts by metis
  then have "contact_of s' = contact_of s1" by (rule contact_of_same)
  also have "contact_of s1 = (contact_of s)(c_id c \<mapsto> c\<lparr>c_name := n, c_addr := a, c_origin := o', c_authname := an\<rparr>)"
    using assms(2) unfolding update(2) by (simp add: contact_of_update fun_eq_iff)
  finally show thesis using update(5,6) by (intro that [where n = n and a = a and o' = o' and an = an]) (auto simp: origin_le_def)
qed

lemma effective_manual:
  "is_manual ori \<Longrightarrow> is_manual (snd (effective_name_origin name addr ori)) \<or> fst (effective_name_origin name addr ori) = []"
  by (auto simp: effective_name_origin_def)



section \<open>Looking the same contact up twice\<close>

definition up_to_date :: "ustr \<Rightarrow> ustr \<Rightarrow> Origin \<Rightarrow> contact_row \<Rightarrow> bool" where
  "up_to_date name addr origin c \<longleftrightarrow>
     (is_manual origin \<longrightarrow> name = c_name c)
     \<and> (is_manual origin \<or> name = c_authname c \<or> name = []
        \<or> \<not> (origin_le (c_origin c) origin \<or> origin = IncomingUnknownFrom \<or> c_authname c = []))
     \<and> (origin_le (c_origin c) origin \<longrightarrow> addr = c_addr c) \<and> origin_le origin (c_origin c)"

definition lookup_env :: "ctx \<Rightarrow> _" where
  "lookup_env s = (transports s, config s, lower s, self_fingerprint s, generated_fingerprint s)"

lemma update_found_up_to_date:
  "up_to_date name addr origin c \<Longrightarrow> update_found name addr origin c s = Inr ((c_id c, ModifierNone), s)"
  unfolding up_to_date_def update_found_def Let_def by (subst if_not_P) blast+

lemma update_chat_names_env: "update_chat_names i s = Inr s' \<Longrightarrow> lookup_env s' = lookup_env s"
  by (auto simp: update_chat_names_def Let_def lookup_env_def split: option.splits if_splits)

lemma sel_one_upd_found:
  assumes "distinct (map c_id cs)" "sel_one P cs = Some c" "P (f c)" "\<And>r. c_id (f r) = c_id r"
  shows "sel_one P (upd_where (\<lambda>r. c_id r = c_id c) f cs) = Some (f c)"
  using assms(1,2)
proof (induction cs)
  case (Cons h cs)
  show ?case
  proof (cases "P h")
    case True
    with Cons.prems assms show ?thesis by simp
  next
    case False
    with Cons.prems have "sel_one P cs = Some c" by simp
    with Cons.prems(1) have "c_id h \<noteq> c_id c" using sel_one_Some [of P cs c] by force
    with False Cons \<open>sel_one P cs = Some c\<close> show ?thesis by simp
  qed
qed simp

lemma update_found_settles:
  assumes "update_found name addr origin c s = Inr (r, s')"
    "distinct (map c_id (contacts s))" "sel_one (same_contact fp addr) (contacts s) = Some c"
  obtains c' where "sel_one (same_contact fp addr) (contacts s') = Some c'" "up_to_date name addr origin c'"
    "c_id c' = fst r" "lookup_env s' = lookup_env s"
proof -
  define un where "un \<longleftrightarrow> is_manual origin \<and> name \<noteq> c_name c"
  define ua where "ua \<longleftrightarrow> \<not> is_manual origin \<and> name \<noteq> c_authname c \<and> name \<noteq> []
            \<and> (origin_le (c_origin c) origin \<or> origin = IncomingUnknownFrom \<or> c_authname c = [])"
  define ad where "ad \<longleftrightarrow> origin_le (c_origin c) origin \<and> addr \<noteq> c_addr c"
  define hi where "hi \<longleftrightarrow> \<not> origin_le origin (c_origin c)"
  define f where "f = (\<lambda>r :: contact_row. r\<lparr>c_name := (if un then name else c_name c), c_addr := (if ad then addr else c_addr c),
       c_origin := (if hi then origin else c_origin c), c_authname := (if ua then name else c_authname c)\<rparr>)"
  have *: "(if un \<or> ua \<or> ad \<or> hi then
      if un \<or> ua then res_bind (update_chat_names (c_id c) (update_contact (c_id c) f s)) (\<lambda>s2. Inr ((c_id c, Modified), s2))
      else Inr ((c_id c, Modified), update_contact (c_id c) f s)
    else Inr ((c_id c, ModifierNone), s)) = Inr (r, s')"
    using assms(1) unfolding update_found_def Let_def un_def ua_def ad_def hi_def f_def .
  show thesis
  proof (cases "un \<or> ua \<or> ad \<or> hi")
    case True
    then have r: "r = (c_id c, Modified)"
      and s': "s' = update_contact (c_id c) f s \<or> update_chat_names (c_id c) (update_contact (c_id c) f s) = Inr s'"
      using * by (cases "un \<or> ua"; simp add: res_bind_eq_Inr)+
    have "contacts s' = contacts (update_contact (c_id c) f s)" using s' update_chat_names_contacts by metis
    moreover have "lookup_env s' = lookup_env (update_contact (c_id c) f s)" using s' update_chat_names_env by metis
    moreover have "same_contact fp addr (f c)"
      using sel_one_Some [OF assms(3)] by (auto simp: same_contact_def f_def nocase_eq_def)
    moreover have "up_to_date name addr origin (f c)"
      by (auto simp: up_to_date_def f_def un_def ua_def ad_def hi_def origin_le_def)
    ultimately show thesis
      using sel_one_upd_found [OF assms(2,3), of f] r
      by (intro that [of "f c"]) (simp_all add: f_def update_contact_def lookup_env_def)
  next
    case False
    then have "up_to_date name addr origin c" by (auto simp: up_to_date_def un_def ua_def ad_def hi_def)
    with False * assms(3) show thesis by (intro that [of c]) auto
  qed
qed


lemma env_eqs:
  assumes "lookup_env s' = lookup_env s"
  shows "is_configured s' = is_configured s" "is_self_addr (lower s') s' addr = is_self_addr (lower s) s addr"
    "fst (get_self_fingerprint s') = fst (get_self_fingerprint s)"
    "self_fingerprint s' = self_fingerprint s"
  using assms
  by (simp_all add: lookup_env_def is_configured_def is_self_addr_def get_all_self_addrs_def get_self_fingerprint_def
        split: option.splits)

lemma get_self_fingerprint_again:
  "get_self_fingerprint s = (fp, s1) \<Longrightarrow> self_fingerprint s1 = Some fp
     \<and> is_configured s1 = is_configured s \<and> is_self_addr l s1 addr = is_self_addr l s addr \<and> lower s1 = lower s"
  by (auto simp: get_self_fingerprint_def is_configured_def is_self_addr_def get_all_self_addrs_def split: option.splits)

lemma insert_contact_settles:
  assumes "((i, m), s') = insert_contact name addr fp origin s" "sel_one (same_contact fp addr) (contacts s) = None"
  obtains c' where "sel_one (same_contact fp addr) (contacts s') = Some c'" "up_to_date name addr origin c'"
    "c_id c' = i" "lookup_env s' = lookup_env s"
  using assms
  by (auto simp: insert_contact_def Let_def sel_one_append same_contact_def nocase_eq_def up_to_date_def origin_le_def
        lookup_env_def contact_row0_def)

lemma add_or_lookup_ex_known:
  assumes "addr \<noteq> [] \<or> fp \<noteq> []" "origin \<noteq> Origin.Unknown" "\<not> (is_configured s \<and> is_self_addr (lower s) s addr)"
    "fp \<noteq> [] \<and> is_configured s \<Longrightarrow> \<exists>own. self_fingerprint s = Some own \<and> own \<noteq> fp"
    "sel_one (same_contact fp addr) (contacts s) = Some c"
    "up_to_date (fst (effective_name_origin name addr origin)) addr (snd (effective_name_origin name addr origin)) c"
  shows "add_or_lookup_ex name addr fp origin s = Inr ((c_id c, ModifierNone), s)"
  using assms update_found_up_to_date [OF assms(6), of s]
  by (auto simp: add_or_lookup_ex_def get_self_fingerprint_def split: prod.splits)

text \<open>C28: Adding a contact that was added before changes nothing: the second call returns the identifier of the first one,
  reports no modification and leaves the state as it is.\<close>

theorem add_or_lookup_twice:
  assumes "distinct (map c_id (contacts s))" "add_or_lookup_ex name addr fp origin s = Inr ((i, m), s')"
  shows "add_or_lookup_ex name addr fp origin s' = Inr ((i, ModifierNone), s')"
proof -
  define name' origin' where "name' = fst (effective_name_origin name addr origin)"
    and "origin' = snd (effective_name_origin name addr origin)"
  have args: "addr \<noteq> [] \<or> fp \<noteq> []" "origin \<noteq> Origin.Unknown"
    using assms(2) by (auto simp: add_or_lookup_ex_def split: if_splits)
  show ?thesis
  proof (cases "is_configured s \<and> is_self_addr (lower s) s addr")
    case True
    with assms(2) args show ?thesis by (auto simp: add_or_lookup_ex_def)
  next
    case notself: False
    obtain own s1 where own: "(if fp \<noteq> [] \<and> is_configured s then get_self_fingerprint s else ([], s)) = (own, s1)"
      by fastforce
    have s1: "contacts s1 = contacts s" "is_configured s1 = is_configured s"
        "is_self_addr (lower s1) s1 addr = is_self_addr (lower s) s addr"
        "fp \<noteq> [] \<and> is_configured s \<Longrightarrow> self_fingerprint s1 = Some own"
      using own get_self_fingerprint_contacts get_self_fingerprint_again by (auto split: if_splits)
    show ?thesis
    proof (cases "fp \<noteq> [] \<and> is_configured s \<and> fp = own")
      case True
      with assms(2) args notself own have "s' = s1" "i = ContactId_SELF" by (auto simp: add_or_lookup_ex_def)
      with True args s1 notself show ?thesis by (auto simp: add_or_lookup_ex_def get_self_fingerprint_def)
    next
      case False
      have run: "(case sel_one (same_contact fp addr) (contacts s1) of
          Some c \<Rightarrow> update_found name' addr origin' c s1 | None \<Rightarrow> Inr (insert_contact name' addr fp origin' s1)) = Inr ((i, m), s')"
        using assms(2) args notself False
        unfolding add_or_lookup_ex_def own Let_def case_prod_beta fst_conv snd_conv name'_def origin'_def de_Morgan_conj [symmetric]
        by (simp only: if_False simp_thms)
      obtain c' where c': "sel_one (same_contact fp addr) (contacts s') = Some c'" "up_to_date name' addr origin' c'"
          "c_id c' = i" "lookup_env s' = lookup_env s1"
      proof (cases "sel_one (same_contact fp addr) (contacts s1)")
        case None
        with run have "((i, m), s') = insert_contact name' addr fp origin' s1" by simp
        then show thesis using None by (rule insert_contact_settles) (rule that)
      next
        case (Some c)
        with run have "update_found name' addr origin' c s1 = Inr ((i, m), s')" by simp
        from update_found_settles [OF this _ Some] assms(1) s1(1) show thesis using that by auto
      qed
      have "add_or_lookup_ex name addr fp origin s' = Inr ((c_id c', ModifierNone), s')"
        using args notself False s1 env_eqs [OF c'(4)] c'
        by (intro add_or_lookup_ex_known) (auto simp: name'_def origin'_def)
      then show ?thesis using c'(3) by simp
    qed
  qed
qed


definition named_ctx :: ctx where
  "named_ctx = ctx0\<lparr>contacts := [(contact_row0 10)\<lparr>c_addr := U ''bob@x'', c_origin := IncomingUnknownFrom, c_authname := U ''B''\<rparr>],
     contacts_seq := 10\<rparr>"

lemma sanitize_Bo: "sanitize_name (U ''Bo'') = U ''Bo''"
  by (simp add: sanitize_name_def sanitize_single_line_def replace_newlines_def trim_def trim_start_def trim_end_def
      sanitize_bidi_characters_def isolate_characters_are_valid_def is_whitespace_def RTLO_CHARACTERS_def
      ISOLATE_CHARACTERS_def POP_ISOLATE_CHARACTER_def)

lemma named_ctx_run:
  "add_or_lookup_ex (U ''Bo'') (U ''bob@x'') [] ManuallyCreated named_ctx =
     Inr ((10, Modified), named_ctx\<lparr>contacts := [(contact_row0 10)\<lparr>c_name := U ''Bo'', c_addr := U ''bob@x'',
        c_origin := ManuallyCreated, c_authname := U ''B''\<rparr>]\<rparr>)"
  unfolding add_or_lookup_ex_def effective_name_origin_def sanitize_Bo
  by (simp add: named_ctx_def ctx0_def is_configured_def noreply_addr_def origin_le_def contact_row0_def same_contact_def
      update_found_def is_manual_def starts_with_def nocase_eq_def Let_def update_contact_def update_chat_names_def res_bind_def)


theorem add_or_lookup_twice_witness:
  "\<exists>s'. add_or_lookup_ex (U ''Bo'') (U ''bob@x'') [] ManuallyCreated named_ctx = Inr ((10, Modified), s')
     \<and> add_or_lookup_ex (U ''Bo'') (U ''bob@x'') [] ManuallyCreated s' = Inr ((10, ModifierNone), s')"
proof -
  have "distinct (map c_id (contacts named_ctx))" by (simp add: named_ctx_def contact_row0_def)
  from add_or_lookup_twice [OF this named_ctx_run] named_ctx_run show ?thesis by blast
qed

end
