(* ===== verification/Transports.thy ===== *)
theory Transports
  imports ChatBase
begin

text \<open>
  Setting configuration values (\<^verbatim>\<open>set_config_ex\<close> of \<^verbatim>\<open>src/config.rs\<close>) and the table of transports: adding and
  removing relays (\<^verbatim>\<open>src/transport.rs\<close>, \<^verbatim>\<open>src/configure.rs\<close>) on one device and by items of other devices.
  The lemmas show that no sequence of these operations loses the primary transport, and that a removal
  received from another device wins over an addition that is not newer.  Restarting the connections and
  regenerating the public key, which follow some of the operations, do not change the database and are
  left out; so is the table \<open>imap_send\<close>, which nothing fills.
\<close>

section \<open>The table\<close>

definition MAX_TRANSPORT_RELAYS :: nat where "MAX_TRANSPORT_RELAYS = 5"

definition count_transports :: "ctx \<Rightarrow> nat" where
  "count_transports s = length (transports s)"

definition primary_addr :: "ctx \<Rightarrow> string option" where
  "primary_addr s = config_db (config s) ''configured_addr''"

definition set_config_row :: "Config \<Rightarrow> string option \<Rightarrow> ctx \<Rightarrow> ctx" where
  "set_config_row key val s = s\<lparr>config := set_raw_config (Config_as_ref key) val (config s)\<rparr>"

definition add_pseudo_transport :: "ustr \<Rightarrow> ctx \<Rightarrow> ctx res" where
  "add_pseudo_transport addr s =
     (if list_ex (\<lambda>t. t_addr t = addr) (transports s) then Inl ''UNIQUE constraint failed: transports.addr''
      else
        let i = Suc (transports_seq s); (entered, configured) = pseudo_param s addr
        in Inr (s\<lparr>transports := transports s @ [\<lparr>t_id = i, t_addr = addr, t_entered_param = entered,
               t_configured_param = configured, t_add_timestamp = 0, t_is_published = True\<rparr>],
             transports_seq := i\<rparr>))"

text \<open>\<open>INSERT ... ON CONFLICT (addr) DO UPDATE ... WHERE\<close> some column differs or the timestamp is newer.\<close>

definition upsert_transport :: "ustr \<Rightarrow> TransportData \<Rightarrow> ctx \<Rightarrow> bool \<times> ctx" where
  "upsert_transport addr d s =
     (case sel_one (\<lambda>t. t_addr t = addr) (transports s) of
        None \<Rightarrow>
          let i = Suc (transports_seq s)
          in (True, s\<lparr>transports := transports s @ [\<lparr>t_id = i, t_addr = addr, t_entered_param = td_entered d,
                t_configured_param = td_configured d, t_add_timestamp = td_timestamp d, t_is_published = td_is_published d\<rparr>],
              transports_seq := i\<rparr>)
      | Some t \<Rightarrow>
          if t_entered_param t \<noteq> td_entered d \<or> t_configured_param t \<noteq> td_configured d
             \<or> t_add_timestamp t < td_timestamp d \<or> t_is_published t \<noteq> td_is_published d
          then (True, s\<lparr>transports := upd_where (\<lambda>t. t_addr t = addr) (\<lambda>t. t\<lparr>t_entered_param := td_entered d,
                  t_configured_param := td_configured d, t_add_timestamp := td_timestamp d,
                  t_is_published := td_is_published d\<rparr>) (transports s)\<rparr>)
          else (False, s))"

definition save_transport :: "TransportData \<Rightarrow> ctx \<Rightarrow> (bool \<times> ctx) res" where
  "save_transport d s =
     (if td_imap_folder d = Some [] then Inl ''Configured watched folder name cannot be empty''
      else
        let addr = addr_normalize (lower s) (td_addr d);
            configured_addr = get_config (config s) ConfiguredAddr;
            (modified, s1) = upsert_transport addr d s
        in Inr (if configured_addr = None then (True, set_config_row ConfiguredAddr (Some (utf8_encode addr)) s1)
                else (modified, s1)))"

text \<open>The transport with identifier 1 is never sent.\<close>

fun transports_data :: "ctx \<Rightarrow> transport_row list \<Rightarrow> TransportData list res" where
  "transports_data s [] = Inr []"
| "transports_data s (t # ts) =
     (if t_id t > 1 then
        res_bind (login_json s (t_entered_param t) (t_configured_param t)) (\<lambda>(addr, folder).
        res_bind (transports_data s ts) (\<lambda>ds.
          Inr (\<lparr>td_addr = addr, td_imap_folder = folder, td_configured = t_configured_param t,
                td_entered = t_entered_param t, td_timestamp = t_add_timestamp t, td_is_published = t_is_published t\<rparr> # ds)))
      else transports_data s ts)"

definition send_sync_transports :: "int \<Rightarrow> ctx \<Rightarrow> ctx res" where
  "send_sync_transports now s =
     res_bind (transports_data s (transports s)) (\<lambda>ds.
       Inr (interrupt_smtp (add_sync_item now (SyncTransports ds (removed_transports s)) s)))"

text \<open>\<open>INSERT ... ON CONFLICT (addr) DO UPDATE SET remove_timestamp ... WHERE\<close> it is newer.\<close>

definition note_removed :: "ustr \<Rightarrow> int \<Rightarrow> (ustr \<times> int) list \<Rightarrow> (ustr \<times> int) list" where
  "note_removed addr t rs =
     (case sel_one (\<lambda>r. fst r = addr) rs of
        None \<Rightarrow> rs @ [(addr, t)]
      | Some _ \<Rightarrow> upd_where (\<lambda>r. fst r = addr \<and> t > snd r) (\<lambda>r. (addr, t)) rs)"

definition remove_synced :: "string \<Rightarrow> ustr \<times> int \<Rightarrow> bool \<times> ctx \<Rightarrow> bool \<times> ctx" where
  "remove_synced primary r ms =
     (let (addr, t) = r; (modified, s) = ms
      in if utf8_encode addr = primary then (modified, s)
         else
           let gone = (\<lambda>t'. t_addr t' = addr \<and> t_add_timestamp t' \<le> t)
           in (modified \<or> list_ex gone (transports s),
               s\<lparr>transports := del_where gone (transports s),
                 removed_transports := note_removed addr t (removed_transports s)\<rparr>))"

definition save_synced :: "TransportData \<Rightarrow> bool \<times> ctx \<Rightarrow> (bool \<times> ctx) res" where
  "save_synced d ms = res_bind (save_transport d (snd ms)) (\<lambda>(m, s'). Inr (fst ms \<or> m, s'))"

definition sync_transports :: "TransportData list \<Rightarrow> (ustr \<times> int) list \<Rightarrow> ctx \<Rightarrow> ctx res" where
  "sync_transports ts rs s =
     res_bind (fold_res save_synced ts (False, s)) (\<lambda>(modified, s1).
       case primary_addr s1 of
         None \<Rightarrow> Inl ''QueryReturnedNoRows''
       | Some primary \<Rightarrow>
           let (modified', s2) = fold (remove_synced primary) rs (modified, s1)
           in Inr (if modified' then emit_event TransportsModified s2 else s2))"

definition delete_transport :: "int \<Rightarrow> ustr \<Rightarrow> ctx \<Rightarrow> ctx res" where
  "delete_transport now addr s =
     (case primary_addr s of
        None \<Rightarrow> Inl ''QueryReturnedNoRows''
      | Some primary \<Rightarrow>
          if primary = utf8_encode addr then Inl ''Cannot delete primary transport''
          else case sel_one (\<lambda>t. t_addr t = addr) (transports s) of
            None \<Rightarrow> Inl ''QueryReturnedNoRows''
          | Some t \<Rightarrow>
              let at = max now (t_add_timestamp t);
                  rs = removed_transports s;
                  rs' = (if list_ex (\<lambda>r. fst r = addr) rs then upd_where (\<lambda>r. fst r = addr) (\<lambda>r. (addr, at)) rs
                         else rs @ [(addr, at)])
              in send_sync_transports now
                   (s\<lparr>transports := del_where (\<lambda>t. t_addr t = addr) (transports s), removed_transports := rs'\<rparr>))"

definition set_transport_unpublished :: "int \<Rightarrow> ustr \<Rightarrow> bool \<Rightarrow> ctx \<Rightarrow> ctx res" where
  "set_transport_unpublished now addr unpublished s =
     (case primary_addr s of
        None \<Rightarrow> Inl ''QueryReturnedNoRows''
      | Some primary \<Rightarrow>
          if primary = utf8_encode addr \<and> unpublished then Inl ''Cannot set primary relay as unpublished''
          else send_sync_transports now
            (s\<lparr>transports := upd_where (\<lambda>t. t_addr t = addr \<and> t_is_published t \<noteq> (\<not> unpublished))
                 (\<lambda>t. t\<lparr>t_is_published := \<not> unpublished, t_add_timestamp := now\<rparr>) (transports s)\<rparr>))"

text \<open>The check at the start of \<open>inner_configure\<close>.\<close>

definition may_configure :: "ustr \<Rightarrow> ctx \<Rightarrow> bool" where
  "may_configure addr s \<longleftrightarrow>
     \<not> (get_config (config s) ConfiguredAddr \<noteq> None \<and> \<not> list_ex (\<lambda>t. t_addr t = addr) (transports s)
        \<and> count_transports s \<ge> MAX_TRANSPORT_RELAYS)"


section \<open>Setting configuration values\<close>

text \<open>The branch for the primary address.  \<open>UPDATE config\<close> changes an existing row only, and the cache entry is
  dropped at the end.\<close>

definition set_configured_addr :: "int \<Rightarrow> string option \<Rightarrow> ctx \<Rightarrow> ctx res" where
  "set_configured_addr now val s =
     (case val of
        None \<Rightarrow> Inl ''Cannot unset configured_addr''
      | Some addr \<Rightarrow>
          if \<not> is_configured s then
            res_bind (add_pseudo_transport (utf8_decode addr) s) (\<lambda>s1. Inr (set_config_row ConfiguredAddr (Some addr) s1))
          else if \<not> list_ex (\<lambda>t. utf8_encode (t_addr t) = addr) (transports s)
            then Inl ''Address does not belong to any transport.''
          else
            let s1 = s\<lparr>config := (config s)\<lparr>config_db := (case primary_addr s of
                      Some _ \<Rightarrow> (config_db (config s))(''configured_addr'' \<mapsto> addr) | None \<Rightarrow> config_db (config s))\<rparr>,
                   transports := upd_where (\<lambda>t. utf8_encode (t_addr t) = addr)
                      (\<lambda>t. t\<lparr>t_add_timestamp := now, t_is_published := True\<rparr>) (transports s),
                   smtp_tbl := []\<rparr>
            in res_bind (send_sync_transports now s1) (\<lambda>s2.
              Inr (s2\<lparr>config := uncache_raw_config ''configured_addr'' (config s2)\<rparr>)))"

text \<open>The value that is stored, and the value to be sent to the other devices.\<close>

definition store_config :: "int \<Rightarrow> bool \<Rightarrow> Config \<Rightarrow> string option \<Rightarrow> ctx \<Rightarrow> (string option \<times> ctx) res" where
  "store_config now do_sync key val s =
     (if key = Selfavatar then
        let s1 = s\<lparr>contacts := map (\<lambda>c. c\<lparr>c_selfavatar_sent := 0\<rparr>) (contacts s)\<rparr>
        in (case val of
              Some path \<Rightarrow>
                res_bind (avatar_blob s (get_abs_path (blobdir (config s)) path)) (\<lambda>(name, content).
                  Inr (if do_sync then Some content else val,
                       emit_event SelfavatarChanged (set_config_row key (Some name) s1)))
            | None \<Rightarrow>
                Inr (if do_sync then Some [] else None, emit_event SelfavatarChanged (set_config_row key None s1)))
      else if key = DeleteDeviceAfter then Inr (val, interrupt_ephemeral_task (set_config_row key val s))
      else if key = Displayname then
        let v = map_option (\<lambda>v. utf8_encode (sanitize_single_line (utf8_decode v))) val
        in Inr (v, set_config_row key v s)
      else if key = Addr then
        Inr (val, set_config_row key (map_option (\<lambda>v. utf8_encode (lower s (utf8_decode v))) val) s)
      else if key = ConfiguredAddr then res_bind (set_configured_addr now val s) (\<lambda>s1. Inr (val, s1))
      else Inr (val, set_config_row key val s))"

definition set_config_ex :: "int \<Rightarrow> Sync \<Rightarrow> Config \<Rightarrow> string option \<Rightarrow> ctx \<Rightarrow> ctx res" where
  "set_config_ex now do_sync key val s =
     res_bind (check_config key val) (\<lambda>_.
       let snc = (do_sync = Sync \<and> Config_is_synced key \<and> is_configured s)
       in res_bind (store_config now snc key val s) (\<lambda>(v, s1).
         let s2 = (if key \<in> {Displayname, Selfavatar, PrivateTag} then emit_event AccountsItemChanged s1 else s1);
             s3 = (if Config_is_synced key then emit_event (ConfigSynced key) s2 else s2)
         in Inr (if snc then (case v of Some v \<Rightarrow> interrupt_smtp (add_sync_item now (SyncConfig key v) s3) | None \<Rightarrow> s3)
                 else s3)))"

definition set_config_internal :: "int \<Rightarrow> Config \<Rightarrow> string option \<Rightarrow> ctx \<Rightarrow> ctx res" where
  "set_config_internal now key val s = set_config_ex now Sync key val s"

text \<open>\<open>set_config\<close> for all keys but \<open>StatsSending\<close>, which in addition handles the statistics.\<close>

definition set_config :: "int \<Rightarrow> Config \<Rightarrow> string option \<Rightarrow> ctx \<Rightarrow> ctx res" where
  "set_config now key val s = res_bind (check_config key val) (\<lambda>_. set_config_internal now key val s)"

definition sync_config :: "int \<Rightarrow> Config \<Rightarrow> string \<Rightarrow> ctx \<Rightarrow> ctx res" where
  "sync_config now key val s =
     res_bind (if key = Selfavatar then if val = [] then Inr None else store_from_base64 s val else Inr (Some val)) (\<lambda>v.
       if Config_is_synced key then set_config_ex now Nosync key v s else Inr s)"


section \<open>The primary transport\<close>

definition has_transport :: "string \<Rightarrow> ctx \<Rightarrow> bool" where
  "has_transport addr s \<longleftrightarrow> addr \<in> set (map utf8_encode (map t_addr (transports s)))"

text \<open>The primary address, if there is one, is the address of a row of the table.\<close>

definition primary_ok :: "ctx \<Rightarrow> bool" where
  "primary_ok s \<longleftrightarrow> (case primary_addr s of Some addr \<Rightarrow> has_transport addr s | None \<Rightarrow> True)"

lemma map_upd_where: "(\<And>x. g (f x) = g x) \<Longrightarrow> map g (upd_where P f t) = map g t"
  by (induction t) (simp_all add: upd_where_def)

lemma Config_as_ref_configured_addr: "Config_as_ref key = ''configured_addr'' \<longleftrightarrow> key = ConfiguredAddr"
  by (cases key) simp_all

lemma primary_set_config_row:
  "primary_addr (set_config_row key val s) = (if key = ConfiguredAddr then val else primary_addr s)"
  using Config_as_ref_configured_addr [of key]
  by (cases val) (auto simp: primary_addr_def set_config_row_def set_raw_config_def)

lemma primary_addr_frame [simp]:
  "primary_addr (emit_event e s) = primary_addr s" "primary_addr (s\<lparr>contacts := cs\<rparr>) = primary_addr s"
  "primary_addr (s\<lparr>ephemeral_interrupts := n\<rparr>) = primary_addr s"
  by (simp_all add: primary_addr_def)

lemma transports_set_config_row [simp]: "transports (set_config_row key val s) = transports s"
  by (simp add: set_config_row_def)

lemma primary_okI:
  assumes "primary_ok s" "set (map t_addr (transports s)) \<subseteq> set (map t_addr (transports s'))"
    "primary_addr s' = primary_addr s \<or> (\<exists>a. primary_addr s' = Some a \<and> has_transport a s')"
  shows "primary_ok s'"
proof (cases "primary_addr s' = primary_addr s")
  case True
  then show ?thesis
    using assms(1) image_mono [OF assms(2), of utf8_encode]
    by (cases "primary_addr s") (simp_all only: primary_ok_def has_transport_def option.case set_map, blast)
next
  case False
  with assms(3) show ?thesis by (auto simp: primary_ok_def)
qed

lemma send_sync_transports_keeps:
  "send_sync_transports now s = Inr s' \<Longrightarrow> config s' = config s \<and> transports s' = transports s"
  by (auto simp: send_sync_transports_def res_bind_eq_Inr interrupt_smtp_def add_sync_item_def Let_def)

lemma upsert_transport_addrs:
  assumes "upsert_transport addr d s = (m, s')"
  shows "config s' = config s \<and> set (map t_addr (transports s')) = insert addr (set (map t_addr (transports s)))"
proof (cases "sel_one (\<lambda>t. t_addr t = addr) (transports s)")
  case None
  with assms show ?thesis by (auto simp: upsert_transport_def Let_def)
next
  case (Some t)
  then have "addr \<in> set (map t_addr (transports s))" using sel_one_Some by force
  with Some assms show ?thesis
    by (auto simp: upsert_transport_def map_upd_where simp del: set_map split: if_splits)
qed

lemma save_transport_keeps:
  assumes "save_transport d s = Inr (m, s')" "primary_ok s"
  shows "primary_ok s' \<and> transports s' \<noteq> []"
proof -
  let ?a = "addr_normalize (lower s) (td_addr d)"
  obtain m1 s1 where u: "upsert_transport ?a d s = (m1, s1)" by fastforce
  have s': "s' = s1 \<or> s' = set_config_row ConfiguredAddr (Some (utf8_encode ?a)) s1"
    using assms(1) u by (auto simp: save_transport_def Let_def split: if_splits)
  note a = upsert_transport_addrs [OF u]
  have t: "transports s' = transports s1" using s' by auto
  have addrs: "set (map t_addr (transports s')) = insert ?a (set (map t_addr (transports s)))"
    and primary: "primary_addr s1 = primary_addr s"
    using a t by (simp_all add: primary_addr_def)
  have "has_transport (utf8_encode ?a) s'"
    unfolding has_transport_def set_map [of utf8_encode] addrs by (rule imageI) (rule insertI1)
  with s' primary have "primary_addr s' = primary_addr s \<or> (\<exists>a. primary_addr s' = Some a \<and> has_transport a s')"
    by (elim disjE) (simp_all only: primary_set_config_row if_True simp_thms ex_simps, blast)
  moreover have "set (map t_addr (transports s)) \<subseteq> set (map t_addr (transports s'))" unfolding addrs by blast
  ultimately have "primary_ok s'" by (intro primary_okI [OF assms(2)])
  moreover have "transports s' \<noteq> []" using addrs by auto
  ultimately show ?thesis ..
qed

lemma save_synced_keeps:
  assumes "fold_res save_synced ts ms = Inr ms'" "primary_ok (snd ms)"
  shows "primary_ok (snd ms') \<and> (transports (snd ms) \<noteq> [] \<longrightarrow> transports (snd ms') \<noteq> [])"
  using assms
proof (induction ts arbitrary: ms)
  case (Cons d ts)
  from Cons.prems(1) obtain m s1 where 1: "save_transport d (snd ms) = Inr (m, s1)"
      "fold_res save_synced ts (fst ms \<or> m, s1) = Inr ms'"
    by (auto simp: save_synced_def [of d] res_bind_eq_Inr)
  with save_transport_keeps [OF 1(1) Cons.prems(2)] Cons.IH [OF 1(2)] show ?case by simp
qed simp

lemma remove_synced_keeps:
  assumes "primary_addr s = Some p" "has_transport p s" "fold (remove_synced p) rs (m, s) = (m', s')"
  shows "primary_addr s' = Some p \<and> has_transport p s'"
  using assms
proof (induction rs arbitrary: m s)
  case (Cons r rs)
  obtain a t m1 s1 where r: "r = (a, t)" "remove_synced p r (m, s) = (m1, s1)" by fastforce
  then have "primary_addr s1 = Some p \<and> has_transport p s1"
    using Cons.prems by (auto simp: remove_synced_def Let_def primary_addr_def has_transport_def set_del_where split: if_splits)
  with Cons.IH [of s1 m1] Cons.prems(3) r(2) show ?case by simp
qed simp


text \<open>The operations on the table, on this device and by items received from another one.\<close>

datatype transport_op =
  SaveTransport TransportData
  | ReceiveTransports "TransportData list" "(ustr \<times> int) list"
  | DeleteTransport ustr
  | Unpublish ustr bool
  | SetConfig Sync Config "string option"

primrec run_transport_op :: "int \<Rightarrow> transport_op \<Rightarrow> ctx \<Rightarrow> ctx res" where
  "run_transport_op now (SaveTransport d) s = res_bind (save_transport d s) (\<lambda>(_, s'). Inr s')"
| "run_transport_op now (ReceiveTransports ts rs) s = sync_transports ts rs s"
| "run_transport_op now (DeleteTransport addr) s = delete_transport now addr s"
| "run_transport_op now (Unpublish addr b) s = set_transport_unpublished now addr b s"
| "run_transport_op now (SetConfig b key val) s = set_config_ex now b key val s"

text \<open>The bytes of a Rust string are valid UTF-8.\<close>

definition is_utf8 :: "string \<Rightarrow> bool" where
  "is_utf8 v \<longleftrightarrow> utf8_encode (utf8_decode v) = v"

primrec transport_op_ok :: "transport_op \<Rightarrow> bool" where
  "transport_op_ok (SaveTransport d) = True"
| "transport_op_ok (ReceiveTransports ts rs) = True"
| "transport_op_ok (DeleteTransport addr) = True"
| "transport_op_ok (Unpublish addr b) = True"
| "transport_op_ok (SetConfig b key val) = (case val of Some v \<Rightarrow> is_utf8 v | None \<Rightarrow> True)"

lemma has_transport_nonempty: "has_transport a s \<Longrightarrow> transports s \<noteq> []"
  by (auto simp: has_transport_def)

lemma primary_ok_cong:
  "primary_addr s' = primary_addr s \<Longrightarrow> map t_addr (transports s') = map t_addr (transports s) \<Longrightarrow> primary_ok s' = primary_ok s"
  by (simp only: primary_ok_def has_transport_def)

lemma sync_transports_keeps:
  assumes "sync_transports ts rs s = Inr s'" "primary_ok s"
  shows "primary_ok s' \<and> transports s' \<noteq> []"
proof -
  from assms(1) obtain m s1 p where 0: "fold_res save_synced ts (False, s) = Inr (m, s1)" "primary_addr s1 = Some p"
    by (auto simp: sync_transports_def res_bind_eq_Inr split: option.splits)
  moreover obtain m' s2 where "fold (remove_synced p) rs (m, s1) = (m', s2)" by fastforce
  ultimately have 1: "fold_res save_synced ts (False, s) = Inr (m, s1)" "primary_addr s1 = Some p"
      "fold (remove_synced p) rs (m, s1) = (m', s2)" "s' = (if m' then emit_event TransportsModified s2 else s2)"
    using assms(1) by (simp_all add: sync_transports_def)
  have "primary_ok s1" using save_synced_keeps [OF 1(1)] assms(2) by simp
  then have "has_transport p s1" using 1(2) by (simp add: primary_ok_def)
  note 2 = remove_synced_keeps [OF 1(2) this 1(3)]
  moreover have "primary_addr s' = primary_addr s2" "transports s' = transports s2"
    using 1(4) by (simp_all add: primary_addr_def)
  ultimately show ?thesis
    using has_transport_nonempty [of p s2] by (simp add: primary_ok_def has_transport_def)
qed

lemma delete_transport_keeps:
  assumes "delete_transport now addr s = Inr s'" "primary_ok s"
  shows "primary_ok s' \<and> transports s' \<noteq> []"
proof -
  let ?s1 = "\<lambda>rs'. s\<lparr>transports := del_where (\<lambda>t. t_addr t = addr) (transports s), removed_transports := rs'\<rparr>"
  from assms(1) obtain p rs' where p: "primary_addr s = Some p" "p \<noteq> utf8_encode addr"
      "send_sync_transports now (?s1 rs') = Inr s'"
    by (auto simp: delete_transport_def Let_def split: option.splits if_splits)
  have "primary_addr s' = Some p" using p send_sync_transports_keeps [OF p(3)] by (simp add: primary_addr_def)
  moreover have "has_transport p s'"
    using assms(2) p(1,2) send_sync_transports_keeps [OF p(3)]
    by (auto simp: primary_ok_def has_transport_def set_del_where)
  ultimately show ?thesis using has_transport_nonempty by (simp add: primary_ok_def)
qed

lemma set_configured_addr_keeps:
  assumes "set_configured_addr now val s = Inr s'" "primary_ok s" "case val of Some v \<Rightarrow> is_utf8 v | None \<Rightarrow> True"
  shows "primary_ok s' \<and> transports s' \<noteq> []"
proof -
  from assms(1) obtain addr where val: "val = Some addr" by (auto simp: set_configured_addr_def split: option.splits)
  show ?thesis
  proof (cases "is_configured s")
    case False
    with assms(1) val obtain s1 where "add_pseudo_transport (utf8_decode addr) s = Inr s1" and s': "s' = set_config_row ConfiguredAddr val s1"
      by (auto simp: set_configured_addr_def res_bind_eq_Inr)
    then show ?thesis
      using val assms(3)
      by (auto simp: add_pseudo_transport_def primary_ok_def primary_set_config_row has_transport_def is_utf8_def
          split: prod.splits if_splits)
  next
    case True
    let ?s1 = "s\<lparr>config := (config s)\<lparr>config_db := (case primary_addr s of
                      Some _ \<Rightarrow> (config_db (config s))(''configured_addr'' \<mapsto> addr) | None \<Rightarrow> config_db (config s))\<rparr>,
                   transports := upd_where (\<lambda>t. utf8_encode (t_addr t) = addr)
                      (\<lambda>t. t\<lparr>t_add_timestamp := now, t_is_published := True\<rparr>) (transports s),
                   smtp_tbl := []\<rparr>"
    from True assms(1) val obtain s2 where s2: "list_ex (\<lambda>t. utf8_encode (t_addr t) = addr) (transports s)"
        "send_sync_transports now ?s1 = Inr s2" "s' = s2\<lparr>config := uncache_raw_config ''configured_addr'' (config s2)\<rparr>"
      by (auto simp: set_configured_addr_def res_bind_eq_Inr Let_def split: if_splits)
    have t: "map t_addr (transports s') = map t_addr (transports s)"
      using s2(3) send_sync_transports_keeps [OF s2(2)] by (simp add: map_upd_where)
    have "has_transport addr s'" using s2(1) unfolding has_transport_def t by (auto simp: list_ex_iff)
    moreover have "primary_addr s' = (if primary_addr s = None then None else Some addr)"
      using s2(3) send_sync_transports_keeps [OF s2(2)]
      by (auto simp: primary_addr_def uncache_raw_config_def split: option.splits)
    ultimately show ?thesis using has_transport_nonempty [of addr s'] by (simp add: primary_ok_def)
  qed
qed


lemma store_config_keeps:
  assumes "store_config now b key val s = Inr (v, s')" "primary_ok s" "transport_op_ok (SetConfig c key val)"
  shows "primary_ok s' \<and> (transports s \<noteq> [] \<longrightarrow> transports s' \<noteq> [])"
proof (cases "key = ConfiguredAddr")
  case True
  with assms show ?thesis by (auto simp: store_config_def res_bind_eq_Inr dest: set_configured_addr_keeps)
next
  case False
  then have "primary_addr s' = primary_addr s \<and> transports s' = transports s"
    using assms(1)
    by (auto simp: store_config_def Let_def res_bind_eq_Inr interrupt_ephemeral_task_def primary_set_config_row
        split: if_splits option.splits)
  then show ?thesis using assms(2) primary_ok_cong [of s' s] by simp
qed

lemma set_config_ex_keeps:
  assumes "set_config_ex now b key val s = Inr s'" "primary_ok s" "transport_op_ok (SetConfig b key val)"
  shows "primary_ok s' \<and> (transports s \<noteq> [] \<longrightarrow> transports s' \<noteq> [])"
proof -
  from assms(1) obtain snc v s1 where 1: "store_config now snc key val s = Inr (v, s1)"
      and s': "config s' = config s1" "transports s' = transports s1"
    by (auto simp: set_config_ex_def Let_def res_bind_eq_Inr interrupt_smtp_def add_sync_item_def split: if_splits option.splits)
  from s' have "primary_ok s' = primary_ok s1" by (intro primary_ok_cong) (simp_all add: primary_addr_def)
  with store_config_keeps [OF 1 assms(2,3)] s' show ?thesis by simp
qed

lemma unpublish_keeps:
  assumes "set_transport_unpublished now addr b s = Inr s'" "primary_ok s"
  shows "primary_ok s' \<and> (transports s \<noteq> [] \<longrightarrow> transports s' \<noteq> [])"
proof -
  let ?s1 = "s\<lparr>transports := upd_where (\<lambda>t. t_addr t = addr \<and> t_is_published t \<noteq> (\<not> b))
                 (\<lambda>t. t\<lparr>t_is_published := \<not> b, t_add_timestamp := now\<rparr>) (transports s)\<rparr>"
  from assms(1) have 1: "send_sync_transports now ?s1 = Inr s'"
    by (auto simp: set_transport_unpublished_def split: option.splits if_splits)
  have "map t_addr (transports s') = map t_addr (transports s)" "primary_addr s' = primary_addr s"
    using send_sync_transports_keeps [OF 1] by (simp_all add: map_upd_where primary_addr_def)
  with assms(2) show ?thesis using primary_ok_cong [of s' s] by auto
qed

text \<open>C29: The primary address, once set, always names a transport in the table: no operation of this device and no
  item from another device deletes the primary transport or leaves the account without transports.\<close>

theorem primary_transport_kept:
  assumes "run_transport_op now t_op s = Inr s'" "primary_ok s" "transport_op_ok t_op"
  shows "primary_ok s' \<and> (is_configured s \<longrightarrow> is_configured s')"
proof (cases t_op)
  case (SaveTransport d)
  with assms show ?thesis by (auto simp: res_bind_eq_Inr is_configured_def dest: save_transport_keeps)
next
  case (ReceiveTransports ts rs)
  with assms show ?thesis by (auto simp: is_configured_def dest: sync_transports_keeps)
next
  case (DeleteTransport addr)
  with assms show ?thesis by (auto simp: is_configured_def dest: delete_transport_keeps)
next
  case (Unpublish addr b)
  with assms show ?thesis by (auto simp: is_configured_def dest: unpublish_keeps)
next
  case (SetConfig b key val)
  with assms set_config_ex_keeps [of now b key val s s'] show ?thesis by (simp add: is_configured_def)
qed


definition data0 :: "string \<Rightarrow> int \<Rightarrow> TransportData" where
  "data0 addr t = \<lparr>td_addr = U addr, td_imap_folder = None, td_configured = [], td_entered = [], td_timestamp = t,
     td_is_published = True\<rparr>"

text \<open>An account with the primary transport \<open>a\<close> and the transport \<open>b\<close>.\<close>

definition transport0 :: "nat \<Rightarrow> string \<Rightarrow> int \<Rightarrow> transport_row" where
  "transport0 i addr t = \<lparr>t_id = i, t_addr = U addr, t_entered_param = [], t_configured_param = [], t_add_timestamp = t,
     t_is_published = True\<rparr>"

definition relays_ctx :: ctx where
  "relays_ctx = ctx0\<lparr>config := set_raw_config ''configured_addr'' (Some ''a@x'') config_state0,
     transports := [transport0 1 ''a@x'' 5, transport0 2 ''b@x'' 6], transports_seq := 2\<rparr>"

lemma relays_utf8: "utf8_encode [97, 64, 120] = ''a@x''" "utf8_encode [98, 64, 120] = ''b@x''"
  using utf8_encode_U [of "''a@x''"] utf8_encode_U [of "''b@x''"] by simp_all

lemma relays_ctx_removal:
  "\<exists>s'. sync_transports [] [(U ''a@x'', 9), (U ''b@x'', 9)] relays_ctx = Inr s' \<and> transports s' = [transport0 1 ''a@x'' 5]
     \<and> primary_addr s' = Some ''a@x''"
  by (simp add: sync_transports_def relays_ctx_def primary_addr_def set_raw_config_def remove_synced_def transport0_def
      del_where_def relays_utf8 Let_def)

theorem primary_transport_kept_witness:
  "\<exists>s'. run_transport_op 9 (ReceiveTransports [] [(U ''a@x'', 9), (U ''b@x'', 9)]) relays_ctx = Inr s' \<and> is_configured s'"
proof -
  obtain s' where s': "sync_transports [] [(U ''a@x'', 9), (U ''b@x'', 9)] relays_ctx = Inr s'"
    using relays_ctx_removal by blast
  have "primary_ok relays_ctx" "is_configured relays_ctx"
    by (simp_all add: primary_ok_def primary_addr_def has_transport_def relays_ctx_def set_raw_config_def transport0_def
        relays_utf8 is_configured_def)
  then show ?thesis
    using s' primary_transport_kept [of 9 "ReceiveTransports [] [(U ''a@x'', 9), (U ''b@x'', 9)]" relays_ctx s'] by simp
qed


section \<open>Removals from other devices\<close>

definition removed_at :: "ustr \<Rightarrow> int \<Rightarrow> ctx \<Rightarrow> bool" where
  "removed_at addr t s \<longleftrightarrow>
     (\<forall>tr\<in>set (transports s). t_addr tr = addr \<longrightarrow> t < t_add_timestamp tr) \<and> (\<exists>t'\<ge>t. (addr, t') \<in> set (removed_transports s))"

lemma note_removed_new: "\<exists>t'\<ge>t. (addr, t') \<in> set (note_removed addr t rs)"
proof (cases "sel_one (\<lambda>r. fst r = addr) rs")
  case (Some r)
  then have r: "r \<in> set rs" "fst r = addr" using sel_one_Some by fast+
  show ?thesis
  proof (cases "t > snd r")
    case True
    with Some r show ?thesis by (intro exI [of _ t]) (force simp: note_removed_def set_upd_where)
  next
    case False
    with Some r show ?thesis by (intro exI [of _ "snd r"]) (force simp: note_removed_def set_upd_where)
  qed
qed (auto simp: note_removed_def)

lemma note_removed_old:
  assumes "(a, t') \<in> set rs"
  shows "\<exists>t''\<ge>t'. (a, t'') \<in> set (note_removed addr t rs)"
proof (cases "a = addr \<and> t > t'")
  case True
  with assms have "sel_one (\<lambda>r. fst r = addr) rs \<noteq> None"
    unfolding sel_one_None by (metis fst_conv)
  with True assms show ?thesis by (intro exI [of _ t]) (force simp: note_removed_def set_upd_where)
next
  case False
  with assms show ?thesis by (intro exI [of _ t']) (force simp: note_removed_def set_upd_where split: option.splits)
qed

lemma removed_at_step:
  assumes "remove_synced p r (m, s) = (m', s')"
  shows "removed_at a t s \<Longrightarrow> removed_at a t s'"
    and "r = (a, t) \<Longrightarrow> utf8_encode a \<noteq> p \<Longrightarrow> removed_at a t s'"
proof -
  obtain b u where r: "r = (b, u)" by fastforce
  show "removed_at a t s'" if old: "removed_at a t s"
  proof (cases "utf8_encode b = p")
    case False
    then have s': "transports s' = del_where (\<lambda>t'. t_addr t' = b \<and> t_add_timestamp t' \<le> u) (transports s)"
        "removed_transports s' = note_removed b u (removed_transports s)"
      using assms r by (auto simp: remove_synced_def Let_def)
    obtain t' where "t' \<ge> t" "(a, t') \<in> set (removed_transports s)" using old by (auto simp: removed_at_def)
    with note_removed_old [OF this(2), of b u] have "\<exists>t''\<ge>t. (a, t'') \<in> set (removed_transports s')"
      unfolding s' by (meson order_trans)
    then show ?thesis using old by (auto simp: removed_at_def s' set_del_where)
  qed (use old assms r in \<open>auto simp: remove_synced_def\<close>)
  show "r = (a, t) \<Longrightarrow> utf8_encode a \<noteq> p \<Longrightarrow> removed_at a t s'"
    using assms note_removed_new by (auto simp: removed_at_def remove_synced_def Let_def set_del_where)
qed

lemma removed_at_fold:
  assumes "fold (remove_synced p) rs (m, s) = (m', s')"
  shows "removed_at a t s \<or> (a, t) \<in> set rs \<and> utf8_encode a \<noteq> p \<Longrightarrow> removed_at a t s'"
  using assms
proof (induction rs arbitrary: m s)
  case (Cons r rs)
  obtain m1 s1 where 1: "remove_synced p r (m, s) = (m1, s1)" by fastforce
  have "removed_at a t s1 \<or> (a, t) \<in> set rs \<and> utf8_encode a \<noteq> p"
    using Cons.prems(1) removed_at_step [OF 1] by auto
  moreover have "fold (remove_synced p) rs (m1, s1) = (m', s')" using Cons.prems(2) 1 by simp
  ultimately show ?case by (rule Cons.IH)
qed simp

text \<open>C30: After a removal from another device has been processed, no transport of that address is left unless it was
  added later than the removal, and the removal is on record; only the primary transport is exempt.  This
  holds although transports from the same item may have been saved just before: removal wins a tie.\<close>

theorem removal_wins:
  assumes "sync_transports ts rs s = Inr s'" "(addr, t) \<in> set rs" "primary_addr s' \<noteq> Some (utf8_encode addr)"
  shows "(\<forall>tr\<in>set (transports s'). t_addr tr = addr \<longrightarrow> t < t_add_timestamp tr)
    \<and> (\<exists>t'\<ge>t. (addr, t') \<in> set (removed_transports s'))"
proof -
  from assms(1) obtain m s1 p where 0: "fold_res save_synced ts (False, s) = Inr (m, s1)" "primary_addr s1 = Some p"
    by (auto simp: sync_transports_def res_bind_eq_Inr split: option.splits)
  obtain m' s2 where f: "fold (remove_synced p) rs (m, s1) = (m', s2)" by fastforce
  have s': "s' = (if m' then emit_event TransportsModified s2 else s2)"
    using assms(1) 0 f by (simp add: sync_transports_def)
  have "primary_addr s2 = Some p"
    using f 0(2) by (induction rs arbitrary: m s1) (auto simp: remove_synced_def primary_addr_def Let_def split: if_splits prod.splits)
  with assms(3) s' have "utf8_encode addr \<noteq> p" by (auto split: if_splits)
  with removed_at_fold [OF f] assms(2) have "removed_at addr t s2" by blast
  then show ?thesis using s' by (simp add: removed_at_def split: if_splits)
qed

theorem removal_wins_witness:
  "\<exists>s'. sync_transports [] [(U ''a@x'', 9), (U ''b@x'', 9)] relays_ctx = Inr s' \<and> (\<exists>t'\<ge>9. (U ''b@x'', t') \<in> set (removed_transports s'))"
proof -
  obtain s' where s': "sync_transports [] [(U ''a@x'', 9), (U ''b@x'', 9)] relays_ctx = Inr s'" "primary_addr s' = Some ''a@x''"
    using relays_ctx_removal by blast
  then show ?thesis using removal_wins [of "[]" "[(U ''a@x'', 9), (U ''b@x'', 9)]" relays_ctx s' "U ''b@x''" 9]
    by (simp add: relays_utf8)
qed

end
