(* ===== verification/Messages.thy ===== *)
theory Messages
  imports Transports Contacts
begin

text \<open>
  \<^verbatim>\<open>src/message.rs\<close>: messages as they are loaded from the database, their states, trashing and marking as
  seen.  The lemmas show that states only move along the allowed transitions and that a message
  requests at most one read receipt to its sender.  The text appended to announced but not downloaded messages
  (\<open>additional_text\<close>) and the textual message info are left out.
\<close>

section \<open>Message identifiers in headers\<close>

text \<open>\<open>split_whitespace\<close> on the bytes of a header: Message-IDs are ASCII.\<close>

definition ascii_whitespace :: "char \<Rightarrow> bool" where
  "ascii_whitespace c \<longleftrightarrow> is_whitespace (of_char c)"

fun split_by :: "('a \<Rightarrow> bool) \<Rightarrow> 'a list \<Rightarrow> 'a list list" where
  "split_by P [] = [[]]"
| "split_by P (x # xs) =
     (if P x then [] # split_by P xs else (case split_by P xs of [] \<Rightarrow> [[x]] | y # ys \<Rightarrow> (x # y) # ys))"

definition split_whitespace :: "string \<Rightarrow> string list" where
  "split_whitespace s = filter (\<lambda>w. w \<noteq> []) (split_by ascii_whitespace s)"

definition strip_angle :: "string \<Rightarrow> string" where
  "strip_angle i =
     (let i1 = (case i of c # cs \<Rightarrow> if c = CHR ''<'' then cs else i | [] \<Rightarrow> i)
      in if i1 \<noteq> [] \<and> last i1 = CHR ''>'' then butlast i1 else i1)"

definition parse_message_ids :: "string \<Rightarrow> string list" where
  "parse_message_ids ids = filter (\<lambda>i. i \<noteq> []) (map strip_angle (split_whitespace ids))"

definition parse_message_id :: "string \<Rightarrow> string res" where
  "parse_message_id ids =
     (case parse_message_ids ids of i # _ \<Rightarrow> Inr i | [] \<Rightarrow> Inl ''could not parse message_id'')"


section \<open>Messages in memory\<close>

record Message =
  mg_id :: msg_id
  mg_from_id :: contact_id
  mg_to_id :: contact_id
  mg_chat_id :: chat_id
  mg_viewtype :: Viewtype
  mg_state :: MessageState
  mg_download_state :: DownloadState
  mg_hidden :: bool
  mg_timestamp_sort :: int
  mg_timestamp_sent :: int
  mg_timestamp_rcvd :: int
  mg_ephemeral_timer :: Timer
  mg_ephemeral_timestamp :: int
  mg_text :: ustr
  mg_subject :: ustr
  mg_rfc724_mid :: string
  mg_pre_rfc724_mid :: string
  mg_in_reply_to :: "string option"
  mg_is_dc_message :: nat
  mg_original_msg_id :: msg_id
  mg_mime_modified :: bool
  mg_chat_visibility :: ChatVisibility
  mg_chat_blocked :: Blocked
  mg_location_id :: nat
  mg_error :: "ustr option"
  mg_param :: params

definition Message_default :: Message where
  "Message_default = \<lparr>mg_id = 0, mg_from_id = 0, mg_to_id = 0, mg_chat_id = 0, mg_viewtype = Viewtype.Unknown,
     mg_state = Undefined, mg_download_state = Done, mg_hidden = False, mg_timestamp_sort = 0, mg_timestamp_sent = 0,
     mg_timestamp_rcvd = 0, mg_ephemeral_timer = Disabled, mg_ephemeral_timestamp = 0, mg_text = [], mg_subject = [],
     mg_rfc724_mid = [], mg_pre_rfc724_mid = [], mg_in_reply_to = None, mg_is_dc_message = 0, mg_original_msg_id = 0,
     mg_mime_modified = False, mg_chat_visibility = VisNormal, mg_chat_blocked = Not, mg_location_id = 0,
     mg_error = None, mg_param = Params_new\<rparr>"

definition Message_new :: "Viewtype \<Rightarrow> ctx \<Rightarrow> Message \<times> ctx" where
  "Message_new v s =
     (let (mid, s') = create_outgoing_rfc724_mid s in (Message_default\<lparr>mg_viewtype := v, mg_rfc724_mid := mid\<rparr>, s'))"

definition Message_new_text :: "ustr \<Rightarrow> ctx \<Rightarrow> Message \<times> ctx" where
  "Message_new_text txt s =
     (let (mid, s') = create_outgoing_rfc724_mid s
      in (Message_default\<lparr>mg_viewtype := Text, mg_text := txt, mg_rfc724_mid := mid\<rparr>, s'))"

definition DownloadState_from_int :: "nat \<Rightarrow> DownloadState option" where
  "DownloadState_from_int n =
     map_of [(0, Done), (10, Available), (20, Failure), (30, Undecipherable), (1000, InProgress)] n"

lemma DownloadState_from_to [simp]: "DownloadState_from_int (DownloadState_to_int d) = Some d"
  by (cases d) (simp_all add: DownloadState_from_int_def)

definition has_mdns :: "ctx \<Rightarrow> msg_id \<Rightarrow> bool" where
  "has_mdns s i \<longleftrightarrow> list_ex (\<lambda>d. md_msg_id d = i) (msgs_mdns s)"

definition msg_of :: "ctx \<Rightarrow> msg_id \<Rightarrow> msg_row option" where
  "msg_of s i = sel_one (\<lambda>m. m_id m = i) (msgs s)"

definition Message_of_row :: "ctx \<Rightarrow> msg_row \<Rightarrow> Message res" where
  "Message_of_row s m =
     res_bind (Timer_from_sql (m_ephemeral_timer m)) (\<lambda>timer.
     case DownloadState_from_int (m_download_state m) of
       None \<Rightarrow> Inl ''failed to load message from the database''
     | Some download_state \<Rightarrow>
         let chat = chat_row_of s (m_chat_id m)
         in Inr \<lparr>mg_id = m_id m, mg_from_id = m_from_id m, mg_to_id = m_to_id m, mg_chat_id = m_chat_id m,
              mg_viewtype = (case Viewtype_from_int (m_type m) of Some v \<Rightarrow> v | None \<Rightarrow> Viewtype.Unknown),
              mg_state = MessageState_with_mdns (m_state m) (has_mdns s (m_id m)), mg_download_state = download_state,
              mg_hidden = m_hidden m, mg_timestamp_sort = m_timestamp m, mg_timestamp_sent = m_timestamp_sent m,
              mg_timestamp_rcvd = m_timestamp_rcvd m, mg_ephemeral_timer = timer,
              mg_ephemeral_timestamp = m_ephemeral_timestamp m, mg_text = m_txt m, mg_subject = m_subject m,
              mg_rfc724_mid = m_rfc724_mid m, mg_pre_rfc724_mid = m_pre_rfc724_mid m,
              mg_in_reply_to = (case parse_message_id (m_in_reply_to m) of Inr i \<Rightarrow> Some i | Inl _ \<Rightarrow> None),
              mg_is_dc_message = m_msgrmsg m, mg_original_msg_id = m_starred m, mg_mime_modified = m_mime_modified m,
              mg_chat_visibility = (case chat of Some c \<Rightarrow> ChatVisibility_from_int (ch_archived c) | None \<Rightarrow> VisNormal),
              mg_chat_blocked = (case chat of Some c \<Rightarrow> ch_blocked c | None \<Rightarrow> Not),
              mg_location_id = m_location_id m, mg_error = (if m_error m = [] then None else Some (m_error m)),
              mg_param = m_param m\<rparr>)"

definition Message_load_from_db_optional :: "ctx \<Rightarrow> msg_id \<Rightarrow> Message option res" where
  "Message_load_from_db_optional s i =
     (if MsgId_is_special i then Inl ''Can not load special message ID from DB''
      else case sel_one (\<lambda>m. m_id m = i \<and> m_chat_id m \<noteq> DC_CHAT_ID_TRASH) (msgs s) of
        None \<Rightarrow> Inr None
      | Some m \<Rightarrow> res_bind (Message_of_row s m) (\<lambda>msg. Inr (Some msg)))"

definition Message_load_from_db :: "ctx \<Rightarrow> msg_id \<Rightarrow> Message res" where
  "Message_load_from_db s i =
     res_bind (Message_load_from_db_optional s i) (\<lambda>r.
       case r of Some msg \<Rightarrow> Inr msg | None \<Rightarrow> Inl ''Message does not exist'')"

definition load_by_rfc724_mid_optional :: "ctx \<Rightarrow> string \<Rightarrow> Message option res" where
  "load_by_rfc724_mid_optional s mid =
     (case sel_one (\<lambda>m. m_rfc724_mid m = mid \<and> m_chat_id m \<noteq> DC_CHAT_ID_TRASH) (msgs s) of
        Some m \<Rightarrow> Message_load_from_db_optional s (m_id m)
      | None \<Rightarrow> Inr None)"


section \<open>Accessors\<close>

definition get_timestamp :: "Message \<Rightarrow> int" where
  "get_timestamp m = (if mg_timestamp_sent m \<noteq> 0 then mg_timestamp_sent m else mg_timestamp_sort m)"

definition get_sort_timestamp :: "Message \<Rightarrow> int" where
  "get_sort_timestamp m = (if mg_timestamp_sort m \<noteq> 0 then mg_timestamp_sort m else mg_timestamp_sent m)"

definition get_showpadlock :: "Message \<Rightarrow> bool" where
  "get_showpadlock m \<longleftrightarrow>
     (case Params_get_int GuaranteeE2ee (mg_param m) of Some i \<Rightarrow> i \<noteq> 0 | None \<Rightarrow> False) \<or> mg_from_id m = ContactId_DEVICE"

definition is_bot :: "Message \<Rightarrow> bool" where
  "is_bot m \<longleftrightarrow> (case Params_get_bool Param.Bot (mg_param m) of Some b \<Rightarrow> b | None \<Rightarrow> False)"

definition is_sent :: "Message \<Rightarrow> bool" where
  "is_sent m \<longleftrightarrow> MessageState_to_int OutDelivered \<le> MessageState_to_int (mg_state m)"

definition is_forwarded :: "Message \<Rightarrow> bool" where
  "is_forwarded m \<longleftrightarrow> Params_get_int Forwarded (mg_param m) \<noteq> None"

definition is_edited :: "Message \<Rightarrow> bool" where
  "is_edited m \<longleftrightarrow> (case Params_get_bool IsEdited (mg_param m) of Some b \<Rightarrow> b | None \<Rightarrow> False)"

definition is_info :: "Message \<Rightarrow> bool" where
  "is_info m \<longleftrightarrow>
     (let cmd = Params_get_cmd (mg_param m)
      in mg_from_id m = ContactId_INFO \<or> mg_to_id m = ContactId_INFO
         \<or> cmd \<noteq> SystemMessage.Unknown \<and> cmd \<noteq> AutocryptSetupMessage)"

definition is_system_message :: "Message \<Rightarrow> bool" where
  "is_system_message m \<longleftrightarrow> Params_get_cmd (mg_param m) \<noteq> SystemMessage.Unknown"

definition get_override_sender_name :: "Message \<Rightarrow> ustr option" where
  "get_override_sender_name m = map_option utf8_decode (Params_get OverrideSenderDisplayname (mg_param m))"

definition get_sender_name :: "Message \<Rightarrow> contact_row \<Rightarrow> ustr" where
  "get_sender_name m c = (case get_override_sender_name m of Some n \<Rightarrow> n | None \<Rightarrow> get_display_name c)"

text \<open>\<open>cnv_to_local\<close> is the offset of the local time zone; the division truncates.\<close>

definition trunc_div :: "int \<Rightarrow> int \<Rightarrow> int" where
  "trunc_div a b = (if a \<ge> 0 then a div b else - ((- a) div b))"

definition has_deviating_timestamp :: "int \<Rightarrow> Message \<Rightarrow> bool" where
  "has_deviating_timestamp cnv_to_local m \<longleftrightarrow>
     trunc_div (get_sort_timestamp m + cnv_to_local) 86400 \<noteq> trunc_div (get_timestamp m + cnv_to_local) 86400"

definition get_info_contact_id :: "ctx \<Rightarrow> Message \<Rightarrow> contact_id option res" where
  "get_info_contact_id s m =
     (let cmd = Params_get_cmd (mg_param m)
      in if cmd \<in> {GroupNameChanged, GroupDescriptionChanged, GroupImageChanged, EphemeralTimerChanged} then
           Inr (if mg_from_id m \<noteq> ContactId_INFO then Some (mg_from_id m) else None)
         else if cmd \<in> {MemberAddedToGroup, MemberRemovedFromGroup} then
           (case Params_get_int ContactAddedRemoved (mg_param m) of
              None \<Rightarrow> Inr None
            | Some i \<Rightarrow>
                if i < 0 then Inl ''TryFromIntError''
                else Inr (if nat i = ContactId_SELF \<or> real_exists_by_id s (nat i) then Some (nat i) else None))
         else Inr None)"

definition set_quote_text :: "(ustr \<times> bool) option \<Rightarrow> Message \<Rightarrow> Message" where
  "set_quote_text q m =
     (case q of
        None \<Rightarrow> m\<lparr>mg_param := Params_remove ProtectQuote (Params_remove Quote (mg_param m))\<rparr>
      | Some (txt, protect) \<Rightarrow>
          m\<lparr>mg_param := Params_set_optional ProtectQuote (if protect then Some ''1'' else None)
                          (Params_set Quote (utf8_encode txt) (mg_param m))\<rparr>)"

definition force_plaintext :: "Message \<Rightarrow> Message" where
  "force_plaintext m = m\<lparr>mg_param := Params_set_int ForcePlaintext 1 (mg_param m)\<rparr>"

definition set_reaction :: "Message \<Rightarrow> Message" where
  "set_reaction m = m\<lparr>mg_param := Params_set_int Reaction 1 (mg_param m)\<rparr>"

text \<open>A special identifier cannot be written to the database.\<close>

definition sql_msg_id :: "msg_id \<Rightarrow> 'a \<Rightarrow> 'a res" where
  "sql_msg_id i x = (if i \<le> DC_MSG_ID_LAST_SPECIAL then Inl ''Invalid MsgId'' else Inr x)"

definition update_msg :: "msg_id \<Rightarrow> (msg_row \<Rightarrow> msg_row) \<Rightarrow> ctx \<Rightarrow> ctx" where
  "update_msg i f s = s\<lparr>msgs := upd_where (\<lambda>m. m_id m = i) f (msgs s)\<rparr>"

definition update_param :: "Message \<Rightarrow> ctx \<Rightarrow> ctx res" where
  "update_param m s = sql_msg_id (mg_id m) (update_msg (mg_id m) (\<lambda>r. r\<lparr>m_param := mg_param m\<rparr>) s)"

definition latefiling_mediasize :: "int \<Rightarrow> int \<Rightarrow> int \<Rightarrow> Message \<Rightarrow> ctx \<Rightarrow> (Message \<times> ctx) res" where
  "latefiling_mediasize width height duration m s =
     (let p1 = (if width > 0 \<and> height > 0
                then Params_set_int Height height (Params_set_int Width width (mg_param m)) else mg_param m);
          p2 = (if duration > 0 then Params_set_int Duration duration p1 else p1);
          m' = m\<lparr>mg_param := p2\<rparr>
      in res_bind (update_param m' s) (\<lambda>s'. Inr (m', s')))"

definition get_saved_msg_id :: "ctx \<Rightarrow> Message \<Rightarrow> msg_id option res" where
  "get_saved_msg_id s m =
     sql_msg_id (mg_id m) (map_option m_id (sel_one (\<lambda>r. m_starred r = mg_id m \<and> m_chat_id r \<noteq> DC_CHAT_ID_TRASH) (msgs s)))"

definition get_original_msg_id :: "ctx \<Rightarrow> Message \<Rightarrow> msg_id option res" where
  "get_original_msg_id s m =
     (if MsgId_is_special (mg_original_msg_id m) then Inr None
      else res_bind (Message_load_from_db_optional s (mg_original_msg_id m)) (\<lambda>r.
        case r of
          Some o' \<Rightarrow> Inr (if mg_chat_id o' = DC_CHAT_ID_TRASH then None else Some (mg_id o'))
        | None \<Rightarrow> Inr None))"


section \<open>View types by file name\<close>

definition has_file :: "Viewtype \<Rightarrow> bool" where
  "has_file v = (case v of Viewtype.Unknown \<Rightarrow> False | Text \<Rightarrow> False | Call \<Rightarrow> False | _ \<Rightarrow> True)"

definition suffix_table :: "(string \<times> Viewtype \<times> string) list" where
  "suffix_table =
     [(''3gp'', (Video, ''video/3gpp'')),
      (''aac'', (Audio, ''audio/aac'')),
      (''avi'', (Video, ''video/x-msvideo'')),
      (''avif'', (Viewtype.File, ''image/avif'')),
      (''doc'', (Viewtype.File, ''application/msword'')),
      (''docx'', (Viewtype.File, ''application/vnd.openxmlformats-officedocument.wordprocessingml.document'')),
      (''epub'', (Viewtype.File, ''application/epub+zip'')),
      (''flac'', (Audio, ''audio/flac'')),
      (''gif'', (Gif, ''image/gif'')),
      (''heic'', (Viewtype.File, ''image/heic'')),
      (''heif'', (Viewtype.File, ''image/heif'')),
      (''html'', (Viewtype.File, ''text/html'')),
      (''htm'', (Viewtype.File, ''text/html'')),
      (''ico'', (Viewtype.File, ''image/vnd.microsoft.icon'')),
      (''jar'', (Viewtype.File, ''application/java-archive'')),
      (''jpeg'', (Image, ''image/jpeg'')),
      (''jpe'', (Image, ''image/jpeg'')),
      (''jpg'', (Image, ''image/jpeg'')),
      (''json'', (Viewtype.File, ''application/json'')),
      (''mov'', (Video, ''video/quicktime'')),
      (''m4a'', (Audio, ''audio/m4a'')),
      (''mp3'', (Audio, ''audio/mpeg'')),
      (''mp4'', (Video, ''video/mp4'')),
      (''odp'', (Viewtype.File, ''application/vnd.oasis.opendocument.presentation'')),
      (''ods'', (Viewtype.File, ''application/vnd.oasis.opendocument.spreadsheet'')),
      (''odt'', (Viewtype.File, ''application/vnd.oasis.opendocument.text'')),
      (''oga'', (Audio, ''audio/ogg'')),
      (''ogg'', (Audio, ''audio/ogg'')),
      (''ogv'', (Viewtype.File, ''video/ogg'')),
      (''opus'', (Viewtype.File, ''audio/ogg'')),
      (''otf'', (Viewtype.File, ''font/otf'')),
      (''pdf'', (Viewtype.File, ''application/pdf'')),
      (''png'', (Image, ''image/png'')),
      (''ppt'', (Viewtype.File, ''application/vnd.ms-powerpoint'')),
      (''pptx'', (Viewtype.File, ''application/vnd.openxmlformats-officedocument.presentationml.presentation'')),
      (''rar'', (Viewtype.File, ''application/vnd.rar'')),
      (''rtf'', (Viewtype.File, ''application/rtf'')),
      (''spx'', (Viewtype.File, ''audio/ogg'')),
      (''svg'', (Viewtype.File, ''image/svg+xml'')),
      (''tgs'', (Viewtype.File, ''application/x-tgsticker'')),
      (''tiff'', (Viewtype.File, ''image/tiff'')),
      (''tif'', (Viewtype.File, ''image/tiff'')),
      (''ttf'', (Viewtype.File, ''font/ttf'')),
      (''txt'', (Viewtype.File, ''text/plain'')),
      (''vcard'', (Vcard, ''text/vcard'')),
      (''vcf'', (Vcard, ''text/vcard'')),
      (''wav'', (Audio, ''audio/wav'')),
      (''weba'', (Viewtype.File, ''audio/webm'')),
      (''webm'', (Viewtype.File, ''video/webm'')),
      (''webp'', (Image, ''image/webp'')),
      (''wmv'', (Video, ''video/x-ms-wmv'')),
      (''xdc'', (Webxdc, ''application/webxdc+zip'')),
      (''xhtml'', (Viewtype.File, ''application/xhtml+xml'')),
      (''xls'', (Viewtype.File, ''application/vnd.ms-excel'')),
      (''xlsx'', (Viewtype.File, ''application/vnd.openxmlformats-officedocument.spreadsheetml.sheet'')),
      (''xml'', (Viewtype.File, ''application/xml'')),
      (''zip'', (Viewtype.File, ''application/zip''))]"

text \<open>\<open>Path::file_name\<close> and \<open>Path::extension\<close> for Unix paths.\<close>

definition path_file_name :: "string \<Rightarrow> string option" where
  "path_file_name p =
     (case rev (filter (\<lambda>c. c \<noteq> [] \<and> c \<noteq> ''.'') (split_on CHR ''/'' p)) of
        [] \<Rightarrow> None | n # _ \<Rightarrow> if n = ''..'' then None else Some n)"

definition path_extension :: "string \<Rightarrow> string option" where
  "path_extension p =
     Option.bind (path_file_name p) (\<lambda>n.
       case rev (split_on CHR ''.'' n) of
         [] \<Rightarrow> None | [_] \<Rightarrow> None
       | e # before \<Rightarrow> if before = [[]] then None else Some e)"

definition guess_msgtype_from_path_suffix :: "(ustr \<Rightarrow> ustr) \<Rightarrow> string \<Rightarrow> (Viewtype \<times> string) option" where
  "guess_msgtype_from_path_suffix lc path =
     Option.bind (path_extension path) (\<lambda>e. map_of suffix_table (utf8_encode (lc (utf8_decode e))))"

definition guess_msgtype_from_suffix :: "(ustr \<Rightarrow> ustr) \<Rightarrow> Message \<Rightarrow> (Viewtype \<times> string) option" where
  "guess_msgtype_from_suffix lc m =
     Option.bind (case Params_get Filename (mg_param m) of Some n \<Rightarrow> Some n | None \<Rightarrow> Params_get Param.File (mg_param m))
       (guess_msgtype_from_path_suffix lc)"

definition get_filemime :: "(ustr \<Rightarrow> ustr) \<Rightarrow> Message \<Rightarrow> string option" where
  "get_filemime lc m =
     (case Params_get MimeType (mg_param m) of
        Some t \<Rightarrow> Some t
      | None \<Rightarrow>
          if Params_exists Param.File (mg_param m) then
            (case guess_msgtype_from_suffix lc m of Some (_, mime) \<Rightarrow> Some mime | None \<Rightarrow> Some ''application/octet-stream'')
          else None)"


section \<open>States\<close>

definition MsgId_get_state :: "ctx \<Rightarrow> msg_id \<Rightarrow> MessageState res" where
  "MsgId_get_state s i =
     sql_msg_id i (case msg_of s i of Some m \<Rightarrow> MessageState_with_mdns (m_state m) (has_mdns s i) | None \<Rightarrow> Undefined)"

definition MsgId_trash :: "msg_id \<Rightarrow> bool \<Rightarrow> ctx \<Rightarrow> ctx res" where
  "MsgId_trash i on_server s = sql_msg_id i (update_msg i (\<lambda>m. (tombstone m)\<lparr>m_deleted := on_server\<rparr>) s)"

definition set_delivered :: "msg_id \<Rightarrow> ctx \<Rightarrow> (bool \<times> ctx) res" where
  "set_delivered i s =
     (if MsgId_is_special i then Inl ''Invalid MsgId''
      else if \<not> list_ex (\<lambda>m. m_id m = i \<and> m_state m = OutPending) (msgs s) then Inr (False, s)
      else
        let s1 = s\<lparr>msgs := upd_where (\<lambda>m. m_id m = i \<and> m_state m = OutPending)
                      (\<lambda>m. m\<lparr>m_state := OutDelivered, m_error := []\<rparr>) (msgs s)\<rparr>
        in Inr (True, case msg_of s1 i of
             Some m \<Rightarrow> emit_chatlist_item_changed (m_chat_id m) (emit_event (MsgDelivered (m_chat_id m) i) s1)
           | None \<Rightarrow> emit_event (MsgDelivered 0 i) s1))"

definition update_msg_state :: "msg_id \<Rightarrow> MessageState \<Rightarrow> ctx \<Rightarrow> ctx res" where
  "update_msg_state i state s =
     (if state = OutMdnRcvd then Inl ''Update msgs_mdns table instead!''
      else if state = OutFailed then Inl ''use set_msg_failed()!''
      else sql_msg_id i (update_msg i (\<lambda>m.
        if MessageState_to_int OutPending \<le> MessageState_to_int state
        then m\<lparr>m_state := state, m_error := []\<rparr> else m\<lparr>m_state := state\<rparr>) s))"

definition set_msg_failed :: "Message \<Rightarrow> ustr \<Rightarrow> ctx \<Rightarrow> (Message \<times> ctx) res" where
  "set_msg_failed msg error s =
     (let msg' = msg\<lparr>mg_state := (if MessageState_can_fail (mg_state msg) then OutFailed else mg_state msg),
                    mg_error := Some error\<rparr>
      in if MsgId_is_special (mg_id msg) then Inl ''Invalid MsgId''
         else
           let s1 = emit_event (MsgFailed (mg_chat_id msg) (mg_id msg))
                      (update_msg (mg_id msg) (\<lambda>m. m\<lparr>m_state := mg_state msg', m_error := error\<rparr>) s)
           in Inr (msg', if msg_of s (mg_id msg) \<noteq> None then emit_chatlist_item_changed (mg_chat_id msg) s1 else s1))"

definition insert_tombstone :: "string \<Rightarrow> ctx \<Rightarrow> msg_id \<times> ctx" where
  "insert_tombstone mid s = insert_msg (\<lambda>m. m\<lparr>m_rfc724_mid := mid, m_chat_id := DC_CHAT_ID_TRASH\<rparr>) s"

definition get_existing_msg_ids :: "ctx \<Rightarrow> msg_id list \<Rightarrow> msg_id list res" where
  "get_existing_msg_ids s ids =
     (if list_ex MsgId_is_special ids then Inl ''Invalid MsgId''
      else Inr (filter (\<lambda>i. list_ex (\<lambda>m. m_id m = i \<and> m_chat_id m \<noteq> DC_CHAT_ID_TRASH) (msgs s)) ids))"

definition get_msg_read_receipts :: "ctx \<Rightarrow> msg_id \<Rightarrow> (contact_id \<times> int) list res" where
  "get_msg_read_receipts s i =
     sql_msg_id i (map (\<lambda>d. (md_contact_id d, md_timestamp d)) (filter (\<lambda>d. md_msg_id d = i) (msgs_mdns s)))"

definition chat_blocked_is :: "ctx \<Rightarrow> Blocked \<Rightarrow> chat_id \<Rightarrow> bool" where
  "chat_blocked_is s b chat \<longleftrightarrow> (case chat_row_of s chat of Some c \<Rightarrow> ch_blocked c = b | None \<Rightarrow> False)"

definition get_unblocked_msg_cnt :: "ctx \<Rightarrow> nat" where
  "get_unblocked_msg_cnt s =
     length (filter (\<lambda>m. m_id m > 9 \<and> m_chat_id m > 9 \<and> chat_blocked_is s Not (m_chat_id m)) (msgs s))"

definition get_request_msg_cnt :: "ctx \<Rightarrow> nat" where
  "get_request_msg_cnt s = length (filter (\<lambda>m. chat_blocked_is s Request (m_chat_id m)) (msgs s))"

definition estimate_deletion_cnt :: "int \<Rightarrow> ctx \<Rightarrow> bool \<Rightarrow> int \<Rightarrow> nat res" where
  "estimate_deletion_cnt now s from_server seconds =
     (if from_server then Inl ''The `delete_server_after` config option was removed.''
      else Inr (length (filter (\<lambda>m. m_id m > DC_MSG_ID_LAST_SPECIAL \<and> m_timestamp m < now - seconds
             \<and> m_chat_id m \<noteq> self_chat_id s \<and> m_chat_id m \<noteq> DC_CHAT_ID_TRASH \<and> \<not> m_hidden m) (msgs s))))"


section \<open>Looking up Message-IDs\<close>

definition trim_angles :: "string \<Rightarrow> string" where
  "trim_angles mid = rev (dropWhile (\<lambda>c. c = CHR ''>'') (rev (dropWhile (\<lambda>c. c = CHR ''<'') mid)))"

text \<open>The query aggregates with \<open>MIN(expr)\<close>, so its other columns come from a row where the expression is least; with
  several such rows the first one is taken.  The clause \<open>ORDER BY\<close> orders the single resulting row.\<close>

definition rfc724_mid_exists_ex :: "ctx \<Rightarrow> string \<Rightarrow> (msg_row \<Rightarrow> bool) \<Rightarrow> (msg_id \<times> bool) option" where
  "rfc724_mid_exists_ex s mid expr =
     (let mid = trim_angles mid;
          rows = filter (\<lambda>m. m_rfc724_mid m = mid \<or> m_pre_rfc724_mid m = mid) (msgs s)
      in if mid = [] then None
         else case sel_one (\<lambda>m. \<not> expr m) rows of
           Some m \<Rightarrow> Some (m_id m, False)
         | None \<Rightarrow> (case rows of m # _ \<Rightarrow> Some (m_id m, True) | [] \<Rightarrow> None))"

definition rfc724_mid_exists :: "ctx \<Rightarrow> string \<Rightarrow> msg_id option" where
  "rfc724_mid_exists s mid = map_option fst (rfc724_mid_exists_ex s mid (\<lambda>_. True))"

definition rfc724_mid_download_tried :: "ctx \<Rightarrow> string \<Rightarrow> bool" where
  "rfc724_mid_download_tried s mid \<longleftrightarrow>
     (let mid = trim_angles mid
      in mid \<noteq> [] \<and> list_ex (\<lambda>m. m_rfc724_mid m = mid \<and> m_download_state m \<noteq> DownloadState_to_int Available) (msgs s))"

fun latest_by_rfc724_mids :: "ctx \<Rightarrow> string list \<Rightarrow> Message option \<Rightarrow> Message option res" where
  "latest_by_rfc724_mids s [] latest = Inr latest"
| "latest_by_rfc724_mids s (mid # mids) latest =
     (case rfc724_mid_exists s mid of
        None \<Rightarrow> latest_by_rfc724_mids s mids latest
      | Some i \<Rightarrow>
          res_bind (Message_load_from_db_optional s i) (\<lambda>r.
            case r of
              None \<Rightarrow> latest_by_rfc724_mids s mids latest
            | Some msg \<Rightarrow>
                if mg_download_state msg = Done then Inr (Some msg)
                else latest_by_rfc724_mids s mids (case latest of Some l \<Rightarrow> Some l | None \<Rightarrow> Some msg)))"

definition get_by_rfc724_mids :: "ctx \<Rightarrow> string list \<Rightarrow> Message option res" where
  "get_by_rfc724_mids s mids = latest_by_rfc724_mids s (rev mids) None"

definition Message_parent :: "ctx \<Rightarrow> Message \<Rightarrow> Message option res" where
  "Message_parent s m =
     (case Option.bind (mg_in_reply_to m) (rfc724_mid_exists s) of
        Some i \<Rightarrow> Message_load_from_db_optional s i
      | None \<Rightarrow> Inr None)"

definition quoted_message :: "ctx \<Rightarrow> Message \<Rightarrow> Message option res" where
  "quoted_message s m =
     (if Params_get Quote (mg_param m) \<noteq> None \<and> \<not> is_forwarded m then Message_parent s m else Inr None)"


section \<open>Deleting locally\<close>

definition delete_poi :: "nat \<Rightarrow> ctx \<Rightarrow> ctx" where
  "delete_poi location_id s = s\<lparr>locations := del_where (\<lambda>l. l_independent l \<and> l_id l = location_id) (locations s)\<rparr>"

definition set_debug_logging_xdc :: "msg_id option \<Rightarrow> ctx \<Rightarrow> ctx" where
  "set_debug_logging_xdc i s =
     (case i of
        Some i \<Rightarrow> (set_config_row DebugLogging (Some (''Msg#'' @ show_nat i)) s)\<lparr>debug_logging := Some i\<rparr>
      | None \<Rightarrow> (set_config_row DebugLogging None s)\<lparr>debug_logging := None\<rparr>)"

definition delete_msg_locally :: "Message \<Rightarrow> ctx \<Rightarrow> ctx res" where
  "delete_msg_locally msg s =
     (let s1 = (if mg_location_id msg > 0 then delete_poi (mg_location_id msg) s else s)
      in res_bind (MsgId_trash (mg_id msg) True s1) (\<lambda>s2.
        let s3 = emit_event (MsgDeleted (mg_chat_id msg) (mg_id msg)) s2;
            s4 = (if mg_viewtype msg = Webxdc then emit_event (WebxdcInstanceDeleted (mg_id msg)) s3 else s3)
        in Inr (if debug_logging s4 = Some (mg_id msg) then set_debug_logging_xdc None s4 else s4)))"

definition delete_msgs_locally_done :: "int \<Rightarrow> msg_id list \<Rightarrow> chat_id list \<Rightarrow> ctx \<Rightarrow> ctx res" where
  "delete_msgs_locally_done now msg_ids modified_chat_ids s =
     (let s1 = fold (\<lambda>chat s. emit_chatlist_item_changed chat (emit_msgs_changed_without_msg_id chat s)) modified_chat_ids s
      in if msg_ids \<noteq> []
         then set_config_internal now LastHousekeeping None (emit_chatlist_changed (emit_msgs_changed_without_ids s1))
         else Inr s1)"


section \<open>Marking as seen\<close>

definition markseen_on_imap_table :: "string \<Rightarrow> ctx \<Rightarrow> ctx" where
  "markseen_on_imap_table mid s =
     (let ids = map i_id (filter (\<lambda>r. i_rfc724_mid r = mid) (imap_tbl s))
      in interrupt_inbox (s\<lparr>imap_markseen := imap_markseen s @ filter (\<lambda>i. i \<notin> set (imap_markseen s)) (remdups ids)\<rparr>))"

definition on_archived_chats_maybe_noticed :: "ctx \<Rightarrow> ctx" where
  "on_archived_chats_maybe_noticed s = emit_msgs_changed_without_msg_id DC_CHAT_ID_ARCHIVED_LINK s"

text \<open>What is read of each message before anything is changed; without its chat the message cannot be read.\<close>

fun load_seen :: "ctx \<Rightarrow> msg_id list \<Rightarrow> (msg_row \<times> Timer \<times> ChatVisibility \<times> Blocked) list res" where
  "load_seen s [] = Inr []"
| "load_seen s (i # ids) =
     (if MsgId_is_special i then Inl ''Invalid MsgId''
      else case sel_one (\<lambda>m. m_id m = i \<and> m_chat_id m > 9) (msgs s) of
        None \<Rightarrow> load_seen s ids
      | Some m \<Rightarrow>
          (case chat_row_of s (m_chat_id m) of
             None \<Rightarrow> Inl ''InvalidColumnType''
           | Some c \<Rightarrow>
               res_bind (Timer_from_sql (m_ephemeral_timer m)) (\<lambda>timer.
               res_bind (load_seen s ids) (\<lambda>rows.
                 Inr ((m, timer, ChatVisibility_from_int (ch_archived c), ch_blocked c) # rows)))))"

definition wants_mdn :: "params \<Rightarrow> bool" where
  "wants_mdn p \<longleftrightarrow> (case Params_get_bool WantsMdn p of Some b \<Rightarrow> b | None \<Rightarrow> False)"

definition mdn_allowed :: "ctx \<Rightarrow> msg_row \<Rightarrow> Blocked \<Rightarrow> bool" where
  "mdn_allowed s m blocked \<longleftrightarrow>
     blocked = Not \<and> \<not> m_hidden m \<and> wants_mdn (m_param m) \<and> Params_get_cmd (m_param m) = SystemMessage.Unknown
     \<and> should_send_mdns (config s)"

definition queue_mdn :: "msg_row \<Rightarrow> contact_id \<Rightarrow> ctx \<Rightarrow> ctx" where
  "queue_mdn m to_id s =
     interrupt_smtp (s\<lparr>smtp_mdns := smtp_mdns s @ [\<lparr>sd_msg_id = m_id m, sd_from_id = to_id, sd_rfc724_mid = m_rfc724_mid m,
        sd_retries = 0\<rparr>]\<rparr>)"

definition mark_one_seen :: "msg_row \<Rightarrow> Blocked \<Rightarrow> ctx \<Rightarrow> ctx res" where
  "mark_one_seen m blocked s =
     res_bind (update_msg_state (m_id m) InSeen s) (\<lambda>s1.
       let s2 = markseen_on_imap_table (m_rfc724_mid m) s1
       in Inr (if mdn_allowed s m blocked then
                 queue_mdn m (m_from_id m)
                   (update_msg (m_id m) (\<lambda>r. r\<lparr>m_param := Params_remove WantsMdn (m_param m)\<rparr>) s2)
               else if get_config_bool (config s) BccSelf then queue_mdn m ContactId_SELF s2
               else s2))"

fun mark_seen :: "(msg_row \<times> Timer \<times> ChatVisibility \<times> Blocked) list \<Rightarrow> ctx \<Rightarrow> ctx res" where
  "mark_seen [] s = Inr s"
| "mark_seen ((m, _, _, blocked) # rows) s =
     (if m_state m \<in> {InFresh, InNoticed} then res_bind (mark_one_seen m blocked s) (mark_seen rows)
      else mark_seen rows s)"

definition markseen_msgs :: "int \<Rightarrow> msg_id list \<Rightarrow> ctx \<Rightarrow> ctx res" where
  "markseen_msgs now msg_ids s =
     (if msg_ids = [] then Inr s
      else
        let last = fold max msg_ids (nat (get_config_u32 (config s) LastMsgId))
        in res_bind (set_config_internal now LastMsgId (Some (show_nat last)) s) (\<lambda>s1.
        res_bind (load_seen s1 msg_ids) (\<lambda>rows.
          let s2 = (if list_ex (\<lambda>(_, timer, _, _). timer \<noteq> Disabled) rows
                    then start_ephemeral_timers_msgids now msg_ids s1 else s1)
          in res_bind (mark_seen rows s2) (\<lambda>s3.
            let updated = sort (remdups (map (\<lambda>(m, _). m_chat_id m)
                   (filter (\<lambda>(m, _). m_state m \<in> {InFresh, InNoticed} \<and> \<not> m_hidden m) rows)));
                s4 = fold (\<lambda>chat s. emit_chatlist_item_changed chat (emit_event (MsgsNoticed chat) s)) updated s3
            in Inr (if list_ex (\<lambda>(m, _, vis, _). m_state m = InFresh \<and> \<not> m_hidden m \<and> vis = VisArchived) rows
                    then on_archived_chats_maybe_noticed s4 else s4)))))"


section \<open>Read receipts\<close>

text \<open>The read receipts queued for the sender of a message, and one more if the message still asks for one.\<close>

definition mdn_budget :: "ctx \<Rightarrow> msg_id \<Rightarrow> nat" where
  "mdn_budget s i =
     length (filter (\<lambda>d. sd_msg_id d = i \<and> sd_from_id d \<noteq> ContactId_SELF) (smtp_mdns s))
     + (case msg_of s i of Some m \<Rightarrow> if wants_mdn (m_param m) then 1 else 0 | None \<Rightarrow> 0)"

definition param_of :: "ctx \<Rightarrow> msg_id \<Rightarrow> params option" where
  "param_of s i = map_option m_param (msg_of s i)"

lemma mdn_budget_param:
  "mdn_budget s i = length (filter (\<lambda>d. sd_msg_id d = i \<and> sd_from_id d \<noteq> ContactId_SELF) (smtp_mdns s))
     + (case param_of s i of Some p \<Rightarrow> if wants_mdn p then 1 else 0 | None \<Rightarrow> 0)"
  by (simp add: mdn_budget_def param_of_def split: option.splits)

lemma mdn_budget_cong: "smtp_mdns s' = smtp_mdns s \<Longrightarrow> param_of s' i = param_of s i \<Longrightarrow> mdn_budget s' i = mdn_budget s i"
  by (simp only: mdn_budget_param)

lemma msg_of_upd_where:
  "(\<And>m. m_id (f m) = m_id m) \<Longrightarrow> sel_one (\<lambda>m. m_id m = i) (upd_where P f ms)
     = map_option (\<lambda>m. if P m then f m else m) (sel_one (\<lambda>m. m_id m = i) ms)"
  by (induction ms) (auto simp: upd_where_def)

lemma msg_of_update:
  "(\<And>m. m_id (f m) = m_id m) \<Longrightarrow> msg_of (update_msg i f s) j = (if j = i then map_option f (msg_of s j) else msg_of s j)"
  by (cases "msg_of s j") (auto simp: msg_of_def update_msg_def msg_of_upd_where dest: sel_one_Some)

lemma param_of_upd_where:
  assumes "msgs s' = upd_where P f (msgs s)" "\<And>m. m_id (f m) = m_id m" "\<And>m. m_param (f m) = m_param m"
  shows "param_of s' i = param_of s i"
  using assms by (simp add: param_of_def msg_of_def msg_of_upd_where option.map_comp comp_def if_distrib cong: if_cong)

lemma wants_mdn_remove [simp]: "\<not> wants_mdn (Params_remove WantsMdn p)"
  by (simp add: wants_mdn_def Params_get_bool_def Params_get_int_def)

lemma mark_one_seen_keeps:
  assumes "mark_one_seen m b s = Inr s'" "param_of s (m_id m) = Some (m_param m)"
  shows "mdn_budget s' i \<le> mdn_budget s i" "j \<noteq> m_id m \<Longrightarrow> param_of s' j = param_of s j"
proof -
  let ?seen = "\<lambda>m'. m'\<lparr>m_state := InSeen\<rparr>"
  define s2 where "s2 = markseen_on_imap_table (m_rfc724_mid m) (update_msg (m_id m) ?seen s)"
  have p2: "param_of s2 k = param_of s k" for k
    by (simp add: s2_def markseen_on_imap_table_def interrupt_inbox_def Let_def param_of_def msg_of_def update_msg_def
        msg_of_upd_where option.map_comp comp_def if_distrib cong: if_cong)
  have m2: "smtp_mdns s2 = smtp_mdns s"
    by (simp add: s2_def markseen_on_imap_table_def interrupt_inbox_def Let_def update_msg_def)
  let ?clear = "update_msg (m_id m) (\<lambda>r. r\<lparr>m_param := Params_remove WantsMdn (m_param m)\<rparr>) s2"
  have s': "s' = (if mdn_allowed s m b then queue_mdn m (m_from_id m) ?clear
                  else if get_config_bool (config s) BccSelf then queue_mdn m ContactId_SELF s2 else s2)"
    using assms(1) by (auto simp: mark_one_seen_def update_msg_state_def sql_msg_id_def s2_def Let_def split: if_splits)
  have q: "param_of (queue_mdn m t u) k = param_of u k" for t u k
    by (simp add: queue_mdn_def interrupt_smtp_def param_of_def msg_of_def)
  have qs: "smtp_mdns (queue_mdn m t u) = smtp_mdns u @ [\<lparr>sd_msg_id = m_id m, sd_from_id = t, sd_rfc724_mid = m_rfc724_mid m,
      sd_retries = 0\<rparr>]" for t u
    by (simp add: queue_mdn_def interrupt_smtp_def)
  have cs: "smtp_mdns ?clear = smtp_mdns s" by (simp add: update_msg_def m2)
  have c: "param_of ?clear k = (if k = m_id m then Some (Params_remove WantsMdn (m_param m)) else param_of s k)" for k
    using assms(2) p2 [of k] by (auto simp: param_of_def msg_of_update)
  show "j \<noteq> m_id m \<Longrightarrow> param_of s' j = param_of s j"
    unfolding s' by (simp add: q c p2)
  show "mdn_budget s' i \<le> mdn_budget s i"
  proof (cases "mdn_allowed s m b")
    case True
    then have "wants_mdn (m_param m)" by (simp add: mdn_allowed_def)
    with True show ?thesis
      using assms(2) by (auto simp: s' mdn_budget_param q qs c cs)
  next
    case False
    then show ?thesis
      unfolding s' by (auto simp: mdn_budget_param q qs p2 m2)
  qed
qed

lemma mark_seen_budget:
  assumes "mark_seen rows s = Inr s'" "distinct (map (\<lambda>(m, _). m_id m) rows)"
    "\<And>m x. (m, x) \<in> set rows \<Longrightarrow> param_of s (m_id m) = Some (m_param m)"
  shows "mdn_budget s' i \<le> mdn_budget s i"
  using assms
proof (induction rows s arbitrary: s' rule: mark_seen.induct)
  case (2 m t v b rows s)
  show ?case
  proof (cases "m_state m \<in> {InFresh, InNoticed}")
    case True
    with "2.prems"(1) obtain s1 where s1: "mark_one_seen m b s = Inr s1" "mark_seen rows s1 = Inr s'"
      by (auto simp: res_bind_eq_Inr)
    have m: "param_of s (m_id m) = Some (m_param m)" using "2.prems"(3) [of m "(t, v, b)"] by simp
    have "mdn_budget s' i \<le> mdn_budget s1 i"
    proof (rule "2.IH"(1) [OF True s1(2)])
      show "distinct (map (\<lambda>(m, _). m_id m) rows)" using "2.prems"(2) by simp
      show "param_of s1 (m_id m') = Some (m_param m')" if "(m', x) \<in> set rows" for m' x
      proof -
        have "m_id m' \<noteq> m_id m" using "2.prems"(2) that by force
        with mark_one_seen_keeps(2) [OF s1(1) m this] "2.prems"(3) [of m' x] that show ?thesis by auto
      qed
    qed
    with mark_one_seen_keeps(1) [OF s1(1) m, of i] show ?thesis by simp
  next
    case False
    with "2.prems" show ?thesis by (intro "2.IH"(2)) auto
  qed
qed simp


lemma set_config_plain [simp]:
  "set_config_internal now LastMsgId val s = Inr (set_config_row LastMsgId val s)"
  "set_config_internal now LastHousekeeping val s = Inr (set_config_row LastHousekeeping val s)"
  by (simp_all add: set_config_internal_def set_config_ex_def check_config_def store_config_def Config_is_synced_def)

lemma set_config_row_fields [simp]:
  "msgs (set_config_row key val s) = msgs s" "smtp_mdns (set_config_row key val s) = smtp_mdns s"
  "chats (set_config_row key val s) = chats s"
  by (simp_all add: set_config_row_def)

lemma load_seen_rows:
  assumes "load_seen s ids = Inr rows"
  shows "(m, x) \<in> set rows \<Longrightarrow> m \<in> set (msgs s) \<and> m_id m \<in> set ids"
    "distinct ids \<Longrightarrow> distinct (map (\<lambda>(m, _). m_id m) rows)"
proof -
  have "((m, x) \<in> set rows \<longrightarrow> m \<in> set (msgs s) \<and> m_id m \<in> set ids)
      \<and> set (map (\<lambda>(m, _). m_id m) rows) \<subseteq> set ids
      \<and> (distinct ids \<longrightarrow> distinct (map (\<lambda>(m, _). m_id m) rows))"
    using assms
  proof (induction ids arbitrary: rows)
    case (Cons i ids)
    show ?case
    proof (cases "sel_one (\<lambda>m. m_id m = i \<and> m_chat_id m > 9) (msgs s)")
      case None
      with Cons.prems have "load_seen s ids = Inr rows" by (auto split: if_splits)
      from Cons.IH [OF this] show ?thesis by auto
    next
      case (Some r)
      with Cons.prems obtain y rows' where rows: "rows = (r, y) # rows'" "load_seen s ids = Inr rows'"
        by (auto simp: res_bind_eq_Inr split: if_splits option.splits)
      with Cons.IH [OF rows(2)] sel_one_Some [OF Some] show ?thesis by auto
    qed
  qed simp
  then show "(m, x) \<in> set rows \<Longrightarrow> m \<in> set (msgs s) \<and> m_id m \<in> set ids"
    "distinct ids \<Longrightarrow> distinct (map (\<lambda>(m, _). m_id m) rows)" by blast+
qed

lemma param_of_distinct:
  assumes "distinct_ids s" "m \<in> set (msgs s)"
  shows "param_of s (m_id m) = Some (m_param m)"
proof -
  have "sel_one (\<lambda>k. m_id k = m_id m) ms = Some m" if "distinct (map m_id ms)" "m \<in> set ms" for ms
    using that by (induction ms) auto
  with assms show ?thesis by (simp add: param_of_def msg_of_def distinct_ids_def)
qed

lemma start_where_param: "start_where now P s = (b, s') \<Longrightarrow> param_of s' i = param_of s i \<and> smtp_mdns s' = smtp_mdns s"
  by (auto simp: start_where_def start_timer_def intro!: param_of_upd_where)

lemma start_timers_param:
  "param_of (start_ephemeral_timers_msgids now ids s) i = param_of s i
   \<and> smtp_mdns (start_ephemeral_timers_msgids now ids s) = smtp_mdns s"
proof -
  let ?f = "\<lambda>i (b, s). let (c, s') = start_where now (\<lambda>m. m_id m = i) s in (b \<or> c, s')"
  have "fold ?f ids (b, s) = (b', s') \<Longrightarrow> param_of s' i = param_of s i \<and> smtp_mdns s' = smtp_mdns s" for b s b' s'
  proof (induction ids arbitrary: b s)
    case (Cons j ids)
    obtain c s1 where 1: "start_where now (\<lambda>m. m_id m = j) s = (c, s1)" by fastforce
    with Cons.prems have "fold ?f ids (b \<or> c, s1) = (b', s')" by simp
    from Cons.IH [OF this] start_where_param [OF 1] show ?case by simp
  qed simp
  then show ?thesis
    by (auto simp: start_ephemeral_timers_msgids_def interrupt_ephemeral_task_def param_of_def msg_of_def split: prod.splits)
qed

lemma noticed_events_fields:
  "smtp_mdns (fold (\<lambda>chat s. emit_chatlist_item_changed chat (emit_event (MsgsNoticed chat) s)) cs s) = smtp_mdns s
   \<and> msgs (fold (\<lambda>chat s. emit_chatlist_item_changed chat (emit_event (MsgsNoticed chat) s)) cs s) = msgs s"
  by (induction cs arbitrary: s) simp_all

lemma markseen_msgs_budget:
  assumes "distinct_ids s" "distinct ids" "markseen_msgs now ids s = Inr s'"
  shows "mdn_budget s' i \<le> mdn_budget s i"
proof (cases "ids = []")
  case False
  let ?s1 = "set_config_row LastMsgId (Some (show_nat (fold max ids (nat (get_config_u32 (config s) LastMsgId))))) s"
  from False assms(3) obtain rows where rows: "load_seen ?s1 ids = Inr rows"
    by (auto simp: markseen_msgs_def res_bind_eq_Inr Let_def)
  define s2 where "s2 = (if list_ex (\<lambda>(_, timer, _, _). timer \<noteq> Disabled) rows
                    then start_ephemeral_timers_msgids now ids ?s1 else ?s1)"
  from False assms(3) rows obtain s3 where s3: "mark_seen rows s2 = Inr s3"
      and s': "smtp_mdns s' = smtp_mdns s3" "msgs s' = msgs s3"
    by (auto simp: markseen_msgs_def res_bind_eq_Inr Let_def s2_def on_archived_chats_maybe_noticed_def
        noticed_events_fields [simplified])
  have p1: "param_of ?s1 j = param_of s j" for j by (simp add: param_of_def msg_of_def)
  have p2: "param_of s2 j = param_of s j" "smtp_mdns s2 = smtp_mdns s" for j
    using start_timers_param [of now ids ?s1] p1 by (auto simp: s2_def)
  have "mdn_budget s3 i \<le> mdn_budget s2 i"
  proof (rule mark_seen_budget [OF s3 load_seen_rows(2) [OF rows assms(2)]])
    fix m x assume "(m, x) \<in> set rows"
    from load_seen_rows(1) [OF rows this] param_of_distinct [OF assms(1), of m] p2
    show "param_of s2 (m_id m) = Some (m_param m)" by simp
  qed
  moreover have "mdn_budget s2 i = mdn_budget s i" using p2 by (rule mdn_budget_cong [rotated])
  moreover have "mdn_budget s' i = mdn_budget s3 i" using s' by (simp add: mdn_budget_def msg_of_def)
  ultimately show ?thesis by simp
qed (use assms in \<open>simp add: markseen_msgs_def\<close>)

text \<open>The configuration value that \<open>set_debug_logging_xdc\<close> writes is not the number that \<open>Sql::open\<close> looks for.\<close>

lemma debug_logging_not_restored:
  "get_raw_config_u32 (config (set_debug_logging_xdc (Some i) s)) (Config_as_ref DebugLogging) = None"
  by (simp add: set_debug_logging_xdc_def set_config_row_def get_raw_config_u32_def raw_config_set parse_int_def parse_nat_def digit_val_def)

end
