(* ===== verification/ChatOps.thy ===== *)
theory ChatOps
  imports Messages
begin

text \<open>
  \<^verbatim>\<open>src/chat.rs\<close>: creating chats, accepting and blocking them, visibility and muting, drafts, unread messages, device
  messages and deleting a chat.  What involves sending a message is in \<open>SendMsg\<close>.  The processing of
  attached files is a parameter (\<open>pf\<close>).
\<close>

section \<open>Chats with one contact\<close>

definition lookup_by_message :: "Message \<Rightarrow> chat_id option" where
  "lookup_by_message m =
     (if mg_chat_id m = DC_CHAT_ID_TRASH then None
      else if mg_download_state m = Undecipherable then None
      else Some (mg_chat_id m))"

definition ChatIdBlocked_lookup_by_contact :: "ctx \<Rightarrow> contact_id \<Rightarrow> (chat_id \<times> Blocked) option res" where
  "ChatIdBlocked_lookup_by_contact s i =
     (if i = ContactId_UNDEFINED then Inl ''Invalid contact id requested'' else Inr (lookup_by_contact s i))"

definition ChatId_lookup_by_contact :: "ctx \<Rightarrow> contact_id \<Rightarrow> chat_id option res" where
  "ChatId_lookup_by_contact s i =
     res_bind (ChatIdBlocked_lookup_by_contact s i) (\<lambda>r.
       Inr (case r of None \<Rightarrow> None | Some (c, b) \<Rightarrow> (case b of Yes \<Rightarrow> None | Not \<Rightarrow> Some c | Request \<Rightarrow> Some c)))"

text \<open>\<open>INSERT INTO chats\<close> and \<open>INSERT INTO chats_contacts\<close>; the pair of chat and contact is unique.\<close>

definition insert_chat :: "Chattype \<Rightarrow> (chat_row \<Rightarrow> chat_row) \<Rightarrow> ctx \<Rightarrow> chat_id \<times> ctx" where
  "insert_chat t f s =
     (let i = Suc (chats_seq s) in (i, s\<lparr>chats := chats s @ [f (chat_row0 i t)], chats_seq := i\<rparr>))"

definition insert_single_member :: "chat_id \<Rightarrow> contact_id \<Rightarrow> ctx \<Rightarrow> ctx res" where
  "insert_single_member chat i s =
     (if list_ex (cc_is chat i) (chats_contacts s) then Inl ''UNIQUE constraint failed: chats_contacts''
      else Inr (s\<lparr>chats_contacts := chats_contacts s @ [new_add chat i 0]\<rparr>))"

definition ChatIdBlocked_get_for_contact :: "int \<Rightarrow> contact_id \<Rightarrow> Blocked \<Rightarrow> ctx \<Rightarrow> ((chat_id \<times> Blocked) \<times> ctx) res" where
  "ChatIdBlocked_get_for_contact now i create_blocked s =
     res_bind (ChatIdBlocked_lookup_by_contact s i) (\<lambda>r.
       case r of
         Some c \<Rightarrow> Inr (c, s)
       | None \<Rightarrow>
           res_bind (get_by_id s i) (\<lambda>contact.
             let p = (if i = ContactId_SELF then Params_set_int Selftalk 1 Params_new
                      else if i = ContactId_DEVICE then Params_set_int Devicetalk 1 Params_new else Params_new);
                 (chat, s1) = insert_chat Single (\<lambda>c. c\<lparr>ch_name := get_display_name contact, ch_param := p,
                    ch_blocked := create_blocked, ch_created_timestamp := now\<rparr>) s
             in res_bind (insert_single_member chat i s1) (\<lambda>s2.
                res_bind (load_from_db s2 chat) (\<lambda>c.
                res_bind (is_encrypted s2 c) (\<lambda>enc.
                res_bind (if enc \<and> \<not> is_device_talk c \<and> \<not> is_self_talk c then add_e2ee_notice now chat now s2 else Inr s2) (\<lambda>s3.
                  Inr ((chat, create_blocked), s3)))))))"

definition get_for_contact :: "int \<Rightarrow> contact_id \<Rightarrow> ctx \<Rightarrow> (chat_id \<times> ctx) res" where
  "get_for_contact now i s = res_bind (ChatIdBlocked_get_for_contact now i Not s) (\<lambda>((c, _), s'). Inr (c, s'))"

definition create_for_contact_with_blocked :: "int \<Rightarrow> contact_id \<Rightarrow> Blocked \<Rightarrow> ctx \<Rightarrow> (chat_id \<times> ctx) res" where
  "create_for_contact_with_blocked now i create_blocked s =
     (let finish = (\<lambda>(chat, s'). Inr (chat, emit_chatlist_item_changed chat (emit_chatlist_changed (emit_msgs_changed_without_ids s'))))
      in res_bind (ChatIdBlocked_lookup_by_contact s i) (\<lambda>r.
        case r of
          Some (chat, blocked) \<Rightarrow>
            if create_blocked \<noteq> Not \<or> blocked = Not then Inr (chat, s)
            else res_bind (ChatId_set_blocked chat Not s) (\<lambda>(_, s1). finish (chat, s1))
        | None \<Rightarrow>
            if real_exists_by_id s i \<or> i = ContactId_SELF then
              res_bind (ChatIdBlocked_get_for_contact now i create_blocked s) (\<lambda>((chat, _), s1).
                finish (chat, if create_blocked \<noteq> Yes then scaleup_origin [i] CreateChat s1 else s1))
            else Inl ''Can not create chat for non-existing contact''))"

definition create_for_contact :: "int \<Rightarrow> contact_id \<Rightarrow> ctx \<Rightarrow> (chat_id \<times> ctx) res" where
  "create_for_contact now i s = create_for_contact_with_blocked now i Not s"


section \<open>Groups and channels\<close>

definition create_multiuser_record ::
  "int \<Rightarrow> Chattype \<Rightarrow> ustr \<Rightarrow> ustr \<Rightarrow> Blocked \<Rightarrow> params option \<Rightarrow> int \<Rightarrow> ctx \<Rightarrow> (chat_id \<times> ctx) res" where
  "create_multiuser_record now chattype grpid grpname create_blocked param timestamp s =
     (let timestamp = min timestamp now;
          (chat, s1) = insert_chat chattype (\<lambda>c. c\<lparr>ch_name := sanitize_single_line grpname, ch_grpid := grpid,
             ch_blocked := create_blocked, ch_created_timestamp := timestamp,
             ch_param := (case param of Some p \<Rightarrow> p | None \<Rightarrow> Params_new)\<rparr>) s
      in res_bind (load_from_db s1 chat) (\<lambda>c.
         res_bind (is_encrypted s1 c) (\<lambda>enc.
         res_bind (if enc then add_e2ee_notice now chat timestamp s1 else Inr s1) (\<lambda>s2. Inr (chat, s2)))))"

definition created_events :: "chat_id \<Rightarrow> ctx \<Rightarrow> ctx" where
  "created_events chat s = emit_chatlist_item_changed chat (emit_chatlist_changed (emit_msgs_changed_without_ids s))"

definition create_group_ex :: "int \<Rightarrow> Sync \<Rightarrow> ustr \<Rightarrow> ustr \<Rightarrow> ctx \<Rightarrow> (chat_id \<times> ctx) res" where
  "create_group_ex now do_sync grpid name s =
     (let n = sanitize_single_line name;
          chat_name = (if n = [] then [0x2026] else n);
          (chat, s1) = insert_chat Group (\<lambda>c. c\<lparr>ch_name := chat_name, ch_grpid := grpid,
             ch_param := Params_set Unpromoted ''1'' Params_new, ch_created_timestamp := now\<rparr>) s;
          s2 = created_events chat
                 (s1\<lparr>chats_contacts := add_to_chat_contacts_table now chat [ContactId_SELF] (chats_contacts s1)\<rparr>)
      in res_bind (if grpid \<noteq> [] then add_e2ee_notice now chat now s2 else Inr s2) (\<lambda>s3.
         res_bind (if \<not> get_config_bool (config s3) Bot \<and> \<not> get_config_bool (config s3) SkipStartMessages
                   then add_start_info_message now chat
                          (stock s3 (if grpid \<noteq> [] then NewGroupSendFirstMessage else ChatUnencryptedExplanation)) s3
                   else Inr s3) (\<lambda>s4.
           Inr (chat, if do_sync = Sync \<and> grpid \<noteq> [] then sync now (Grpid grpid) (CreateGroupEncrypted chat_name) s4 else s4))))"

definition create_group :: "int \<Rightarrow> ustr \<Rightarrow> ctx \<Rightarrow> (chat_id \<times> ctx) res" where
  "create_group now name s = (let (grpid, s1) = create_id s in create_group_ex now Sync (utf8_decode grpid) name s1)"

definition create_group_unencrypted :: "int \<Rightarrow> ustr \<Rightarrow> ctx \<Rightarrow> (chat_id \<times> ctx) res" where
  "create_group_unencrypted now name s = create_group_ex now Sync [] name s"

definition load_broadcast_secret :: "ctx \<Rightarrow> chat_id \<Rightarrow> ustr option" where
  "load_broadcast_secret s chat = broadcast_secrets s chat"

definition save_broadcast_secret :: "chat_id \<Rightarrow> ustr \<Rightarrow> ctx \<Rightarrow> ctx" where
  "save_broadcast_secret chat secret s = s\<lparr>broadcast_secrets := (broadcast_secrets s)(chat \<mapsto> secret)\<rparr>"

definition delete_broadcast_secret :: "chat_id \<Rightarrow> ctx \<Rightarrow> ctx" where
  "delete_broadcast_secret chat s = s\<lparr>broadcast_secrets := (broadcast_secrets s)(chat := None)\<rparr>"

definition create_out_broadcast_ex :: "int \<Rightarrow> Sync \<Rightarrow> ustr \<Rightarrow> ustr \<Rightarrow> ustr \<Rightarrow> ctx \<Rightarrow> (chat_id \<times> ctx) res" where
  "create_out_broadcast_ex now do_sync grpid name secret s =
     (let chat_name = sanitize_single_line name
      in if chat_name = [] then Inl ''Invalid broadcast channel name''
         else if list_ex (\<lambda>c. ch_grpid c = grpid) (chats s) then Inl ''chats exist with grpid''
         else
           let p = snd (Params_update_timestamp GroupNameTimestamp now Params_new);
               (chat, s1) = insert_chat OutBroadcast (\<lambda>c. c\<lparr>ch_name := chat_name, ch_grpid := grpid,
                  ch_created_timestamp := now, ch_param := p\<rparr>) s
           in res_bind (add_e2ee_notice now chat now (save_broadcast_secret chat secret s1)) (\<lambda>s2.
             let s3 = created_events chat s2
             in Inr (chat, if do_sync = Sync then sync now (Grpid grpid) (CreateOutBroadcast chat_name secret) s3 else s3)))"

text \<open>\<open>create_broadcast\<close> draws the group identifier and the secret.\<close>

definition create_broadcast :: "int \<Rightarrow> ustr \<Rightarrow> ctx \<Rightarrow> (chat_id \<times> ctx) res" where
  "create_broadcast now name s =
     (let (grpid, s1) = create_id s; (secret, s2) = create_id s1
      in create_out_broadcast_ex now Sync (utf8_decode grpid) name (utf8_decode secret) s2)"

definition set_selfavatar_timestamp :: "chat_id \<Rightarrow> int \<Rightarrow> ctx \<Rightarrow> ctx" where
  "set_selfavatar_timestamp chat timestamp s =
     s\<lparr>contacts := upd_where (\<lambda>c. is_contact_in_chat (chats_contacts s) chat (c_id c))
          (\<lambda>c. c\<lparr>c_selfavatar_sent := timestamp\<rparr>) (contacts s)\<rparr>"

definition DC_RESEND_USER_AVATAR_DAYS :: int where "DC_RESEND_USER_AVATAR_DAYS = 14"

text \<open>The join yields a null for a member without contact.\<close>

definition shall_attach_selfavatar :: "int \<Rightarrow> ctx \<Rightarrow> chat_id \<Rightarrow> bool res" where
  "shall_attach_selfavatar now s chat =
     (let members = filter (\<lambda>r. cc_chat r = chat \<and> cc_contact r \<noteq> ContactId_SELF \<and> is_member_row r) (chats_contacts s)
      in if list_ex (\<lambda>r. contact_of s (cc_contact r) = None) members then Inl ''InvalidColumnType''
         else Inr (list_ex (\<lambda>r. case contact_of s (cc_contact r) of
                Some c \<Rightarrow> c_selfavatar_sent c < now - DC_RESEND_USER_AVATAR_DAYS * 24 * 60 * 60 | None \<Rightarrow> False) members))"

definition reset_gossiped_timestamp :: "chat_id \<Rightarrow> ctx \<Rightarrow> ctx" where
  "reset_gossiped_timestamp chat s = s\<lparr>gossip_timestamp := del_where (\<lambda>g. go_chat_id g = chat) (gossip_timestamp s)\<rparr>"

text \<open>\<open>Chat::sync_contacts\<close>: the rows of the inner join in the order of \<open>chats_contacts\<close>.\<close>

definition sync_contacts :: "int \<Rightarrow> chat_row \<Rightarrow> ctx \<Rightarrow> ctx res" where
  "sync_contacts now c s =
     res_bind (is_encrypted s c) (\<lambda>enc.
       let members = List.map_filter (\<lambda>r. if cc_chat r = ch_id c \<and> is_member_row r then contact_of s (cc_contact r) else None)
             (chats_contacts s)
       in if enc then
            let (self_fp, s1) = get_self_fingerprint s
            in Chat_sync now c (SetPgpContacts (map (\<lambda>k. if c_id k = ContactId_SELF then (self_fp, [])
                  else (c_fingerprint k, c_addr k)) members)) s1
          else Chat_sync now c (SetContacts (map c_addr members)) s)"


section \<open>Visibility and muting\<close>

definition set_visibility_ex :: "int \<Rightarrow> Sync \<Rightarrow> chat_id \<Rightarrow> ChatVisibility \<Rightarrow> ctx \<Rightarrow> ctx res" where
  "set_visibility_ex now do_sync chat visibility s =
     (if ChatId_is_special chat then Inl ''bad chat_id, can not be special chat''
      else
        let s1 = (if visibility = VisArchived
                  then s\<lparr>msgs := upd_where (\<lambda>m. m_chat_id m = chat \<and> m_state m = InFresh) (\<lambda>m. m\<lparr>m_state := InNoticed\<rparr>) (msgs s)\<rparr>
                  else s);
            s2 = s1\<lparr>chats := upd_where (\<lambda>c. ch_id c = chat) (\<lambda>c. c\<lparr>ch_archived := ChatVisibility_to_int visibility\<rparr>) (chats s1)\<rparr>;
            s3 = (if visibility = VisArchived then start_chat_ephemeral_timers now chat s2 else s2);
            s4 = created_events chat s3
        in if do_sync = Sync
           then res_bind (load_from_db s4 chat) (\<lambda>c. Inr (log_err (Chat_sync now c (SetVisibility visibility)) s4))
           else Inr s4)"

definition unarchive_if_not_muted :: "int \<Rightarrow> chat_id \<Rightarrow> MessageState \<Rightarrow> ctx \<Rightarrow> ctx res" where
  "unarchive_if_not_muted now chat msg_state s =
     (if msg_state \<noteq> InFresh then
        Inr (s\<lparr>chats := upd_where (\<lambda>c. ch_id c = chat \<and> ch_archived c = 1 \<and> \<not> (ch_muted_until c = -1 \<or> ch_muted_until c > now))
               (\<lambda>c. c\<lparr>ch_archived := 0\<rparr>) (chats s)\<rparr>)
      else
        res_bind (load_from_db s chat) (\<lambda>c.
          if ChatVisibility_from_int (ch_archived c) \<noteq> VisArchived then Inr s
          else if is_muted now c then
            Inr (if length (filter (\<lambda>m. m_state m = InFresh \<and> \<not> m_hidden m \<and> m_chat_id m = chat) (msgs s)) = 1
                 then emit_msgs_changed_without_msg_id DC_CHAT_ID_ARCHIVED_LINK s else s)
          else Inr (s\<lparr>chats := upd_where (\<lambda>c. ch_id c = chat) (\<lambda>c. c\<lparr>ch_archived := 0\<rparr>) (chats s)\<rparr>)))"

definition emit_msg_event :: "chat_id \<Rightarrow> msg_id \<Rightarrow> bool \<Rightarrow> ctx \<Rightarrow> ctx" where
  "emit_msg_event chat msg important s =
     (if important then emit_incoming_msg chat msg s else emit_msgs_changed chat msg s)"

definition set_muted_ex :: "int \<Rightarrow> Sync \<Rightarrow> chat_id \<Rightarrow> MuteDuration \<Rightarrow> ctx \<Rightarrow> ctx res" where
  "set_muted_ex now do_sync chat duration s =
     (if ChatId_is_special chat then Inl ''Invalid chat ID''
      else res_bind (MuteDuration_to_int duration) (\<lambda>until.
        let s1 = emit_chatlist_item_changed chat (emit_event (ChatModified chat)
               (s\<lparr>chats := upd_where (\<lambda>c. ch_id c = chat) (\<lambda>c. c\<lparr>ch_muted_until := until\<rparr>) (chats s)\<rparr>))
        in if do_sync = Sync
           then res_bind (load_from_db s1 chat) (\<lambda>c. Inr (log_err (Chat_sync now c (SetMuted duration)) s1))
           else Inr s1))"


section \<open>Device messages\<close>

text \<open>\<open>prepare_msg_blob\<close>; \<open>pf\<close> stands for the processing of the attached file.\<close>

definition prepare_msg_blob :: "(Message \<Rightarrow> Message res) \<Rightarrow> Message \<Rightarrow> Message res" where
  "prepare_msg_blob pf m =
     (if mg_viewtype m = Text \<or> mg_viewtype m = Call then Inr m
      else if has_file (mg_viewtype m) then pf m
      else Inl ''Cannot send messages of type'')"

definition ChatId_get_timestamp :: "ctx \<Rightarrow> chat_id \<Rightarrow> int option" where
  "ChatId_get_timestamp s chat = list_max (map m_timestamp (filter (\<lambda>m. m_chat_id m = chat) (msgs s)))"

definition was_device_msg_ever_added :: "ctx \<Rightarrow> string \<Rightarrow> bool res" where
  "was_device_msg_ever_added s label =
     (if label = [] then Inl ''empty label'' else Inr (label \<in> set (devmsglabels s)))"

definition insert_device_msg :: "int \<Rightarrow> (Message \<Rightarrow> Message res) \<Rightarrow> Message \<Rightarrow> ctx \<Rightarrow> ((chat_id \<times> msg_id) \<times> ctx) res" where
  "insert_device_msg now pf msg s =
     res_bind (get_for_contact now ContactId_DEVICE s) (\<lambda>(chat, s1).
       let (mid, s2) = create_outgoing_rfc724_mid s1;
           ts = (case ChatId_get_timestamp s2 chat of Some l \<Rightarrow> if now \<le> l then l + 1 else now | None \<Rightarrow> now)
       in res_bind (prepare_msg_blob pf (msg\<lparr>mg_timestamp_sort := ts\<rparr>)) (\<lambda>msg'.
         let (i, s3) = insert_msg (\<lambda>m. m\<lparr>m_chat_id := chat, m_from_id := ContactId_DEVICE, m_to_id := ContactId_SELF,
               m_timestamp := mg_timestamp_sort msg', m_timestamp_sent := now, m_timestamp_rcvd := now,
               m_type := Viewtype_to_int (mg_viewtype msg'), m_state := InFresh, m_txt := mg_text msg',
               m_param := mg_param msg', m_rfc724_mid := mid\<rparr>) s2
         in res_bind (if mg_hidden msg' then Inr s3 else unarchive_if_not_muted now chat InFresh s3) (\<lambda>s4.
              Inr ((chat, i), s4))))"

definition add_device_msg_with_importance ::
  "int \<Rightarrow> (Message \<Rightarrow> Message res) \<Rightarrow> string option \<Rightarrow> Message option \<Rightarrow> bool \<Rightarrow> ctx \<Rightarrow> (msg_id \<times> ctx) res" where
  "add_device_msg_with_importance now pf label msg important s =
     (if label = None \<and> msg = None then Inl ''device-messages need label, msg or both''
      else res_bind (case label of Some l \<Rightarrow> was_device_msg_ever_added s l | None \<Rightarrow> Inr False) (\<lambda>added.
        if added then Inr (0, s)
        else res_bind (case msg of Some m \<Rightarrow> insert_device_msg now pf m s | None \<Rightarrow> Inr ((0, 0), s)) (\<lambda>((chat, i), s1).
          let s2 = (case label of Some l \<Rightarrow> s1\<lparr>devmsglabels := devmsglabels s1 @ [l]\<rparr> | None \<Rightarrow> s1)
          in Inr (i, if i \<noteq> 0 then emit_msg_event chat i important s2 else s2))))"

definition add_device_msg :: "int \<Rightarrow> (Message \<Rightarrow> Message res) \<Rightarrow> string option \<Rightarrow> Message option \<Rightarrow> ctx \<Rightarrow> (msg_id \<times> ctx) res" where
  "add_device_msg now pf label msg s = add_device_msg_with_importance now pf label msg False s"

definition delete_and_reset_all_device_msgs :: "ctx \<Rightarrow> ctx" where
  "delete_and_reset_all_device_msgs s =
     s\<lparr>msgs := del_where (\<lambda>m. m_from_id m = ContactId_DEVICE) (msgs s), devmsglabels := [''core-welcome-image'', ''core-welcome'']\<rparr>"

text \<open>A device message without attachment: no file is processed.\<close>

definition add_device_text :: "int \<Rightarrow> ustr \<Rightarrow> ctx \<Rightarrow> ctx res" where
  "add_device_text now txt s =
     (let (msg, s1) = Message_new_text txt s
      in res_bind (add_device_msg now (\<lambda>_. Inl ''attachment missing'') None (Some msg) s1) (\<lambda>(_, s2). Inr s2))"

definition update_special_chat_name :: "contact_id \<Rightarrow> ustr \<Rightarrow> ctx \<Rightarrow> ctx res" where
  "update_special_chat_name i name s =
     res_bind (ChatIdBlocked_lookup_by_contact s i) (\<lambda>r.
       Inr (case r of
              Some (chat, _) \<Rightarrow> s\<lparr>chats := upd_where (\<lambda>c. ch_id c = chat \<and> ch_name c \<noteq> name) (\<lambda>c. c\<lparr>ch_name := name\<rparr>) (chats s)\<rparr>
            | None \<Rightarrow> s))"

definition update_special_chat_names :: "ctx \<Rightarrow> ctx res" where
  "update_special_chat_names s =
     res_bind (update_special_chat_name ContactId_DEVICE (stock s DeviceMessages) s)
       (\<lambda>s1. update_special_chat_name ContactId_SELF (stock s1 SavedMessages) s1)"

definition donation_request_maybe :: "int \<Rightarrow> ctx \<Rightarrow> ctx res" where
  "donation_request_maybe now s =
     (let ts = get_config_i64 (config s) DonationRequestNextCheck
      in if ts > now then Inr s
         else if ts = 0 \<or> length (filter (\<lambda>m. MessageState_to_int OutDelivered \<le> MessageState_to_int (m_state m) \<and> \<not> m_hidden m) (msgs s)) < 100
         then set_config_internal now DonationRequestNextCheck (Some (show_int (sat_i64 (now + 30 * 24 * 60 * 60)))) s
         else res_bind (add_device_text now (stock s DonationRequest) s)
                (set_config_internal now DonationRequestNextCheck (Some (show_int i64_max))))"


section \<open>Accepting, blocking and deleting\<close>

definition accept_ex :: "int \<Rightarrow> Sync \<Rightarrow> chat_id \<Rightarrow> ctx \<Rightarrow> ctx res" where
  "accept_ex now do_sync chat s =
     res_bind (load_from_db s chat) (\<lambda>c.
       let origin = (if ch_type c = Group then IncomingTo else CreateChat);
           s1 = (if ch_type c = Mailinglist then s
                 else fold (\<lambda>i s. if i \<noteq> ContactId_SELF then scaleup_origin [i] origin s else s) (get_chat_contacts s chat) s)
       in res_bind (ChatId_set_blocked chat Not s1) (\<lambda>(modified, s2).
         let s3 = (if modified then emit_chatlist_item_changed chat (emit_event (ChatModified chat) s2) else s2)
         in Inr (if do_sync = Sync then log_err (Chat_sync now c SyncAccept) s3 else s3)))"

text \<open>\<open>INSERT OR REPLACE INTO msgs\<close> with the flag that the message is to be deleted on the server.\<close>

definition trash_chat_msgs :: "chat_id \<Rightarrow> msg_row list \<Rightarrow> msg_row list" where
  "trash_chat_msgs chat ms = upd_where (\<lambda>m. m_chat_id m = chat) (\<lambda>m. (tombstone m)\<lparr>m_deleted := True\<rparr>) ms"

definition delete_chat_rows :: "chat_id \<Rightarrow> ctx \<Rightarrow> ctx" where
  "delete_chat_rows chat s =
     (let gone = filter (\<lambda>m. m_chat_id m = chat) (msgs s);
          mids = filter (\<lambda>mid. mid \<noteq> []) (map m_rfc724_mid gone @ map m_pre_rfc724_mid gone)
      in s\<lparr>imap_tbl := upd_where (\<lambda>r. i_rfc724_mid r \<in> set mids) (\<lambda>r. r\<lparr>i_target := []\<rparr>) (imap_tbl s),
           msgs_mdns := del_where (\<lambda>d. md_msg_id d \<in> m_id ` set gone) (msgs_mdns s),
           msgs := trash_chat_msgs chat (msgs s),
           chats_contacts := del_where (\<lambda>r. cc_chat r = chat) (chats_contacts s),
           chats := del_where (\<lambda>c. ch_id c = chat) (chats s)\<rparr>)"

definition ChatId_delete_ex :: "int \<Rightarrow> Sync \<Rightarrow> chat_id \<Rightarrow> ctx \<Rightarrow> ctx res" where
  "ChatId_delete_ex now do_sync chat s =
     (if ChatId_is_special chat then Inl ''bad chat_id, can not be a special chat''
      else res_bind (load_from_db s chat) (\<lambda>c.
        res_bind (if do_sync = Sync then get_sync_id s c else Inr None) (\<lambda>sync_id.
          let s1 = emit_msgs_changed_without_ids (emit_event (ChatDeleted chat) (delete_chat_rows chat s));
              s2 = (case sync_id of Some i \<Rightarrow> sync now i SyncDelete s1 | None \<Rightarrow> s1)
          in res_bind (if is_self_talk c then add_device_text now (stock s2 SelfDeletedMsgBody) s2 else Inr s2) (\<lambda>s3.
             res_bind (set_config_internal now LastHousekeeping None (emit_chatlist_changed s3)) (\<lambda>s4.
               Inr (interrupt_smtp s4))))))"

definition block_ex :: "int \<Rightarrow> Sync \<Rightarrow> chat_id \<Rightarrow> ctx \<Rightarrow> ctx res" where
  "block_ex now do_sync chat s =
     res_bind (load_from_db s chat) (\<lambda>c.
       res_bind
         (case ch_type c of
            OutBroadcast \<Rightarrow> Inl ''Can not block chat of type OutBroadcast''
          | Single \<Rightarrow> fold_res (\<lambda>i s. if i \<noteq> ContactId_SELF then set_blocked now Nosync i True s else Inr s)
                        (get_chat_contacts s chat) s
          | Group \<Rightarrow> Inr s
          | Mailinglist \<Rightarrow> res_bind (ChatId_set_blocked chat Yes s) (\<lambda>(m, s1). Inr (if m then emit_event (ChatModified chat) s1 else s1))
          | InBroadcast \<Rightarrow> res_bind (ChatId_set_blocked chat Yes s) (\<lambda>(m, s1). Inr (if m then emit_event (ChatModified chat) s1 else s1)))
         (\<lambda>s1.
            let s2 = emit_chatlist_changed s1;
                s3 = (if do_sync = Sync then log_err (Chat_sync now c SyncBlock) s2 else s2)
            in if ch_type c = Group then ChatId_delete_ex now Nosync chat s3 else Inr s3))"


section \<open>Drafts\<close>

definition get_draft_msg_id :: "ctx \<Rightarrow> chat_id \<Rightarrow> msg_id option" where
  "get_draft_msg_id s chat = map_option m_id (sel_one (\<lambda>m. m_chat_id m = chat \<and> m_state m = OutDraft) (msgs s))"

definition get_draft :: "ctx \<Rightarrow> chat_id \<Rightarrow> Message option res" where
  "get_draft s chat =
     (if ChatId_is_special chat then Inr None
      else case get_draft_msg_id s chat of
        Some i \<Rightarrow> res_bind (Message_load_from_db s i) (\<lambda>m. Inr (Some m))
      | None \<Rightarrow> Inr None)"

definition maybe_delete_draft :: "chat_id \<Rightarrow> ctx \<Rightarrow> bool \<times> ctx" where
  "maybe_delete_draft chat s =
     (list_ex (\<lambda>m. m_chat_id m = chat \<and> m_state m = OutDraft) (msgs s),
      s\<lparr>msgs := del_where (\<lambda>m. m_chat_id m = chat \<and> m_state m = OutDraft) (msgs s)\<rparr>)"

text \<open>The view type of the draft; a vCard is read from its file, which \<open>pf\<close> stands for.\<close>

definition check_draft :: "(ustr \<Rightarrow> ustr) \<Rightarrow> (Message \<Rightarrow> Message res) \<Rightarrow> Message \<Rightarrow> Message res" where
  "check_draft lc pf msg =
     (if mg_viewtype msg = Viewtype.Unknown then Inl ''Can not set draft of unknown type.''
      else if mg_viewtype msg = Text then
        if mg_text msg = [] \<and> (mg_in_reply_to msg = None \<or> mg_in_reply_to msg = Some []) then Inl ''No text and no quote in draft''
        else Inr msg
      else
        let msg1 = (if mg_viewtype msg = Viewtype.File then
                      (case guess_msgtype_from_suffix lc msg of
                         Some (v, _) \<Rightarrow> if v = Webxdc \<or> v = Vcard then msg\<lparr>mg_viewtype := v\<rparr> else msg
                       | None \<Rightarrow> msg)
                    else msg)
        in if mg_viewtype msg1 = Vcard then pf msg1 else Inr msg1)"

definition draft_columns :: "int \<Rightarrow> Message \<Rightarrow> msg_row \<Rightarrow> msg_row" where
  "draft_columns now msg m = m\<lparr>m_timestamp := now, m_type := Viewtype_to_int (mg_viewtype msg), m_txt := mg_text msg,
     m_param := mg_param msg, m_in_reply_to := (case mg_in_reply_to msg of Some i \<Rightarrow> i | None \<Rightarrow> [])\<rparr>"

definition draft_differs :: "Message \<Rightarrow> msg_row \<Rightarrow> bool" where
  "draft_differs msg m \<longleftrightarrow> m_type m \<noteq> Viewtype_to_int (mg_viewtype msg) \<or> m_txt m \<noteq> mg_text msg \<or> m_param m \<noteq> mg_param msg
     \<or> m_in_reply_to m \<noteq> (case mg_in_reply_to msg of Some i \<Rightarrow> i | None \<Rightarrow> [])"

definition do_set_draft ::
  "int \<Rightarrow> (Message \<Rightarrow> Message res) \<Rightarrow> chat_id \<Rightarrow> Message \<Rightarrow> ctx \<Rightarrow> (bool \<times> Message \<times> ctx) res" where
  "do_set_draft now pf chat msg0 s =
     res_bind (check_draft (lower s) pf msg0) (\<lambda>msg1.
       let msg = msg1\<lparr>mg_state := OutDraft, mg_chat_id := chat\<rparr>
       in res_bind (if MsgId_is_special (mg_id msg) then Inr None else get_draft s chat) (\<lambda>old.
         if (case old of Some d \<Rightarrow> mg_id d = mg_id msg \<and> mg_chat_id d = chat \<and> mg_state d = OutDraft | None \<Rightarrow> False) then
           let hit = (\<lambda>m. m_id m = mg_id msg \<and> draft_differs msg m)
           in Inr (list_ex hit (msgs s), msg, s\<lparr>msgs := upd_where hit (draft_columns now msg) (msgs s)\<rparr>)
         else
           let (i, s2) = insert_msg (\<lambda>m. (draft_columns now msg m)\<lparr>m_chat_id := chat, m_rfc724_mid := mg_rfc724_mid msg,
                  m_from_id := ContactId_SELF, m_state := OutDraft, m_hidden := True\<rparr>) (snd (maybe_delete_draft chat s))
           in Inr (True, msg\<lparr>mg_id := i\<rparr>, s2)))"

definition set_draft :: "int \<Rightarrow> (Message \<Rightarrow> Message res) \<Rightarrow> chat_id \<Rightarrow> Message option \<Rightarrow> ctx \<Rightarrow> ctx res" where
  "set_draft now pf chat msg s =
     (if ChatId_is_special chat then Inr s
      else case msg of
        None \<Rightarrow>
          let (changed, s1) = maybe_delete_draft chat s
          in Inr (if changed then emit_msgs_changed_without_msg_id chat s1 else s1)
      | Some m \<Rightarrow>
          res_bind (do_set_draft now pf chat m s) (\<lambda>(changed, _, s1).
            Inr (if changed then
                   (case get_draft_msg_id s1 chat of
                      Some i \<Rightarrow> emit_msgs_changed chat i s1 | None \<Rightarrow> emit_msgs_changed_without_msg_id chat s1)
                 else s1)))"


section \<open>Unread messages\<close>

definition get_msg_cnt :: "ctx \<Rightarrow> chat_id \<Rightarrow> nat" where
  "get_msg_cnt s chat = length (filter (\<lambda>m. \<not> m_hidden m \<and> m_chat_id m = chat) (msgs s))"

definition chat_archived :: "ctx \<Rightarrow> chat_id \<Rightarrow> bool" where
  "chat_archived s chat \<longleftrightarrow> (case chat_row_of s chat of Some c \<Rightarrow> ch_archived c = 1 | None \<Rightarrow> False)"

definition get_fresh_msg_cnt :: "ctx \<Rightarrow> chat_id \<Rightarrow> nat" where
  "get_fresh_msg_cnt s chat =
     (if chat = DC_CHAT_ID_ARCHIVED_LINK then
        length (remdups (map m_chat_id (filter (\<lambda>m. m_state m = InFresh \<and> \<not> m_hidden m \<and> m_chat_id m > 9
          \<and> chat_blocked_is s Not (m_chat_id m) \<and> chat_archived s (m_chat_id m)) (msgs s))))
      else length (filter (\<lambda>m. m_state m = InFresh \<and> \<not> m_hidden m \<and> m_chat_id m = chat) (msgs s)))"

definition created_timestamp :: "ctx \<Rightarrow> chat_id \<Rightarrow> int" where
  "created_timestamp s chat = (case chat_row_of s chat of Some c \<Rightarrow> ch_created_timestamp c | None \<Rightarrow> 0)"

definition notice_where :: "(msg_row \<Rightarrow> bool) \<Rightarrow> ctx \<Rightarrow> ctx" where
  "notice_where P s =
     s\<lparr>msgs := upd_where (\<lambda>m. m_state m = InFresh \<and> \<not> m_hidden m \<and> P m) (\<lambda>m. m\<lparr>m_state := InNoticed\<rparr>) (msgs s)\<rparr>"

definition noticed_events :: "chat_id \<Rightarrow> ctx \<Rightarrow> ctx" where
  "noticed_events chat s = emit_chatlist_item_changed chat (emit_event (MsgsNoticed chat) s)"

definition marknoticed_chat :: "int \<Rightarrow> chat_id \<Rightarrow> ctx \<Rightarrow> ctx res" where
  "marknoticed_chat now chat s =
     (if chat = DC_CHAT_ID_ARCHIVED_LINK then
        let ids = remdups (map m_chat_id (filter (\<lambda>m. m_state m = InFresh \<and> \<not> m_hidden m \<and> m_chat_id m > 9
                     \<and> chat_archived s (m_chat_id m)) (msgs s)))
        in if ids = [] then Inr s
           else
             let s1 = notice_where (\<lambda>m. m_chat_id m \<in> set ids) s;
                 s2 = fold (\<lambda>c s. noticed_events c (start_chat_ephemeral_timers now c s)) ids s1
             in Inr (on_archived_chats_maybe_noticed (noticed_events chat s2))
      else
        let s1 = start_chat_ephemeral_timers now chat s;
            noticed = list_ex (\<lambda>m. m_state m = InFresh \<and> \<not> m_hidden m \<and> m_chat_id m = chat) (msgs s1);
            s2 = notice_where (\<lambda>m. m_chat_id m = chat) s1;
            hidden = take 100 (sort (map m_id (filter (\<lambda>m. m_state m = InFresh \<and> m_hidden m \<and> m_chat_id m = chat) (msgs s2))))
        in res_bind (markseen_msgs now hidden s2) (\<lambda>s3.
          Inr (if noticed then on_archived_chats_maybe_noticed (noticed_events chat s3) else s3)))"

definition marknoticed_all_chats :: "int \<Rightarrow> ctx \<Rightarrow> ctx res" where
  "marknoticed_all_chats now s =
     fold_res (marknoticed_chat now)
       (remdups (map m_chat_id (filter (\<lambda>m. m_state m = InFresh \<and> \<not> m_hidden m \<and> m_chat_id m > 9
          \<and> chat_blocked_is s Not (m_chat_id m)) (msgs s)))) s"

definition markfresh_chat :: "chat_id \<Rightarrow> ctx \<Rightarrow> ctx" where
  "markfresh_chat chat s =
     (case newest (filter (\<lambda>m. m_state m \<in> {InFresh, InNoticed, InSeen} \<and> \<not> m_hidden m \<and> m_chat_id m = chat) (msgs s)) of
        None \<Rightarrow> s
      | Some n \<Rightarrow>
          let hit = (\<lambda>m. m_id m = m_id n \<and> m_state m \<noteq> InFresh)
          in if list_ex hit (msgs s)
             then emit_chatlist_item_changed chat (emit_msgs_changed_without_msg_id chat
                    (s\<lparr>msgs := upd_where hit (\<lambda>m. m\<lparr>m_state := InFresh\<rparr>) (msgs s)\<rparr>))
             else s)"

text \<open>The messages of one chat that were just received: \<open>(chat, sort timestamp, state)\<close>.  The map by chat is iterated
  in an unspecified order, here in the order of the chats' first messages.\<close>

definition latest_per_chat :: "(chat_id \<times> int) list \<Rightarrow> (chat_id \<times> int) list" where
  "latest_per_chat ms =
     fold (\<lambda>(c, t) acc. case map_of acc c of
         Some t' \<Rightarrow> if t > t' then map (\<lambda>p. if fst p = c then (c, t) else p) acc else acc
       | None \<Rightarrow> acc @ [(c, t)]) ms []"

definition mark_old_messages_as_noticed :: "int \<Rightarrow> (chat_id \<times> int \<times> MessageState) list \<Rightarrow> ctx \<Rightarrow> ctx" where
  "mark_old_messages_as_noticed now ms s =
     (if get_config_bool (config s) TeamProfile then s
      else
        let latest = latest_per_chat (map (\<lambda>(c, t, _). (c, t)) (filter (\<lambda>(_, _, st). MessageState_is_outgoing st) ms));
            old = (\<lambda>c t m. m_chat_id m = c \<and> m_timestamp m \<le> t);
            changed = map fst (filter (\<lambda>(c, t). list_ex (\<lambda>m. m_state m = InFresh \<and> \<not> m_hidden m \<and> old c t m) (msgs s)) latest);
            s1 = fold (\<lambda>(c, t). notice_where (old c t)) latest s;
            s2 = (if changed \<noteq> [] then on_archived_chats_maybe_noticed s1 else s1)
        in fold (\<lambda>c s. noticed_events c (start_chat_ephemeral_timers now c s)) changed s2)"

text \<open>Items of the message list; \<open>cnv_to_local\<close> is the offset of the local time zone.\<close>

datatype ChatItem = ItemMessage msg_id | DayMarker int

fun chat_items :: "bool \<Rightarrow> int \<Rightarrow> int \<Rightarrow> (int \<times> msg_id) list \<Rightarrow> ChatItem list" where
  "chat_items add_daymarker off last_day [] = []"
| "chat_items add_daymarker off last_day ((ts, i) # rows) =
     (let curr_day = trunc_div (ts + off) 86400
      in if add_daymarker \<and> curr_day \<noteq> last_day
         then DayMarker (curr_day * 86400 - off) # ItemMessage i # chat_items add_daymarker off curr_day rows
         else ItemMessage i # chat_items add_daymarker off last_day rows)"

definition get_chat_msgs_ex :: "bool \<Rightarrow> int \<Rightarrow> ctx \<Rightarrow> chat_id \<Rightarrow> ChatItem list" where
  "get_chat_msgs_ex add_daymarker cnv_to_local s chat =
     chat_items add_daymarker cnv_to_local 0
       (sort_key fst (sort_key snd (map (\<lambda>m. (m_timestamp m, m_id m)) (filter (\<lambda>m. m_chat_id m = chat \<and> \<not> m_hidden m) (msgs s)))))"

definition get_chat_cnt :: "ctx \<Rightarrow> nat" where
  "get_chat_cnt s = length (filter (\<lambda>c. ch_id c > 9 \<and> ch_blocked c = Not) (chats s))"

end
