(* ===== verification/ReadReceipts.thy ===== *)
theory ReadReceipts
  imports ChatOps
begin

text \<open>
  Marking messages as seen, noticed and fresh, in any order: a message asks its sender for at most one read
  receipt, and none is sent for contact requests (\<^verbatim>\<open>markseen_msgs\<close> of \<^verbatim>\<open>src/message.rs\<close>; \<^verbatim>\<open>marknoticed_chat\<close>,
  \<^verbatim>\<open>markfresh_chat\<close> of \<^verbatim>\<open>src/chat.rs\<close>).
\<close>

section \<open>What the operations keep\<close>

text \<open>The operations on states keep the identifiers and the parameters of messages and queue no receipts.\<close>

definition quiet :: "ctx \<Rightarrow> ctx \<Rightarrow> bool" where
  "quiet s s' \<longleftrightarrow> map (\<lambda>m. (m_id m, m_param m)) (msgs s') = map (\<lambda>m. (m_id m, m_param m)) (msgs s) \<and> smtp_mdns s' = smtp_mdns s"

lemma quiet_refl [simp]: "quiet s s" by (simp add: quiet_def)

lemma quiet_trans [trans]: "quiet s s1 \<Longrightarrow> quiet s1 s2 \<Longrightarrow> quiet s s2" by (simp add: quiet_def)

lemma quiet_ids: "quiet s s' \<Longrightarrow> map m_id (msgs s') = map m_id (msgs s)"
proof -
  assume "quiet s s'"
  then have "map fst (map (\<lambda>m. (m_id m, m_param m)) (msgs s')) = map fst (map (\<lambda>m. (m_id m, m_param m)) (msgs s))"
    by (simp add: quiet_def)
  then show ?thesis by (simp add: comp_def)
qed

lemma param_of_map_of: "param_of s i = map_of (map (\<lambda>m. (m_id m, m_param m)) (msgs s)) i"
proof -
  have "map_option m_param (sel_one (\<lambda>m. m_id m = i) ms) = map_of (map (\<lambda>m. (m_id m, m_param m)) ms) i" for ms
    by (induction ms) auto
  then show ?thesis by (simp add: param_of_def msg_of_def)
qed

lemma quiet_budget: "quiet s s' \<Longrightarrow> mdn_budget s' i = mdn_budget s i"
  by (intro mdn_budget_cong) (simp_all add: quiet_def param_of_map_of)

lemma quiet_distinct: "quiet s s' \<Longrightarrow> distinct_ids s' = distinct_ids s"
  by (simp add: distinct_ids_def quiet_ids)

lemma quiet_upd:
  assumes "msgs s' = upd_where P f (msgs s)" "smtp_mdns s' = smtp_mdns s"
    "\<And>m. m_id (f m) = m_id m" "\<And>m. m_param (f m) = m_param m"
  shows "quiet s s'"
  using assms by (simp add: quiet_def map_upd_where)

lemma quiet_same: "msgs s' = msgs s \<Longrightarrow> smtp_mdns s' = smtp_mdns s \<Longrightarrow> quiet s s'"
  by (simp add: quiet_def)

lemma quiet_start_chat: "quiet s (start_chat_ephemeral_timers now chat s)"
  by (rule quiet_upd [where P = "\<lambda>m. startable now m \<and> m_chat_id m = chat" and f = "start_timer now"])
    (simp_all add: start_chat_ephemeral_timers_def start_where_def interrupt_ephemeral_task_def start_timer_def)

lemma quiet_notice: "quiet s (notice_where P s)"
  unfolding notice_where_def
  by (rule quiet_upd [where P = "\<lambda>m. m_state m = InFresh \<and> \<not> m_hidden m \<and> P m" and f = "\<lambda>m. m\<lparr>m_state := InNoticed\<rparr>"]) simp_all

lemma quiet_events [simp]:
  "quiet s (noticed_events chat s') = quiet s s'" "quiet s (on_archived_chats_maybe_noticed s') = quiet s s'"
  by (simp_all add: quiet_def noticed_events_def on_archived_chats_maybe_noticed_def)

lemma quiet_fold: "(\<And>x s. quiet s (f x s)) \<Longrightarrow> quiet s (fold f xs s)"
  by (induction xs arbitrary: s) (auto intro: quiet_trans)

lemma markseen_distinct:
  assumes "markseen_msgs now ids s = Inr s'"
  shows "map m_id (msgs s') = map m_id (msgs s)"
proof (cases "ids = []")
  case False
  let ?s1 = "set_config_row LastMsgId (Some (show_nat (fold max ids (nat (get_config_u32 (config s) LastMsgId))))) s"
  have one: "mark_one_seen m b t = Inr t' \<Longrightarrow> map m_id (msgs t') = map m_id (msgs t)" for m b t t'
    by (auto simp: mark_one_seen_def update_msg_state_def sql_msg_id_def res_bind_eq_Inr Let_def queue_mdn_def update_msg_def
        markseen_on_imap_table_def interrupt_inbox_def interrupt_smtp_def map_upd_where split: if_splits)
  have all: "mark_seen rows t = Inr t' \<Longrightarrow> map m_id (msgs t') = map m_id (msgs t)" for rows t t'
    by (induction rows t rule: mark_seen.induct) (auto simp: res_bind_eq_Inr one split: if_splits)
  have where_ids: "start_where now P t = (b, t') \<Longrightarrow> map m_id (msgs t') = map m_id (msgs t)" for P t b t'
    by (auto simp: start_where_def start_timer_def map_upd_where)
  have fold_ids: "fold (\<lambda>i (b, s). case start_where now (\<lambda>m. m_id m = i) s of (c, s') \<Rightarrow> (b \<or> c, s')) js (b, t) = (b', t')
      \<Longrightarrow> map m_id (msgs t') = map m_id (msgs t)" for js b t b' t'
  proof (induction js arbitrary: b t)
    case (Cons j js)
    obtain c t1 where 1: "start_where now (\<lambda>m. m_id m = j) t = (c, t1)" by fastforce
    with Cons.prems Cons.IH [of "b \<or> c" t1] where_ids [OF 1] show ?case by simp
  qed simp
  have timers: "map m_id (msgs (start_ephemeral_timers_msgids now ids t)) = map m_id (msgs t)" for t
    by (auto simp: start_ephemeral_timers_msgids_def interrupt_ephemeral_task_def split: prod.splits dest: fold_ids)
  from False assms obtain rows s3 where
      3: "mark_seen rows (if list_ex (\<lambda>(_, timer, _, _). timer \<noteq> Disabled) rows
                    then start_ephemeral_timers_msgids now ids ?s1 else ?s1) = Inr s3" "msgs s' = msgs s3"
    by (auto simp: markseen_msgs_def res_bind_eq_Inr Let_def on_archived_chats_maybe_noticed_def noticed_events_fields [simplified])
  with all [OF 3(1)] timers show ?thesis by (simp split: if_splits)
qed (use assms in \<open>simp add: markseen_msgs_def\<close>)


section \<open>At most one receipt\<close>

datatype seen_op = Seen "msg_id list" | Noticed chat_id | AllNoticed | Fresh chat_id

primrec run_seen_op :: "int \<Rightarrow> seen_op \<Rightarrow> ctx \<Rightarrow> ctx res" where
  "run_seen_op now (Seen ids) s = markseen_msgs now ids s"
| "run_seen_op now (Noticed chat) s = marknoticed_chat now chat s"
| "run_seen_op now AllNoticed s = marknoticed_all_chats now s"
| "run_seen_op now (Fresh chat) s = Inr (markfresh_chat chat s)"

primrec seen_op_ok :: "seen_op \<Rightarrow> bool" where
  "seen_op_ok (Seen ids) = distinct ids"
| "seen_op_ok (Noticed chat) = True"
| "seen_op_ok AllNoticed = True"
| "seen_op_ok (Fresh chat) = True"

definition mdn_le :: "ctx \<Rightarrow> ctx \<Rightarrow> bool" where
  "mdn_le s s' \<longleftrightarrow> distinct_ids s' \<and> (\<forall>i. mdn_budget s' i \<le> mdn_budget s i)"

lemma mdn_le_trans: "mdn_le s s1 \<Longrightarrow> mdn_le s1 s2 \<Longrightarrow> mdn_le s s2"
  unfolding mdn_le_def by (meson order_trans)

lemma mdn_le_quiet: "distinct_ids s \<Longrightarrow> quiet s s' \<Longrightarrow> mdn_le s s'"
  by (simp add: mdn_le_def quiet_budget quiet_distinct)

lemma mdn_le_markseen: "distinct_ids s \<Longrightarrow> distinct ids \<Longrightarrow> markseen_msgs now ids s = Inr s' \<Longrightarrow> mdn_le s s'"
  using markseen_msgs_budget markseen_distinct by (simp add: mdn_le_def distinct_ids_def)

lemma mdn_le_noticed:
  assumes "distinct_ids s" "marknoticed_chat now chat s = Inr s'"
  shows "mdn_le s s'"
proof (cases "chat = DC_CHAT_ID_ARCHIVED_LINK")
  case True
  let ?ids = "remdups (map m_chat_id (filter (\<lambda>m. m_state m = InFresh \<and> \<not> m_hidden m \<and> m_chat_id m > 9
                     \<and> chat_archived s (m_chat_id m)) (msgs s)))"
  let ?s2 = "fold (\<lambda>c s. noticed_events c (start_chat_ephemeral_timers now c s)) ?ids (notice_where (\<lambda>m. m_chat_id m \<in> set ?ids) s)"
  have "quiet s ?s2"
    by (rule quiet_trans [OF quiet_notice quiet_fold]) (simp add: quiet_start_chat)
  moreover have "s' = s \<or> s' = on_archived_chats_maybe_noticed (noticed_events chat ?s2)"
    using assms(2) True by (simp add: marknoticed_chat_def Let_def split: if_splits)
  ultimately show ?thesis using mdn_le_quiet [OF assms(1), of s'] by auto
next
  case False
  define s2 where "s2 = notice_where (\<lambda>m. m_chat_id m = chat) (start_chat_ephemeral_timers now chat s)"
  define hidden where "hidden = take 100 (sort (map m_id (filter (\<lambda>m. m_state m = InFresh \<and> m_hidden m \<and> m_chat_id m = chat) (msgs s2))))"
  have q2: "quiet s s2" unfolding s2_def by (rule quiet_trans [OF quiet_start_chat quiet_notice])
  from False assms(2) obtain s3 where s3: "markseen_msgs now hidden s2 = Inr s3" "quiet s3 s'"
    by (auto simp: marknoticed_chat_def Let_def s2_def hidden_def res_bind_eq_Inr split: if_splits)
  have d2: "distinct_ids s2" using q2 assms(1) quiet_distinct by blast
  then have "distinct hidden"
    unfolding hidden_def by (simp add: distinct_ids_def distinct_map_filter)
  then have 3: "mdn_le s2 s3" using mdn_le_markseen d2 s3(1) by blast
  moreover have "mdn_le s s2" by (rule mdn_le_quiet [OF assms(1) q2])
  moreover have "mdn_le s3 s'" using 3 mdn_le_quiet [OF _ s3(2)] by (simp add: mdn_le_def)
  ultimately show ?thesis using mdn_le_trans by blast
qed

lemma mdn_le_all_noticed:
  assumes "distinct_ids s" "fold_res (marknoticed_chat now) cs s = Inr s'"
  shows "mdn_le s s'"
  using assms
proof (induction cs arbitrary: s)
  case Nil
  then show ?case by (simp add: mdn_le_def)
next
  case (Cons c cs)
  then obtain s1 where "marknoticed_chat now c s = Inr s1" "fold_res (marknoticed_chat now) cs s1 = Inr s'"
    by (auto simp: res_bind_eq_Inr)
  with mdn_le_noticed [OF Cons.prems(1)] Cons.IH [of s1] show ?case by (meson mdn_le_def mdn_le_trans)
qed

lemma mdn_le_fresh:
  assumes "distinct_ids s"
  shows "mdn_le s (markfresh_chat chat s)"
proof (cases "newest (filter (\<lambda>m. m_state m \<in> {InFresh, InNoticed, InSeen} \<and> \<not> m_hidden m \<and> m_chat_id m = chat) (msgs s))")
  case None
  with assms show ?thesis by (simp add: markfresh_chat_def mdn_le_def)
next
  case (Some n)
  have "quiet s (s\<lparr>msgs := upd_where (\<lambda>m. m_id m = m_id n \<and> m_state m \<noteq> InFresh) (\<lambda>m. m\<lparr>m_state := InFresh\<rparr>) (msgs s)\<rparr>)"
    by (rule quiet_upd [where P = "\<lambda>m. m_id m = m_id n \<and> m_state m \<noteq> InFresh" and f = "\<lambda>m. m\<lparr>m_state := InFresh\<rparr>"]) simp_all
  then have "quiet s (markfresh_chat chat s)" using Some by (simp add: markfresh_chat_def quiet_def Let_def)
  then show ?thesis by (rule mdn_le_quiet [OF assms])
qed

lemma seen_op_budget:
  assumes "distinct_ids s" "seen_op_ok p" "run_seen_op now p s = Inr s'"
  shows "mdn_le s s'"
  using assms
  by (cases p) (auto simp: mdn_le_fresh marknoticed_all_chats_def intro: mdn_le_markseen mdn_le_noticed mdn_le_all_noticed)


text \<open>A chat with a message that asks for a receipt.\<close>

definition mdn_ctx :: ctx where
  "mdn_ctx = ctx0\<lparr>chats := [chat_row0 12 Single], msgs := [(msg_row0 20)\<lparr>m_chat_id := 12, m_from_id := 11, m_state := InFresh,
     m_param := Params_set WantsMdn ''1'' Params_new, m_rfc724_mid := ''m@x''\<rparr>]\<rparr>"


lemma mdn_config: "get_config_u32 (config mdn_ctx) LastMsgId = 0" "should_send_mdns (config mdn_ctx)"
  by (simp_all add: mdn_ctx_def ctx0_def config_state0_def get_config_u32_def should_send_mdns_def get_config_bool_def get_config_def
      get_config_opt_def raw_config_def get_raw_config_def Config_default_def parse_int_def parse_nat_def digit_val_def i32_min_def i32_max_def)

lemma mdn_ctx_run:
  "\<exists>s'. fold_res (run_seen_op 5) [Seen [20], Fresh 12] mdn_ctx = Inr s' \<and> smtp_mdns s' \<noteq> []"
proof -
  let ?s1 = "set_config_row LastMsgId (Some (show_nat 20)) mdn_ctx"
  have load: "load_seen ?s1 [20] = Inr [((msg_row0 20)\<lparr>m_chat_id := 12, m_from_id := 11, m_state := InFresh,
       m_param := Params_set WantsMdn ''1'' Params_new, m_rfc724_mid := ''m@x''\<rparr>, Disabled, VisNormal, Not)]"
    by (simp add: mdn_ctx_def MsgId_is_special_def chat_row_of_def chat_row0_def msg_row0_def Timer_from_sql_def ChatVisibility_from_int_def)
  have cfg: "should_send_mdns (config ?s1)"
    by (simp add: mdn_ctx_def ctx0_def config_state0_def should_send_mdns_def get_config_bool_def get_config_def get_config_opt_def
        set_config_row_def set_raw_config_def raw_config_def get_raw_config_def Config_default_def parse_int_def parse_nat_def
        digit_val_def i32_min_def i32_max_def)
  have wants: "wants_mdn (Params_set WantsMdn ''1'' Params_new)" "Params_get_cmd (Params_set WantsMdn ''1'' Params_new) = SystemMessage.Unknown"
    using Params_get_new by (simp_all add: wants_mdn_def Params_get_bool_def Params_get_int_def Params_get_cmd_def parse_int_def parse_nat_def
        digit_val_def i32_min_def i32_max_def)
  show ?thesis
    using load mdn_config
    by (simp add: markseen_msgs_def Let_def mark_one_seen_def update_msg_state_def sql_msg_id_def mdn_allowed_def cfg wants
        msg_row0_def queue_mdn_def interrupt_smtp_def markfresh_chat_def newest_def split: option.splits)
qed


end
