(* ===== verification/MimeFactory.thy ===== *)
theory MimeFactory
  imports ChatOps
begin

text \<open>
  \<^verbatim>\<open>src/mimefactory.rs\<close>: \<open>MimeFactory::from_msg\<close> and \<open>from_mdn\<close>, which decide who gets a message, for whom it is
  encrypted and what the member headers say.  An OpenPGP key is represented by its bytes; \<open>parse_public_key\<close>
  of the context reads it.  The gossip topic of an app is not represented.
\<close>

section \<open>The state of the factory\<close>

datatype PreMessageMode = ModePost | ModePre string | ModeNone

datatype Loaded = LoadedMessage chat_row Message | LoadedMdn string "string list"

record MimeFactory =
  mf_from_addr :: ustr
  mf_from_displayname :: ustr
  mf_sender_displayname :: "ustr option"
  mf_selfstatus :: ustr
  mf_recipients :: "ustr list"
  mf_encryption_pubkeys :: "(ustr \<times> string) list option"
  mf_to :: "(ustr \<times> ustr) list"
  mf_past_members :: "(ustr \<times> ustr) list"
  mf_member_fingerprints :: "ustr list"
  mf_member_timestamps :: "int list"
  mf_timestamp :: int
  mf_loaded :: Loaded
  mf_in_reply_to :: string
  mf_references :: "string list"
  mf_req_mdn :: bool
  mf_last_added_location_id :: "nat option"
  mf_sync_ids_to_delete :: "string option"
  mf_attach_selfavatar :: bool
  mf_pre_message_mode :: PreMessageMode


section \<open>Who gets the message\<close>

definition must_have_only_one_recipient :: "Message \<Rightarrow> chat_row \<Rightarrow> string res option" where
  "must_have_only_one_recipient msg chat =
     (if ch_type chat \<noteq> OutBroadcast then None
      else case Params_get Arg4 (mg_param msg) of
        Some fp \<Rightarrow> Some (Inr fp)
      | None \<Rightarrow>
          if Params_get_cmd (mg_param msg) \<in> {MemberRemovedFromGroup, MemberAddedToGroup}
          then Some (Inl ''Missing removed/added member'') else None)"

definition should_encrypt_with_broadcast_secret :: "Message \<Rightarrow> chat_row \<Rightarrow> bool" where
  "should_encrypt_with_broadcast_secret msg chat \<longleftrightarrow>
     ch_type chat = OutBroadcast \<and> must_have_only_one_recipient msg chat = None"

definition should_hide_recipients :: "Message \<Rightarrow> chat_row \<Rightarrow> bool" where
  "should_hide_recipients msg chat \<longleftrightarrow> should_encrypt_with_broadcast_secret msg chat"

definition should_encrypt_symmetrically :: "Message \<Rightarrow> chat_row \<Rightarrow> bool" where
  "should_encrypt_symmetrically msg chat \<longleftrightarrow> should_encrypt_with_broadcast_secret msg chat"

definition should_attach_profile_data :: "Message \<Rightarrow> bool" where
  "should_attach_profile_data msg \<longleftrightarrow>
     Params_get_cmd (mg_param msg) \<noteq> SecurejoinMessage
     \<or> (case Params_get Arg (mg_param msg) of Some step \<Rightarrow> step | None \<Rightarrow> [])
         \<in> {''vg-request-with-auth'', ''vc-request-with-auth'', ''vg-member-added'', ''vc-contact-confirm''}"

definition should_attach_selfavatar :: "int \<Rightarrow> ctx \<Rightarrow> Message \<Rightarrow> bool" where
  "should_attach_selfavatar now s msg \<longleftrightarrow>
     should_attach_profile_data msg
     \<and> (case shall_attach_selfavatar now s (mg_chat_id msg) of Inr should \<Rightarrow> should | Inl _ \<Rightarrow> False)"

definition recipients_contain_addr :: "(ustr \<Rightarrow> ustr) \<Rightarrow> (ustr \<times> ustr) list \<Rightarrow> ustr \<Rightarrow> bool" where
  "recipients_contain_addr lc recipients addr \<longleftrightarrow> list_ex (\<lambda>(_, cur). lc cur = lc addr) recipients"


section \<open>The loop over the members\<close>

text \<open>What the loop reads: whether names are attached, whether recipients are hidden, whether the message is
  encrypted and how, the address of a member that is being removed, the own address and fingerprint.\<close>

record member_opts =
  o_now :: int
  o_lower :: "ustr \<Rightarrow> ustr"
  o_profile :: bool
  o_undisclosed :: bool
  o_encrypted :: bool
  o_symmetric :: bool
  o_remove :: "string option"
  o_from_addr :: ustr
  o_self_fingerprint :: ustr

text \<open>What it collects.\<close>

record member_acc =
  a_recipients :: "ustr list"
  a_to :: "(ustr \<times> ustr) list"
  a_fingerprints :: "ustr list"
  a_timestamps :: "int list"
  a_past :: "(ustr \<times> ustr) list"
  a_past_fingerprints :: "ustr list"
  a_past_timestamps :: "int list"
  a_keys :: "(ustr \<times> string) list"
  a_missing :: "ustr list"
  a_ids :: "contact_id list"

definition member_acc0 :: member_acc where
  "member_acc0 = \<lparr>a_recipients = [], a_to = [], a_fingerprints = [], a_timestamps = [], a_past = [],
     a_past_fingerprints = [], a_past_timestamps = [], a_keys = [], a_missing = [], a_ids = []\<rparr>"

text \<open>A row of the join: the member, its name, address and fingerprint, and its key with the relays in it.\<close>

record member_row =
  r_id :: contact_id
  r_authname :: ustr
  r_addr :: ustr
  r_fingerprint :: ustr
  r_add :: int
  r_remove :: int
  r_key :: "(string \<times> ustr list option) option"

definition member_relays :: "member_opts \<Rightarrow> ustr \<Rightarrow> member_row \<Rightarrow> member_acc \<Rightarrow> ustr list \<times> member_acc" where
  "member_relays opts addr r acc =
     (case r_key r of
        Some (key, relays) \<Rightarrow>
          (case relays of Some l \<Rightarrow> l | None \<Rightarrow> [addr], acc\<lparr>a_keys := a_keys acc @ [(addr, key)]\<rparr>)
      | None \<Rightarrow>
          ([addr], if r_id r \<noteq> ContactId_SELF \<and> \<not> o_symmetric opts
                   then acc\<lparr>a_missing := addr # a_missing acc\<rparr> else acc))"

definition push_fingerprint :: "member_opts \<Rightarrow> member_row \<Rightarrow> ustr list \<Rightarrow> ustr list res" where
  "push_fingerprint opts r fps =
     (if \<not> o_encrypted opts then Inr fps
      else if r_fingerprint r \<noteq> [] then Inr (fps @ [r_fingerprint r])
      else if r_id r = ContactId_SELF then Inr (fps @ [o_self_fingerprint opts])
      else if fps = [] then Inr fps
      else Inl ''If some member is a key-contact, all other members should be key-contacts too'')"

definition list_member :: "member_opts \<Rightarrow> ustr \<Rightarrow> ustr \<Rightarrow> member_row \<Rightarrow> member_acc \<Rightarrow> member_acc res" where
  "list_member opts name addr r acc =
     (let (relays, acc1) = member_relays opts addr r acc
      in if recipients_contain_addr (o_lower opts) (a_to acc1) addr
         then Inr (acc1\<lparr>a_ids := List.insert (r_id r) (a_ids acc1)\<rparr>)
         else
           let acc2 = (if r_id r \<noteq> ContactId_SELF then acc1\<lparr>a_recipients := a_recipients acc1 @ relays\<rparr> else acc1)
           in if o_undisclosed opts then Inr (acc2\<lparr>a_ids := List.insert (r_id r) (a_ids acc2)\<rparr>)
              else res_bind (push_fingerprint opts r (a_fingerprints acc2)) (\<lambda>fps.
                Inr (acc2\<lparr>a_to := a_to acc2 @ [(name, addr)], a_fingerprints := fps,
                  a_timestamps := a_timestamps acc2 @ [r_add r], a_ids := List.insert (r_id r) (a_ids acc2)\<rparr>)))"

definition list_past_member :: "member_opts \<Rightarrow> ustr \<Rightarrow> ustr \<Rightarrow> member_row \<Rightarrow> member_acc \<Rightarrow> member_acc res" where
  "list_past_member opts name addr r acc =
     (if recipients_contain_addr (o_lower opts) (a_past acc) addr then Inr acc
      else
        let acc1 = (if o_remove opts = Some (utf8_encode addr) then
                      let (relays, acc') = member_relays opts addr r acc
                      in if r_id r \<noteq> ContactId_SELF then acc'\<lparr>a_recipients := a_recipients acc' @ relays\<rparr> else acc'
                    else acc)
        in if o_undisclosed opts then Inr acc1
           else res_bind (push_fingerprint opts r (a_past_fingerprints acc1)) (\<lambda>fps.
             Inr (acc1\<lparr>a_past := a_past acc1 @ [(name, addr)], a_past_fingerprints := fps,
               a_past_timestamps := a_past_timestamps acc1 @ [r_remove r]\<rparr>)))"

definition add_row :: "member_opts \<Rightarrow> member_row \<Rightarrow> member_acc \<Rightarrow> member_acc res" where
  "add_row opts r acc =
     (let addr = (if r_id r = ContactId_SELF then o_from_addr opts else r_addr r);
          name = (if o_profile opts then r_authname r else [])
      in if r_add r \<ge> r_remove r then list_member opts name addr r acc
         else if sat_i64 (r_remove r + 60 * 24 * 3600) > o_now opts then list_past_member opts name addr r acc
         else Inr acc)"

text \<open>The rows of the query, most recent additions first.  A member without a row in \<open>contacts\<close> yields a null
  name, and a key that cannot be read ends the loop.\<close>

definition member_row_of :: "ctx \<Rightarrow> cc_row \<Rightarrow> member_row res" where
  "member_row_of s r =
     (case contact_of s (cc_contact r) of
        None \<Rightarrow> Inl ''InvalidColumnType''
      | Some c \<Rightarrow>
          res_bind (case public_keys s (c_fingerprint c) of
                      None \<Rightarrow> Inr None
                    | Some k \<Rightarrow> res_bind (parse_public_key s k) (\<lambda>relays. Inr (Some (k, relays)))) (\<lambda>key.
            Inr \<lparr>r_id = c_id c, r_authname = c_authname c, r_addr = c_addr c, r_fingerprint = c_fingerprint c,
                 r_add = add_timestamp r, r_remove = remove_timestamp r, r_key = key\<rparr>))"

definition chat_rows :: "ctx \<Rightarrow> chat_id \<Rightarrow> bool \<Rightarrow> cc_row list" where
  "chat_rows s chat with_self =
     sort_key (\<lambda>r. - add_timestamp r)
       (filter (\<lambda>r. cc_chat r = chat \<and> (cc_contact r > 9 \<or> cc_contact r = 1 \<and> with_self)) (chats_contacts s))"

definition add_rows :: "ctx \<Rightarrow> member_opts \<Rightarrow> cc_row list \<Rightarrow> member_acc \<Rightarrow> member_acc res" where
  "add_rows s opts = fold_res (\<lambda>r acc. res_bind (member_row_of s r) (\<lambda>row. add_row opts row acc))"

text \<open>\<open>Vec::remove\<close> panics when the position is out of range.\<close>

definition vec_remove :: "nat \<Rightarrow> 'a list \<Rightarrow> 'a list res" where
  "vec_remove i xs = (if i < length xs then Inr (take i xs @ drop (Suc i) xs) else Inl ''removal index out of range'')"

fun position :: "('a \<Rightarrow> bool) \<Rightarrow> 'a list \<Rightarrow> nat option" where
  "position P [] = None"
| "position P (x # xs) = (if P x then Some 0 else map_option Suc (position P xs))"

definition finish_members :: "member_opts \<Rightarrow> member_acc \<Rightarrow> member_acc res" where
  "finish_members opts acc =
     (if \<not> length (a_timestamps acc) \<ge> length (a_to acc) then Inl ''member_timestamps.len() < to.len()''
      else if \<not> (a_fingerprints acc = [] \<or> length (a_fingerprints acc) \<ge> length (a_to acc))
      then Inl ''member_fingerprints.len() < to.len()''
      else
        res_bind
          (case (if length (a_to acc) > 1 then position (\<lambda>(_, x). x = o_from_addr opts) (a_to acc) else None) of
             Some p \<Rightarrow>
               res_bind (vec_remove p (a_to acc)) (\<lambda>to.
               res_bind (vec_remove p (a_timestamps acc)) (\<lambda>ts.
               res_bind (if o_encrypted opts then vec_remove p (a_fingerprints acc) else Inr (a_fingerprints acc)) (\<lambda>fps.
                 Inr (acc\<lparr>a_to := to, a_timestamps := ts, a_fingerprints := fps\<rparr>))))
           | None \<Rightarrow> Inr acc) (\<lambda>acc1.
          Inr (acc1\<lparr>a_timestamps := a_timestamps acc1 @ a_past_timestamps acc1,
                a_fingerprints := (if o_encrypted opts then a_fingerprints acc1 @ a_past_fingerprints acc1
                                   else a_fingerprints acc1)\<rparr>)))"


section \<open>The four kinds of chats\<close>

text \<open>The recipients, the encryption keys and the member lists, and the state after the origin of the recipients
  has been scaled up.\<close>

definition collect_self :: "ustr \<Rightarrow> ustr \<Rightarrow> member_acc \<times> (ustr \<times> string) list option" where
  "collect_self from_displayname from_addr = (member_acc0\<lparr>a_to := [(from_displayname, from_addr)]\<rparr>, Some [])"

definition collect_list :: "chat_row \<Rightarrow> (member_acc \<times> (ustr \<times> string) list option) res" where
  "collect_list chat =
     (case Params_get Param.ListPost (ch_param chat) of
        None \<Rightarrow> Inl ''Can't write to mailinglist without ListPost param''
      | Some list_post \<Rightarrow>
          Inr (member_acc0\<lparr>a_to := [([], utf8_decode list_post)], a_recipients := [utf8_decode list_post]\<rparr>, None))"

definition collect_one :: "ctx \<Rightarrow> ustr \<Rightarrow> (member_acc \<times> (ustr \<times> string) list option) res" where
  "collect_one s fp =
     (case sel_one (\<lambda>c. c_fingerprint c = fp) (contacts s) of
        None \<Rightarrow> Inl ''QueryReturnedNoRows''
      | Some c \<Rightarrow>
          (case public_keys s fp of
             None \<Rightarrow> Inl ''Can't send member addition/removal: missing key''
           | Some key \<Rightarrow>
               res_bind (parse_public_key s key) (\<lambda>relays.
                 Inr (member_acc0\<lparr>a_recipients := (case relays of Some l \<Rightarrow> l | None \<Rightarrow> [c_addr c]),
                        a_to := [(c_authname c, c_addr c)]\<rparr>, Some [(c_addr c, key)]))))"

definition msg_is_encrypted :: "ctx \<Rightarrow> Message \<Rightarrow> chat_row \<Rightarrow> bool res" where
  "msg_is_encrypted s msg chat =
     (if Params_get_bool ForcePlaintext (mg_param msg) = Some True then Inr False
      else if Params_get_bool GuaranteeE2ee (mg_param msg) = Some True then Inr True
      else is_encrypted s chat)"

definition scaleup_recipients :: "Message \<Rightarrow> chat_row \<Rightarrow> contact_id list \<Rightarrow> ctx \<Rightarrow> ctx" where
  "scaleup_recipients msg chat ids s =
     (let recipient_ids = filter (\<lambda>i. i \<noteq> ContactId_SELF) ids
      in if Params_get_cmd (mg_param msg) \<notin> {MemberRemovedFromGroup, SecurejoinMessage}
            \<and> ch_type chat \<notin> {OutBroadcast, InBroadcast}
         then scaleup_origin recipient_ids (if length recipient_ids = 1 then OutgoingTo else IncomingTo) s
         else s)"

definition member_opts_of :: "int \<Rightarrow> ctx \<Rightarrow> Message \<Rightarrow> chat_row \<Rightarrow> bool \<Rightarrow> ustr \<Rightarrow> ustr \<Rightarrow> member_opts" where
  "member_opts_of now s msg chat enc from_addr self_fp =
     \<lparr>o_now = now, o_lower = lower s, o_profile = should_attach_profile_data msg,
      o_undisclosed = should_hide_recipients msg chat, o_encrypted = enc,
      o_symmetric = should_encrypt_symmetrically msg chat,
      o_remove = (if Params_get_cmd (mg_param msg) = MemberRemovedFromGroup then Params_get Arg (mg_param msg) else None),
      o_from_addr = from_addr, o_self_fingerprint = self_fp\<rparr>"

definition encryption_keys :: "member_opts \<Rightarrow> member_acc \<Rightarrow> (member_acc \<times> (ustr \<times> string) list option) res" where
  "encryption_keys opts acc =
     (if \<not> o_encrypted opts then Inr (acc, None)
      else if o_symmetric opts then Inr (acc, Some [])
      else if a_keys acc = [] \<and> a_recipients acc \<noteq> [] then Inl ''No recipient keys are available, cannot encrypt''
      else Inr (acc\<lparr>a_recipients := filter (\<lambda>a. a \<notin> set (a_missing acc)) (a_recipients acc)\<rparr>, Some (a_keys acc)))"

definition collect_members ::
  "int \<Rightarrow> Message \<Rightarrow> chat_row \<Rightarrow> ustr \<Rightarrow> ustr \<Rightarrow> ctx \<Rightarrow> ((member_acc \<times> (ustr \<times> string) list option) \<times> ctx) res" where
  "collect_members now msg chat from_addr self_fp s =
     res_bind (msg_is_encrypted s msg chat) (\<lambda>enc.
       let opts = member_opts_of now s msg chat enc from_addr self_fp
       in res_bind (add_rows s opts (chat_rows s (mg_chat_id msg) (ch_type chat = Group)) member_acc0) (\<lambda>acc0.
          res_bind (finish_members opts acc0) (\<lambda>acc.
          res_bind (encryption_keys opts acc) (\<lambda>r.
            Inr (r, scaleup_recipients msg chat (a_ids acc) s)))))"

definition from_msg :: "int \<Rightarrow> Message \<Rightarrow> ctx \<Rightarrow> (MimeFactory \<times> ctx) res" where
  "from_msg now msg s0 =
     res_bind (load_from_db s0 (mg_chat_id msg)) (\<lambda>chat.
     res_bind (get_primary_self_addr (config s0)) (\<lambda>self_addr.
       let from_addr = utf8_decode self_addr;
           profile = should_attach_profile_data msg;
           config_displayname = config_text s0 Displayname;
           (from_displayname, sender_displayname) =
             (case Params_get OverrideSenderDisplayname (mg_param msg) of
                Some name \<Rightarrow> (utf8_decode name, Some config_displayname)
              | None \<Rightarrow> (if profile then config_displayname else [], None));
           req_mdn = (\<not> is_self_talk chat \<and> \<not> is_system_message msg
             \<and> (case Params_get_int Reaction (mg_param msg) of Some r \<Rightarrow> r | None \<Rightarrow> 0) = 0
             \<and> should_request_mdns (config s0));
           (self_fp, s) = get_self_fingerprint s0
       in res_bind
            (if is_self_talk chat then Inr (collect_self from_displayname from_addr, s)
             else if is_mailing_list chat then res_bind (collect_list chat) (\<lambda>r. Inr (r, s))
             else case must_have_only_one_recipient msg chat of
               Some fp \<Rightarrow> res_bind fp (\<lambda>fp. res_bind (collect_one s (utf8_decode fp)) (\<lambda>r. Inr (r, s)))
             | None \<Rightarrow> collect_members now msg chat from_addr self_fp s) (\<lambda>((acc, keys), s1).
          case msg_of s1 (mg_id msg) of
            None \<Rightarrow> Inl ''QueryReturnedNoRows''
          | Some row \<Rightarrow>
              if \<not> (a_timestamps acc = [] \<or> length (a_to acc) + length (a_past acc) = length (a_timestamps acc))
              then Inl ''to.len() + past_members.len() != member_timestamps.len()''
              else Inr (\<lparr>mf_from_addr = from_addr, mf_from_displayname = from_displayname,
                mf_sender_displayname = sender_displayname,
                mf_selfstatus = (if profile then config_text s1 Selfstatus else []),
                mf_recipients = a_recipients acc, mf_encryption_pubkeys = keys, mf_to = a_to acc,
                mf_past_members = a_past acc, mf_member_fingerprints = a_fingerprints acc,
                mf_member_timestamps = a_timestamps acc, mf_timestamp = mg_timestamp_sort msg,
                mf_loaded = LoadedMessage chat msg, mf_in_reply_to = m_in_reply_to row,
                mf_references = map trim_angles
                  (split_whitespace (utf8_encode (trim is_whitespace (utf8_decode (m_references row))))),
                mf_req_mdn = req_mdn, mf_last_added_location_id = None, mf_sync_ids_to_delete = None,
                mf_attach_selfavatar = (should_attach_selfavatar now s1 msg \<and> keys \<noteq> None),
                mf_pre_message_mode = ModeNone\<rparr>, s1))))"

definition from_mdn :: "int \<Rightarrow> ctx \<Rightarrow> contact_id \<Rightarrow> string \<Rightarrow> string list \<Rightarrow> MimeFactory res" where
  "from_mdn now s from_id rfc724_mid additional_msg_ids =
     res_bind (get_by_id s from_id) (\<lambda>contact.
     res_bind (get_primary_self_addr (config s)) (\<lambda>self_addr.
     res_bind
       (if from_id = ContactId_SELF then Inr (Some [])
        else if is_key_contact contact then
          (case public_keys s (c_fingerprint contact) of
             Some key \<Rightarrow> res_bind (parse_public_key s key) (\<lambda>_. Inr (Some [(c_addr contact, key)]))
           | None \<Rightarrow> Inr (Some []))
        else Inr None) (\<lambda>keys.
       Inr \<lparr>mf_from_addr = utf8_decode self_addr, mf_from_displayname = [], mf_sender_displayname = None,
         mf_selfstatus = [], mf_recipients = [c_addr contact], mf_encryption_pubkeys = keys,
         mf_to = [([], c_addr contact)], mf_past_members = [], mf_member_fingerprints = [],
         mf_member_timestamps = [], mf_timestamp = now, mf_loaded = LoadedMdn rfc724_mid additional_msg_ids,
         mf_in_reply_to = [], mf_references = [], mf_req_mdn = False, mf_last_added_location_id = None,
         mf_sync_ids_to_delete = None, mf_attach_selfavatar = False, mf_pre_message_mode = ModeNone\<rparr>)))"


section \<open>Recipients are members\<close>

text \<open>Where the mails for a member go.\<close>

definition relays_of :: "member_row \<Rightarrow> ustr list" where
  "relays_of r = (case r_key r of Some (_, Some l) \<Rightarrow> l | _ \<Rightarrow> [r_addr r])"

text \<open>The row \<open>r\<close> accounts for the recipient \<open>a\<close>.\<close>

definition accounts_for :: "member_opts \<Rightarrow> member_acc \<Rightarrow> ustr \<Rightarrow> member_row \<Rightarrow> bool" where
  "accounts_for opts acc a r \<longleftrightarrow>
     r_id r \<noteq> ContactId_SELF \<and> (r_remove r \<le> r_add r \<or> o_remove opts = Some (utf8_encode (r_addr r)))
     \<and> a \<in> set (relays_of r)
     \<and> (case r_key r of Some (k, _) \<Rightarrow> (r_addr r, k) \<in> set (a_keys acc)
        | None \<Rightarrow> o_symmetric opts \<or> a \<in> set (a_missing acc))"

lemma accounts_for_mono:
  "accounts_for opts acc a r \<Longrightarrow> set (a_keys acc) \<subseteq> set (a_keys acc') \<Longrightarrow> set (a_missing acc) \<subseteq> set (a_missing acc')
   \<Longrightarrow> accounts_for opts acc' a r"
  by (auto simp: accounts_for_def split: option.splits)

lemma member_relays_accounts:
  assumes "member_relays opts (r_addr r) r acc = (relays, acc')"
  shows "set (a_keys acc) \<subseteq> set (a_keys acc') \<and> set (a_missing acc) \<subseteq> set (a_missing acc')
     \<and> a_recipients acc' = a_recipients acc
     \<and> (r_id r \<noteq> ContactId_SELF \<longrightarrow> (r_remove r \<le> r_add r \<or> o_remove opts = Some (utf8_encode (r_addr r)))
        \<longrightarrow> (\<forall>a\<in>set relays. accounts_for opts acc' a r))"
  using assms by (auto simp: member_relays_def accounts_for_def relays_of_def split: option.splits if_splits)

lemma member_relays_grows:
  assumes "member_relays opts addr r acc = (relays, acc')"
  shows "set (a_keys acc) \<subseteq> set (a_keys acc') \<and> set (a_missing acc) \<subseteq> set (a_missing acc')
     \<and> a_recipients acc' = a_recipients acc"
  using assms by (auto simp: member_relays_def split: option.splits)

lemma list_member_recipients:
  assumes "list_member opts name addr r acc = Inr acc'" "r_id r \<noteq> ContactId_SELF \<longrightarrow> addr = r_addr r"
    "r_remove r \<le> r_add r"
  shows "set (a_keys acc) \<subseteq> set (a_keys acc') \<and> set (a_missing acc) \<subseteq> set (a_missing acc')
     \<and> (\<forall>a\<in>set (a_recipients acc'). a \<in> set (a_recipients acc) \<or> accounts_for opts acc' a r)"
proof -
  obtain relays acc1 where m: "member_relays opts addr r acc = (relays, acc1)" by fastforce
  have "a_keys acc' = a_keys acc1 \<and> a_missing acc' = a_missing acc1
      \<and> (a_recipients acc' = a_recipients acc1 \<or> r_id r \<noteq> ContactId_SELF \<and> a_recipients acc' = a_recipients acc1 @ relays)"
    using assms(1) m by (auto simp: list_member_def Let_def res_bind_eq_Inr split: if_splits)
  moreover have "accounts_for opts acc' a r" if "r_id r \<noteq> ContactId_SELF" "a \<in> set relays" for a
    using member_relays_accounts [of opts r acc relays acc1] m assms that calculation
    by (auto intro: accounts_for_mono)
  ultimately show ?thesis using member_relays_grows [OF m] by auto
qed

lemma list_past_member_recipients:
  assumes "list_past_member opts name addr r acc = Inr acc'" "r_id r \<noteq> ContactId_SELF \<longrightarrow> addr = r_addr r"
  shows "set (a_keys acc) \<subseteq> set (a_keys acc') \<and> set (a_missing acc) \<subseteq> set (a_missing acc')
     \<and> (\<forall>a\<in>set (a_recipients acc'). a \<in> set (a_recipients acc) \<or> accounts_for opts acc' a r)"
proof -
  obtain relays acc1 where m: "member_relays opts addr r acc = (relays, acc1)" by fastforce
  have "a_keys acc' = a_keys acc \<and> a_missing acc' = a_missing acc \<and> a_recipients acc' = a_recipients acc
      \<or> o_remove opts = Some (utf8_encode addr) \<and> a_keys acc' = a_keys acc1 \<and> a_missing acc' = a_missing acc1
        \<and> (a_recipients acc' = a_recipients acc1 \<or> r_id r \<noteq> ContactId_SELF \<and> a_recipients acc' = a_recipients acc1 @ relays)"
    using assms(1) m by (auto simp: list_past_member_def Let_def res_bind_eq_Inr split: if_splits)
  moreover have "accounts_for opts acc' a r"
    if "r_id r \<noteq> ContactId_SELF" "a \<in> set relays" "o_remove opts = Some (utf8_encode addr)"
      "a_keys acc' = a_keys acc1" "a_missing acc' = a_missing acc1" for a
    using member_relays_accounts [of opts r acc relays acc1] m assms that
    by (auto intro: accounts_for_mono)
  ultimately show ?thesis using member_relays_grows [OF m] by auto
qed

lemma add_row_recipients:
  assumes "add_row opts r acc = Inr acc'"
  shows "set (a_keys acc) \<subseteq> set (a_keys acc') \<and> set (a_missing acc) \<subseteq> set (a_missing acc')
     \<and> (\<forall>a\<in>set (a_recipients acc'). a \<in> set (a_recipients acc) \<or> accounts_for opts acc' a r)"
  using assms list_member_recipients [of opts _ _ r acc acc'] list_past_member_recipients [of opts _ _ r acc acc']
  by (auto simp: add_row_def Let_def split: if_splits)

text \<open>The loop runs over rows that could be read.\<close>

lemma add_rows_eq:
  "add_rows s opts rs acc = Inr acc' \<longleftrightarrow>
     (\<exists>rows. list_all2 (\<lambda>r row. member_row_of s r = Inr row) rs rows \<and> fold_res (add_row opts) rows acc = Inr acc')"
proof (induction rs arbitrary: acc)
  case Nil
  show ?case by (simp add: add_rows_def)
next
  case (Cons r rs)
  have step: "add_rows s opts (r # rs) acc = Inr acc' \<longleftrightarrow>
      (\<exists>row acc1. member_row_of s r = Inr row \<and> add_row opts row acc = Inr acc1 \<and> add_rows s opts rs acc1 = Inr acc')"
    by (auto simp: add_rows_def res_bind_eq_Inr)
  show ?case (is "?l = ?r")
  proof
    assume ?l
    then obtain row acc1 rows where "member_row_of s r = Inr row" "add_row opts row acc = Inr acc1"
      "list_all2 (\<lambda>r row. member_row_of s r = Inr row) rs rows" "fold_res (add_row opts) rows acc1 = Inr acc'"
      unfolding step Cons.IH by blast
    then show ?r by (intro exI [of _ "row # rows"]) simp
  next
    assume ?r
    then show ?l unfolding step Cons.IH list_all2_Cons1 by (auto simp: res_bind_eq_Inr) blast
  qed
qed

lemma list_all2_right: "list_all2 P xs ys \<Longrightarrow> y \<in> set ys \<Longrightarrow> \<exists>x\<in>set xs. P x y"
  by (induction rule: list_all2_induct) auto

lemma add_rows_recipients:
  assumes "fold_res (add_row opts) rows acc = Inr acc'" "a \<in> set (a_recipients acc')"
  shows "a \<in> set (a_recipients acc) \<or> (\<exists>r\<in>set rows. accounts_for opts acc' a r)"
proof -
  have "set (a_keys acc) \<subseteq> set (a_keys acc') \<and> set (a_missing acc) \<subseteq> set (a_missing acc')
     \<and> (\<forall>a\<in>set (a_recipients acc'). a \<in> set (a_recipients acc) \<or> (\<exists>r\<in>set rows. accounts_for opts acc' a r))"
    using assms(1)
  proof (induction rows arbitrary: acc)
    case (Cons r rows)
    then obtain acc1 where a: "add_row opts r acc = Inr acc1" "fold_res (add_row opts) rows acc1 = Inr acc'"
      by (auto simp: res_bind_eq_Inr)
    note IH = Cons.IH [OF a(2)]
    have "accounts_for opts acc' a r" if "accounts_for opts acc1 a r" for a
      using accounts_for_mono [OF that] IH by blast
    then show ?case
      using add_row_recipients [OF a(1)] IH unfolding list.set by blast
  qed simp
  then show ?thesis using assms(2) by blast
qed

lemma finish_members_keeps:
  assumes "finish_members opts acc = Inr acc'"
  shows "a_recipients acc' = a_recipients acc \<and> a_keys acc' = a_keys acc \<and> a_missing acc' = a_missing acc
     \<and> a_ids acc' = a_ids acc"
  using assms
  by (cases "if length (a_to acc) > 1 then position (\<lambda>(_, x). x = o_from_addr opts) (a_to acc) else None")
    (auto simp: finish_members_def res_bind_eq_Inr split: if_splits)

text \<open>Row identifiers of contacts are what the member table refers to.\<close>

lemma member_row_of_eq:
  "member_row_of s r = Inr row \<Longrightarrow> \<exists>c. contact_of s (cc_contact r) = Some c \<and> r_id row = cc_contact r
     \<and> r_addr row = c_addr c \<and> r_authname row = c_authname c \<and> r_fingerprint row = c_fingerprint c
     \<and> r_add row = add_timestamp r \<and> r_remove row = remove_timestamp r
     \<and> (case r_key row of None \<Rightarrow> public_keys s (c_fingerprint c) = None
        | Some (k, relays) \<Rightarrow> public_keys s (c_fingerprint c) = Some k \<and> parse_public_key s k = Inr relays)"
  by (auto simp: member_row_of_def res_bind_eq_Inr contact_of_def dest: sel_one_Some split: option.splits)

lemma get_self_fingerprint_keeps:
  assumes "get_self_fingerprint s = (fp, s')"
  shows "contacts s' = contacts s" "chats_contacts s' = chats_contacts s" "chats s' = chats s" "public_keys s' = public_keys s"
    "parse_public_key s' = parse_public_key s" "lower s' = lower s" "msgs s' = msgs s" "config s' = config s"
  using assms by (auto simp: get_self_fingerprint_def split: option.splits)

text \<open>What \<open>from_msg\<close> did in a chat with members.\<close>

lemma from_msg_members:
  assumes "from_msg now msg s = Inr (mf, s')" "load_from_db s (mg_chat_id msg) = Inr chat"
    "\<not> is_self_talk chat" "\<not> is_mailing_list chat" "must_have_only_one_recipient msg chat = None"
  obtains self_addr self_fp s0 enc acc0 acc1 acc opts
  where "get_primary_self_addr (config s) = Inr self_addr" "get_self_fingerprint s = (self_fp, s0)"
    "msg_is_encrypted s0 msg chat = Inr enc" "opts = member_opts_of now s0 msg chat enc (utf8_decode self_addr) self_fp"
    "add_rows s0 opts (chat_rows s0 (mg_chat_id msg) (ch_type chat = Group)) member_acc0 = Inr acc0"
    "finish_members opts acc0 = Inr acc1" "encryption_keys opts acc1 = Inr (acc, mf_encryption_pubkeys mf)"
    "mf_recipients mf = a_recipients acc" "mf_to mf = a_to acc" "mf_past_members mf = a_past acc"
    "mf_member_fingerprints mf = a_fingerprints acc" "mf_member_timestamps mf = a_timestamps acc"
    "s' = scaleup_recipients msg chat (a_ids acc1) s0"
proof -
  obtain self_addr where 1: "get_primary_self_addr (config s) = Inr self_addr"
    using assms(1,2) by (auto simp: from_msg_def res_bind_eq_Inr)
  obtain self_fp s0 where 2: "get_self_fingerprint s = (self_fp, s0)" by fastforce
  obtain acc s1 where 3: "collect_members now msg chat (utf8_decode self_addr) self_fp s0
        = Inr ((acc, mf_encryption_pubkeys mf), s1)"
      "mf_recipients mf = a_recipients acc" "mf_to mf = a_to acc" "mf_past_members mf = a_past acc"
      "mf_member_fingerprints mf = a_fingerprints acc" "mf_member_timestamps mf = a_timestamps acc" "s' = s1"
    using assms 1 2
    by (auto simp: from_msg_def res_bind_eq_Inr Let_def split_beta split: option.splits if_splits)
  show thesis
    using 3 that [OF 1 2 _ refl] by (auto simp: collect_members_def res_bind_eq_Inr Let_def)
qed

lemma encryption_keys_recipients:
  assumes "encryption_keys opts acc = Inr (acc', keys)" "a \<in> set (a_recipients acc')"
  shows "a \<in> set (a_recipients acc)"
    "keys = Some ks \<Longrightarrow> \<not> o_symmetric opts \<Longrightarrow> ks = a_keys acc \<and> a \<notin> set (a_missing acc)"
  using assms by (auto simp: encryption_keys_def split: if_splits)

lemma from_msg_self_talk:
  "from_msg now msg s = Inr (mf, s') \<Longrightarrow> load_from_db s (mg_chat_id msg) = Inr chat \<Longrightarrow> is_self_talk chat
   \<Longrightarrow> mf_recipients mf = [] \<and> mf_encryption_pubkeys mf = Some []"
  by (auto simp: from_msg_def res_bind_eq_Inr Let_def collect_self_def member_acc0_def split_beta
      split: option.splits if_splits)

text \<open>C32: In a chat with members, a mail goes only to addresses of current members other than the user, to the relays
  named in their keys, or to the member that a removal message names.  If the mail is encrypted with the keys of the
  members, each address it goes to belongs to a member whose key is among the encryption keys.\<close>

theorem recipients_are_members:
  assumes "from_msg now msg s = Inr (mf, s')" "load_from_db s (mg_chat_id msg) = Inr chat"
    "\<not> is_mailing_list chat" "must_have_only_one_recipient msg chat = None" "a \<in> set (mf_recipients mf)"
  shows "\<exists>r c. r \<in> set (chats_contacts s) \<and> cc_chat r = mg_chat_id msg \<and> cc_contact r \<noteq> ContactId_SELF
     \<and> contact_of s (cc_contact r) = Some c
     \<and> (is_member_row r
        \<or> Params_get_cmd (mg_param msg) = MemberRemovedFromGroup \<and> Params_get Arg (mg_param msg) = Some (utf8_encode (c_addr c)))
     \<and> (a = c_addr c \<or> (\<exists>k l. public_keys s (c_fingerprint c) = Some k \<and> parse_public_key s k = Inr (Some l) \<and> a \<in> set l))
     \<and> (\<forall>keys. mf_encryption_pubkeys mf = Some keys \<and> \<not> should_encrypt_symmetrically msg chat
          \<longrightarrow> (\<exists>k. public_keys s (c_fingerprint c) = Some k \<and> (c_addr c, k) \<in> set keys))"
proof -
  have "\<not> is_self_talk chat" using from_msg_self_talk [OF assms(1,2)] assms(5) by auto
  from from_msg_members [OF assms(1,2) this assms(3,4)] obtain self_addr self_fp s0 enc acc0 acc1 acc opts
    where d: "get_self_fingerprint s = (self_fp, s0)"
      "opts = member_opts_of now s0 msg chat enc (utf8_decode self_addr) self_fp"
      "add_rows s0 opts (chat_rows s0 (mg_chat_id msg) (ch_type chat = Group)) member_acc0 = Inr acc0"
      "finish_members opts acc0 = Inr acc1" "encryption_keys opts acc1 = Inr (acc, mf_encryption_pubkeys mf)"
      "mf_recipients mf = a_recipients acc" .
  note same = get_self_fingerprint_keeps [OF d(1)]
  have "a \<in> set (a_recipients acc)" using assms(5) d(6) by simp
  note e = encryption_keys_recipients [OF d(5) this]
  have a0: "a \<in> set (a_recipients acc0)" using e(1) finish_members_keeps [OF d(4)] by simp
  obtain rows where f: "list_all2 (\<lambda>r row. member_row_of s0 r = Inr row)
      (chat_rows s0 (mg_chat_id msg) (ch_type chat = Group)) rows" "fold_res (add_row opts) rows member_acc0 = Inr acc0"
    using d(3) unfolding add_rows_eq by blast
  obtain row where rows: "list_all2 (\<lambda>r row. member_row_of s0 r = Inr row)
      (chat_rows s0 (mg_chat_id msg) (ch_type chat = Group)) rows"
      "row \<in> set rows" "accounts_for opts acc0 a row"
    using add_rows_recipients [OF f(2) a0] f(1) by (auto simp: member_acc0_def)
  obtain r where r: "r \<in> set (chat_rows s0 (mg_chat_id msg) (ch_type chat = Group))" "member_row_of s0 r = Inr row"
    using list_all2_right [OF rows(1,2)] by blast
  obtain c where c: "contact_of s (cc_contact r) = Some c" "r_id row = cc_contact r" "r_addr row = c_addr c"
      "r_add row = add_timestamp r" "r_remove row = remove_timestamp r"
      "case r_key row of None \<Rightarrow> public_keys s (c_fingerprint c) = None
        | Some (k, relays) \<Rightarrow> public_keys s (c_fingerprint c) = Some k \<and> parse_public_key s k = Inr relays"
    using member_row_of_eq [OF r(2)] unfolding contact_of_def same by blast
  have "r \<in> set (chats_contacts s) \<and> cc_chat r = mg_chat_id msg" using r(1) same by (simp add: chat_rows_def)
  moreover have "cc_contact r \<noteq> ContactId_SELF" using rows(3) c(2) by (simp add: accounts_for_def)
  moreover have "is_member_row r \<or> Params_get_cmd (mg_param msg) = MemberRemovedFromGroup
      \<and> Params_get Arg (mg_param msg) = Some (utf8_encode (c_addr c))"
    using rows(3) c by (auto simp: accounts_for_def d(2) member_opts_of_def is_member_row_def split: if_splits)
  moreover have "a = c_addr c \<or> (\<exists>k l. public_keys s (c_fingerprint c) = Some k \<and> parse_public_key s k = Inr (Some l) \<and> a \<in> set l)"
    using rows(3) c(3,6) by (auto simp: accounts_for_def relays_of_def split: option.splits)
  moreover have "\<exists>k. public_keys s (c_fingerprint c) = Some k \<and> (c_addr c, k) \<in> set keys"
    if "mf_encryption_pubkeys mf = Some keys" "\<not> should_encrypt_symmetrically msg chat" for keys
    using that e(2) [of keys] rows(3) c(3,6) finish_members_keeps [OF d(4)]
    by (auto simp: accounts_for_def d(2) member_opts_of_def split: option.splits)
  ultimately show ?thesis using c(1) by blast
qed

text \<open>A group with two other members, one of them with a key that names a relay.\<close>

definition group_msg :: Message where
  "group_msg = Message_default\<lparr>mg_id := 12, mg_chat_id := 11, mg_viewtype := Text\<rparr>"

definition group_ctx :: ctx where
  "group_ctx = ctx0\<lparr>config := config_state0\<lparr>config_db := [''configured_addr'' \<mapsto> ''me'']\<rparr>,
     self_fingerprint := Some ([77]),
     contacts := [contact_row0 1, (contact_row0 10)\<lparr>c_addr := [98], c_fingerprint := [66]\<rparr>,
                  (contact_row0 13)\<lparr>c_addr := [101], c_fingerprint := [69]\<rparr>],
     chats := [(chat_row0 11 Group)\<lparr>ch_grpid := [71]\<rparr>],
     chats_contacts := [new_add 11 1 5, new_add 11 10 6, new_add 11 13 7],
     msgs := [msg_row0 12], public_keys := [[66] \<mapsto> ''key''],
     parse_public_key := (\<lambda>k. Inr (Some [[98, 82]]))\<rparr>"

definition group_chat :: chat_row where
  "group_chat = (chat_row0 11 Group)\<lparr>ch_grpid := [71]\<rparr>"

lemma Params_exists_new [simp]: "\<not> Params_exists k Params_new"
  by (simp add: Params_exists_def Params_new_def bt_empty_def)

lemma group_load: "load_from_db group_ctx 11 = Inr group_chat"
  by (simp add: load_from_db_def group_ctx_def group_chat_def chat_row_of_def chat_row0_def is_self_talk_def is_device_talk_def
      Let_def)

lemma group_addr: "get_primary_self_addr (config group_ctx) = Inr ''me''"
  by (simp add: get_primary_self_addr_def get_config_def get_config_opt_def group_ctx_def raw_config_def get_raw_config_def
      config_state0_def Let_def)

lemma group_kind: "\<not> is_self_talk group_chat" "\<not> is_mailing_list group_chat" "must_have_only_one_recipient group_msg group_chat = None"
  "\<not> should_encrypt_symmetrically group_msg group_chat" "\<not> should_hide_recipients group_msg group_chat"
  by (simp_all add: group_chat_def is_self_talk_def is_mailing_list_def must_have_only_one_recipient_def chat_row0_def
      should_encrypt_symmetrically_def should_hide_recipients_def should_encrypt_with_broadcast_secret_def)

lemma group_params: "mg_param group_msg = Params_new" "mg_chat_id group_msg = 11" "mg_id group_msg = 12"
  by (simp_all add: group_msg_def Message_default_def)

lemma group_rows: "chat_rows group_ctx 11 True = [new_add 11 13 7, new_add 11 10 6, new_add 11 1 5]"
  by (simp add: chat_rows_def group_ctx_def new_add_def)

lemma group_member_rows:
  "member_row_of group_ctx (new_add 11 13 7) = Inr \<lparr>r_id = 13, r_authname = [], r_addr = [101], r_fingerprint = [69],
     r_add = 7, r_remove = 0, r_key = None\<rparr>"
  "member_row_of group_ctx (new_add 11 10 6) = Inr \<lparr>r_id = 10, r_authname = [], r_addr = [98], r_fingerprint = [66],
     r_add = 6, r_remove = 0, r_key = Some (''key'', Some [[98, 82]])\<rparr>"
  "member_row_of group_ctx (new_add 11 1 5) = Inr \<lparr>r_id = 1, r_authname = [], r_addr = [], r_fingerprint = [],
     r_add = 5, r_remove = 0, r_key = None\<rparr>"
  by (simp_all add: member_row_of_def group_ctx_def new_add_def contact_of_def contact_row0_def)

lemma utf8_decode_me: "utf8_decode ''me'' = [109, 101]"
  using utf8_roundtrip [of "[109, 101]"] utf8_encode_U [of "''me''"] by (simp add: U_def)

lemma group_members:
  "\<exists>r s'. collect_members 100 group_msg group_chat [109, 101] [77] group_ctx = Inr (r, s') \<and> a_recipients (fst r) = [[98, 82]]
     \<and> length (a_to (fst r)) + length (a_past (fst r)) = length (a_timestamps (fst r)) \<and> msg_of s' 12 = Some (msg_row0 12)"
proof -
  have enc: "msg_is_encrypted group_ctx group_msg group_chat = Inr True"
    by (simp add: msg_is_encrypted_def group_params Params_get_bool_def Params_get_int_def is_encrypted_def group_kind)
      (simp add: group_chat_def chat_row0_def)
  have ty: "ch_type group_chat = Group" by (simp add: group_chat_def chat_row0_def)
  define opts where "opts = member_opts_of 100 group_ctx group_msg group_chat True [109, 101] [77]"
  have o: "o_lower opts = map to_ascii_lowercase" "o_from_addr opts = [109, 101]" "o_self_fingerprint opts = [77]" "\<not> o_undisclosed opts"
      "o_encrypted opts" "\<not> o_symmetric opts"
    by (simp_all add: opts_def member_opts_of_def group_kind group_ctx_def ctx0_def)
  have msg: "msg_of (scaleup_recipients m c ids group_ctx) 12 = Some (msg_row0 12)" for m c ids
    by (simp add: msg_of_def scaleup_recipients_def scaleup_origin_def Let_def group_ctx_def msg_row0_def)
  show ?thesis
    unfolding collect_members_def enc res_bind_simps Let_def ty opts_def [symmetric] group_params group_rows
    by (simp add: group_rows add_rows_def group_member_rows [simplified] add_row_def list_member_def member_relays_def o
      recipients_contain_addr_def push_fingerprint_def to_ascii_lowercase_def member_acc0_def finish_members_def vec_remove_def
      encryption_keys_def Let_def msg)
qed

lemma group_run: "\<exists>mf s'. from_msg 100 group_msg group_ctx = Inr (mf, s') \<and> mf_recipients mf = [[98, 82]]"
proof -
  have fp: "get_self_fingerprint group_ctx = ([77], group_ctx)"
    by (simp add: get_self_fingerprint_def group_ctx_def)
  obtain acc keys s' where m: "collect_members 100 group_msg group_chat [109, 101] [77] group_ctx = Inr ((acc, keys), s')"
      "a_recipients acc = [[98, 82]]" "length (a_to acc) + length (a_past acc) = length (a_timestamps acc)" "msg_of s' 12 = Some (msg_row0 12)"
    using group_members by fastforce
  show ?thesis
    by (simp add: from_msg_def group_params group_load group_addr Let_def fp group_kind utf8_decode_me m)
qed

theorem recipients_are_members_witness:
  "\<exists>mf s'. from_msg 100 group_msg group_ctx = Inr (mf, s') \<and> mf_recipients mf = [[98, 82]]
     \<and> (\<exists>r c. r \<in> set (chats_contacts group_ctx) \<and> cc_contact r \<noteq> ContactId_SELF \<and> contact_of group_ctx (cc_contact r) = Some c
          \<and> (is_member_row r \<or> Params_get_cmd (mg_param group_msg) = MemberRemovedFromGroup))"
proof -
  obtain mf s' where r: "from_msg 100 group_msg group_ctx = Inr (mf, s')" "mf_recipients mf = [[98, 82]]"
    using group_run by blast
  show ?thesis
    using r recipients_are_members [of 100 group_msg group_ctx mf s' group_chat "[98, 82]"] group_load group_kind group_params
    by auto
qed

end
