(* ===== verification/MemberHeaders.thy ===== *)
theory MemberHeaders
  imports MimeFactory
begin

text \<open>
  What the member headers of an outgoing mail say, and what they do to the member table of the device that
  receives them: the lists that \<open>from_msg\<close> produces are, entry by entry, the rows of the member table of the sender, and
  \<open>update_chats_contacts_timestamps\<close> merges each of these rows into the table of the receiver.
\<close>

section \<open>The lists of the loop\<close>

definition row_addr :: "member_opts \<Rightarrow> member_row \<Rightarrow> ustr" where
  "row_addr opts r = (if r_id r = ContactId_SELF then o_from_addr opts else r_addr r)"

definition row_entry :: "member_opts \<Rightarrow> member_row \<Rightarrow> ustr \<times> ustr" where
  "row_entry opts r = (if o_profile opts then r_authname r else [], row_addr opts r)"

definition row_fingerprint :: "member_opts \<Rightarrow> member_row \<Rightarrow> ustr" where
  "row_fingerprint opts r = (if r_fingerprint r \<noteq> [] then r_fingerprint r else o_self_fingerprint opts)"

definition row_is_member :: "member_row \<Rightarrow> bool" where
  "row_is_member r \<longleftrightarrow> r_remove r \<le> r_add r"

definition row_is_past :: "member_opts \<Rightarrow> member_row \<Rightarrow> bool" where
  "row_is_past opts r \<longleftrightarrow> \<not> r_remove r \<le> r_add r \<and> sat_i64 (r_remove r + 60 * 24 * 3600) > o_now opts"

text \<open>An entry for the row is not in the lists yet.\<close>

definition row_is_new :: "member_opts \<Rightarrow> member_acc \<Rightarrow> member_row \<Rightarrow> bool" where
  "row_is_new opts acc r \<longleftrightarrow> \<not> recipients_contain_addr (o_lower opts) (a_to acc) (row_addr opts r)
     \<and> \<not> recipients_contain_addr (o_lower opts) (a_past acc) (row_addr opts r)"

lemma member_relays_lists:
  "member_relays opts addr r acc = (relays, acc') \<Longrightarrow> a_to acc' = a_to acc \<and> a_timestamps acc' = a_timestamps acc
     \<and> a_past acc' = a_past acc \<and> a_past_timestamps acc' = a_past_timestamps acc \<and> a_fingerprints acc' = a_fingerprints acc
     \<and> a_past_fingerprints acc' = a_past_fingerprints acc"
  by (auto simp: member_relays_def split: option.splits if_splits)

lemma push_fingerprint_key:
  "o_encrypted opts \<Longrightarrow> r_fingerprint r \<noteq> [] \<or> r_id r = ContactId_SELF
   \<Longrightarrow> push_fingerprint opts r fps = Inr (fps @ [row_fingerprint opts r])"
  by (auto simp: push_fingerprint_def row_fingerprint_def)

lemma add_row_eq:
  "add_row opts r acc =
     (if row_is_member r then list_member opts (fst (row_entry opts r)) (row_addr opts r) r acc
      else if row_is_past opts r then list_past_member opts (fst (row_entry opts r)) (row_addr opts r) r acc
      else Inr acc)"
  by (simp add: add_row_def row_is_member_def row_is_past_def row_entry_def row_addr_def)

lemma row_entry_eq: "row_entry opts r = (fst (row_entry opts r), row_addr opts r)"
  by (simp add: row_entry_def)

lemma list_member_lists:
  assumes "list_member opts name addr r acc = Inr acc'" "\<not> o_undisclosed opts"
    "\<not> recipients_contain_addr (o_lower opts) (a_to acc) addr"
  shows "a_to acc' = a_to acc @ [(name, addr)] \<and> a_timestamps acc' = a_timestamps acc @ [r_add r]
     \<and> a_past acc' = a_past acc \<and> a_past_timestamps acc' = a_past_timestamps acc
     \<and> push_fingerprint opts r (a_fingerprints acc) = Inr (a_fingerprints acc')
     \<and> a_past_fingerprints acc' = a_past_fingerprints acc"
proof -
  obtain relays acc1 where m: "member_relays opts addr r acc = (relays, acc1)" by fastforce
  show ?thesis
    using assms m member_relays_lists [OF m]
    by (auto simp: list_member_def Let_def res_bind_eq_Inr split: if_splits)
qed

lemma list_past_member_lists:
  assumes "list_past_member opts name addr r acc = Inr acc'" "\<not> o_undisclosed opts"
    "\<not> recipients_contain_addr (o_lower opts) (a_past acc) addr"
  shows "a_to acc' = a_to acc \<and> a_timestamps acc' = a_timestamps acc
     \<and> a_past acc' = a_past acc @ [(name, addr)] \<and> a_past_timestamps acc' = a_past_timestamps acc @ [r_remove r]
     \<and> a_fingerprints acc' = a_fingerprints acc
     \<and> push_fingerprint opts r (a_past_fingerprints acc) = Inr (a_past_fingerprints acc')"
proof -
  obtain relays acc1 where m: "member_relays opts addr r acc = (relays, acc1)" by fastforce
  show ?thesis
    using assms m member_relays_lists [OF m]
    by (auto simp: list_past_member_def Let_def res_bind_eq_Inr split: if_splits)
qed

text \<open>One row appends one entry to the list it belongs to.\<close>

lemma add_row_lists:
  assumes "add_row opts r acc = Inr acc'" "\<not> o_undisclosed opts" "row_is_new opts acc r"
  shows "a_to acc' = a_to acc @ map (row_entry opts) (filter row_is_member [r])
     \<and> a_timestamps acc' = a_timestamps acc @ map r_add (filter row_is_member [r])
     \<and> a_past acc' = a_past acc @ map (row_entry opts) (filter (row_is_past opts) [r])
     \<and> a_past_timestamps acc' = a_past_timestamps acc @ map r_remove (filter (row_is_past opts) [r])"
    "o_encrypted opts \<Longrightarrow> r_fingerprint r \<noteq> [] \<or> r_id r = ContactId_SELF \<Longrightarrow>
       a_fingerprints acc' = a_fingerprints acc @ map (row_fingerprint opts) (filter row_is_member [r])
       \<and> a_past_fingerprints acc' = a_past_fingerprints acc @ map (row_fingerprint opts) (filter (row_is_past opts) [r])"
proof -
  have "row_is_past opts r \<Longrightarrow> \<not> row_is_member r" by (simp add: row_is_past_def row_is_member_def)
  note f = add_row_eq [of opts r acc] assms this row_entry_eq [of opts r] list_member_lists [of opts _ _ r acc acc']
    list_past_member_lists [of opts _ _ r acc acc'] push_fingerprint_key [of opts r]
  show "a_to acc' = a_to acc @ map (row_entry opts) (filter row_is_member [r])
     \<and> a_timestamps acc' = a_timestamps acc @ map r_add (filter row_is_member [r])
     \<and> a_past acc' = a_past acc @ map (row_entry opts) (filter (row_is_past opts) [r])
     \<and> a_past_timestamps acc' = a_past_timestamps acc @ map r_remove (filter (row_is_past opts) [r])"
    using f by (auto simp: row_is_new_def split: if_splits)
  show "a_fingerprints acc' = a_fingerprints acc @ map (row_fingerprint opts) (filter row_is_member [r])
       \<and> a_past_fingerprints acc' = a_past_fingerprints acc @ map (row_fingerprint opts) (filter (row_is_past opts) [r])"
    if "o_encrypted opts" "r_fingerprint r \<noteq> [] \<or> r_id r = ContactId_SELF"
    using f that by (auto simp: row_is_new_def split: if_splits)
qed

lemma add_row_keeps_new:
  assumes "add_row opts r acc = Inr acc'" "\<not> o_undisclosed opts" "row_is_new opts acc r" "row_is_new opts acc r'"
    "o_lower opts (row_addr opts r') \<noteq> o_lower opts (row_addr opts r)"
  shows "row_is_new opts acc' r'"
  using add_row_lists(1) [OF assms(1,2,3)] assms(4,5) row_entry_eq [of opts r]
  by (auto simp: row_is_new_def recipients_contain_addr_def)

text \<open>With distinct addresses, the loop lists all members and all recently removed ones.\<close>

lemma rows_lists:
  assumes "fold_res (add_row opts) rows acc = Inr acc'" "\<not> o_undisclosed opts"
    "distinct (map (\<lambda>r. o_lower opts (row_addr opts r)) rows)" "\<forall>r\<in>set rows. row_is_new opts acc r"
  shows "a_to acc' = a_to acc @ map (row_entry opts) (filter row_is_member rows)
     \<and> a_timestamps acc' = a_timestamps acc @ map r_add (filter row_is_member rows)
     \<and> a_past acc' = a_past acc @ map (row_entry opts) (filter (row_is_past opts) rows)
     \<and> a_past_timestamps acc' = a_past_timestamps acc @ map r_remove (filter (row_is_past opts) rows)
     \<and> (o_encrypted opts \<longrightarrow> (\<forall>r\<in>set rows. r_fingerprint r \<noteq> [] \<or> r_id r = ContactId_SELF) \<longrightarrow>
         a_fingerprints acc' = a_fingerprints acc @ map (row_fingerprint opts) (filter row_is_member rows)
         \<and> a_past_fingerprints acc' = a_past_fingerprints acc @ map (row_fingerprint opts) (filter (row_is_past opts) rows))"
  using assms
proof (induction rows arbitrary: acc)
  case (Cons r rows)
  then obtain acc1 where a: "add_row opts r acc = Inr acc1" "fold_res (add_row opts) rows acc1 = Inr acc'"
    by (auto simp: res_bind_eq_Inr)
  have new: "row_is_new opts acc r" using Cons.prems by simp
  have "o_lower opts (row_addr opts r) \<notin> (\<lambda>r. o_lower opts (row_addr opts r)) ` set rows" using Cons.prems(3) by simp
  then have "\<forall>r'\<in>set rows. row_is_new opts acc1 r'"
    using add_row_keeps_new [OF a(1) Cons.prems(2) new] Cons.prems(4) by (metis imageI list.set_intros(2))
  note IH = Cons.IH [OF a(2) Cons.prems(2) _ this]
  show ?case
    using IH Cons.prems(3) add_row_lists [OF a(1) Cons.prems(2) new] by simp
qed simp

section \<open>Leaving out the own address\<close>

lemma position_map: "position P (map f xs) = position (\<lambda>x. P (f x)) xs"
  by (induction xs) simp_all

lemma position_None: "position P xs = None \<Longrightarrow> filter (\<lambda>x. \<not> P x) xs = xs"
  by (induction xs) (auto split: if_splits)

lemma position_remove:
  assumes "position (\<lambda>x. f x = a) xs = Some p" "distinct (map f xs)"
  shows "vec_remove p (map g xs) = Inr (map g (filter (\<lambda>x. f x \<noteq> a) xs))"
  using assms
proof (induction xs arbitrary: p)
  case (Cons x xs)
  show ?case
  proof (cases "f x = a")
    case True
    with Cons.prems have "p = 0" "\<forall>y\<in>set xs. f y \<noteq> a" by (auto simp: image_iff)
    then have "p = 0" "filter (\<lambda>x. f x \<noteq> a) xs = xs" by simp_all
    with True show ?thesis by (simp add: vec_remove_def)
  next
    case False
    with Cons.prems obtain q where "p = Suc q" "position (\<lambda>x. f x = a) xs = Some q" by auto
    with Cons.IH [of q] Cons.prems False show ?thesis by (auto simp: vec_remove_def split: if_splits)
  qed
qed simp

definition listed_members :: "member_opts \<Rightarrow> member_row list \<Rightarrow> member_row list" where
  "listed_members opts rows =
     (let ms = filter row_is_member rows
      in if length ms > 1 then filter (\<lambda>r. row_addr opts r \<noteq> o_from_addr opts) ms else ms)"

lemma finish_lists:
  assumes "finish_members opts acc = Inr acc'" "distinct (map (row_addr opts) rows)"
    "a_to acc = map (row_entry opts) (filter row_is_member rows)" "a_timestamps acc = map r_add (filter row_is_member rows)"
  shows "a_to acc' = map (row_entry opts) (listed_members opts rows)
     \<and> a_timestamps acc' = map r_add (listed_members opts rows) @ a_past_timestamps acc \<and> a_past acc' = a_past acc
     \<and> (o_encrypted opts \<longrightarrow> a_fingerprints acc = map (row_fingerprint opts) (filter row_is_member rows) \<longrightarrow>
         a_fingerprints acc' = map (row_fingerprint opts) (listed_members opts rows) @ a_past_fingerprints acc)"
proof -
  let ?ms = "filter row_is_member rows"
  let ?p = "if length ?ms > 1 then position (\<lambda>r. row_addr opts r = o_from_addr opts) ?ms else None"
  have p: "(if length (a_to acc) > 1 then position (\<lambda>(_, x). x = o_from_addr opts) (a_to acc) else None) = ?p"
    by (simp add: assms(3) position_map row_entry_def)
  have d: "distinct (map (row_addr opts) ?ms)" using assms(2) by (simp add: distinct_map_filter)
  show ?thesis
  proof (cases ?p)
    case None
    then have "listed_members opts rows = ?ms"
      using position_None [of "\<lambda>r. row_addr opts r = o_from_addr opts" ?ms]
      by (auto simp: listed_members_def Let_def simp del: filter_filter split: if_splits)
    then show ?thesis
      using assms None p by (auto simp: finish_members_def simp del: filter_filter split: if_splits)
  next
    case (Some q)
    then have pos: "length ?ms > 1" "position (\<lambda>r. row_addr opts r = o_from_addr opts) ?ms = Some q"
      by (auto split: if_splits)
    then have l: "listed_members opts rows = filter (\<lambda>r. row_addr opts r \<noteq> o_from_addr opts) ?ms"
      by (simp add: listed_members_def)
    note v = position_remove [OF pos(2) d]
    show ?thesis
      using assms Some p v [of "row_entry opts"] v [of r_add] v [of "row_fingerprint opts"]
      by (auto simp: finish_members_def res_bind_eq_Inr l simp del: filter_filter split: if_splits)
  qed
qed


section \<open>The lists in terms of the member table\<close>

definition header_addr :: "ctx \<Rightarrow> ustr \<Rightarrow> cc_row \<Rightarrow> ustr" where
  "header_addr s self_addr r =
     (if cc_contact r = ContactId_SELF then self_addr
      else case contact_of s (cc_contact r) of Some c \<Rightarrow> c_addr c | None \<Rightarrow> [])"

definition past_row :: "int \<Rightarrow> cc_row \<Rightarrow> bool" where
  "past_row now r \<longleftrightarrow> \<not> is_member_row r \<and> sat_i64 (remove_timestamp r + 60 * 24 * 3600) > now"

definition listed_rows :: "ctx \<Rightarrow> ustr \<Rightarrow> cc_row list \<Rightarrow> cc_row list" where
  "listed_rows s self_addr rs =
     (let ms = filter is_member_row rs
      in if length ms > 1 then filter (\<lambda>r. header_addr s self_addr r \<noteq> self_addr) ms else ms)"

lemma distinct_map_inner: "distinct (map (\<lambda>x. f (g x)) xs) \<Longrightarrow> distinct (map g xs)"
  by (induction xs) auto

lemma rows_of_map:
  assumes "list_all2 (\<lambda>r row. member_row_of s r = Inr row) rs rows"
  obtains g where "rows = map g rs" "\<forall>r\<in>set rs. member_row_of s r = Inr (g r)"
proof -
  have "rows = map (\<lambda>r. projr (member_row_of s r)) rs \<and> (\<forall>r\<in>set rs. member_row_of s r = Inr (projr (member_row_of s r)))"
    using assms by (induction rule: list_all2_induct) auto
  then show thesis using that by blast
qed

lemma member_row_of_header:
  assumes "member_row_of s r = Inr row" "o_from_addr opts = self_addr" "o_now opts = now"
  shows "row_addr opts row = header_addr s self_addr r" "row_is_member row = is_member_row r"
    "row_is_past opts row = past_row now r" "r_add row = add_timestamp r" "r_remove row = remove_timestamp r"
  using member_row_of_eq [OF assms(1)] assms(2,3)
  by (auto simp: row_addr_def header_addr_def row_is_member_def is_member_row_def row_is_past_def past_row_def)

lemma listed_members_map:
  assumes "\<forall>r\<in>set rs. member_row_of s r = Inr (g r)" "o_from_addr opts = self_addr" "o_now opts = now"
  shows "listed_members opts (map g rs) = map g (listed_rows s self_addr rs)"
    "filter (row_is_past opts) (map g rs) = map g (filter (past_row now) rs)"
    "map (row_addr opts) (map g rs) = map (header_addr s self_addr) rs"
proof -
  note h = member_row_of_header [OF _ assms(2,3)]
  have m: "filter row_is_member (map g rs) = map g (filter is_member_row rs)"
    using assms(1) h(2) by (auto simp: filter_map o_def intro!: arg_cong [of _ _ "map g"] filter_cong)
  show "filter (row_is_past opts) (map g rs) = map g (filter (past_row now) rs)"
    using assms(1) h(3) by (auto simp: filter_map o_def intro!: arg_cong [of _ _ "map g"] filter_cong)
  show "map (row_addr opts) (map g rs) = map (header_addr s self_addr) rs"
    using assms(1) h(1) by simp
  have "filter (\<lambda>r. row_addr opts r \<noteq> o_from_addr opts) (map g (filter is_member_row rs))
      = map g (filter (\<lambda>r. header_addr s self_addr r \<noteq> self_addr) (filter is_member_row rs))"
    using assms h(1) by (auto simp: filter_map o_def intro!: arg_cong [of _ _ "map g"] filter_cong)
  then show "listed_members opts (map g rs) = map g (listed_rows s self_addr rs)"
    unfolding listed_members_def listed_rows_def m Let_def by simp
qed

lemma member_headers_exact:
  assumes "from_msg now msg s = Inr (mf, s')" "load_from_db s (mg_chat_id msg) = Inr chat" "ch_type chat = Group"
    "\<not> is_self_talk chat" "get_primary_self_addr (config s) = Inr self"
    "distinct (map (\<lambda>r. lower s (header_addr s (utf8_decode self) r)) (chat_rows s (mg_chat_id msg) True))"
  defines "rs \<equiv> chat_rows s (mg_chat_id msg) True"
  defines "ls \<equiv> listed_rows s (utf8_decode self) rs" and "ps \<equiv> filter (past_row now) rs"
  shows "map snd (mf_to mf) = map (header_addr s (utf8_decode self)) ls"
    "map snd (mf_past_members mf) = map (header_addr s (utf8_decode self)) ps"
    "mf_member_timestamps mf = map add_timestamp ls @ map remove_timestamp ps"
proof -
  have "\<not> is_mailing_list chat" "must_have_only_one_recipient msg chat = None" "\<not> should_hide_recipients msg chat"
    using assms(3)
    by (simp_all add: is_mailing_list_def must_have_only_one_recipient_def should_hide_recipients_def
        should_encrypt_with_broadcast_secret_def)
  note kind = this
  from from_msg_members [OF assms(1,2,4) kind(1,2)] obtain self_addr self_fp s0 enc acc0 acc1 acc opts
    where d: "get_primary_self_addr (config s) = Inr self_addr" "get_self_fingerprint s = (self_fp, s0)"
      "opts = member_opts_of now s0 msg chat enc (utf8_decode self_addr) self_fp"
      "add_rows s0 opts (chat_rows s0 (mg_chat_id msg) (ch_type chat = Group)) member_acc0 = Inr acc0"
      "finish_members opts acc0 = Inr acc1" "encryption_keys opts acc1 = Inr (acc, mf_encryption_pubkeys mf)"
      "mf_to mf = a_to acc" "mf_past_members mf = a_past acc" "mf_member_timestamps mf = a_timestamps acc" .
  note same = get_self_fingerprint_keeps [OF d(2)]
  have o: "o_from_addr opts = utf8_decode self" "o_now opts = now" "o_lower opts = lower s" "\<not> o_undisclosed opts"
    using assms(5) d(1,3) kind(3) same by (simp_all add: member_opts_of_def)
  have acc: "a_to acc = a_to acc1" "a_past acc = a_past acc1" "a_timestamps acc = a_timestamps acc1"
    using d(6) by (auto simp: encryption_keys_def split: if_splits)
  have h0: "header_addr s0 = header_addr s" using same by (simp add: header_addr_def contact_of_def fun_eq_iff)
  have l0: "listed_rows s0 = listed_rows s" by (intro ext) (simp only: listed_rows_def h0)
  have "chat_rows s0 (mg_chat_id msg) (ch_type chat = Group) = rs" using assms(3) same by (simp add: rs_def chat_rows_def)
  note rs0 = this h0 l0
  obtain g where g: "fold_res (add_row opts) (map g rs) member_acc0 = Inr acc0" "\<forall>r\<in>set rs. member_row_of s0 r = Inr (g r)"
    using d(4) unfolding rs0(1) add_rows_eq by (metis rows_of_map)
  note lm = listed_members_map [OF g(2) o(1,2), unfolded rs0]
  have dist: "distinct (map (\<lambda>r. o_lower opts (row_addr opts r)) (map g rs))"
  proof -
    have "map (\<lambda>r. o_lower opts (row_addr opts r)) (map g rs) = map (\<lambda>r. lower s (header_addr s (utf8_decode self) r)) rs"
      using lm(3) by (simp add: o)
    then show ?thesis using assms(6) by (simp only: rs_def)
  qed
  note r = rows_lists [OF g(1) o(4) dist]
  have acc0: "a_to acc0 = map (row_entry opts) (filter row_is_member (map g rs))"
      "a_timestamps acc0 = map r_add (filter row_is_member (map g rs))"
      "a_past acc0 = map (row_entry opts) (filter (row_is_past opts) (map g rs))"
      "a_past_timestamps acc0 = map r_remove (filter (row_is_past opts) (map g rs))"
    using r by (simp_all add: row_is_new_def member_acc0_def recipients_contain_addr_def)
  have "distinct (map (row_addr opts) (map g rs))"
    using dist by (rule distinct_map_inner)
  note fin = finish_lists [OF d(5) this acc0(1,2)]
  have entry: "snd (row_entry opts x) = row_addr opts x" for x by (simp add: row_entry_def)
  have gh: "row_addr opts (g x) = header_addr s (utf8_decode self) x" "r_add (g x) = add_timestamp x" "r_remove (g x) = remove_timestamp x"
    if "x \<in> set rs" for x
    using member_row_of_header [OF g(2) [rule_format, OF that] o(1,2)] by (simp_all add: rs0)
  have sub: "set ls \<subseteq> set rs" "set ps \<subseteq> set rs" by (auto simp: ls_def ps_def listed_rows_def Let_def)
  have fin': "a_to acc1 = map (row_entry opts) (map g ls)" "a_past acc1 = map (row_entry opts) (map g ps)"
      "a_timestamps acc1 = map r_add (map g ls) @ map r_remove (map g ps)"
    using fin acc0(3,4) unfolding lm ls_def [symmetric] ps_def [symmetric] by simp_all
  show "map snd (mf_to mf) = map (header_addr s (utf8_decode self)) ls"
    "map snd (mf_past_members mf) = map (header_addr s (utf8_decode self)) ps"
    "mf_member_timestamps mf = map add_timestamp ls @ map remove_timestamp ps"
    using gh sub by (auto simp: d(7,8,9) acc fin' entry)
qed


section \<open>What the receiver makes of them\<close>

text \<open>The member lists as the receiver sees them, where \<open>resolve\<close> finds the contact of the receiver for an address.\<close>

definition received :: "chat_id \<Rightarrow> contact_id option \<Rightarrow> (ustr \<Rightarrow> contact_id option) \<Rightarrow> MimeFactory \<Rightarrow> member_msg" where
  "received chat from_id resolve mf =
     \<lparr>mm_chat = chat, mm_from = from_id, mm_to = map resolve (map snd (mf_to mf)),
      mm_past = map resolve (map snd (mf_past_members mf)), mm_timestamps = mf_member_timestamps mf\<rparr>"

lemma listed_zip:
  "Entry chat c ts b \<in> set (listed chat ignored added (zip (map f xs) (map g xs)))
   \<longleftrightarrow> b = added \<and> Some c \<noteq> ignored \<and> (\<exists>x\<in>set xs. f x = Some c \<and> g x = ts)"
  by (induction xs) (auto simp: listed_def)

lemma received_entries:
  assumes "map snd (mf_to mf) = map a ls" "map snd (mf_past_members mf) = map a ps"
    "mf_member_timestamps mf = map add_timestamp ls @ map remove_timestamp ps"
  shows "Entry chat c ts b \<in> set (msg_entries (received chat from_id resolve mf)) \<longleftrightarrow>
     b \<and> Some c \<noteq> from_id \<and> (\<exists>r\<in>set ls. resolve (a r) = Some c \<and> add_timestamp r = ts)
     \<or> \<not> b \<and> (\<exists>r\<in>set ps. resolve (a r) = Some c \<and> remove_timestamp r = ts)"
proof -
  have "length (mf_to mf) = length ls" "length (mf_past_members mf) = length ps"
    using arg_cong [OF assms(1), of length] arg_cong [OF assms(2), of length] by simp_all
  then have "msg_entries (received chat from_id resolve mf)
      = listed chat from_id True (zip (map (\<lambda>r. resolve (a r)) ls) (map add_timestamp ls))
        @ listed chat None False (zip (map (\<lambda>r. resolve (a r)) ps) (map remove_timestamp ps))"
    using assms unfolding msg_entries_def received_def by (simp add: comp_def)
  then show ?thesis by (auto simp: listed_zip)
qed

lemma ex_the_row:
  assumes "\<And>x. x \<in> A \<Longrightarrow> P x \<Longrightarrow> x = r" "r \<in> A \<longleftrightarrow> Q" "P r"
  shows "(\<exists>x\<in>A. P x \<and> f x = v) \<longleftrightarrow> Q \<and> f r = v"
  using assms by blast

lemma joined_unique:
  assumes "joined es chat c x" "\<And>ts' b'. Entry chat c ts' b' \<in> set es \<longleftrightarrow> (ts', b') = v"
  shows "x = Some v"
  using assms by (cases x; cases v) (auto simp: joined_def)



end
