(* ===== verification/Simplify.thy ===== *)
theory Simplify
  imports UText
begin

text \<open>
  \<^verbatim>\<open>src/simplify.rs\<close>: quotes, footers and the forwarding header of a received text, and the escaping that keeps text of
  the user from being taken for a footer.  Lines are lists of code points.
\<close>

section \<open>Replacing\<close>

text \<open>\<open>str::replace\<close> with a pattern that is not empty: occurrences from left to right, without overlaps; \<open>n\<close> characters
  are still to be skipped.\<close>

fun replace_from :: "'a list \<Rightarrow> 'a list \<Rightarrow> nat \<Rightarrow> 'a list \<Rightarrow> 'a list" where
  "replace_from pat rep n [] = []"
| "replace_from pat rep (Suc n) (c # s) = replace_from pat rep n s"
| "replace_from pat rep 0 (c # s) =
     (if starts_with (c # s) pat then rep @ replace_from pat rep (length pat - 1) s
      else c # replace_from pat rep 0 s)"

definition replace_str :: "'a list \<Rightarrow> 'a list \<Rightarrow> 'a list \<Rightarrow> 'a list" where
  "replace_str pat rep s = replace_from pat rep 0 s"

definition ZWSP :: nat where
  "ZWSP = 0x200B"

definition escape_message_footer_marks :: "ustr \<Rightarrow> ustr" where
  "escape_message_footer_marks text =
     (case strip_prefix (U ''--'') text of
        Some rest \<Rightarrow> [45, ZWSP, 45] @ replace_str [10, 45, 45] [10, 45, ZWSP, 45] rest
      | None \<Rightarrow> replace_str [10, 45, 45] [10, 45, ZWSP, 45] text)"


section \<open>Footers\<close>

text \<open>The line of the footer mark, where \<open>prev\<close> is the previous line and \<open>nearly\<close> the last mark that is only nearly
  standard.\<close>

fun find_footer :: "ustr option \<Rightarrow> nat \<Rightarrow> nat option \<Rightarrow> ustr list \<Rightarrow> nat option" where
  "find_footer prev ix nearly [] = nearly"
| "find_footer prev ix nearly (l # ls) =
     (if l = U ''-- '' \<or> l = U ''--  '' then Some ix
      else find_footer (Some l) (Suc ix)
             (if l = U ''--'' \<and> (prev = None \<or> prev = Some []) \<and> (ls \<noteq> [] \<and> hd ls \<noteq> []) then Some ix else nearly) ls)"

definition remove_message_footer :: "ustr list \<Rightarrow> ustr list \<times> ustr list option" where
  "remove_message_footer ls =
     (case find_footer None 0 None ls of
        Some ix \<Rightarrow> (take ix ls, Some (drop (Suc ix) ls))
      | None \<Rightarrow> (ls, None))"

definition nonstandard_mark :: "ustr \<Rightarrow> bool" where
  "nonstandard_mark l \<longleftrightarrow> l = U ''--'' \<or> starts_with l (U ''---'') \<or> starts_with l (U ''_____'') \<or> starts_with l (U ''====='')
     \<or> starts_with l (U ''*****'') \<or> starts_with l (U ''~~~~~'')"

definition remove_nonstandard_footer :: "ustr list \<Rightarrow> ustr list \<times> bool" where
  "remove_nonstandard_footer ls =
     (takeWhile (\<lambda>l. \<not> nonstandard_mark l) ls, list_ex nonstandard_mark ls)"

definition split_lines :: "ustr \<Rightarrow> ustr list" where
  "split_lines buf = split_on 10 buf"

definition remove_footers :: "ustr \<Rightarrow> ustr" where
  "remove_footers msg = join [10] (fst (remove_nonstandard_footer (fst (remove_message_footer (split_lines msg)))))"


section \<open>Rendering\<close>

definition is_empty_line :: "ustr \<Rightarrow> bool" where
  "is_empty_line buf \<longleftrightarrow> list_all is_whitespace buf"

definition is_quoted_headline :: "ustr \<Rightarrow> bool" where
  "is_quoted_headline buf \<longleftrightarrow> blen buf \<le> 120 \<and> ends_with buf (U '':'')"

definition is_plain_quote :: "ustr \<Rightarrow> bool" where
  "is_plain_quote buf \<longleftrightarrow> starts_with buf (U ''>'')"

fun render_lines :: "ustr \<Rightarrow> nat \<Rightarrow> ustr list \<Rightarrow> ustr" where
  "render_lines ret pending [] = ret"
| "render_lines ret pending (l # ls) =
     (if is_empty_line l then render_lines ret (Suc pending) ls
      else render_lines (ret @ (if ret \<noteq> [] then replicate (min pending 2) 10 else []) @ l) 1 ls)"

definition render_message :: "ustr list \<Rightarrow> bool \<Rightarrow> ustr" where
  "render_message ls is_cut_at_end =
     (let ret = render_lines [] 0 ls;
          ret' = (if is_cut_at_end \<and> ret \<noteq> [] then ret @ U '' [...]'' else ret)
      in replace_str [ZWSP] [] ret')"


section \<open>Quotes\<close>

definition strip_quote :: "ustr \<Rightarrow> ustr" where
  "strip_quote s =
     (case strip_prefix (U ''>'') s of
        None \<Rightarrow> s
      | Some u \<Rightarrow> (case strip_prefix (U '' '') u of None \<Rightarrow> u | Some v \<Rightarrow> v))"

text \<open>The loop over the reversed lines with their numbers: the line after the quote and its first line.\<close>

fun bottom_scan :: "nat \<Rightarrow> nat option \<Rightarrow> (nat \<times> ustr) list \<Rightarrow> nat \<times> nat option" where
  "bottom_scan first lst [] = (first, lst)"
| "bottom_scan first lst ((l, line) # ls) =
     (if is_plain_quote line then bottom_scan (if lst = None then Suc l else first) (Some l) ls
      else if \<not> is_empty_line line then (first, lst)
      else bottom_scan first lst ls)"

definition before_is :: "(ustr \<Rightarrow> bool) \<Rightarrow> ustr list \<Rightarrow> nat \<Rightarrow> nat" where
  "before_is P ls l = (if l > 1 \<and> l - 1 < length ls \<and> P (ls ! (l - 1)) then l - 1 else l)"

definition remove_bottom_quote :: "ustr list \<Rightarrow> ustr list \<times> ustr option" where
  "remove_bottom_quote ls =
     (case bottom_scan (length ls) None (rev (enumerate 0 ls)) of
        (_, None) \<Rightarrow> (ls, None)
      | (first, Some l) \<Rightarrow>
          (take (before_is is_quoted_headline ls (before_is is_empty_line ls l)) ls,
           Some (join [10] (map strip_quote (drop l (take first ls))))))"

fun top_scan :: "bool \<Rightarrow> nat \<Rightarrow> nat \<Rightarrow> nat option \<Rightarrow> bool \<Rightarrow> ustr list \<Rightarrow> nat \<times> nat option" where
  "top_scan chat l first lst headline [] = (first, lst)"
| "top_scan chat l first lst headline (line # ls) =
     (if is_plain_quote line then top_scan chat (Suc l) (if lst = None then l else first) (Some l) headline ls
      else if \<not> chat \<and> is_quoted_headline line \<and> \<not> headline \<and> lst = None then top_scan chat (Suc l) first lst True ls
      else (first, lst))"

definition remove_top_quote :: "ustr list \<Rightarrow> bool \<Rightarrow> ustr list \<times> ustr option" where
  "remove_top_quote ls chat =
     (case top_scan chat 0 0 None False ls of
        (_, None) \<Rightarrow> (ls, None)
      | (first, Some l) \<Rightarrow> (drop (Suc l) ls, Some (join [10] (map strip_quote (drop first (take (Suc l) ls))))))"

definition skip_forward_header :: "ustr list \<Rightarrow> ustr list \<times> bool" where
  "skip_forward_header ls =
     (case ls of
        a # first_line # c # rest \<Rightarrow>
          if a = U ''---------- Forwarded message ----------'' \<and> starts_with first_line (U ''From: '') \<and> c = []
          then (rest, True) else (ls, False)
      | _ \<Rightarrow> (ls, False))"


section \<open>Simplifying a text\<close>

record SimplifiedText =
  st_text :: ustr
  st_is_forwarded :: bool
  st_is_cut :: bool
  st_top_quote :: "ustr option"
  st_footer :: "ustr option"

definition simplify_quote :: "ustr \<Rightarrow> ustr \<times> bool" where
  "simplify_quote quote =
     (let (ls, footer) = remove_message_footer (split_lines quote) in (render_message ls False, footer \<noteq> None))"

definition simplify :: "ustr \<Rightarrow> bool \<Rightarrow> SimplifiedText" where
  "simplify input is_chat_message =
     (let (ls1, is_forwarded) = skip_forward_header (split_lines (filter (\<lambda>c. c \<noteq> 13) input));
          (original, top_quote) = remove_top_quote ls1 is_chat_message;
          (ls2, footer_lines) = remove_message_footer original;
          footer = map_option (\<lambda>ls. render_message ls False) footer_lines
      in if is_chat_message then
           \<lparr>st_text = render_message ls2 False, st_is_forwarded = is_forwarded, st_is_cut = False,
            st_top_quote = top_quote, st_footer = footer\<rparr>
         else
           let (ls3, nonstandard) = remove_nonstandard_footer ls2;
               (ls4, bottom) = remove_bottom_quote ls3;
               (top_quote', bottom') = (if top_quote = None \<and> bottom \<noteq> None then (bottom, top_quote) else (top_quote, bottom));
               all_empty = list_all is_empty_line ls4;
               quote = map_option simplify_quote top_quote'
           in \<lparr>st_text = (if all_empty then render_message original False
                         else render_message ls4 (nonstandard \<or> bottom' \<noteq> None)),
               st_is_forwarded = is_forwarded,
               st_is_cut = (\<not> all_empty \<and> (nonstandard \<or> bottom' \<noteq> None) \<or> (case quote of Some (_, quote_cut) \<Rightarrow> quote_cut | None \<Rightarrow> False)),
               st_top_quote = map_option fst quote, st_footer = footer\<rparr>)"


section \<open>Escaped text has no footer marks\<close>

lemma replace_single: "replace_str [c] [] s = filter (\<lambda>x. x \<noteq> c) s"
  by (induction s) (auto simp: replace_str_def starts_with_def)

definition escape_line :: "ustr \<Rightarrow> ustr" where
  "escape_line l = (if starts_with l [45, 45] then [45, ZWSP, 45] @ drop 2 l else l)"

lemma split_on_Cons:
  "split_on c (x # s) = (if x = c then [] # split_on c s else (x # hd (split_on c s)) # tl (split_on c s))"
  by (cases "split_on c s") auto

lemma starts_with_two: "starts_with s [a, b] \<longleftrightarrow> (\<exists>r. s = a # b # r)"
  by (simp add: starts_with_iff)

lemma starts_with_hd_split:
  assumes "c \<notin> {a, b}"
  shows "starts_with (hd (split_on c s)) [a, b] \<longleftrightarrow> starts_with s [a, b]"
proof (cases "\<exists>x y r. s = x # y # r")
  case True
  then obtain x y r where s: "s = x # y # r" by blast
  show ?thesis using assms by (auto simp: s split_on_Cons starts_with_two simp del: split_on.simps)
next
  case False
  then have "s = [] \<or> (\<exists>x. s = [x])" by (metis neq_Nil_conv)
  then show ?thesis by (auto simp: starts_with_two split_on_Cons simp del: split_on.simps(2) split: if_splits)
qed

lemma ZWSP_neq [simp]: "ZWSP \<noteq> 10" "ZWSP \<noteq> 45"
  by (simp_all add: ZWSP_def)

lemma escape_line_mark [simp]: "escape_line (45 # 45 # l) = 45 # ZWSP # 45 # l"
  by (simp add: escape_line_def starts_with_def)

lemma replace_marks:
  "split_on 10 (replace_str [10, 45, 45] [10, 45, ZWSP, 45] s) = hd (split_on 10 s) # map escape_line (tl (split_on 10 s))"
proof (induction s rule: length_induct)
  case (1 s)
  let ?rep = "\<lambda>n. replace_from [10, 45, 45] [10, 45, ZWSP, 45 :: nat] n"
  have IH: "split_on 10 (?rep 0 s') = hd (split_on 10 s') # map escape_line (tl (split_on 10 s'))" if "length s' < length s" for s'
    using 1 that by (simp add: replace_str_def)
  show ?case
  proof (cases s)
    case Nil
    then show ?thesis by (simp add: replace_str_def)
  next
    case (Cons c s')
    obtain h ls where hl: "split_on 10 s' = h # ls" by (cases "split_on 10 s'") auto
    consider (mark) r where "c = 10" "s' = 45 # 45 # r" | (line) "c = 10" "\<not> starts_with s' [45, 45]" | (char) "c \<noteq> 10"
      by (auto simp: starts_with_two)
    then show ?thesis
    proof cases
      case mark
      then have "replace_str [10, 45, 45] [10, 45, ZWSP, 45] s = 10 # 45 # ZWSP # 45 # ?rep 0 r"
        by (simp add: Cons replace_str_def starts_with_def numeral_eq_Suc)
      moreover have "length r < length s" using mark Cons by simp
      ultimately show ?thesis
        using mark IH [of r] by (simp add: Cons split_on_Cons del: split_on.simps)
    next
      case line
      then have "replace_str [10, 45, 45] [10, 45, ZWSP, 45] s = 10 # ?rep 0 s'"
        by (simp add: Cons replace_str_def starts_with_iff)
      moreover have "escape_line (hd (split_on 10 s')) = hd (split_on 10 s')"
        using line(2) starts_with_hd_split [of 10 45 45 s'] by (simp add: escape_line_def)
      ultimately show ?thesis
        using line IH [of s'] by (simp add: Cons split_on_Cons hl del: split_on.simps)
    next
      case char
      then have "replace_str [10, 45, 45] [10, 45, ZWSP, 45] s = c # ?rep 0 s'"
        by (simp add: Cons replace_str_def starts_with_iff)
      then show ?thesis
        using char IH [of s'] by (simp add: Cons split_on_Cons del: split_on.simps)
    qed
  qed
qed

lemma split_escaped: "split_lines (escape_message_footer_marks t) = map escape_line (split_lines t)"
proof (cases "strip_prefix (U ''--'') t")
  case None
  then have "\<not> starts_with t [45, 45]" by (auto simp: starts_with_iff U_def strip_prefix_Some [symmetric])
  then have "escape_line (hd (split_on 10 t)) = hd (split_on 10 t)"
    using starts_with_hd_split [of 10 45 45 t] by (simp add: escape_line_def)
  then show ?thesis
    using None replace_marks [of t]
    by (cases "split_on 10 t") (simp_all add: escape_message_footer_marks_def split_lines_def)
next
  case (Some r)
  then have t: "t = 45 # 45 # r" by (simp add: strip_prefix_Some U_def)
  show ?thesis
    using replace_marks [of r]
    by (simp add: Some [unfolded t] escape_message_footer_marks_def split_lines_def t split_on_Cons del: split_on.simps)
qed

lemma find_footer_skip:
  "list_all (\<lambda>l. \<not> starts_with l [45, 45]) ls \<Longrightarrow>
     find_footer prev ix nearly (ls @ rest) = find_footer (if ls = [] then prev else Some (last ls)) (ix + length ls) nearly rest"
proof (induction ls arbitrary: prev ix)
  case (Cons l ls)
  then have "l \<noteq> U ''--''" "l \<noteq> U ''-- ''" "l \<noteq> U ''--  ''" by (auto simp: U_def starts_with_def)
  with Cons show ?case by simp
qed simp

lemma escape_line_no_mark: "\<not> starts_with (escape_line l) [45, 45]"
  by (auto simp: escape_line_def starts_with_def)

lemma escaped_no_marks: "list_all (\<lambda>l. \<not> starts_with l [45, 45]) (map escape_line ls)"
  by (simp add: list_all_iff escape_line_no_mark)


section \<open>Escaping does not change what is displayed\<close>

lemma is_empty_line_escape [simp]: "is_empty_line (escape_line l) = is_empty_line l"
  by (auto simp: escape_line_def is_empty_line_def starts_with_two is_whitespace_def)

lemma filter_escape_line [simp]: "filter (\<lambda>x. x \<noteq> ZWSP) (escape_line l) = filter (\<lambda>x. x \<noteq> ZWSP) l"
  by (auto simp: escape_line_def starts_with_two ZWSP_def)

lemma escape_line_Nil [simp]: "escape_line l = [] \<longleftrightarrow> l = []"
  by (auto simp: escape_line_def starts_with_def)

lemma render_lines_escape:
  "filter (\<lambda>x. x \<noteq> ZWSP) r = filter (\<lambda>x. x \<noteq> ZWSP) r' \<Longrightarrow> r = [] \<longleftrightarrow> r' = [] \<Longrightarrow>
     filter (\<lambda>x. x \<noteq> ZWSP) (render_lines r p (map escape_line ls)) = filter (\<lambda>x. x \<noteq> ZWSP) (render_lines r' p ls)"
proof (induction ls arbitrary: r r' p)
  case (Cons l ls)
  show ?case
  proof (cases "is_empty_line l")
    case True
    with Cons show ?thesis by simp
  next
    case False
    then have "l \<noteq> []" by (auto simp: is_empty_line_def)
    with False Cons.prems show ?thesis by (simp add: Cons.IH)
  qed
qed simp

lemma render_escaped: "render_message (map escape_line ls) False = render_message ls False"
  by (simp add: render_message_def replace_single render_lines_escape)

lemma render_pending: "render_lines [] p ls = render_lines [] q ls"
  by (induction ls arbitrary: p q) auto

lemma render_leading: "render_message ([] # ls) False = render_message ls False"
  using render_pending [of 1 ls 0] by (simp add: render_message_def is_empty_line_def)

lemma render_trailing: "render_lines r p (ls @ [[]]) = render_lines r p ls"
  by (induction r p ls rule: render_lines.induct) (simp_all add: is_empty_line_def)

lemma render_message_trailing: "render_message (ls @ [[]]) False = render_message ls False"
  by (simp add: render_message_def render_trailing)

end
