(* ===== verification/Aheader.thy ===== *)
theory Aheader
  imports UText
begin

text \<open>
  \<^verbatim>\<open>src/aheader.rs\<close>: printing and parsing of Autocrypt headers.  A key is represented by its bytes; its base 64 form, reading
  it back and the verification of its bindings are parameters, as is \<open>str::to_lowercase\<close>.
\<close>

datatype EncryptPreference = NoPreference | Mutual

definition EncryptPreference_to_string :: "EncryptPreference \<Rightarrow> ustr" where
  "EncryptPreference_to_string p = (case p of Mutual \<Rightarrow> U ''mutual'' | NoPreference \<Rightarrow> U ''nopreference'')"

definition EncryptPreference_new :: "ustr \<Rightarrow> EncryptPreference res" where
  "EncryptPreference_new s =
     (if s = U ''mutual'' then Inr Mutual else if s = U ''nopreference'' then Inr NoPreference
      else Inl ''Cannot parse encryption preference'')"

record Aheader =
  ah_addr :: ustr
  ah_public_key :: string
  ah_prefer_encrypt :: EncryptPreference
  ah_verified :: bool

text \<open>The loop that puts a space before every 78th character of the line.\<close>

fun fold_keydata :: "nat \<Rightarrow> ustr \<Rightarrow> ustr" where
  "fold_keydata i [] = []"
| "fold_keydata i (c # cs) = (if i mod 78 = 78 - 8 then 32 # c # fold_keydata (Suc i) cs else c # fold_keydata (Suc i) cs)"

definition Aheader_to_string :: "(ustr \<Rightarrow> ustr) \<Rightarrow> (string \<Rightarrow> ustr) \<Rightarrow> Aheader \<Rightarrow> ustr" where
  "Aheader_to_string lc to_base64 h =
     U ''addr='' @ lc (ah_addr h) @ U '';''
     @ (if ah_prefer_encrypt h = Mutual then U '' prefer-encrypt=mutual;'' else [])
     @ U '' keydata='' @ fold_keydata 0 (to_base64 (ah_public_key h))"

text \<open>\<open>DcKey::from_base64\<close> drops white space first.\<close>

definition from_base64 :: "(ustr \<Rightarrow> string res) \<Rightarrow> ustr \<Rightarrow> string res" where
  "from_base64 decode_key data = decode_key (filter (\<lambda>c. \<not> is_whitespace c) data)"

definition aheader_attribute :: "ustr \<Rightarrow> (ustr \<times> ustr) option" where
  "aheader_attribute a =
     map_option (\<lambda>(k, v). (trim is_whitespace k, trim is_whitespace v)) (split_once 61 (trim is_whitespace a))"

text \<open>The attributes, as a map in which a later one replaces an earlier one of the same name.\<close>

definition aheader_attributes :: "ustr \<Rightarrow> (ustr \<times> ustr) list" where
  "aheader_attributes s = rev (List.map_filter aheader_attribute (split_on 59 s))"

definition Aheader_from_str :: "(ustr \<Rightarrow> string res) \<Rightarrow> (string \<Rightarrow> bool) \<Rightarrow> ustr \<Rightarrow> Aheader res" where
  "Aheader_from_str decode_key verify_bindings s =
     (let attributes = aheader_attributes s
      in case map_of attributes (U ''addr'') of
           None \<Rightarrow> Inl ''Autocrypt header has no addr''
         | Some addr \<Rightarrow>
             (case map_of attributes (U ''keydata'') of
                None \<Rightarrow> Inl ''keydata attribute is not found''
              | Some raw \<Rightarrow>
                  res_bind (from_base64 decode_key raw) (\<lambda>key.
                    if \<not> verify_bindings key then Inl ''Autocrypt key cannot be verified''
                    else if list_ex (\<lambda>(k, _). k \<notin> {U ''addr'', U ''keydata'', U ''prefer-encrypt'', U ''_verified''}
                               \<and> \<not> starts_with k (U ''_'')) attributes
                    then Inl ''Unknown Autocrypt attribute found''
                    else Inr \<lparr>ah_addr = addr, ah_public_key = key,
                      ah_prefer_encrypt =
                        (case map_of attributes (U ''prefer-encrypt'') of
                           None \<Rightarrow> NoPreference
                         | Some raw \<Rightarrow> (case EncryptPreference_new raw of Inr p \<Rightarrow> p | Inl _ \<Rightarrow> NoPreference)),
                      ah_verified = (map_of attributes (U ''_verified'') \<noteq> None)\<rparr>)))"


section \<open>Round trip\<close>

lemma filter_fold_keydata: "list_all (\<lambda>c. \<not> is_whitespace c) s \<Longrightarrow> filter (\<lambda>c. \<not> is_whitespace c) (fold_keydata i s) = s"
  by (induction i s rule: fold_keydata.induct) (simp_all add: is_whitespace_def)

lemma fold_keydata_chars: "c \<in> set (fold_keydata i s) \<Longrightarrow> c = 32 \<or> c \<in> set s"
  by (induction i s rule: fold_keydata.induct) (auto split: if_splits)

lemma dropWhile_middle: "\<not> P c \<Longrightarrow> dropWhile P (x @ c # y) = dropWhile P x @ c # y"
  by (induction x) auto

lemma trim_middle: "\<not> P c \<Longrightarrow> trim P (x @ c # y) = trim_start P x @ c # trim_end P y"
  by (simp add: trim_def trim_start_def trim_end_def dropWhile_middle)

lemma filter_dropWhile: "filter (\<lambda>c. \<not> P c) (dropWhile P s) = filter (\<lambda>c. \<not> P c) s"
  by (induction s) auto

lemma filter_trim_end: "filter (\<lambda>c. \<not> P c) (trim_end P s) = filter (\<lambda>c. \<not> P c) s"
  by (simp add: trim_end_def rev_filter [symmetric] filter_dropWhile)

lemma filter_trim: "filter (\<lambda>c. \<not> P c) (trim P s) = filter (\<lambda>c. \<not> P c) s"
  by (simp add: trim_def filter_trim_end) (simp add: trim_start_def filter_dropWhile)

lemma attribute_eq:
  assumes "61 \<notin> set k"
  shows "aheader_attribute (k @ 61 # v) = Some (utrim (trim_start is_whitespace k), utrim (trim_end is_whitespace v))"
proof -
  have "61 \<notin> set (trim_start is_whitespace k)" using assms by (auto simp: trim_start_def dest: set_dropWhileD)
  then have "split_once 61 (trim_start is_whitespace k @ 61 # trim_end is_whitespace v)
      = Some (trim_start is_whitespace k, trim_end is_whitespace v)"
    by (rule split_once_key)
  moreover have "utrim (k @ 61 # v) = trim_start is_whitespace k @ 61 # trim_end is_whitespace v"
    by (rule trim_middle) (simp add: is_whitespace_def)
  ultimately show ?thesis by (simp add: aheader_attribute_def)
qed

definition no_outer_whitespace :: "ustr \<Rightarrow> bool" where
  "no_outer_whitespace s \<longleftrightarrow> s \<noteq> [] \<longrightarrow> \<not> is_whitespace (hd s) \<and> \<not> is_whitespace (last s)"

lemma no_outer_whitespace_trim:
  "no_outer_whitespace s \<Longrightarrow> trim_start is_whitespace s = s \<and> trim_end is_whitespace s = s"
proof
  assume s: "no_outer_whitespace s"
  show "trim_start is_whitespace s = s" using s by (cases s) (auto simp: no_outer_whitespace_def trim_start_def)
  show "trim_end is_whitespace s = s" using s by (cases s rule: rev_cases) (auto simp: no_outer_whitespace_def trim_end_def)
qed

lemma attribute_names:
  "utrim (trim_start is_whitespace (U ''addr'')) = U ''addr''"
  "utrim (trim_start is_whitespace (U '' prefer-encrypt'')) = U ''prefer-encrypt''"
  "utrim (trim_start is_whitespace (U '' keydata'')) = U ''keydata''"
  "utrim (trim_end is_whitespace (U ''mutual'')) = U ''mutual''"
  by (simp_all add: trim_def trim_start_def trim_end_def U_def is_whitespace_def)

lemma printed_attributes:
  assumes "59 \<notin> set a" "no_outer_whitespace a" "59 \<notin> set kd"
  shows "aheader_attributes (U ''addr='' @ a @ U '';'' @ (if m then U '' prefer-encrypt=mutual;'' else []) @ U '' keydata='' @ kd)
    = (U ''keydata'', utrim (trim_end is_whitespace kd))
      # (if m then [(U ''prefer-encrypt'', U ''mutual'')] else []) @ [(U ''addr'', a)]"
proof -
  have u: "U ''addr='' = U ''addr'' @ [61]" "U '' prefer-encrypt=mutual;'' = (U '' prefer-encrypt'' @ 61 # U ''mutual'') @ [59]"
    "U '' keydata='' = U '' keydata'' @ [61]" "U '';'' = [59]"
    by (simp_all add: U_def)
  have n: "59 \<notin> set (U ''addr'')" "59 \<notin> set (U '' prefer-encrypt'')" "59 \<notin> set (U ''mutual'')" "59 \<notin> set (U '' keydata'')"
    "61 \<notin> set (U ''addr'')" "61 \<notin> set (U '' prefer-encrypt'')" "61 \<notin> set (U '' keydata'')"
    by (simp_all add: U_def)
  have "split_on 59 (U ''addr='' @ a @ U '';'' @ (if m then U '' prefer-encrypt=mutual;'' else []) @ U '' keydata='' @ kd)
      = (U ''addr'' @ 61 # a) # (if m then [U '' prefer-encrypt'' @ 61 # U ''mutual''] else []) @ [U '' keydata'' @ 61 # kd]"
    using n assms(1,3) split_on_append_sep [of 59 "U ''addr'' @ 61 # a"] split_on_no_sep [of 59 "U '' keydata'' @ 61 # kd"]
      split_on_append_sep [of 59 "U '' prefer-encrypt'' @ 61 # U ''mutual''"]
    by (simp add: u)
  moreover have "aheader_attribute (U ''addr'' @ 61 # a) = Some (U ''addr'', a)"
    unfolding attribute_eq [OF n(5)] attribute_names(1) using no_outer_whitespace_trim [OF assms(2)] by (simp only: trim_def simp_thms)
  moreover have "aheader_attribute (U '' prefer-encrypt'' @ 61 # U ''mutual'') = Some (U ''prefer-encrypt'', U ''mutual'')"
    unfolding attribute_eq [OF n(6)] attribute_names ..
  moreover have "aheader_attribute (U '' keydata'' @ 61 # kd) = Some (U ''keydata'', utrim (trim_end is_whitespace kd))"
    unfolding attribute_eq [OF n(7)] attribute_names ..
  ultimately show ?thesis by (simp add: aheader_attributes_def map_filter_simps)
qed

text \<open>C34: A printed Autocrypt header parses to the same key and preference and to the lower-cased address, if reading undoes
  the base 64 form of a key, which is free of white space and semicolons.  The mark for a verified key is lost, since it is not
  printed.\<close>

theorem Aheader_roundtrip:
  assumes "\<And>k. decode_key (to_base64 k) = Inr k" "\<And>k. list_all (\<lambda>c. \<not> is_whitespace c \<and> c \<noteq> 59) (to_base64 k)"
    "verify_bindings (ah_public_key h)" "59 \<notin> set (lc (ah_addr h))" "no_outer_whitespace (lc (ah_addr h))"
  shows "Aheader_from_str decode_key verify_bindings (Aheader_to_string lc to_base64 h)
    = Inr (h\<lparr>ah_addr := lc (ah_addr h), ah_verified := False\<rparr>)"
proof -
  let ?kd = "fold_keydata 0 (to_base64 (ah_public_key h))"
  have ws: "list_all (\<lambda>c. \<not> is_whitespace c) (to_base64 (ah_public_key h))" and "59 \<notin> set (to_base64 (ah_public_key h))"
    using assms(2) by (auto simp: list_all_iff)
  then have "59 \<notin> set ?kd" using fold_keydata_chars by fastforce
  note attrs = printed_attributes [OF assms(4,5) this, of "ah_prefer_encrypt h = Mutual"]
  have key: "from_base64 decode_key (utrim (trim_end is_whitespace ?kd)) = Inr (ah_public_key h)"
    by (simp add: from_base64_def filter_trim filter_trim_end filter_fold_keydata [OF ws] assms(1))
  show ?thesis
    unfolding Aheader_from_str_def Aheader_to_string_def attrs Let_def
    using assms(3) key by (cases h; cases "ah_prefer_encrypt h") (auto simp: EncryptPreference_new_def)
qed

theorem Aheader_roundtrip_witness:
  "Aheader_from_str (\<lambda>s. Inr (map (\<lambda>n. char_of (n - 300)) s)) (\<lambda>_. True)
       (Aheader_to_string id (map (\<lambda>c. 300 + of_char c))
          \<lparr>ah_addr = U ''a@b'', ah_public_key = ''key'', ah_prefer_encrypt = Mutual, ah_verified = True\<rparr>)
     = Inr \<lparr>ah_addr = U ''a@b'', ah_public_key = ''key'', ah_prefer_encrypt = Mutual, ah_verified = False\<rparr>"
proof -
  have byte: "of_char c < (256 :: nat)" for c :: char
    by (metis of_char_mod_256 mod_less_divisor zero_less_numeral)
  have "list_all (\<lambda>c. \<not> is_whitespace c \<and> c \<noteq> 59) (map (\<lambda>c. 300 + of_char c) k)" for k :: string
  proof (induction k)
    case (Cons c k)
    obtain n :: nat where n: "of_char c = n" "n < 256" using byte by blast
    then have "\<not> is_whitespace (300 + n) \<and> 300 + n \<noteq> 59" by (auto simp: is_whitespace_def)
    with Cons show ?case by (simp add: n(1))
  qed simp
  then show ?thesis
    using Aheader_roundtrip [of "\<lambda>s. Inr (map (\<lambda>n. char_of (n - 300)) s)" "map (\<lambda>c. 300 + of_char c)" "\<lambda>_. True"
        "\<lparr>ah_addr = U ''a@b'', ah_public_key = ''key'', ah_prefer_encrypt = Mutual, ah_verified = True\<rparr>" id]
    by (simp add: comp_def no_outer_whitespace_def is_whitespace_def)
qed

end
