(* ===== verification/MimeRender.thy ===== *)
theory MimeRender
  imports MimeFactory Simplify Aheader
begin

text \<open>
  \<^verbatim>\<open>src/mimefactory.rs\<close>: \<open>MimeFactory::render\<close>, from the headers of a message over their distribution by confidentiality to
  the encrypted or plain mail.  A mail is a tree of MIME parts with headers; writing the tree out, OpenPGP, base 64, dates
  and the reading of files are in the environment \<open>mime_env\<close>, as is what locations and apps contribute.
\<close>

section \<open>Parts and headers\<close>

datatype Address = Mailbox "string option" string | AddrGroup "string option" "Address list" | AddrList "Address list"

datatype HeaderType =
  HRaw string | HText string | HMessageId "string list" | HAddress Address
  | HContentType string "(string \<times> string) list" | HAttachment string

type_synonym header = "string \<times> HeaderType"

datatype MimePart = MimePart "header list" MimeBody
  and MimeBody = BodyText string | BodyParts "MimePart list"

definition MimePart_new :: "string \<Rightarrow> MimeBody \<Rightarrow> MimePart" where
  "MimePart_new content_type body = MimePart [(''Content-Type'', HContentType content_type [])] body"

fun add_header :: "header \<Rightarrow> MimePart \<Rightarrow> MimePart" where
  "add_header h (MimePart hs body) = MimePart (hs @ [h]) body"

definition attachment :: "string \<Rightarrow> MimePart \<Rightarrow> MimePart" where
  "attachment name part = add_header (''Content-Disposition'', HAttachment name) part"

fun part_headers :: "MimePart \<Rightarrow> header list" where
  "part_headers (MimePart hs _) = hs"

fun part_body :: "MimePart \<Rightarrow> MimeBody" where
  "part_body (MimePart _ body) = body"

definition CRLF :: string where
  "CRLF = [CHR 0x0D, CHR 0x0A]"

record mime_env =
  e_rfc2822 :: "int \<Rightarrow> string option"
  e_date_offset :: int
  e_base64 :: "string \<Rightarrow> string"
  e_self_key :: string
  e_key_base64 :: "string \<Rightarrow> ustr"
  e_key_fingerprint :: "string \<Rightarrow> ustr"
  e_supports_seipdv2 :: "string \<Rightarrow> bool"
  e_encrypt :: "string list \<Rightarrow> MimePart \<Rightarrow> bool \<Rightarrow> bool \<Rightarrow> string res"
  e_encrypt_symmetrically :: "ustr \<Rightarrow> MimePart \<Rightarrow> bool \<Rightarrow> bool \<Rightarrow> string res"
  e_write_part :: "MimePart \<Rightarrow> string"
  e_subject_for_new_contact :: "ustr \<Rightarrow> ustr"
  e_avatar_file :: "string \<Rightarrow> string res"
  e_body_file :: "Message \<Rightarrow> MimePart res"
  e_html :: "msg_id \<Rightarrow> string option res"
  e_post_metadata :: "Message \<Rightarrow> string option res"
  e_message_kml :: "Message \<Rightarrow> string option"
  e_location_kml :: "ctx \<Rightarrow> chat_id \<Rightarrow> (string \<times> nat) option res"
  e_node_addr :: "string res"
  e_gossip_topic :: "msg_id \<Rightarrow> string res"
  e_status_updates :: "ctx \<Rightarrow> msg_id \<Rightarrow> string option res"

definition new_address_with_name :: "ustr \<Rightarrow> ustr \<Rightarrow> Address" where
  "new_address_with_name name address =
     Mailbox (if name = address \<or> name = [] then None else Some (utf8_encode name)) (utf8_encode address)"

definition hidden_recipients :: Address where
  "hidden_recipients = AddrGroup (Some ''hidden-recipients'') []"

definition b_encode :: "mime_env \<Rightarrow> string \<Rightarrow> string" where
  "b_encode env v = ''=?utf-8?B?'' @ e_base64 env v @ ''?=''"

definition render_rfc724_mid :: "string \<Rightarrow> string" where
  "render_rfc724_mid mid =
     (let m = utf8_encode (utrim (utf8_decode mid)) in if starts_with m ''<'' then m else ''<'' @ m @ ''>'')"


section \<open>The subject\<close>

definition remove_subject_prefix :: "ustr \<Rightarrow> ustr" where
  "remove_subject_prefix last_subject =
     (let start = (if starts_with last_subject (U ''Chat:'') then 0
                   else case position (\<lambda>c. c = 58) (take 5 last_subject) of Some prefix_end \<Rightarrow> prefix_end + 1 | None \<Rightarrow> 0)
      in utrim (drop start last_subject))"

definition subject_str :: "mime_env \<Rightarrow> ctx \<Rightarrow> MimeFactory \<Rightarrow> ustr res" where
  "subject_str env s mf =
     (case mf_loaded mf of
        LoadedMdn _ _ \<Rightarrow> Inr (U ''Receipt Notification'')
      | LoadedMessage chat msg \<Rightarrow>
          res_bind (quoted_message s msg) (\<lambda>quoted.
            let quoted_subject = map_option mg_subject quoted; none_or_empty = (quoted_subject = None \<or> quoted_subject = Some [])
            in if mg_subject msg \<noteq> [] then Inr (mg_subject msg)
               else if (ch_type chat = Group \<or> ch_type chat = OutBroadcast) \<and> none_or_empty
               then Inr ((if mf_in_reply_to mf = [] then [] else U ''Re: '') @ ch_name chat)
               else
                 let parent_subject = (if none_or_empty then map_option utf8_decode (Params_get LastSubject (ch_param chat))
                                       else quoted_subject)
                 in case parent_subject of
                      Some last_subject \<Rightarrow> Inr (U ''Re: '' @ remove_subject_prefix last_subject)
                    | None \<Rightarrow>
                        let self_name = (if should_attach_profile_data msg then get_config (config s) Displayname else None)
                        in Inr (e_subject_for_new_contact env
                             (case self_name of Some name \<Rightarrow> utf8_decode name | None \<Rightarrow> config_text s Addr))))"


section \<open>Headers of every mail\<close>

definition opt_header :: "string \<Rightarrow> ('a \<Rightarrow> HeaderType) \<Rightarrow> 'a option \<Rightarrow> header list" where
  "opt_header name f v = (case v of Some x \<Rightarrow> [(name, f x)] | None \<Rightarrow> [])"

definition loaded_msg :: "MimeFactory \<Rightarrow> (chat_row \<times> Message) option" where
  "loaded_msg mf = (case mf_loaded mf of LoadedMessage chat msg \<Rightarrow> Some (chat, msg) | LoadedMdn _ _ \<Rightarrow> None)"

definition name_addr_list :: "(ustr \<times> ustr) list \<Rightarrow> Address list" where
  "name_addr_list = map (\<lambda>(name, addr). Mailbox (if name = [] then None else Some (utf8_encode name)) (utf8_encode addr))"

definition address_headers :: "MimeFactory \<Rightarrow> header list" where
  "address_headers mf =
     [(''From'', HAddress (new_address_with_name (mf_from_displayname mf) (mf_from_addr mf)))]
     @ opt_header ''Sender'' (\<lambda>name. HAddress (new_address_with_name name (mf_from_addr mf))) (mf_sender_displayname mf)
     @ [(''To'', HAddress (AddrList (if mf_to mf = [] then [hidden_recipients] else name_addr_list (mf_to mf))))]
     @ (if mf_past_members mf \<noteq> [] then [(''Chat-Group-Past-Members'', HAddress (AddrList (name_addr_list (mf_past_members mf))))]
        else [])"

definition member_headers :: "int \<Rightarrow> ctx \<Rightarrow> MimeFactory \<Rightarrow> header list" where
  "member_headers now s mf =
     (case loaded_msg mf of
        Some (chat, _) \<Rightarrow>
          if ch_type chat = Group then
            (if mf_member_timestamps mf \<noteq> [] \<and> \<not> member_list_is_stale now s chat
             then [(''Chat-Group-Member-Timestamps'', HRaw (join '' '' (map show_int (mf_member_timestamps mf))))] else [])
            @ (if mf_member_fingerprints mf \<noteq> []
               then [(''Chat-Group-Member-Fpr'', HRaw (join '' '' (map utf8_encode (mf_member_fingerprints mf))))] else [])
          else []
      | None \<Rightarrow> [])"

definition reply_headers :: "ctx \<Rightarrow> MimeFactory \<Rightarrow> header list" where
  "reply_headers s mf =
     (if mf_in_reply_to mf \<noteq> [] then [(''In-Reply-To'', HMessageId [mf_in_reply_to mf])] else [])
     @ (if mf_references mf \<noteq> [] then [(''References'', HMessageId (mf_references mf))] else [])
     @ (if loaded_msg mf = None then [(''Auto-Submitted'', HRaw ''auto-replied'')]
        else if get_config_bool (config s) Config.Bot then [(''Auto-Submitted'', HRaw ''auto-generated'')] else [])"

definition broadcast_headers :: "MimeFactory \<Rightarrow> header list" where
  "broadcast_headers mf =
     (case loaded_msg mf of
        Some (chat, msg) \<Rightarrow>
          if ch_type chat = OutBroadcast \<or> ch_type chat = InBroadcast then
            [(''Chat-List-ID'', HText (utf8_encode (ch_name chat) @ '' <'' @ utf8_encode (ch_grpid chat) @ ''>''))]
            @ (if Params_get_cmd (mg_param msg) = MemberAddedToGroup
               then opt_header ''Chat-Broadcast-Secret'' HText (Params_get Arg3 (mg_param msg)) else [])
          else []
      | None \<Rightarrow> [])"

definition request_headers :: "MimeFactory \<Rightarrow> header list" where
  "request_headers mf =
     (case loaded_msg mf of
        Some (_, msg) \<Rightarrow>
          (case Params_get TextEditFor (mg_param msg) of
             Some mid \<Rightarrow> [(''Chat-Edit'', HMessageId [mid])]
           | None \<Rightarrow> opt_header ''Chat-Delete'' (\<lambda>mid. HMessageId [mid]) (Params_get DeleteRequestFor (mg_param msg)))
      | None \<Rightarrow> [])"

definition get_aheader :: "mime_env \<Rightarrow> ctx \<Rightarrow> string \<Rightarrow> string" where
  "get_aheader env s self_addr =
     utf8_encode (Aheader_to_string (lower s) (e_key_base64 env)
       \<lparr>ah_addr = utf8_decode self_addr, ah_public_key = e_self_key env, ah_prefer_encrypt = Mutual, ah_verified = False\<rparr>)"

definition mode_headers :: "MimeFactory \<Rightarrow> header list" where
  "mode_headers mf =
     (case mf_pre_message_mode mf of
        ModePost \<Rightarrow> [(''Chat-Is-Post-Message'', HRaw ''1'')]
      | ModePre mid \<Rightarrow> [(''Chat-Post-Message-ID'', HMessageId [mid])]
      | ModeNone \<Rightarrow> [])"

definition timer_headers :: "ctx \<Rightarrow> MimeFactory \<Rightarrow> header list res" where
  "timer_headers s mf =
     (case loaded_msg mf of
        Some (_, msg) \<Rightarrow>
          res_bind (get_ephemeral_timer s (mg_chat_id msg)) (\<lambda>timer.
            Inr (case timer of Enabled d \<Rightarrow> [(''Ephemeral-Timer'', HRaw (show_nat d))] | Disabled \<Rightarrow> []))
      | None \<Rightarrow> Inr [])"

text \<open>The identifier of the mail; a new one is made for a receipt and, unless it has one, for a pre-message.\<close>

definition render_mid :: "MimeFactory \<Rightarrow> ctx \<Rightarrow> string \<times> ctx" where
  "render_mid mf s =
     (case mf_loaded mf of
        LoadedMessage _ msg \<Rightarrow>
          (case mf_pre_message_mode mf of
             ModePre _ \<Rightarrow> if mg_pre_rfc724_mid msg = [] then create_outgoing_rfc724_mid s else (mg_pre_rfc724_mid msg, s)
           | ModePost \<Rightarrow> (mg_rfc724_mid msg, s)
           | ModeNone \<Rightarrow> (mg_rfc724_mid msg, s))
      | LoadedMdn _ _ \<Rightarrow> create_outgoing_rfc724_mid s)"

definition rfc2822_date :: "mime_env \<Rightarrow> int \<Rightarrow> string res" where
  "rfc2822_date env ts = (case e_rfc2822 env ts of Some d \<Rightarrow> Inr d | None \<Rightarrow> Inl ''called `Option::unwrap()` on a `None` value'')"

definition mail_headers :: "mime_env \<Rightarrow> int \<Rightarrow> ctx \<Rightarrow> MimeFactory \<Rightarrow> ustr \<Rightarrow> string \<Rightarrow> string \<Rightarrow> string \<Rightarrow> header list res" where
  "mail_headers env now s mf subject date rfc724_mid self_addr =
     res_bind (timer_headers s mf) (\<lambda>timer.
       Inr (address_headers mf @ member_headers now s mf
         @ [(''Subject'', HText (utf8_encode subject)), (''Date'', HRaw date), (''Message-ID'', HMessageId [rfc724_mid])]
         @ reply_headers s mf @ broadcast_headers mf @ request_headers mf
         @ [(''Chat-Version'', HRaw ''1.0'')]
         @ (if mf_req_mdn mf then [(''Chat-Disposition-Notification-To'', HRaw (utf8_encode (mf_from_addr mf)))] else [])
         @ (if loaded_msg mf = None then [] else [(''Autocrypt'', HRaw (get_aheader env s self_addr))])
         @ mode_headers mf @ timer))"


section \<open>Headers of a message\<close>

definition grpimage :: "chat_row \<Rightarrow> Message \<Rightarrow> string option" where
  "grpimage chat msg =
     (if Params_get_cmd (mg_param msg) = MemberAddedToGroup then Params_get ProfileImage (ch_param chat)
      else if Params_get_cmd (mg_param msg) = GroupImageChanged then Params_get Arg (mg_param msg)
      else if Params_get_bool AttachChatAvatarAndDescription (mg_param msg) = Some True then Params_get ProfileImage (ch_param chat)
      else None)"

definition arg_or_empty :: "Param \<Rightarrow> Message \<Rightarrow> string" where
  "arg_or_empty k msg = (case Params_get k (mg_param msg) of Some v \<Rightarrow> v | None \<Rightarrow> [])"

definition nonempty_header :: "string \<Rightarrow> (string \<Rightarrow> HeaderType) \<Rightarrow> string \<Rightarrow> header list" where
  "nonempty_header name f v = (if v \<noteq> [] then [(name, f v)] else [])"

definition verified_headers :: "ctx \<Rightarrow> chat_row \<Rightarrow> header list" where
  "verified_headers s chat =
     (if (ch_type chat = Single \<or> ch_type chat = Group)
         \<and> (case chat_row_of s (ch_id chat) of Some c \<Rightarrow> ch_protected c | None \<Rightarrow> False)
         \<and> \<not> list_ex (\<lambda>r. cc_chat r = ch_id chat
              \<and> list_ex (\<lambda>c. c_id c = cc_contact r \<and> c_id c > 9 \<and> c_verifier c = 0) (contacts s)) (chats_contacts s)
      then [(''Chat-Verified'', HRaw ''1'')] else [])"

definition group_headers :: "chat_row \<Rightarrow> header list" where
  "group_headers chat =
     (if ch_type chat = Group \<and> ch_grpid chat \<noteq> [] then [(''Chat-Group-ID'', HRaw (utf8_encode (ch_grpid chat)))] else [])
     @ (if ch_type chat = Group \<or> ch_type chat = OutBroadcast then
          [(''Chat-Group-Name'', HText (utf8_encode (ch_name chat)))]
          @ opt_header ''Chat-Group-Name-Timestamp'' (\<lambda>ts. HText (show_int ts)) (Params_get_i64 GroupNameTimestamp (ch_param chat))
        else [])"

text \<open>The headers of a change in a group, and the text that stands for it in other programs.\<close>

definition has_group_headers :: "chat_row \<Rightarrow> bool" where
  "has_group_headers chat \<longleftrightarrow> ch_type chat = Group \<or> ch_type chat = OutBroadcast \<or> ch_type chat = InBroadcast"

definition change_headers :: "ctx \<Rightarrow> chat_row \<Rightarrow> Message \<Rightarrow> string option \<Rightarrow> bool \<Rightarrow> header list \<times> string option" where
  "change_headers s chat msg img enc =
     (if \<not> has_group_headers chat then ([], None) else case Params_get_cmd (mg_param msg) of
        MemberRemovedFromGroup \<Rightarrow>
          let email = arg_or_empty Arg msg
          in (nonempty_header ''Chat-Group-Member-Removed'' HRaw email
                @ nonempty_header ''Chat-Group-Member-Removed-Fpr'' HRaw (arg_or_empty Arg4 msg),
              Some (if email = (case get_config (config s) ConfiguredAddr of Some a \<Rightarrow> a | None \<Rightarrow> [])
                    then email @ '' left the group.'' else ''Member '' @ email @ '' was removed.''))
      | MemberAddedToGroup \<Rightarrow>
          let email = arg_or_empty Arg msg
          in (nonempty_header ''Chat-Group-Member-Added'' HRaw email
                @ nonempty_header ''Chat-Group-Member-Added-Fpr'' HRaw (arg_or_empty Arg4 msg)
                @ (if (case Params_get_int Arg2 (mg_param msg) of Some n \<Rightarrow> n mod 2 \<noteq> 0 | None \<Rightarrow> False)
                   then [(''Secure-Join'', HRaw ''vg-member-added'')] else []),
              Some (''Member '' @ email @ '' was added.''))
      | GroupNameChanged \<Rightarrow>
          ([(''Chat-Group-Name-Changed'', HText (arg_or_empty Arg msg))], Some ''Chat name changed.'')
      | GroupDescriptionChanged \<Rightarrow>
          ([(''Chat-Group-Description-Changed'', HText [])],
           Some ''[Chat description changed. To see this and other new features, please update the app]'')
      | GroupImageChanged \<Rightarrow>
          ((''Chat-Content'', HText ''group-avatar-changed'')
             # (if img = None \<and> enc then [(''Chat-Group-Avatar'', HRaw ''0'')] else []), Some ''Chat img changed.'')
      | _ \<Rightarrow> ([], None))"

definition description_headers :: "mime_env \<Rightarrow> ctx \<Rightarrow> chat_row \<Rightarrow> Message \<Rightarrow> header list" where
  "description_headers env s chat msg =
     (if has_group_headers chat
         \<and> (Params_get_cmd (mg_param msg) = GroupDescriptionChanged \<or> Params_get_cmd (mg_param msg) = MemberAddedToGroup
              \<or> Params_get_bool AttachChatAvatarAndDescription (mg_param msg) = Some True)
      then (''Chat-Group-Description'', HRaw (b_encode env (utf8_encode (get_chat_description s (ch_id chat)))))
           # opt_header ''Chat-Group-Description-Timestamp'' (\<lambda>ts. HText (show_int ts)) (Params_get_i64 GroupDescriptionTimestamp (ch_param chat))
      else [])"

definition securejoin_headers :: "Message \<Rightarrow> header list" where
  "securejoin_headers msg =
     (let step = arg_or_empty Arg msg
      in if step = [] then []
         else [(''Secure-Join'', HRaw step)]
           @ nonempty_header (if step = ''vg-request-with-auth'' \<or> step = ''vc-request-with-auth'' then ''Secure-Join-Auth''
                              else ''Secure-Join-Invitenumber'') HText (arg_or_empty Arg2 msg)
           @ nonempty_header ''Secure-Join-Fingerprint'' HRaw (arg_or_empty Arg3 msg)
           @ opt_header ''Secure-Join-Group'' HRaw (Params_get Arg4 (mg_param msg)))"

definition command_headers :: "mime_env \<Rightarrow> Message \<Rightarrow> header list res" where
  "command_headers env msg =
     (case Params_get_cmd (mg_param msg) of
        LocationStreamingEnabled \<Rightarrow> Inr [(''Chat-Content'', HRaw ''location-streaming-enabled'')]
      | EphemeralTimerChanged \<Rightarrow> Inr [(''Chat-Content'', HRaw ''ephemeral-timer-changed'')]
      | LocationOnly \<Rightarrow> Inr [(''Auto-Submitted'', HRaw ''auto-generated'')]
      | MultiDeviceSync \<Rightarrow> Inr [(''Auto-Submitted'', HRaw ''auto-generated'')]
      | SystemMessage.WebxdcStatusUpdate \<Rightarrow> Inr [(''Auto-Submitted'', HRaw ''auto-generated'')]
      | SecurejoinMessage \<Rightarrow> Inr (securejoin_headers msg)
      | ChatProtectionEnabled \<Rightarrow> Inr [(''Chat-Content'', HRaw ''protection-enabled'')]
      | ChatProtectionDisabled \<Rightarrow> Inr [(''Chat-Content'', HRaw ''protection-disabled'')]
      | SystemMessage.IrohNodeAddr \<Rightarrow> res_bind (e_node_addr env) (\<lambda>a. Inr [(''iroh-node-addr'', HText a)])
      | SystemMessage.CallAccepted \<Rightarrow> Inr [(''Chat-Content'', HRaw ''call-accepted'')]
      | SystemMessage.CallEnded \<Rightarrow> Inr [(''Chat-Content'', HRaw ''call-ended'')]
      | _ \<Rightarrow> Inr [])"

definition call_headers :: "mime_env \<Rightarrow> Message \<Rightarrow> header list" where
  "call_headers env msg =
     (if mg_viewtype msg = Sticker then [(''Chat-Content'', HRaw ''sticker'')]
      else if mg_viewtype msg = Call then [(''Chat-Content'', HRaw ''call'')] else [])
     @ (case Params_get WebrtcRoom (mg_param msg) of
          Some offer \<Rightarrow> [(''Chat-Webrtc-Room'', HRaw (b_encode env offer))]
        | None \<Rightarrow> opt_header ''Chat-Webrtc-Accepted'' (\<lambda>a. HRaw (b_encode env a)) (Params_get WebrtcAccepted (mg_param msg)))
     @ opt_header ''Chat-Webrtc-Has-Video-Initially'' (\<lambda>v. HRaw (b_encode env v)) (Params_get WebrtcHasVideoInitially (mg_param msg))"

definition media_headers :: "Message \<Rightarrow> header list" where
  "media_headers msg =
     (if mg_viewtype msg = Voice \<or> mg_viewtype msg = Audio \<or> mg_viewtype msg = Video then
        let duration_ms = (case Params_get_int Duration (mg_param msg) of Some d \<Rightarrow> d | None \<Rightarrow> 0)
        in (if mg_viewtype msg = Voice then [(''Chat-Voice-Message'', HRaw ''1'')] else [])
           @ (if duration_ms > 0 then [(''Chat-Duration'', HRaw (show_int duration_ms))] else [])
      else [])"


definition avatar_header :: "mime_env \<Rightarrow> string option \<Rightarrow> bool \<Rightarrow> header list res" where
  "avatar_header env img enc =
     (case img of
        Some path \<Rightarrow>
          if enc then (case e_avatar_file env path of
               Inr avatar \<Rightarrow> Inr [(''Chat-Group-Avatar'', HRaw (''base64:'' @ avatar))]
             | Inl e \<Rightarrow> Inl ''Cannot attach group img'')
          else Inr []
      | None \<Rightarrow> Inr [])"

definition selfavatar_header :: "mime_env \<Rightarrow> ctx \<Rightarrow> MimeFactory \<Rightarrow> header list" where
  "selfavatar_header env s mf =
     (if mf_attach_selfavatar mf \<and> mf_pre_message_mode mf \<noteq> ModePost then
        case get_config (config s) Selfavatar of
          Some path \<Rightarrow> (case e_avatar_file env path of
                          Inr avatar \<Rightarrow> [(''Chat-User-Avatar'', HRaw (''base64:'' @ avatar))]
                        | Inl e \<Rightarrow> [])
        | None \<Rightarrow> [(''Chat-User-Avatar'', HRaw ''0'')]
      else [])"


section \<open>The text\<close>

definition fwdhint :: ustr where
  "fwdhint = U ''---------- Forwarded message ----------'' @ [13, 10] @ U ''From: Delta Chat'' @ [13, 10, 13, 10]"

definition render_quote :: "ustr \<Rightarrow> ustr" where
  "render_quote q = concat (map (\<lambda>l. U ''> '' @ l @ [13, 10]) (split_lines q)) @ [13, 10]"

definition message_text :: "bool \<Rightarrow> ustr option \<Rightarrow> ustr \<Rightarrow> ustr \<Rightarrow> ustr" where
  "message_text forwarded quote final_text footer =
     (if forwarded then fwdhint else [])
     @ (case quote of Some q \<Rightarrow> q | None \<Rightarrow> if starts_with final_text (U ''>'') then [13, 10] else [])
     @ escape_message_footer_marks final_text
     @ (if final_text \<noteq> [] \<and> footer \<noteq> [] then [13, 10, 13, 10] else [])
     @ (if footer \<noteq> [] then U ''-- '' @ [13, 10] else [])
     @ footer"

definition quote_of :: "Message \<Rightarrow> bool \<Rightarrow> ustr option" where
  "quote_of msg enc =
     (if \<not> enc \<and> Params_get_bool ProtectQuote (mg_param msg) = Some True then Some (U ''> ...'' @ [13, 10, 13, 10])
      else map_option (\<lambda>q. render_quote (utf8_decode q)) (Params_get Quote (mg_param msg)))"

definition is_reaction :: "Message \<Rightarrow> bool" where
  "is_reaction msg \<longleftrightarrow> (case Params_get_int Reaction (mg_param msg) of Some r \<Rightarrow> r \<noteq> 0 | None \<Rightarrow> False)"

definition text_part :: "MimeFactory \<Rightarrow> Message \<Rightarrow> string option \<Rightarrow> bool \<Rightarrow> MimePart" where
  "text_part mf msg placeholdertext enc =
     (let final_text = (case placeholdertext of Some p \<Rightarrow> utf8_decode p | None \<Rightarrow> mg_text msg);
          text = (if mf_pre_message_mode mf = ModePost then []
                  else message_text (Params_get Forwarded (mg_param msg) \<noteq> None) (quote_of msg enc) final_text
                    (if is_reaction msg then [] else mf_selfstatus mf));
          part = MimePart_new ''text/plain'' (BodyText (utf8_encode text))
      in if is_reaction msg then add_header (''Content-Disposition'', HRaw ''reaction'') part else part)"

definition html_of :: "mime_env \<Rightarrow> Message \<Rightarrow> string option res" where
  "html_of env msg =
     (if \<not> mg_mime_modified msg then Inr None
      else case Params_get SendHtml (mg_param msg) of
        Some html \<Rightarrow> Inr (Some html)
      | None \<Rightarrow>
          (case Params_get_int Forwarded (mg_param msg) of
             Some orig \<Rightarrow> if orig = 0 then Inr None
                          else if orig < 0 then Inl ''out of range integral type conversion attempted''
                          else e_html env (nat orig)
           | None \<Rightarrow> Inr None))"

definition main_part :: "mime_env \<Rightarrow> MimeFactory \<Rightarrow> Message \<Rightarrow> string option \<Rightarrow> bool \<Rightarrow> MimePart res" where
  "main_part env mf msg placeholdertext enc =
     res_bind (html_of env msg) (\<lambda>html.
       let part = text_part mf msg placeholdertext enc
       in Inr (case html of
            Some h \<Rightarrow> MimePart_new ''multipart/alternative'' (BodyParts [part, MimePart_new ''text/html'' (BodyText h)])
          | None \<Rightarrow> part))"


section \<open>Further parts\<close>

definition is_pre_message :: "MimeFactory \<Rightarrow> bool" where
  "is_pre_message mf = (case mf_pre_message_mode mf of ModePre _ \<Rightarrow> True | _ \<Rightarrow> False)"

text \<open>The file of a message or, in a pre-message, the header that announces it.\<close>

definition file_part :: "mime_env \<Rightarrow> MimeFactory \<Rightarrow> Message \<Rightarrow> (header list \<times> MimePart list) res" where
  "file_part env mf msg =
     (if \<not> has_file (mg_viewtype msg) then Inr ([], [])
      else if is_pre_message mf then
        res_bind (e_post_metadata env msg) (\<lambda>metadata.
          case metadata of
            None \<Rightarrow> Inl ''Failed to generate metadata for pre-message''
          | Some m \<Rightarrow> Inr ([(''chat-post-message-metadata'', HRaw m)], []))
      else res_bind (e_body_file env msg) (\<lambda>part. Inr ([], [part])))"

definition get_message_kml_part :: "mime_env \<Rightarrow> Message \<Rightarrow> MimePart list" where
  "get_message_kml_part env msg =
     (case e_message_kml env msg of
        Some kml \<Rightarrow> [attachment ''message.kml'' (MimePart_new ''application/vnd.google-earth.kml+xml'' (BodyText kml))]
      | None \<Rightarrow> [])"

definition is_sending_to_chat :: "int \<Rightarrow> ctx \<Rightarrow> chat_id \<Rightarrow> bool" where
  "is_sending_to_chat now s chat \<longleftrightarrow> list_ex (\<lambda>c. ch_id c = chat \<and> ch_locations_send_until c > now) (chats s)"

definition get_location_kml_part :: "mime_env \<Rightarrow> int \<Rightarrow> ctx \<Rightarrow> Message \<Rightarrow> MimeFactory \<Rightarrow> (MimePart list \<times> MimeFactory) res" where
  "get_location_kml_part env now s msg mf =
     (if \<not> is_sending_to_chat now s (mg_chat_id msg) then Inr ([], mf)
      else res_bind (e_location_kml env s (mg_chat_id msg)) (\<lambda>kml.
        case kml of
          None \<Rightarrow> Inr ([], mf)
        | Some (content, loc) \<Rightarrow>
            Inr ([attachment ''location.kml'' (MimePart_new ''application/vnd.google-earth.kml+xml'' (BodyText content))],
                 if Params_get SetLatitude (mg_param msg) = None then mf\<lparr>mf_last_added_location_id := Some loc\<rparr> else mf)))"

definition build_sync_part :: "string \<Rightarrow> MimePart" where
  "build_sync_part json = attachment ''multi-device-sync.json'' (MimePart_new ''application/json'' (BodyText json))"

definition build_status_update_part :: "string \<Rightarrow> MimePart" where
  "build_status_update_part json = attachment ''status-update.json'' (MimePart_new ''application/json'' (BodyText json))"

definition app_parts :: "mime_env \<Rightarrow> ctx \<Rightarrow> Message \<Rightarrow> MimeFactory \<Rightarrow> (header list \<times> MimePart list \<times> MimeFactory) res" where
  "app_parts env s msg mf =
     (if Params_get_cmd (mg_param msg) = MultiDeviceSync
      then Inr ([], [build_sync_part (arg_or_empty Arg msg)], mf\<lparr>mf_sync_ids_to_delete := Some (arg_or_empty Arg2 msg)\<rparr>)
      else if Params_get_cmd (mg_param msg) = SystemMessage.WebxdcStatusUpdate
      then Inr ([], [build_status_update_part (arg_or_empty Arg msg)], mf)
      else if mg_viewtype msg = Webxdc then
        res_bind (e_gossip_topic env (mg_id msg)) (\<lambda>topic.
        res_bind (if is_pre_message mf then Inr None else e_status_updates env s (mg_id msg)) (\<lambda>json.
          Inr ([(''iroh-gossip-topic'', HRaw topic)],
               (case json of Some j \<Rightarrow> [build_status_update_part j] | None \<Rightarrow> []), mf)))
      else Inr ([], [], mf))"

definition call_placeholder :: string where
  "call_placeholder = ''[This is a 'Call'. The sender uses an experiment not supported on your version yet]''"

definition render_message ::
  "mime_env \<Rightarrow> int \<Rightarrow> ctx \<Rightarrow> chat_row \<Rightarrow> Message \<Rightarrow> bool \<Rightarrow> header list \<Rightarrow> MimeFactory
     \<Rightarrow> (header list \<times> MimePart \<times> MimePart list \<times> MimeFactory) res" where
  "render_message env now s chat msg enc headers mf =
     (let img = grpimage chat msg;
          (change, text) = change_headers s chat msg img enc;
          placeholdertext = (if mg_viewtype msg = Call then Some call_placeholder else text)
      in res_bind (command_headers env msg) (\<lambda>command.
         res_bind (avatar_header env img enc) (\<lambda>avatar.
         res_bind (main_part env mf msg placeholdertext enc) (\<lambda>main.
         res_bind (file_part env mf msg) (\<lambda>(metadata, file).
         res_bind (get_location_kml_part env now s msg mf) (\<lambda>(location, mf1).
         res_bind (app_parts env s msg mf1) (\<lambda>(topic, app, mf2).
           Inr (headers @ verified_headers s chat @ group_headers chat @ change @ description_headers env s chat msg
                  @ command @ avatar @ call_headers env msg @ media_headers msg @ metadata @ topic @ selfavatar_header env s mf,
                main, file @ get_message_kml_part env msg @ location @ app, mf2))))))))"

definition render_mdn :: "MimeFactory \<Rightarrow> string \<Rightarrow> string list \<Rightarrow> MimePart" where
  "render_mdn mf rfc724_mid additional_msg_ids =
     MimePart_new ''multipart/report; report-type=disposition-notification'' (BodyParts
       [MimePart_new ''text/plain'' (BodyText ''This is a receipt notification.''),
        MimePart_new ''message/disposition-notification'' (BodyText
          (''Original-Recipient: rfc822;'' @ utf8_encode (mf_from_addr mf) @ CRLF
           @ ''Final-Recipient: rfc822;'' @ utf8_encode (mf_from_addr mf) @ CRLF
           @ ''Original-Message-ID: <'' @ rfc724_mid @ ''>'' @ CRLF
           @ ''Disposition: manual-action/MDN-sent-automatically; displayed'' @ CRLF
           @ (if additional_msg_ids = [] then []
              else ''Additional-Message-IDs: '' @ join '' '' (map render_rfc724_mid additional_msg_ids) @ CRLF)))])"

definition render_body ::
  "mime_env \<Rightarrow> int \<Rightarrow> ctx \<Rightarrow> bool \<Rightarrow> header list \<Rightarrow> MimeFactory \<Rightarrow> (header list \<times> MimePart \<times> MimeFactory) res" where
  "render_body env now s enc headers mf =
     (case mf_loaded mf of
        LoadedMdn mid additional \<Rightarrow> Inr (headers, render_mdn mf mid additional, mf)
      | LoadedMessage chat msg \<Rightarrow>
          res_bind (render_message env now s chat msg enc headers mf) (\<lambda>(headers, main, parts, mf).
            Inr (headers,
                 if parts = [] then main
                 else MimePart_new
                   (if Params_get_cmd (mg_param msg) = MultiDeviceSync then ''multipart/report; report-type=multi-device-sync''
                    else if Params_get_cmd (mg_param msg) = SystemMessage.WebxdcStatusUpdate
                    then ''multipart/report; report-type=status-update''
                    else ''multipart/mixed'') (BodyParts (main # parts)),
                 mf)))"


section \<open>Headers by confidentiality\<close>

definition lower_char :: "char \<Rightarrow> char" where
  "lower_char c = (if of_char c \<ge> (65::nat) \<and> of_char c \<le> (90::nat) then char_of (of_char c + (32::nat)) else c)"

definition lower_name :: "string \<Rightarrow> string" where
  "lower_name = map lower_char"

definition is_hidden :: "string \<Rightarrow> bool" where
  "is_hidden key \<longleftrightarrow> key \<in> set [''chat-user-avatar'', ''chat-group-avatar'', ''chat-delete'', ''chat-edit'']"

record HeadersByConfidentiality =
  unprotected_headers :: "header list"
  hidden_headers :: "header list"
  protected_headers :: "header list"

text \<open>What one header adds to the three lists; \<open>date\<close> is the randomised date, \<open>from\<close> the address of the sender.\<close>

definition group_header :: "string \<Rightarrow> string \<Rightarrow> bool \<Rightarrow> bool \<Rightarrow> header \<Rightarrow> HeadersByConfidentiality" where
  "group_header from date enc securejoin h =
     (let name = lower_name (fst h)
      in if name = ''message-id''
         then \<lparr>unprotected_headers = [h], hidden_headers = [h], protected_headers = []\<rparr>
         else if is_hidden name then \<lparr>unprotected_headers = [], hidden_headers = [h], protected_headers = []\<rparr>
         else if name = ''from''
         then \<lparr>unprotected_headers = [(fst h, HAddress (Mailbox None from))], hidden_headers = [],
               protected_headers = (if enc \<or> \<not> securejoin then [h] else [])\<rparr>
         else if name = ''to''
         then \<lparr>unprotected_headers = [if enc then (''To'', HAddress hidden_recipients) else h], hidden_headers = [],
               protected_headers = [h]\<rparr>
         else if name = ''chat-broadcast-secret''
         then \<lparr>unprotected_headers = [], hidden_headers = [], protected_headers = (if enc then [h] else [])\<rparr>
         else if enc \<and> name = ''date''
         then \<lparr>unprotected_headers = [(''Date'', HRaw date)], hidden_headers = [], protected_headers = [h]\<rparr>
         else if enc
         then \<lparr>unprotected_headers =
                 (if name = ''subject'' then [(''Subject'', HRaw ''[...]'')]
                  else if name = ''chat-version'' \<or> name = ''autocrypt-setup-message'' \<or> name = ''chat-is-post-message'' then [h]
                  else []), hidden_headers = [], protected_headers = [h]\<rparr>
         else \<lparr>unprotected_headers = [h], hidden_headers = [], protected_headers = []\<rparr>)"

definition outer_date :: "mime_env \<Rightarrow> int \<Rightarrow> bool \<Rightarrow> string res" where
  "outer_date env timestamp enc = (if enc then rfc2822_date env (sat_i64 (timestamp - e_date_offset env)) else Inr [])"

definition group_headers_by_confidentiality ::
  "string \<Rightarrow> string \<Rightarrow> bool \<Rightarrow> bool \<Rightarrow> header list \<Rightarrow> HeadersByConfidentiality" where
  "group_headers_by_confidentiality from date enc securejoin headers =
     (let gs = map (group_header from date enc securejoin) headers
      in \<lparr>unprotected_headers = (''MIME-Version'', HRaw ''1.0'') # concat (map unprotected_headers gs),
          hidden_headers = concat (map hidden_headers gs),
          protected_headers = concat (map protected_headers gs)\<rparr>)"


section \<open>Encryption\<close>

definition add_headers :: "header list \<Rightarrow> MimePart \<Rightarrow> MimePart" where
  "add_headers hs part = fold add_header hs part"

definition is_structural :: "string \<Rightarrow> bool" where
  "is_structural name \<longleftrightarrow>
     lower_name name \<in> set [''mime-version'', ''content-type'', ''content-transfer-encoding'', ''content-disposition'']"

fun mark_protected :: "header list \<Rightarrow> header list" where
  "mark_protected [] = []"
| "mark_protected ((name, HContentType ct attrs) # hs) =
     (if name = ''Content-Type'' then (name, HContentType ct (attrs @ [(''protected-headers'', ''v1''), (''hp'', ''cipher'')])) # hs
      else (name, HContentType ct attrs) # mark_protected hs)"
| "mark_protected (h # hs) = h # mark_protected hs"

definition add_headers_to_encrypted_part :: "HeadersByConfidentiality \<Rightarrow> MimePart \<Rightarrow> MimePart" where
  "add_headers_to_encrypted_part g message =
     (let outer = map (\<lambda>(name, v). (''HP-Outer: '' @ name, v)) (filter (\<lambda>(name, _). \<not> is_structural name) (unprotected_headers g));
          part = add_headers outer (add_headers (hidden_headers g) (add_headers (protected_headers g) message))
      in MimePart (mark_protected (part_headers part)) (part_body part))"

definition wrap_encrypted_part :: "string \<Rightarrow> MimePart" where
  "wrap_encrypted_part encrypted =
     MimePart_new ''multipart/encrypted; protocol=\"application/pgp-encrypted\"'' (BodyParts
       [MimePart_new ''application/pgp-encrypted'' (BodyText (''Version: 1'' @ CRLF)),
        MimePart_new ''application/octet-stream'' (BodyText encrypted)])"

definition render_outer_message :: "mime_env \<Rightarrow> header list \<Rightarrow> MimePart \<Rightarrow> string" where
  "render_outer_message env headers outer = e_write_part env (add_headers headers outer)"


definition gossiped_timestamp :: "ctx \<Rightarrow> chat_id \<Rightarrow> ustr \<Rightarrow> int option" where
  "gossiped_timestamp s chat fp =
     map_option go_timestamp (sel_one (\<lambda>g. go_chat_id g = chat \<and> go_fingerprint g = fp) (gossip_timestamp s))"

definition set_gossiped_timestamp :: "chat_id \<Rightarrow> ustr \<Rightarrow> int \<Rightarrow> ctx \<Rightarrow> ctx" where
  "set_gossiped_timestamp chat fp ts s =
     s\<lparr>gossip_timestamp :=
         (if gossiped_timestamp s chat fp = None
          then gossip_timestamp s @ [\<lparr>go_chat_id = chat, go_fingerprint = fp, go_timestamp = ts\<rparr>]
          else upd_where (\<lambda>g. go_chat_id g = chat \<and> go_fingerprint g = fp) (\<lambda>g. g\<lparr>go_timestamp := ts\<rparr>) (gossip_timestamp s))\<rparr>"

definition should_do_gossip :: "int \<Rightarrow> ctx \<Rightarrow> chat_id \<Rightarrow> Message \<Rightarrow> bool \<Rightarrow> ustr \<Rightarrow> bool" where
  "should_do_gossip now s chat msg multiple_recipients fp \<longleftrightarrow>
     Params_get_cmd (mg_param msg) = MemberAddedToGroup \<or> Params_get_cmd (mg_param msg) = SecurejoinMessage
     \<or> multiple_recipients
        \<and> (get_config_i64 (config s) GossipPeriod = 0
            \<or> (case gossiped_timestamp s chat fp of
                 None \<Rightarrow> True
               | Some ts \<Rightarrow> now \<ge> ts + get_config_i64 (config s) GossipPeriod \<or> now < ts))"

definition gossip_header :: "mime_env \<Rightarrow> ctx \<Rightarrow> ustr \<Rightarrow> string \<Rightarrow> header" where
  "gossip_header env s addr key =
     (''Autocrypt-Gossip'', HRaw (utf8_encode (Aheader_to_string (lower s) (e_key_base64 env)
        \<lparr>ah_addr = addr, ah_public_key = key, ah_prefer_encrypt = NoPreference,
         ah_verified = (case sel_one (\<lambda>c. c_fingerprint c = e_key_fingerprint env key) (contacts s) of
                          Some c \<Rightarrow> c_verifier c \<noteq> 0 | None \<Rightarrow> False)\<rparr>)))"

fun gossip_keys ::
  "mime_env \<Rightarrow> int \<Rightarrow> chat_id \<Rightarrow> Message \<Rightarrow> bool \<Rightarrow> (ustr \<times> string) list \<Rightarrow> MimePart \<times> ctx \<Rightarrow> MimePart \<times> ctx" where
  "gossip_keys env now chat msg multiple [] st = st"
| "gossip_keys env now chat msg multiple ((addr, key) # keys) (part, s) =
     (let fp = e_key_fingerprint env key
      in gossip_keys env now chat msg multiple keys
           (if should_do_gossip now s chat msg multiple fp
            then (add_header (gossip_header env s addr key) part, set_gossiped_timestamp chat fp now s)
            else (part, s)))"

definition add_gossip :: "mime_env \<Rightarrow> int \<Rightarrow> MimeFactory \<Rightarrow> (ustr \<times> string) list \<Rightarrow> MimePart \<Rightarrow> ctx \<Rightarrow> MimePart \<times> ctx" where
  "add_gossip env now mf keys part s =
     (case mf_loaded mf of
        LoadedMessage chat msg \<Rightarrow>
          if should_hide_recipients msg chat \<or> mf_pre_message_mode mf = ModePost then (part, s)
          else gossip_keys env now (ch_id chat) msg (length keys > 1 \<or> get_config_bool (config s) BccSelf) keys (part, s)
      | LoadedMdn _ _ \<Rightarrow> (part, s))"

definition is_securejoin_message :: "MimeFactory \<Rightarrow> bool" where
  "is_securejoin_message mf =
     (case loaded_msg mf of Some (_, msg) \<Rightarrow> Params_get_cmd (mg_param msg) = SecurejoinMessage | None \<Rightarrow> False)"

definition BROADCAST_INCOMPATIBILITY_MSG :: ustr where
  "BROADCAST_INCOMPATIBILITY_MSG =
     U ''The up to now \"experimental channels feature\" is about to become an officially supported one. ''
     @ U ''By that, privacy will be improved, it will become faster, and less traffic will be consumed.'' @ [10, 10]
     @ U ''As we do not guarantee feature-stability for such experiments, this means, ''
     @ U ''that you will need to create the channel again. '' @ [10, 10]
     @ U ''Here is what to do:'' @ [10, 32, 8226] @ U '' Create a new channel'' @ [10, 32, 8226] @ U '' Tap on the channel name''
     @ [10, 32, 8226] @ U '' Tap on \"QR Invite Code\"'' @ [10, 32, 8226]
     @ U '' Have all recipients scan the QR code, or send them the link'' @ [10, 10]
     @ U ''If you have any questions, please send an email to delta@merlinux.eu or ask at https://support.delta.chat/.''"

text \<open>
  Encryption with the secret of a broadcast channel or to the own key and the keys of the recipients.  A channel without a
  secret gets a notice and the mail fails, so the state is returned beside the result.
\<close>

definition encrypt_part ::
  "mime_env \<Rightarrow> int \<Rightarrow> MimeFactory \<Rightarrow> (ustr \<times> string) list \<Rightarrow> MimePart \<Rightarrow> ctx \<Rightarrow> string res \<times> ctx" where
  "encrypt_part env now mf keys part s =
     (let compress = (\<not> is_securejoin_message mf);
          asymmetric = e_encrypt env (e_self_key env # map snd keys) part compress (list_all (\<lambda>(_, key). e_supports_seipdv2 env key) keys)
      in case loaded_msg mf of
           Some (chat, msg) \<Rightarrow>
             if should_encrypt_with_broadcast_secret msg chat then
               (case load_broadcast_secret s (ch_id chat) of
                  Some secret \<Rightarrow> (e_encrypt_symmetrically env secret part compress True, s)
                | None \<Rightarrow>
                    (case add_info_msg now (ch_id chat) BROADCAST_INCOMPATIBILITY_MSG s of
                       Inl e \<Rightarrow> (Inl e, s)
                     | Inr (_, s') \<Rightarrow> (Inl (utf8_encode BROADCAST_INCOMPATIBILITY_MSG), s')))
             else (asymmetric, s)
         | None \<Rightarrow> (asymmetric, s))"


section \<open>The mail\<close>

record RenderedEmail =
  re_message :: string
  re_is_encrypted :: bool
  re_last_added_location_id :: "nat option"
  re_sync_ids_to_delete :: "string option"
  re_rfc724_mid :: string
  re_subject :: ustr

definition plain_part :: "MimeFactory \<Rightarrow> HeadersByConfidentiality \<Rightarrow> MimePart \<Rightarrow> header list \<times> MimePart" where
  "plain_part mf g message =
     (case mf_loaded mf of
        LoadedMdn _ _ \<Rightarrow> (unprotected_headers g, message)
      | LoadedMessage _ _ \<Rightarrow>
          (filter (\<lambda>(name, _). name \<notin> fst ` set (protected_headers g)) (unprotected_headers g),
           add_headers (protected_headers g) (MimePart_new ''multipart/mixed'' (BodyParts [add_headers (hidden_headers g) message]))))"

definition outer_part ::
  "mime_env \<Rightarrow> int \<Rightarrow> MimeFactory \<Rightarrow> HeadersByConfidentiality \<Rightarrow> MimePart \<Rightarrow> ctx \<Rightarrow> (header list \<times> MimePart) res \<times> ctx" where
  "outer_part env now mf g message s =
     (case mf_encryption_pubkeys mf of
        Some keys \<Rightarrow>
          let (part, s1) = add_gossip env now mf keys (add_headers_to_encrypted_part g message) s;
              (encrypted, s2) = encrypt_part env now mf keys part s1
          in (res_bind encrypted (\<lambda>e. Inr (unprotected_headers g, wrap_encrypted_part e)), s2)
      | None \<Rightarrow> (Inr (plain_part mf g message), s))"

text \<open>The headers and the body before they are split, with the state after the key was loaded and an identifier was made.\<close>

definition member_counts_agree :: "MimeFactory \<Rightarrow> bool" where
  "member_counts_agree mf \<longleftrightarrow>
     mf_member_timestamps mf = [] \<or> length (mf_to mf) + length (mf_past_members mf) = length (mf_member_timestamps mf)"

definition render_inner ::
  "mime_env \<Rightarrow> int \<Rightarrow> MimeFactory \<Rightarrow> ctx \<Rightarrow> (ustr \<times> string \<times> string \<times> header list \<times> MimePart \<times> MimeFactory) res \<times> ctx" where
  "render_inner env now mf s0 =
     (if \<not> member_counts_agree mf then (Inl ''to.len() + past_members.len() != member_timestamps.len()'', s0)
      else case res_bind (subject_str env s0 mf) (\<lambda>subject.
                res_bind (rfc2822_date env (mf_timestamp mf)) (\<lambda>date. Inr (subject, date))) of
        Inl e \<Rightarrow> (Inl e, s0)
      | Inr (subject, date) \<Rightarrow>
          let (mid, s1) = render_mid mf s0
          in case get_primary_self_addr (config s1) of
               Inl e \<Rightarrow> (Inl e, s1)
             | Inr self_addr \<Rightarrow>
                 let enc = (mf_encryption_pubkeys mf \<noteq> None);
                     s = snd (get_self_fingerprint s1)
                 in (res_bind (mail_headers env now s mf subject date mid self_addr) (\<lambda>hs.
                     res_bind (render_body env now s enc hs mf) (\<lambda>(headers, message, mf').
                     res_bind (outer_date env (mf_timestamp mf) enc) (\<lambda>odate.
                       Inr (subject, mid, odate, headers, message, mf')))), s))"

definition render :: "mime_env \<Rightarrow> int \<Rightarrow> MimeFactory \<Rightarrow> ctx \<Rightarrow> RenderedEmail res \<times> ctx" where
  "render env now mf s0 =
     (case render_inner env now mf s0 of
        (Inl e, s) \<Rightarrow> (Inl e, s)
      | (Inr (subject, mid, date, headers, message, mf'), s) \<Rightarrow>
          let enc = (mf_encryption_pubkeys mf \<noteq> None);
              g = group_headers_by_confidentiality (utf8_encode (mf_from_addr mf)) date enc (is_securejoin_message mf) headers;
              (outer, s') = outer_part env now mf g message s
          in (res_bind outer (\<lambda>(hs, part).
                Inr \<lparr>re_message = render_outer_message env hs part, re_is_encrypted = enc,
                  re_last_added_location_id = mf_last_added_location_id mf',
                  re_sync_ids_to_delete = mf_sync_ids_to_delete mf', re_rfc724_mid = mid, re_subject = subject\<rparr>), s'))"

definition set_as_post_message :: "MimeFactory \<Rightarrow> MimeFactory" where
  "set_as_post_message mf = mf\<lparr>mf_pre_message_mode := ModePost\<rparr>"

definition set_as_pre_message_for :: "RenderedEmail \<Rightarrow> MimeFactory \<Rightarrow> MimeFactory" where
  "set_as_pre_message_for post mf = mf\<lparr>mf_pre_message_mode := ModePre (re_rfc724_mid post)\<rparr>"

definition render_symm_encrypted_securejoin_message ::
  "mime_env \<Rightarrow> int \<Rightarrow> string \<Rightarrow> string \<Rightarrow> bool \<Rightarrow> string \<Rightarrow> ustr \<Rightarrow> ctx \<Rightarrow> string res \<times> ctx" where
  "render_symm_encrypted_securejoin_message env now step rfc724_mid attach_self_pubkey auth shared_secret s0 =
     (case res_bind (get_primary_self_addr (config s0)) (\<lambda>from_addr.
           res_bind (rfc2822_date env now) (\<lambda>date. Inr (from_addr, date))) of
        Inl e \<Rightarrow> (Inl e, s0)
      | Inr (from_addr, date) \<Rightarrow>
          let s = snd (get_self_fingerprint s0);
              headers = [(''From'', HAddress (new_address_with_name [] (utf8_decode from_addr))),
                  (''To'', HAddress (AddrList [hidden_recipients])), (''Subject'', HText ''Secure-Join''), (''Date'', HRaw date),
                  (''Message-ID'', HMessageId [rfc724_mid])]
                  @ (if get_config_bool (config s) Config.Bot then [(''Auto-Submitted'', HRaw ''auto-generated'')] else [])
                  @ (if attach_self_pubkey then [(''Autocrypt'', HRaw (get_aheader env s from_addr))] else [])
                  @ [(''Secure-Join'', HRaw step), (''Secure-Join-Auth'', HText auth)]
          in (res_bind (outer_date env now True) (\<lambda>odate.
                let g = group_headers_by_confidentiality from_addr odate True True headers;
                    message = add_headers_to_encrypted_part g (MimePart_new ''text/plain'' (BodyText ''Secure-Join''))
                in res_bind (e_encrypt_symmetrically env shared_secret message False attach_self_pubkey) (\<lambda>encrypted.
                     Inr (render_outer_message env (unprotected_headers g) (wrap_encrypted_part encrypted)))), s))"


section \<open>What an encrypted mail shows\<close>

text \<open>A header whose name is \<open>inner\<close> leaves no trace outside of the encrypted part.\<close>

definition inner_name :: "string \<Rightarrow> bool" where
  "inner_name name \<longleftrightarrow> lower_name name \<notin> set [''message-id'', ''from'', ''to'', ''date'', ''subject'', ''chat-version'',
     ''autocrypt-setup-message'', ''chat-is-post-message'']"

abbreviation inner :: "header list \<Rightarrow> bool" where
  "inner \<equiv> list_all (\<lambda>h. inner_name (fst h))"

lemma lower_char_upper [simp]:
  "lower_char (CHR ''A'') = CHR ''a''" "lower_char (CHR ''B'') = CHR ''b''" "lower_char (CHR ''C'') = CHR ''c''"
  "lower_char (CHR ''D'') = CHR ''d''" "lower_char (CHR ''E'') = CHR ''e''" "lower_char (CHR ''F'') = CHR ''f''"
  "lower_char (CHR ''G'') = CHR ''g''" "lower_char (CHR ''H'') = CHR ''h''" "lower_char (CHR ''I'') = CHR ''i''"
  "lower_char (CHR ''J'') = CHR ''j''" "lower_char (CHR ''K'') = CHR ''k''" "lower_char (CHR ''L'') = CHR ''l''"
  "lower_char (CHR ''M'') = CHR ''m''" "lower_char (CHR ''N'') = CHR ''n''" "lower_char (CHR ''O'') = CHR ''o''"
  "lower_char (CHR ''P'') = CHR ''p''" "lower_char (CHR ''Q'') = CHR ''q''" "lower_char (CHR ''R'') = CHR ''r''"
  "lower_char (CHR ''S'') = CHR ''s''" "lower_char (CHR ''T'') = CHR ''t''" "lower_char (CHR ''U'') = CHR ''u''"
  "lower_char (CHR ''V'') = CHR ''v''" "lower_char (CHR ''W'') = CHR ''w''" "lower_char (CHR ''X'') = CHR ''x''"
  "lower_char (CHR ''Y'') = CHR ''y''" "lower_char (CHR ''Z'') = CHR ''z''"
  by (simp_all add: lower_char_def char_of_def bit_Suc_0_iff)

lemma lower_char_lower [simp]:
  "lower_char (CHR ''a'') = CHR ''a''" "lower_char (CHR ''b'') = CHR ''b''" "lower_char (CHR ''c'') = CHR ''c''"
  "lower_char (CHR ''d'') = CHR ''d''" "lower_char (CHR ''e'') = CHR ''e''" "lower_char (CHR ''f'') = CHR ''f''"
  "lower_char (CHR ''g'') = CHR ''g''" "lower_char (CHR ''h'') = CHR ''h''" "lower_char (CHR ''i'') = CHR ''i''"
  "lower_char (CHR ''j'') = CHR ''j''" "lower_char (CHR ''k'') = CHR ''k''" "lower_char (CHR ''l'') = CHR ''l''"
  "lower_char (CHR ''m'') = CHR ''m''" "lower_char (CHR ''n'') = CHR ''n''" "lower_char (CHR ''o'') = CHR ''o''"
  "lower_char (CHR ''p'') = CHR ''p''" "lower_char (CHR ''q'') = CHR ''q''" "lower_char (CHR ''r'') = CHR ''r''"
  "lower_char (CHR ''s'') = CHR ''s''" "lower_char (CHR ''t'') = CHR ''t''" "lower_char (CHR ''u'') = CHR ''u''"
  "lower_char (CHR ''v'') = CHR ''v''" "lower_char (CHR ''w'') = CHR ''w''" "lower_char (CHR ''x'') = CHR ''x''"
  "lower_char (CHR ''y'') = CHR ''y''" "lower_char (CHR ''z'') = CHR ''z''" "lower_char (CHR ''-'') = CHR ''-''"
  by (simp_all add: lower_char_def)

lemma inner_names_all:
  "list_all inner_name [''Sender'', ''Chat-Group-Past-Members'', ''Chat-Group-Member-Timestamps'', ''Chat-Group-Member-Fpr'',
     ''In-Reply-To'', ''References'', ''Auto-Submitted'', ''Chat-List-ID'', ''Chat-Broadcast-Secret'',
     ''Chat-Edit'', ''Chat-Delete'', ''Chat-Disposition-Notification-To'', ''Autocrypt'', ''Chat-Post-Message-ID'',
     ''Ephemeral-Timer'', ''Chat-Verified'', ''Chat-Group-ID'', ''Chat-Group-Name'', ''Chat-Group-Name-Timestamp'',
     ''Chat-Group-Member-Removed'', ''Chat-Group-Member-Removed-Fpr'', ''Chat-Group-Member-Added'',
     ''Chat-Group-Member-Added-Fpr'', ''Secure-Join'', ''Chat-Group-Name-Changed'',
     ''Chat-Group-Description-Changed'', ''Chat-Content'', ''Chat-Group-Avatar'', ''Chat-Group-Description'',
     ''Chat-Group-Description-Timestamp'', ''Secure-Join-Auth'', ''Secure-Join-Invitenumber'',
     ''Secure-Join-Fingerprint'', ''Secure-Join-Group'', ''iroh-node-addr'', ''Chat-Webrtc-Room'',
     ''Chat-Webrtc-Accepted'', ''Chat-Webrtc-Has-Video-Initially'', ''Chat-Voice-Message'', ''Chat-Duration'',
     ''Chat-User-Avatar'', ''chat-post-message-metadata'', ''iroh-gossip-topic'']"
  by (simp add: inner_name_def lower_name_def)

lemmas inner_names [simp] = inner_names_all [simplified]

lemma inner_opt_header [simp]: "inner_name name \<Longrightarrow> inner (opt_header name f v)"
  by (simp add: opt_header_def split: option.splits)

lemma inner_nonempty_header [simp]: "inner_name name \<Longrightarrow> inner (nonempty_header name f v)"
  by (simp add: nonempty_header_def)

lemma inner_mail [simp]:
  "inner (member_headers now s mf)" "inner (reply_headers s mf)" "inner (broadcast_headers mf)" "inner (request_headers mf)"
  by (simp_all add: member_headers_def reply_headers_def broadcast_headers_def request_headers_def split: option.splits prod.splits)

lemma inner_message [simp]:
  "inner (verified_headers s chat)" "inner (group_headers chat)" "inner (description_headers env s chat msg)"
  "inner (securejoin_headers msg)" "inner (call_headers env msg)" "inner (media_headers msg)" "inner (selfavatar_header env s mf)"
  by (simp_all add: verified_headers_def group_headers_def description_headers_def securejoin_headers_def call_headers_def
      media_headers_def selfavatar_header_def Let_def split: option.splits sum.splits)

lemma inner_timer: "timer_headers s mf = Inr hs \<Longrightarrow> inner hs"
  by (auto simp: timer_headers_def res_bind_def split: option.splits sum.splits prod.splits Timer.splits)

lemma inner_change: "change_headers s chat msg img enc = (hs, text) \<Longrightarrow> inner hs"
  by (auto simp: change_headers_def Let_def split: SystemMessage.splits if_splits)

lemma inner_command: "command_headers env msg = Inr hs \<Longrightarrow> inner hs"
  by (auto simp: command_headers_def res_bind_def split: SystemMessage.splits sum.splits)

lemma inner_avatar: "avatar_header env img enc = Inr hs \<Longrightarrow> inner hs"
  by (auto simp: avatar_header_def split: option.splits sum.splits if_splits)

lemma inner_file: "file_part env mf msg = Inr (hs, parts) \<Longrightarrow> inner hs"
  by (auto simp: file_part_def res_bind_def split: option.splits sum.splits if_splits)

lemma inner_app: "app_parts env s msg mf = Inr (hs, parts, mf') \<Longrightarrow> inner hs"
  by (auto simp: app_parts_def res_bind_def split: option.splits sum.splits if_splits)

lemma render_message_headers:
  assumes "render_message env now s chat msg enc headers mf = Inr (hs, main, parts, mf')"
  obtains inner_hs where "hs = headers @ inner_hs" "inner inner_hs"
proof -
  obtain change placeholder where "change_headers s chat msg (grpimage chat msg) enc = (change, placeholder)" by fastforce
  note change = this
  obtain command avatar metadata fparts topic app mf1 where
    parts: "command_headers env msg = Inr command" "avatar_header env (grpimage chat msg) enc = Inr avatar"
      "file_part env mf msg = Inr (metadata, fparts)" "app_parts env s msg mf1 = Inr (topic, app, mf')"
    and hs: "hs = headers @ verified_headers s chat @ group_headers chat @ change @ description_headers env s chat msg
      @ command @ avatar @ call_headers env msg @ media_headers msg @ metadata @ topic @ selfavatar_header env s mf"
    using assms unfolding render_message_def Let_def change prod.case res_bind_eq_Inr 
    by (auto simp: res_bind_eq_Inr)
  show thesis
    by (rule that [OF hs]) (simp add: inner_change [OF change] inner_command [OF parts(1)] inner_avatar [OF parts(2)]
        inner_file [OF parts(3)] inner_app [OF parts(4)])
qed

lemma render_body_headers:
  assumes "render_body env now s enc headers mf = Inr (hs, message, mf')"
  obtains inner_hs where "hs = headers @ inner_hs" "inner inner_hs"
proof (cases "mf_loaded mf")
  case (LoadedMessage chat msg)
  then obtain main parts mf2 where "render_message env now s chat msg enc headers mf = Inr (hs, main, parts, mf2)"
    using assms by (auto simp: render_body_def res_bind_eq_Inr)
  then show thesis by (rule render_message_headers) (rule that)
next
  case (LoadedMdn mid additional)
  then show thesis using assms that [of "[]"] by (simp add: render_body_def)
qed

abbreviation shown :: "string \<Rightarrow> string \<Rightarrow> bool \<Rightarrow> header list \<Rightarrow> header list" where
  "shown from date securejoin hs \<equiv> concat (map (\<lambda>h. unprotected_headers (group_header from date True securejoin h)) hs)"

lemma shown_inner: "inner hs \<Longrightarrow> shown from date sj hs = []"
  by (induction hs) (simp_all add: group_header_def Let_def inner_name_def)

lemma lower_outer_names [simp]:
  "lower_name ''From'' = ''from''" "lower_name ''To'' = ''to''" "lower_name ''Subject'' = ''subject''"
  "lower_name ''Date'' = ''date''" "lower_name ''Message-ID'' = ''message-id''" "lower_name ''Chat-Version'' = ''chat-version''"
  "lower_name ''Chat-Is-Post-Message'' = ''chat-is-post-message''"
  by (simp_all add: lower_name_def)

lemma shown_outer:
  "unprotected_headers (group_header from date True sj (''From'', v)) = [(''From'', HAddress (Mailbox None from))]"
  "unprotected_headers (group_header from date True sj (''To'', v)) = [(''To'', HAddress hidden_recipients)]"
  "unprotected_headers (group_header from date True sj (''Subject'', v)) = [(''Subject'', HRaw ''[...]'')]"
  "unprotected_headers (group_header from date True sj (''Date'', v)) = [(''Date'', HRaw date)]"
  "unprotected_headers (group_header from date True sj (''Message-ID'', v)) = [(''Message-ID'', v)]"
  "unprotected_headers (group_header from date True sj (''Chat-Version'', v)) = [(''Chat-Version'', v)]"
  "unprotected_headers (group_header from date True sj (''Chat-Is-Post-Message'', v)) = [(''Chat-Is-Post-Message'', v)]"
  by (simp_all add: group_header_def is_hidden_def)

lemma shown_append: "shown from date sj (hs @ hs') = shown from date sj hs @ shown from date sj hs'"
  by simp


lemma shown_cons_outer: "shown from date sj ((name, v) # hs) = unprotected_headers (group_header from date True sj (name, v)) @ shown from date sj hs"
  by simp

definition shown_headers :: "MimeFactory \<Rightarrow> string \<Rightarrow> string \<Rightarrow> header list" where
  "shown_headers mf date mid =
     [(''From'', HAddress (Mailbox None (utf8_encode (mf_from_addr mf)))), (''To'', HAddress hidden_recipients),
      (''Subject'', HRaw ''[...]''), (''Date'', HRaw date), (''Message-ID'', HMessageId [mid]), (''Chat-Version'', HRaw ''1.0'')]
     @ (if mf_pre_message_mode mf = ModePost then [(''Chat-Is-Post-Message'', HRaw ''1'')] else [])"

lemma shown_address:
  "shown from date sj (address_headers mf) = [(''From'', HAddress (Mailbox None from)), (''To'', HAddress hidden_recipients)]"
  unfolding address_headers_def shown_append by (simp only: shown_cons_outer shown_outer) (simp add: shown_inner)

lemma shown_mode:
  "shown from date sj (mode_headers mf) = (if mf_pre_message_mode mf = ModePost then [(''Chat-Is-Post-Message'', HRaw ''1'')] else [])"
  by (cases "mf_pre_message_mode mf") (simp_all add: mode_headers_def shown_outer shown_inner [of "[(''Chat-Post-Message-ID'', v)]" for v, simplified])

lemma shown_mail:
  assumes "mail_headers env now s mf subject date' mid self_addr = Inr hs" "inner hs'"
  shows "shown (utf8_encode (mf_from_addr mf)) date sj (hs @ hs') = shown_headers mf date mid"
proof -
  obtain timer where timer: "timer_headers s mf = Inr timer" and hs: "hs = address_headers mf @ member_headers now s mf
     @ [(''Subject'', HText (utf8_encode subject)), (''Date'', HRaw date'), (''Message-ID'', HMessageId [mid])]
     @ reply_headers s mf @ broadcast_headers mf @ request_headers mf @ [(''Chat-Version'', HRaw ''1.0'')]
     @ (if mf_req_mdn mf then [(''Chat-Disposition-Notification-To'', HRaw (utf8_encode (mf_from_addr mf)))] else [])
     @ (if loaded_msg mf = None then [] else [(''Autocrypt'', HRaw (get_aheader env s self_addr))])
     @ mode_headers mf @ timer"
    using assms(1) by (auto simp: mail_headers_def res_bind_eq_Inr)
  show ?thesis
    unfolding hs shown_append
    by (simp only: shown_cons_outer shown_outer shown_address shown_mode)
      (simp add: shown_inner shown_headers_def assms(2) inner_timer [OF timer])
qed


lemma fold_add_header: "fold add_header hs (MimePart hs0 body) = MimePart (hs0 @ hs) body"
  by (induction hs arbitrary: hs0) simp_all

lemma gossip_keys_secrets: "broadcast_secrets (snd (gossip_keys env now chat msg multiple keys (part, s))) = broadcast_secrets s"
  by (induction keys arbitrary: part s) (auto simp: Let_def set_gossiped_timestamp_def split: prod.splits)

lemma add_gossip_secrets: "broadcast_secrets (snd (add_gossip env now mf keys part s)) = broadcast_secrets s"
  by (simp add: add_gossip_def gossip_keys_secrets split: Loaded.splits)

lemma render_inner_secrets: "broadcast_secrets (snd (render_inner env now mf s)) = broadcast_secrets s"
  by (auto simp: render_inner_def render_mid_def create_outgoing_rfc724_mid_def get_self_fingerprint_def Let_def
      split: sum.splits prod.splits Loaded.splits PreMessageMode.splits option.splits)

definition encrypted_for :: "mime_env \<Rightarrow> MimeFactory \<Rightarrow> (ustr \<times> string) list \<Rightarrow> ctx \<Rightarrow> string \<Rightarrow> bool" where
  "encrypted_for env mf keys s ciphertext \<longleftrightarrow>
     (\<exists>part compress v2. e_encrypt env (e_self_key env # map snd keys) part compress v2 = Inr ciphertext)
     \<or> (\<exists>chat msg secret part compress. mf_loaded mf = LoadedMessage chat msg
          \<and> load_broadcast_secret s (ch_id chat) = Some secret
          \<and> e_encrypt_symmetrically env secret part compress True = Inr ciphertext)"

lemma encrypt_part_for:
  assumes "encrypt_part env now mf keys part s = (Inr e, s')"
  shows "encrypted_for env mf keys s e"
  using assms
  by (auto simp: encrypt_part_def encrypted_for_def Let_def loaded_msg_def split: Loaded.splits option.splits if_splits sum.splits)

lemma render_inner_shown:
  assumes "render_inner env now mf s = (Inr (subject, mid, date, headers, message, mf'), s')"
    and "mf_encryption_pubkeys mf = Some keys"
  shows "e_rfc2822 env (sat_i64 (mf_timestamp mf - e_date_offset env)) = Some date"
    and "shown (utf8_encode (mf_from_addr mf)) date' sj headers = shown_headers mf date' mid"
proof -
  obtain s1 s2 hs date0 self_addr mf2 where
    mail: "mail_headers env now s2 mf subject date0 mid self_addr = Inr hs"
    and body: "render_body env now s2 True hs mf = Inr (headers, message, mf2)"
    and date: "outer_date env (mf_timestamp mf) True = Inr date"
    using assms by (auto simp: render_inner_def Let_def res_bind_eq_Inr split: if_splits sum.splits prod.splits)
  show "e_rfc2822 env (sat_i64 (mf_timestamp mf - e_date_offset env)) = Some date"
    using date by (simp add: outer_date_def rfc2822_date_def split: option.splits)
  from body obtain inner_hs where "headers = hs @ inner_hs" "inner inner_hs" by (rule render_body_headers)
  then show "shown (utf8_encode (mf_from_addr mf)) date' sj headers = shown_headers mf date' mid"
    using shown_mail [OF mail] by simp
qed

lemma render_encrypted:
  assumes "mf_encryption_pubkeys mf = Some keys" and "render env now mf s = (Inr r, s')"
  shows "\<exists>date ciphertext.
     e_rfc2822 env (sat_i64 (mf_timestamp mf - e_date_offset env)) = Some date
     \<and> re_message r = e_write_part env (MimePart
         ([(''Content-Type'', HContentType ''multipart/encrypted; protocol=\"application/pgp-encrypted\"'' []),
           (''MIME-Version'', HRaw ''1.0'')] @ shown_headers mf date (re_rfc724_mid r))
         (BodyParts [MimePart_new ''application/pgp-encrypted'' (BodyText (''Version: 1'' @ CRLF)),
                     MimePart_new ''application/octet-stream'' (BodyText ciphertext)]))
     \<and> encrypted_for env mf keys s ciphertext"
proof -
  obtain subject mid date headers message mf' s1 where
    inn: "render_inner env now mf s = (Inr (subject, mid, date, headers, message, mf'), s1)"
    using assms(2) by (auto simp: render_def split: sum.splits prod.splits)
  define g where "g = group_headers_by_confidentiality (utf8_encode (mf_from_addr mf)) date True (is_securejoin_message mf) headers"
  obtain part s2 where gos: "add_gossip env now mf keys (add_headers_to_encrypted_part g message) s1 = (part, s2)" by fastforce
  obtain e s3 where enc: "encrypt_part env now mf keys part s2 = (Inr e, s3)"
    and r: "re_message r = render_outer_message env (unprotected_headers g) (wrap_encrypted_part e)" "re_rfc724_mid r = mid"
    using assms inn gos
    by (auto simp: render_def Let_def outer_part_def g_def [symmetric] res_bind_eq_Inr split: prod.splits)
  have g: "unprotected_headers g = (''MIME-Version'', HRaw ''1.0'') # shown_headers mf date mid"
    using render_inner_shown(2) [OF inn assms(1)]
    by (simp add: g_def group_headers_by_confidentiality_def Let_def comp_def)
  have "broadcast_secrets s2 = broadcast_secrets s"
    using add_gossip_secrets [of env now mf keys "add_headers_to_encrypted_part g message" s1] gos
      render_inner_secrets [of env now mf s] inn by simp
  then have "encrypted_for env mf keys s e"
    using encrypt_part_for [OF enc] by (simp add: encrypted_for_def load_broadcast_secret_def)
  with render_inner_shown(1) [OF inn assms(1)] r show ?thesis
    by (auto simp: g render_outer_message_def wrap_encrypted_part_def add_headers_def MimePart_new_def fold_add_header)
qed

text \<open>C35: Of an encrypted mail nothing is readable but the address of the sender (without the name), an empty group instead of the
  recipients, the subject "[...]", a date before the true one by the random offset, the Message-ID, the version and whether
  the mail carries the file of an earlier one: the message that is written out consists of exactly these headers, whatever
  the message, the chat and the settings are, and the ciphertext, which is encrypted to the own key and the collected
  keys or with the secret of the channel.
\<close>

theorem encrypted_mail_reveals:
  assumes "mf_encryption_pubkeys mf = Some keys" and "render env now mf s = (Inr r, s')"
  shows "\<exists>date ciphertext.
     e_rfc2822 env (sat_i64 (mf_timestamp mf - e_date_offset env)) = Some date
     \<and> re_message r = e_write_part env (MimePart
         ([(''Content-Type'', HContentType ''multipart/encrypted; protocol=\"application/pgp-encrypted\"'' []),
           (''MIME-Version'', HRaw ''1.0'')] @ shown_headers mf date (re_rfc724_mid r))
         (BodyParts [MimePart_new ''application/pgp-encrypted'' (BodyText (''Version: 1'' @ CRLF)),
                     MimePart_new ''application/octet-stream'' (BodyText ciphertext)]))
     \<and> encrypted_for env mf keys s ciphertext"
  using assms by (rule render_encrypted)


definition sample_env :: mime_env where
  "sample_env = \<lparr>e_rfc2822 = (\<lambda>_. Some ''Thu, 01 Jan 1970 00:00:00 +0000''), e_date_offset = 5, e_base64 = (\<lambda>x. x), e_self_key = ''K'',
     e_key_base64 = (\<lambda>_. []), e_key_fingerprint = (\<lambda>_. []), e_supports_seipdv2 = (\<lambda>_. True),
     e_encrypt = (\<lambda>keys part c v. Inr (concat keys)), e_encrypt_symmetrically = (\<lambda>secret part c sign. Inr []),
     e_write_part = (\<lambda>part. []), e_subject_for_new_contact = (\<lambda>x. x), e_avatar_file = (\<lambda>p. Inl ''missing''),
     e_body_file = (\<lambda>m. Inl ''missing''), e_html = (\<lambda>m. Inr None), e_post_metadata = (\<lambda>m. Inr None),
     e_message_kml = (\<lambda>m. None), e_location_kml = (\<lambda>s c. Inr None), e_node_addr = Inl ''offline'',
     e_gossip_topic = (\<lambda>m. Inr []), e_status_updates = (\<lambda>s m. Inr None)\<rparr>"

definition sample_mdn :: MimeFactory where
  "sample_mdn = \<lparr>mf_from_addr = U ''a@b'', mf_from_displayname = [], mf_sender_displayname = None, mf_selfstatus = [],
     mf_recipients = [U ''c@d''], mf_encryption_pubkeys = Some [(U ''c@d'', ''L'')], mf_to = [([], U ''c@d'')], mf_past_members = [],
     mf_member_fingerprints = [], mf_member_timestamps = [], mf_timestamp = 100, mf_loaded = LoadedMdn ''m@d'' [],
     mf_in_reply_to = [], mf_references = [], mf_req_mdn = False, mf_last_added_location_id = None,
     mf_sync_ids_to_delete = None, mf_attach_selfavatar = False, mf_pre_message_mode = ModeNone\<rparr>"

lemma sample_inner: "\<exists>x s'. render_inner sample_env 100 sample_mdn MimeFactory.group_ctx = (Inr x, s')"
proof -
  obtain mid s1 where mid: "render_mid sample_mdn MimeFactory.group_ctx = (mid, s1)" "config s1 = config MimeFactory.group_ctx"
    by (simp add: render_mid_def sample_mdn_def create_outgoing_rfc724_mid_def)
  have mdn: "mf_loaded sample_mdn = LoadedMdn ''m@d'' []" "loaded_msg sample_mdn = None" "member_counts_agree sample_mdn"
    "mf_encryption_pubkeys sample_mdn = Some [(U ''c@d'', ''L'')]"
    by (simp_all add: sample_mdn_def loaded_msg_def member_counts_agree_def)
  have date: "rfc2822_date sample_env ts = Inr ''Thu, 01 Jan 1970 00:00:00 +0000''" for ts
    by (simp add: rfc2822_date_def sample_env_def)
  show ?thesis
    using mid group_addr
    by (simp add: render_inner_def mdn subject_str_def date mail_headers_def timer_headers_def render_body_def outer_date_def Let_def)
qed

lemma sample_render: "\<exists>r s'. render sample_env 100 sample_mdn MimeFactory.group_ctx = (Inr r, s')"
proof -
  obtain subject mid date headers message mf' s' where
    inn: "render_inner sample_env 100 sample_mdn MimeFactory.group_ctx = (Inr (subject, mid, date, headers, message, mf'), s')"
    using sample_inner by (metis prod_cases6)
  show ?thesis
    unfolding render_def inn
    by (simp add: Let_def outer_part_def sample_mdn_def add_gossip_def encrypt_part_def loaded_msg_def sample_env_def split: prod.splits)
qed

theorem encrypted_mail_reveals_witness:
  "\<exists>r s' date ciphertext. render sample_env 100 sample_mdn MimeFactory.group_ctx = (Inr r, s')
     \<and> e_rfc2822 sample_env (sat_i64 (mf_timestamp sample_mdn - e_date_offset sample_env)) = Some date
     \<and> re_message r = e_write_part sample_env (MimePart
         ([(''Content-Type'', HContentType ''multipart/encrypted; protocol=\"application/pgp-encrypted\"'' []),
           (''MIME-Version'', HRaw ''1.0'')] @ shown_headers sample_mdn date (re_rfc724_mid r))
         (BodyParts [MimePart_new ''application/pgp-encrypted'' (BodyText (''Version: 1'' @ CRLF)),
                     MimePart_new ''application/octet-stream'' (BodyText ciphertext)]))"
proof -
  obtain r s' where r: "render sample_env 100 sample_mdn MimeFactory.group_ctx = (Inr r, s')" using sample_render by blast
  have "mf_encryption_pubkeys sample_mdn = Some [(U ''c@d'', ''L'')]" by (simp add: sample_mdn_def)
  from encrypted_mail_reveals [OF this r] r show ?thesis by blast
qed

end
