(* ===== verification/MessageText.thy ===== *)
theory MessageText
  imports MimeRender
begin

text \<open>
  The text part written by \<open>MimeFactory::render_message\<close> (\<^verbatim>\<open>src/mimefactory.rs\<close>) read back by \<open>simplify\<close>
  (\<^verbatim>\<open>src/simplify.rs\<close>): the forwarding mark, the quote, the text and the footer arrive as they were sent.
\<close>

section \<open>Lines of the text part\<close>

lemma split_on_sep: "split_on c (a @ c # b) = split_on c a @ split_on c b"
  by (induction a) (auto split: list.splits)

lemma set_replace_from: "set (replace_from pat rep n s) \<subseteq> set rep \<union> set s"
  by (induction pat rep n s rule: replace_from.induct) auto

lemma set_escape: "set (escape_message_footer_marks t) \<subseteq> {10, 45, ZWSP} \<union> set t"
  using set_replace_from [of "[10, 45, 45]" "[10, 45, ZWSP, 45]" 0]
  by (fastforce simp: escape_message_footer_marks_def replace_str_def strip_prefix_Some split: option.splits)

lemma filter_escape: "13 \<notin> set t \<Longrightarrow> filter (\<lambda>c. c \<noteq> 13) (escape_message_footer_marks t) = escape_message_footer_marks t"
  using set_escape [of t] by (auto simp: filter_id_conv ZWSP_def)

lemma filter_id13: "13 \<notin> set (t :: ustr) \<Longrightarrow> filter (\<lambda>c. c \<noteq> 13) t = t"
  by (auto simp: filter_id_conv)

definition body_lines :: "ustr \<Rightarrow> ustr \<Rightarrow> ustr list" where
  "body_lines t footer =
     (if footer = [] then map escape_line (split_lines t)
      else (if t = [] then [] else map escape_line (split_lines t) @ [[]]) @ [U ''-- ''] @ split_lines footer)"

definition body_text :: "ustr \<Rightarrow> ustr \<Rightarrow> ustr" where
  "body_text t footer = escape_message_footer_marks t @ (if t \<noteq> [] \<and> footer \<noteq> [] then [13, 10, 13, 10] else [])
     @ (if footer \<noteq> [] then U ''-- '' @ [13, 10] else []) @ footer"

lemma split_body:
  assumes "13 \<notin> set t" "13 \<notin> set footer"
  shows "split_lines (filter (\<lambda>c. c \<noteq> 13) (body_text t footer)) = body_lines t footer"
proof -
  have [simp]: "escape_message_footer_marks [] = []" by (simp add: escape_message_footer_marks_def replace_str_def U_def)
  have "split_lines (escape_message_footer_marks t @ 10 # r) = map escape_line (split_lines t) @ split_lines r" for r
    using split_escaped [of t] by (simp add: split_lines_def split_on_sep)
  moreover have "split_lines (10 # r) = [] # split_lines r" "split_lines (U ''-- '' @ 10 # r) = U ''-- '' # split_lines r" for r
    by (simp_all add: split_lines_def split_on_append_sep U_def)
  ultimately show ?thesis
    using assms by (simp add: body_text_def body_lines_def filter_escape filter_id13 split_escaped U_def)
qed


section \<open>The header of a forwarded message\<close>

lemma escape_line_not_fwd: "escape_line l \<noteq> U ''---------- Forwarded message ----------''"
proof -
  have "starts_with (U ''---------- Forwarded message ----------'') [45, 45]" by (simp add: U_def starts_with_def)
  then show ?thesis using escape_line_no_mark [of l] by metis
qed

definition forward_line :: "ustr \<Rightarrow> bool" where
  "forward_line l \<longleftrightarrow> l = U ''---------- Forwarded message ----------''"

lemma skip_forward_header_no: "ls \<noteq> [] \<Longrightarrow> \<not> forward_line (hd ls) \<Longrightarrow> skip_forward_header ls = (ls, False)"
  by (auto simp: skip_forward_header_def forward_line_def split: list.splits)

lemma skip_forward_header_hint:
  "skip_forward_header (U ''---------- Forwarded message ----------'' # U ''From: Delta Chat'' # [] # ls) = (ls, True)"
  by (simp add: skip_forward_header_def U_def starts_with_def)

lemma split_fwdhint:
  "split_lines (filter (\<lambda>c. c \<noteq> 13) (fwdhint @ r))
     = U ''---------- Forwarded message ----------'' # U ''From: Delta Chat'' # [] # split_lines (filter (\<lambda>c. c \<noteq> 13) r)"
  by (simp add: fwdhint_def U_def split_lines_def)


section \<open>The quote\<close>

lemma split_quote_lines:
  "13 \<notin> set (concat ls) \<Longrightarrow> list_all (\<lambda>l :: ustr. 10 \<notin> set l) ls \<Longrightarrow>
   split_on 10 (filter (\<lambda>c. c \<noteq> 13) (concat (map (\<lambda>l. 62 # 32 # l @ [13, 10]) ls)) @ r)
     = map (\<lambda>l. 62 # 32 # l) ls @ split_on 10 r"
proof (induction ls)
  case (Cons l ls)
  have "split_on 10 (62 # 32 # l @ 10 # x) = (62 # 32 # l) # split_on 10 x" for x
    using split_on_append_sep [of 10 "62 # 32 # l" x] Cons.prems by simp
  with Cons show ?case by (simp add: filter_id13)
qed simp

lemma set_split_on: "l \<in> set (split_on c q) \<Longrightarrow> set l \<subseteq> set q"
  by (induction q arbitrary: l) (fastforce split: list.splits if_splits)+

lemma split_quote:
  assumes "13 \<notin> set q"
  shows "split_lines (filter (\<lambda>c. c \<noteq> 13) (render_quote q @ r))
     = map (\<lambda>l. 62 # 32 # l) (split_lines q) @ [] # split_lines (filter (\<lambda>c. c \<noteq> 13) r)"
proof -
  have "list_all (\<lambda>l. 10 \<notin> set l) (split_on 10 q)" by (auto simp: list_all_iff dest: split_on_pieces)
  moreover have "13 \<notin> set (concat (split_on 10 q))" using assms set_split_on by fastforce
  ultimately show ?thesis by (simp add: render_quote_def split_quote_lines split_lines_def)
qed

lemma top_scan_quotes:
  "top_scan True l first lst headline (map (\<lambda>x. 62 # 32 # x) qs @ [] # ls)
     = (if qs = [] then (first, lst) else (if lst = None then l else first, Some (l + length qs - 1)))"
  by (induction qs arbitrary: l first lst) (auto simp: is_plain_quote_def starts_with_def)

lemma strip_quote_line: "strip_quote (62 # 32 # l) = l"
  by (simp add: strip_quote_def)

lemma remove_top_quote_quotes:
  assumes "qs \<noteq> []"
  shows "remove_top_quote (map (\<lambda>x. 62 # 32 # x) qs @ [] # ls) True = ([] # ls, Some (join [10] qs))"
proof -
  have "Suc (length qs - 1) = length qs" using assms by (cases qs) simp_all
  then show ?thesis using assms by (simp add: remove_top_quote_def top_scan_quotes comp_def strip_quote_line)
qed

lemma remove_top_quote_none: "ls \<noteq> [] \<Longrightarrow> \<not> is_plain_quote (hd ls) \<Longrightarrow> remove_top_quote ls True = (ls, None)"
  by (cases ls) (simp_all add: remove_top_quote_def)


section \<open>The footer\<close>

definition opt_footer :: "ustr \<Rightarrow> ustr list option" where
  "opt_footer footer = (if footer = [] then None else Some (split_lines footer))"

lemma remove_footer_body:
  assumes "pre = [] \<or> pre = [[]]"
  shows "\<exists>ls. remove_message_footer (pre @ body_lines t footer) = (ls, opt_footer footer)
     \<and> Simplify.render_message ls False = Simplify.render_message (split_lines t) False"
proof -
  have pre: "list_all (\<lambda>l. \<not> starts_with l [45, 45]) pre" using assms by (auto simp: starts_with_def)
  have lead: "Simplify.render_message (pre @ ls) False = Simplify.render_message ls False" for ls
    using assms by (auto simp: render_leading)
  show ?thesis
  proof (cases "footer = []")
    case True
    have "find_footer None 0 None ((pre @ map escape_line (split_lines t)) @ []) = None"
      by (subst find_footer_skip) (simp_all add: pre escaped_no_marks)
    with True show ?thesis
      by (simp add: remove_message_footer_def body_lines_def opt_footer_def lead render_escaped)
  next
    case False
    define ls where "ls = pre @ (if t = [] then [] else map escape_line (split_lines t) @ [[]])"
    have "list_all (\<lambda>l. \<not> starts_with l [45, 45]) ls" 
      using pre escaped_no_marks [of "split_lines t"] by (simp add: ls_def starts_with_def)
    then have "find_footer None 0 None (ls @ U ''-- '' # split_lines footer) = Some (length ls)"
      by (simp add: find_footer_skip)
    moreover have "pre @ body_lines t footer = ls @ U ''-- '' # split_lines footer" using False by (simp add: body_lines_def ls_def)
    moreover have "Simplify.render_message ls False = Simplify.render_message (split_lines t) False"
      by (simp add: ls_def lead render_message_trailing render_escaped split_lines_def render_leading)
    ultimately show ?thesis using False by (simp add: remove_message_footer_def opt_footer_def)
  qed
qed


section \<open>The text arrives\<close>

lemma hd_body:
  assumes "\<not> starts_with t (U ''>'')"
  shows "\<not> is_plain_quote (hd (body_lines t footer))" "\<not> forward_line (hd (body_lines t footer))"
proof -
  obtain l ls where l: "split_lines t = l # ls" by (cases "split_lines t") (auto simp: split_lines_def)
  have "starts_with l (U ''>'') \<longleftrightarrow> starts_with t (U ''>'')"
    using l by (cases t) (auto simp: split_lines_def split_on_Cons starts_with_def split: if_splits simp del: split_on.simps(2))
  then have "\<not> starts_with (escape_line l) (U ''>'')" using assms by (auto simp: escape_line_def starts_with_def)
  then show "\<not> is_plain_quote (hd (body_lines t footer))" "\<not> forward_line (hd (body_lines t footer))"
    using l escape_line_not_fwd [of l]
    by (auto simp: body_lines_def is_plain_quote_def forward_line_def U_def starts_with_def)
qed

lemma simplify_lines:
  assumes "skip_forward_header (split_lines (filter (\<lambda>c. c \<noteq> 13) input)) = (ls, fwd)"
    and "remove_top_quote ls True = (pre @ body_lines t footer, quote)" "pre = [] \<or> pre = [[]]"
  shows "simplify input True =
     \<lparr>st_text = Simplify.render_message (split_lines t) False, st_is_forwarded = fwd, st_is_cut = False, st_top_quote = quote,
      st_footer = map_option (\<lambda>ls. Simplify.render_message ls False) (opt_footer footer)\<rparr>"
proof -
  obtain ls' where "remove_message_footer (pre @ body_lines t footer) = (ls', opt_footer footer)"
    "Simplify.render_message ls' False = Simplify.render_message (split_lines t) False"
    using remove_footer_body [OF assms(3)] by blast
  with assms show ?thesis by (simp add: simplify_def)
qed

definition quoted_lines :: "ustr option \<Rightarrow> ustr \<Rightarrow> ustr \<Rightarrow> ustr list" where
  "quoted_lines quote t footer =
     (case quote of
        Some q \<Rightarrow> map (\<lambda>l. 62 # 32 # l) (split_lines q) @ [] # body_lines t footer
      | None \<Rightarrow> (if starts_with t (U ''>'') then [[]] else []) @ body_lines t footer)"

lemma split_message_text:
  assumes "13 \<notin> set t" "13 \<notin> set footer" "\<forall>q. quote = Some q \<longrightarrow> 13 \<notin> set q"
  shows "split_lines (filter (\<lambda>c. c \<noteq> 13) (message_text fwd (map_option render_quote quote) t footer))
     = (if fwd then [U ''---------- Forwarded message ----------'', U ''From: Delta Chat'', []] else [])
       @ quoted_lines quote t footer"
proof -
  have "message_text fwd (map_option render_quote quote) t footer = (if fwd then fwdhint else [])
     @ (case quote of Some q \<Rightarrow> render_quote q | None \<Rightarrow> if starts_with t (U ''>'') then [13, 10] else []) @ body_text t footer"
    by (simp add: message_text_def body_text_def split: option.splits)
  moreover have "split_lines (10 # r) = [] # split_lines r" for r by (simp add: split_lines_def)
  ultimately show ?thesis
    using assms
    by (cases fwd; cases quote) (simp_all add: split_fwdhint split_quote split_body quoted_lines_def del: filter_append)
qed


lemma remove_quoted:
  obtains pre where "remove_top_quote (quoted_lines quote t footer) True = (pre @ body_lines t footer, quote)" "pre = [] \<or> pre = [[]]"
proof (cases quote)
  case (Some q)
  have "remove_top_quote (map (\<lambda>l. 62 # 32 # l) (split_lines q) @ [] # body_lines t footer) True = ([[]] @ body_lines t footer, Some q)"
    using remove_top_quote_quotes [of "split_lines q" "body_lines t footer"] by (simp add: split_lines_def)
  then show thesis using that [of "[[]]"] Some by (simp add: quoted_lines_def)
next
  case None
  have body: "body_lines t footer \<noteq> []" by (auto simp: body_lines_def split_lines_def)
  show thesis
  proof (cases "starts_with t (U ''>'')")
    case True
    then show thesis
      using that [of "[[]]"] None remove_top_quote_none [of "[] # body_lines t footer"]
      by (simp add: quoted_lines_def is_plain_quote_def starts_with_def)
  next
    case False
    then show thesis
      using that [of "[]"] None remove_top_quote_none [OF body] hd_body(1) [OF False] by (simp add: quoted_lines_def)
  qed
qed

lemma quoted_not_forward: "quoted_lines quote t footer \<noteq> []" "\<not> forward_line (hd (quoted_lines quote t footer))"
proof -
  have body: "body_lines t footer \<noteq> []" by (auto simp: body_lines_def split_lines_def)
  then show "quoted_lines quote t footer \<noteq> []" by (simp add: quoted_lines_def split: option.splits)
  show "\<not> forward_line (hd (quoted_lines quote t footer))"
  proof (cases quote)
    case (Some q)
    then show ?thesis by (cases "split_lines q") (simp_all add: quoted_lines_def forward_line_def)
  next
    case None
    then show ?thesis
      using hd_body(2) [of t footer] body by (cases "starts_with t (U ''>'')") (simp_all add: quoted_lines_def forward_line_def)
  qed
qed

text \<open>C36: What one chat program writes the other reads: from the text part built of a forwarding flag, a quote, a text and a
  footer, \<open>simplify\<close> recovers exactly the flag, the quote and the footer, and the text as it is displayed (empty lines
  condensed), even if the text contains footer marks, quote marks or a forwarding header.\<close>

theorem message_text_roundtrip:
  assumes "13 \<notin> set t" "13 \<notin> set footer" "\<forall>q. quote = Some q \<longrightarrow> 13 \<notin> set q"
  shows "simplify (message_text fwd (map_option render_quote quote) t footer) True =
     \<lparr>st_text = Simplify.render_message (split_lines t) False, st_is_forwarded = fwd, st_is_cut = False, st_top_quote = quote,
      st_footer = (if footer = [] then None else Some (Simplify.render_message (split_lines footer) False))\<rparr>"
proof -
  obtain pre where pre: "remove_top_quote (quoted_lines quote t footer) True = (pre @ body_lines t footer, quote)" "pre = [] \<or> pre = [[]]"
    by (rule remove_quoted)
  have "skip_forward_header (split_lines (filter (\<lambda>c. c \<noteq> 13) (message_text fwd (map_option render_quote quote) t footer)))
     = (quoted_lines quote t footer, fwd)"
    unfolding split_message_text [OF assms]
    using skip_forward_header_no [OF quoted_not_forward] skip_forward_header_hint by (cases fwd) simp_all
  from simplify_lines [OF this pre] show ?thesis by (simp add: opt_footer_def)
qed

theorem message_text_roundtrip_witness:
  "simplify (message_text True (map_option render_quote (Some (U ''hi''))) (U ''-- x'') (U ''me'')) True =
     \<lparr>st_text = U ''-- x'', st_is_forwarded = True, st_is_cut = False, st_top_quote = Some (U ''hi''), st_footer = Some (U ''me'')\<rparr>"
proof -
  have "Simplify.render_message (split_lines (U ''-- x'')) False = U ''-- x''" "Simplify.render_message (split_lines (U ''me'')) False = U ''me''"
    by (simp_all add: Simplify.render_message_def split_lines_def is_empty_line_def is_whitespace_def replace_single ZWSP_def U_def)
  then show ?thesis
    using message_text_roundtrip [of "U ''-- x''" "U ''me''" "Some (U ''hi'')" True] by (simp add: U_def)
qed

end
