(* ===== verification/Act.thy ===== *)
theory Act
  imports Store
begin

text \<open>
  Operations that may fail after they have written to the database: an action returns its result or its error together with
  the state it leaves behind.  The operations of the other theories that return no state with an error are lifted; they
  leave the state as it was when they fail.
\<close>

type_synonym 'a act = "ctx \<Rightarrow> 'a res \<times> ctx"

definition ret :: "'a \<Rightarrow> 'a act" where
  "ret x s = (Inr x, s)"

definition fail :: "string \<Rightarrow> 'a act" where
  "fail e s = (Inl e, s)"

definition bind :: "'a act \<Rightarrow> ('a \<Rightarrow> 'b act) \<Rightarrow> 'b act" where
  "bind m f s = (case m s of (Inl e, s') \<Rightarrow> (Inl e, s') | (Inr x, s') \<Rightarrow> f x s')"

definition ensure :: "bool \<Rightarrow> string \<Rightarrow> unit act" where
  "ensure b e s = (if b then Inr () else Inl e, s)"

definition modify :: "(ctx \<Rightarrow> ctx) \<Rightarrow> unit act" where
  "modify f s = (Inr (), f s)"

definition gets :: "(ctx \<Rightarrow> 'a) \<Rightarrow> 'a act" where
  "gets f s = (Inr (f s), s)"

definition query :: "(ctx \<Rightarrow> 'a res) \<Rightarrow> 'a act" where
  "query f s = (f s, s)"

definition lift :: "(ctx \<Rightarrow> ('a \<times> ctx) res) \<Rightarrow> 'a act" where
  "lift f s = (case f s of Inl e \<Rightarrow> (Inl e, s) | Inr (x, s') \<Rightarrow> (Inr x, s'))"

definition exec :: "(ctx \<Rightarrow> ctx res) \<Rightarrow> unit act" where
  "exec f s = (case f s of Inl e \<Rightarrow> (Inl e, s) | Inr s' \<Rightarrow> (Inr (), s'))"

definition run :: "(ctx \<Rightarrow> 'a \<times> ctx) \<Rightarrow> 'a act" where
  "run f s = (let (x, s') = f s in (Inr x, s'))"

text \<open>\<open>.log_err(context).ok()\<close> and \<open>if let Err(err) = ...\<close>: the error is dropped, the state is kept.\<close>

definition ignore :: "'a act \<Rightarrow> unit act" where
  "ignore m s = (Inr (), snd (m s))"

text \<open>\<open>Sql::transaction\<close>: an error rolls the state back.\<close>

definition transaction :: "'a act \<Rightarrow> 'a act" where
  "transaction m s = (case m s of (Inl e, _) \<Rightarrow> (Inl e, s) | (Inr x, s') \<Rightarrow> (Inr x, s'))"

definition only_if :: "bool \<Rightarrow> unit act \<Rightarrow> unit act" where
  "only_if b m = (if b then m else ret ())"

fun for_each :: "('a \<Rightarrow> unit act) \<Rightarrow> 'a list \<Rightarrow> unit act" where
  "for_each f [] = ret ()"
| "for_each f (x # xs) = bind (f x) (\<lambda>_. for_each f xs)"

lemmas act_defs = ret_def fail_def bind_def ensure_def modify_def gets_def query_def lift_def exec_def run_def ignore_def transaction_def only_if_def

lemma bind_Inr: "bind m f s = (Inr y, s'') \<longleftrightarrow> (\<exists>x s'. m s = (Inr x, s') \<and> f x s' = (Inr y, s''))"
  by (auto simp: bind_def split: prod.splits sum.splits)

lemma ensure_Inr [simp]: "ensure b e s = (Inr u, s') \<longleftrightarrow> b \<and> s' = s"
  by (auto simp: ensure_def)

lemma ret_Inr [simp]: "ret x s = (Inr y, s') \<longleftrightarrow> x = y \<and> s' = s"
  by (auto simp: ret_def)

lemma fail_Inr [simp]: "fail e s \<noteq> (Inr y, s')"
  by (simp add: fail_def)

lemma modify_Inr [simp]: "modify f s = (Inr u, s') \<longleftrightarrow> s' = f s"
  by (auto simp: modify_def)

lemma gets_Inr [simp]: "gets f s = (Inr y, s') \<longleftrightarrow> y = f s \<and> s' = s"
  by (auto simp: gets_def)

lemma query_Inr [simp]: "query f s = (Inr y, s') \<longleftrightarrow> f s = Inr y \<and> s' = s"
  by (auto simp: query_def)

lemma lift_Inr [simp]: "lift f s = (Inr y, s') \<longleftrightarrow> f s = Inr (y, s')"
  by (auto simp: lift_def split: sum.splits)

lemma exec_Inr [simp]: "exec f s = (Inr u, s') \<longleftrightarrow> f s = Inr s'"
  by (auto simp: exec_def split: sum.splits)

lemma run_Inr [simp]: "run f s = (Inr y, s') \<longleftrightarrow> f s = (y, s')"
  by (auto simp: run_def split: prod.splits)

lemma transaction_Inr [simp]: "transaction m s = (Inr x, s') \<longleftrightarrow> m s = (Inr x, s')"
  by (auto simp: transaction_def split: prod.splits sum.splits)

lemma transaction_Inl: "m s = (Inl e, s') \<Longrightarrow> transaction m s = (Inl e, s)"
  by (simp add: transaction_def)

lemma ignore_Inr [simp]: "ignore m s = (Inr u, s') \<longleftrightarrow> s' = snd (m s)"
  by (auto simp: ignore_def)

section \<open>Invariants\<close>

text \<open>\<open>keeps_rel m\<close>: a relation between the states before and after holds whether or not \<open>m\<close> succeeds.\<close>

locale state_relation =
  fixes rel :: "ctx \<Rightarrow> ctx \<Rightarrow> bool"
  assumes rel_refl: "rel s s"
    and rel_trans: "rel s s' \<Longrightarrow> rel s' s'' \<Longrightarrow> rel s s''"
begin

definition keeps_rel :: "'a act \<Rightarrow> bool" where
  "keeps_rel m \<longleftrightarrow> (\<forall>s. rel s (snd (m s)))"

lemma keeps_ret: "keeps_rel (ret x)"
  by (simp add: keeps_rel_def ret_def rel_refl)

lemma keeps_fail: "keeps_rel (fail e)"
  by (simp add: keeps_rel_def fail_def rel_refl)

lemma keeps_ensure: "keeps_rel (ensure b e)"
  by (simp add: keeps_rel_def ensure_def rel_refl)

lemma keeps_gets: "keeps_rel (gets f)"
  by (simp add: keeps_rel_def gets_def rel_refl)

lemma keeps_query: "keeps_rel (query f)"
  by (simp add: keeps_rel_def query_def rel_refl)

lemma keeps_bind: "keeps_rel m \<Longrightarrow> (\<And>x. keeps_rel (f x)) \<Longrightarrow> keeps_rel (bind m f)"
  unfolding keeps_rel_def bind_def by (auto split: prod.splits sum.splits) (metis rel_trans snd_conv)+

lemma keeps_modify: "(\<And>s. rel s (f s)) \<Longrightarrow> keeps_rel (modify f)"
  by (simp add: keeps_rel_def modify_def)

lemma keeps_lift: "(\<And>s x s'. f s = Inr (x, s') \<Longrightarrow> rel s s') \<Longrightarrow> keeps_rel (lift f)"
  by (auto simp: keeps_rel_def lift_def rel_refl split: sum.splits)

lemma keeps_exec: "(\<And>s s'. f s = Inr s' \<Longrightarrow> rel s s') \<Longrightarrow> keeps_rel (exec f)"
  by (auto simp: keeps_rel_def exec_def rel_refl split: sum.splits)

lemma keeps_run: "(\<And>s x s'. f s = (x, s') \<Longrightarrow> rel s s') \<Longrightarrow> keeps_rel (run f)"
  by (auto simp: keeps_rel_def run_def split: prod.splits)

lemma keeps_ignore: "keeps_rel m \<Longrightarrow> keeps_rel (ignore m)"
  by (simp add: keeps_rel_def ignore_def)

lemma keeps_transaction: "keeps_rel m \<Longrightarrow> keeps_rel (transaction m)"
  by (auto simp: keeps_rel_def transaction_def rel_refl split: prod.splits sum.splits) (metis snd_conv)

lemma keeps_only_if: "(b \<Longrightarrow> keeps_rel m) \<Longrightarrow> keeps_rel (only_if b m)"
  by (simp add: only_if_def keeps_ret)

lemma keeps_if: "(b \<Longrightarrow> keeps_rel m) \<Longrightarrow> (\<not> b \<Longrightarrow> keeps_rel n) \<Longrightarrow> keeps_rel (if b then m else n)"
  by simp

lemma keeps_option: "(x = None \<Longrightarrow> keeps_rel m) \<Longrightarrow> (\<And>y. x = Some y \<Longrightarrow> keeps_rel (f y)) \<Longrightarrow> keeps_rel (case x of None \<Rightarrow> m | Some y \<Rightarrow> f y)"
  by (cases x) simp_all

lemma keeps_for_each: "(\<And>x. keeps_rel (f x)) \<Longrightarrow> keeps_rel (for_each f xs)"
  by (induction xs) (simp_all add: keeps_ret keeps_bind)

lemma keepsD: "keeps_rel m \<Longrightarrow> m s = (r, s') \<Longrightarrow> rel s s'"
  unfolding keeps_rel_def by (metis snd_conv)

lemmas keeps_rules = keeps_ret keeps_fail keeps_ensure keeps_gets keeps_query keeps_bind keeps_only_if keeps_ignore keeps_transaction keeps_if
  keeps_option keeps_for_each

end

end
