(* ===== verification/SendMsg.thy ===== *)
theory SendMsg
  imports MimeRender Act
begin

text \<open>
  Sending of messages in \<^verbatim>\<open>src/chat.rs\<close>: whether a message may be sent, \<open>send_msg\<close>, the row in the message table
  and the jobs in the SMTP queue.  Files, the provider database and the manifest of apps are in \<open>send_env\<close>.
\<close>

section \<open>Environment\<close>

record send_env =
  v_mime :: mime_env
  v_process :: "Message \<Rightarrow> Message res"
  v_filebytes :: "Message \<Rightarrow> nat option res"
  v_provider_max_rcpt :: "nat option"
  v_requests_map :: "Message \<Rightarrow> bool res"


section \<open>Whether a message may be sent\<close>

datatype (plugins only: code size) CantSendReason =
  SpecialChat | DeviceChat | ContactRequest | ReadOnlyMailingList | InBroadcastChat | NotAMember | MissingKey

definition CantSendReason_to_string :: "CantSendReason \<Rightarrow> string" where
  "CantSendReason_to_string r =
     (case r of
        SpecialChat \<Rightarrow> ''the chat is a special chat''
      | DeviceChat \<Rightarrow> ''the chat is a device chat''
      | ContactRequest \<Rightarrow> ''contact request chat should be accepted before sending messages''
      | ReadOnlyMailingList \<Rightarrow> ''mailing list does not have a know post address''
      | InBroadcastChat \<Rightarrow> ''Broadcast channel is read-only''
      | NotAMember \<Rightarrow> ''not a member of the chat''
      | MissingKey \<Rightarrow> ''key is missing'')"

definition get_mailinglist_addr :: "chat_row \<Rightarrow> string option" where
  "get_mailinglist_addr c = Params_get Param.ListPost (ch_param c)"

definition public_key :: "ctx \<Rightarrow> contact_row \<Rightarrow> string option res" where
  "public_key s c =
     (if c_fingerprint c = [] then Inr None
      else case public_keys s (c_fingerprint c) of
        Some key \<Rightarrow> res_bind (parse_public_key s key) (\<lambda>_. Inr (Some key))
      | None \<Rightarrow> Inr None)"

definition key_is_missing :: "ctx \<Rightarrow> chat_row \<Rightarrow> bool res" where
  "key_is_missing s c =
     (case get_chat_contacts s (ch_id c) of
        [] \<Rightarrow> Inr False
      | cid # _ \<Rightarrow>
          res_bind (get_by_id s cid) (\<lambda>contact.
            if is_key_contact contact \<and> cid \<noteq> ContactId_SELF
            then res_bind (public_key s contact) (\<lambda>key. Inr (key = None)) else Inr False))"

definition why_cant_send_ex :: "ctx \<Rightarrow> (CantSendReason \<Rightarrow> bool) \<Rightarrow> chat_row \<Rightarrow> CantSendReason option res" where
  "why_cant_send_ex s skip c =
     (if ChatId_is_special (ch_id c) \<and> \<not> skip SpecialChat then Inr (Some SpecialChat)
      else if is_device_talk c \<and> \<not> skip DeviceChat then Inr (Some DeviceChat)
      else if is_contact_request c \<and> \<not> skip ContactRequest then Inr (Some ContactRequest)
      else if is_mailing_list c \<and> (get_mailinglist_addr c = None \<or> get_mailinglist_addr c = Some []) \<and> \<not> skip ReadOnlyMailingList
      then Inr (Some ReadOnlyMailingList)
      else if ch_type c = InBroadcast \<and> \<not> skip InBroadcastChat then Inr (Some InBroadcastChat)
      else if \<not> skip NotAMember \<and> \<not> is_self_in_chat s c then Inr (Some NotAMember)
      else if \<not> skip MissingKey \<and> ch_type c = Single
      then res_bind (key_is_missing s c) (\<lambda>missing. Inr (if missing then Some MissingKey else None))
      else Inr None)"

definition why_cant_send :: "ctx \<Rightarrow> chat_row \<Rightarrow> CantSendReason option res" where
  "why_cant_send s c = why_cant_send_ex s (\<lambda>_. False) c"

definition can_send :: "ctx \<Rightarrow> chat_row \<Rightarrow> bool res" where
  "can_send s c = res_bind (why_cant_send s c) (\<lambda>r. Inr (r = None))"


section \<open>Truncation\<close>

definition DC_ELLIPSIS :: ustr where "DC_ELLIPSIS = U ''[...]''"
definition DC_DESIRED_TEXT_LINES :: nat where "DC_DESIRED_TEXT_LINES = 38"
definition DC_DESIRED_TEXT_LINE_LEN :: nat where "DC_DESIRED_TEXT_LINE_LEN = 100"

text \<open>The loop over the characters: the place of the character with which the number of lines reaches the maximum.\<close>

fun line_break_point :: "nat \<Rightarrow> nat \<Rightarrow> nat \<Rightarrow> nat \<Rightarrow> nat \<Rightarrow> ustr \<Rightarrow> nat option" where
  "line_break_point max_lines max_line_len index ls line_chars [] = None"
| "line_break_point max_lines max_line_len index ls line_chars (c # cs) =
     (let (ls', line_chars') =
        (if c = 10 then (Suc ls, 0)
         else if Suc line_chars > max_line_len then (Suc ls, 1) else (ls, Suc line_chars))
      in if ls' = max_lines then Some index
         else line_break_point max_lines max_line_len (Suc index) ls' line_chars' cs)"

fun rfind_space :: "nat \<Rightarrow> nat option \<Rightarrow> ustr \<Rightarrow> nat option" where
  "rfind_space i found [] = found"
| "rfind_space i found (c # cs) = rfind_space (Suc i) (if c = 32 \<or> c = 10 then Some i else found) cs"

definition truncate_by_lines :: "nat \<Rightarrow> nat \<Rightarrow> ustr \<Rightarrow> ustr \<times> bool" where
  "truncate_by_lines max_lines max_line_len buf =
     (case line_break_point max_lines max_line_len 0 0 0 buf of
        Some end_pos \<Rightarrow>
          ((case rfind_space 0 None (take end_pos buf) of
              Some index \<Rightarrow> take (Suc index) buf
            | None \<Rightarrow> take end_pos buf) @ DC_ELLIPSIS, True)
      | None \<Rightarrow> (buf, False))"

definition truncate_msg_text :: "ctx \<Rightarrow> ustr \<Rightarrow> ustr \<times> bool" where
  "truncate_msg_text s text =
     (if get_config_bool (config s) Config.Bot then (text, False)
      else truncate_by_lines DC_DESIRED_TEXT_LINES DC_DESIRED_TEXT_LINE_LEN text)"


section \<open>The row of the message\<close>

definition single_recipient :: "ctx \<Rightarrow> chat_id \<Rightarrow> contact_id option" where
  "single_recipient s chat = map_option cc_contact (sel_one (\<lambda>r. cc_chat r = chat) (chats_contacts s))"

definition promote_params :: "int \<Rightarrow> params \<Rightarrow> params" where
  "promote_params ts p =
     Params_set_i64 GroupDescriptionTimestamp ts (Params_set_i64 GroupNameTimestamp ts (Params_remove Unpromoted p))"

definition chat_unpromoted :: "chat_row \<Rightarrow> bool" where
  "chat_unpromoted c \<longleftrightarrow> (case Params_get_int Unpromoted (ch_param c) of Some n \<Rightarrow> n | None \<Rightarrow> 0) = 1"

definition new_references :: "string \<Rightarrow> string \<times> string \<times> string \<Rightarrow> string" where
  "new_references own_mid parent =
     (case parent of (parent_mid, parent_in_reply_to, parent_references) \<Rightarrow>
        let refs = split_on (CHR '' '') (if parent_references = [] then parent_in_reply_to else parent_references);
            last2 = drop (length refs - 2) refs;
            vec = (if parent_mid \<noteq> [] \<and> parent_mid \<notin> set last2 then last2 @ [parent_mid] else last2)
        in if vec = [] then own_mid else join '' '' vec)"

definition thread_headers :: "ctx \<Rightarrow> chat_row \<Rightarrow> Message \<Rightarrow> string option \<times> string" where
  "thread_headers s c msg =
     (if is_self_talk c then (mg_in_reply_to msg, [])
      else case get_parent_mime_headers s (ch_id c) OutPending of
        Some parent \<Rightarrow>
          (if mg_in_reply_to msg = None \<and> fst parent \<noteq> [] then Some (fst parent) else mg_in_reply_to msg,
           new_references (mg_rfc724_mid msg) parent)
      | None \<Rightarrow> (mg_in_reply_to msg, mg_rfc724_mid msg))"

definition insert_own_location :: "int \<Rightarrow> chat_id \<Rightarrow> ctx \<Rightarrow> nat \<times> ctx" where
  "insert_own_location ts chat s =
     (let i = Suc (locations_seq s)
      in (i, s\<lparr>locations := locations s @ [\<lparr>l_id = i, l_independent = True, l_timestamp = ts, l_from_id = ContactId_SELF,
                                             l_chat_id = chat\<rparr>], locations_seq := i\<rparr>))"

definition sent_columns ::
  "Message \<Rightarrow> contact_id \<Rightarrow> ustr \<Rightarrow> string \<Rightarrow> bool \<Rightarrow> nat \<Rightarrow> Timer \<Rightarrow> int \<Rightarrow> msg_row \<Rightarrow> msg_row" where
  "sent_columns msg to_id text references modified location timer timestamp m =
     m\<lparr>m_rfc724_mid := mg_rfc724_mid msg, m_chat_id := mg_chat_id msg, m_from_id := mg_from_id msg, m_to_id := to_id,
       m_timestamp := mg_timestamp_sort msg, m_type := Viewtype_to_int (mg_viewtype msg), m_state := mg_state msg,
       m_txt := text, m_subject := mg_subject msg, m_param := mg_param msg, m_hidden := mg_hidden msg,
       m_in_reply_to := (case mg_in_reply_to msg of Some r \<Rightarrow> r | None \<Rightarrow> []), m_references := references,
       m_mime_modified := modified, m_location_id := location, m_ephemeral_timer := Timer_to_sql timer,
       m_ephemeral_timestamp := timestamp\<rparr>"

definition maybe_set_logging_xdc :: "Message \<Rightarrow> chat_row \<Rightarrow> ctx \<Rightarrow> ctx" where
  "maybe_set_logging_xdc msg c s =
     (case Params_get Filename (mg_param msg) of
        Some filename \<Rightarrow>
          if mg_viewtype msg = Webxdc \<and> starts_with filename ''debug_logging'' \<and> ends_with filename ''.xdc''
             \<and> (case chat_row_of s (ch_id c) of Some row \<Rightarrow> is_self_talk row | None \<Rightarrow> False)
          then set_debug_logging_xdc (Some (mg_id msg)) s else s
      | None \<Rightarrow> s)"

definition update_webxdc_integration_database :: "send_env \<Rightarrow> int \<Rightarrow> Message \<Rightarrow> Message act" where
  "update_webxdc_integration_database env now msg =
     (if mg_viewtype msg \<noteq> Webxdc then ret msg
      else bind
        (if Params_get_int Param.WebxdcIntegration (mg_param msg) \<noteq> None then ret (True, msg)
         else bind (gets (\<lambda>s. case chat_row_of s (mg_chat_id msg) of Some row \<Rightarrow> is_self_talk row | None \<Rightarrow> False)) (\<lambda>self_talk.
           if \<not> self_talk then ret (False, msg)
           else bind (query (\<lambda>_. v_requests_map env msg)) (\<lambda>map_app.
             if \<not> map_app then ret (False, msg)
             else
               let msg' = msg\<lparr>mg_param := Params_set_int Param.WebxdcIntegration 1 (mg_param msg)\<rparr>
               in bind (exec (update_param msg')) (\<lambda>_. ret (True, msg')))))
        (\<lambda>(is_integration, msg'). if is_integration
           then bind (exec (set_config_internal now Config.WebxdcIntegration (Some (show_nat (mg_id msg'))))) (\<lambda>_. ret msg')
           else ret msg'))"

definition store_msg :: "(msg_row \<Rightarrow> msg_row) \<Rightarrow> msg_id option \<Rightarrow> msg_id act" where
  "store_msg columns update_msg_id =
     (case update_msg_id of
        Some i \<Rightarrow> bind (exec (\<lambda>s. sql_msg_id i (update_msg i columns s))) (\<lambda>_. ret i)
      | None \<Rightarrow> run (insert_msg columns))"


text \<open>\<open>Chat::prepare_msg_raw\<close>: the parts before the row is written, and the row.\<close>

definition fill_mid :: "Message \<Rightarrow> Message act" where
  "fill_mid msg =
     (if mg_rfc724_mid msg = [] then bind (run create_outgoing_rfc724_mid) (\<lambda>mid. ret (msg\<lparr>mg_rfc724_mid := mid\<rparr>)) else ret msg)"

definition prepare_recipient :: "chat_row \<Rightarrow> Message \<Rightarrow> (contact_id \<times> chat_row \<times> Message) act" where
  "prepare_recipient c msg =
     (if ch_type c = Single then
        bind (gets (\<lambda>s. single_recipient s (ch_id c))) (\<lambda>to.
          case to of Some i \<Rightarrow> ret (i, c, msg) | None \<Rightarrow> fail ''Cannot set message, contact not found.'')
      else if chat_unpromoted c then
        bind (ensure (ch_type c = Group) ''assertion failed: self.typ == Chattype::Group'') (\<lambda>_.
          let p = promote_params (mg_timestamp_sort msg) (ch_param c)
          in bind (modify (set_chat_param (ch_id c) p)) (\<lambda>_.
            ret (0, c\<lparr>ch_param := p\<rparr>, msg\<lparr>mg_param := Params_set_int AttachChatAvatarAndDescription 1 (mg_param msg)\<rparr>)))
      else ret (0, c, msg))"

definition prepare_msg_raw :: "send_env \<Rightarrow> int \<Rightarrow> chat_row \<Rightarrow> msg_id option \<Rightarrow> Message \<Rightarrow> Message act" where
  "prepare_msg_raw env now c0 update_msg_id msg0 =
     bind (fill_mid msg0) (\<lambda>msg1.
     bind (prepare_recipient c0 msg1) (\<lambda>(to_id, c, msg2).
     bind (gets (\<lambda>s. msg2\<lparr>mg_param := Params_set_optional Param.Bot (if get_config_bool (config s) Config.Bot then Some ''1'' else None)
             (mg_param msg2)\<rparr>)) (\<lambda>msg3.
     bind (gets (\<lambda>s. thread_headers s c msg3)) (\<lambda>(in_reply_to, references).
     bind (if Params_exists SetLatitude (mg_param msg3) then run (insert_own_location (mg_timestamp_sort msg3) (ch_id c)) else ret 0) (\<lambda>location.
     bind (if Params_get_cmd (mg_param msg3) = EphemeralTimerChanged then ret Disabled
           else query (\<lambda>s. get_ephemeral_timer s (ch_id c))) (\<lambda>timer.
     bind (gets (\<lambda>s. truncate_msg_text s (mg_text msg3))) (\<lambda>(text, was_truncated).
       let msg4 = msg3\<lparr>mg_in_reply_to := in_reply_to, mg_chat_id := ch_id c, mg_from_id := ContactId_SELF\<rparr>;
           modified = (mg_mime_modified msg4 \<and> Params_get SendHtml (mg_param msg4) \<noteq> None \<or> was_truncated);
           timestamp = (case timer of Disabled \<Rightarrow> 0 | Enabled d \<Rightarrow> sat_i64 (now + int d))
       in bind (store_msg (sent_columns msg4 to_id text references modified location timer timestamp) update_msg_id) (\<lambda>i.
          let msg5 = msg4\<lparr>mg_id := i\<rparr>
          in bind (if update_msg_id = None
                   then bind (modify (maybe_set_logging_xdc msg5 c)) (\<lambda>_. update_webxdc_integration_database env now msg5)
                   else ret msg5) (\<lambda>msg6.
             bind (modify interrupt_ephemeral_task) (\<lambda>_. ret msg6))))))))))"


section \<open>The jobs in the SMTP queue\<close>

definition PRE_MSG_ATTACHMENT_SIZE_THRESHOLD :: nat where "PRE_MSG_ATTACHMENT_SIZE_THRESHOLD = 140000"

definition needs_pre_message :: "send_env \<Rightarrow> Message \<Rightarrow> MimeFactory \<Rightarrow> bool res" where
  "needs_pre_message env msg mf =
     (if has_file (mg_viewtype msg) \<and> mf_encryption_pubkeys mf \<noteq> None then
        res_bind (v_filebytes env msg) (\<lambda>bytes.
          case bytes of
            None \<Rightarrow> Inl ''filebytes not available, even though message has attachment''
          | Some n \<Rightarrow> Inr (n > PRE_MSG_ATTACHMENT_SIZE_THRESHOLD))
      else Inr False)"

definition render_mime_message_and_pre_message ::
  "send_env \<Rightarrow> int \<Rightarrow> Message \<Rightarrow> MimeFactory \<Rightarrow> (RenderedEmail option \<times> RenderedEmail) act" where
  "render_mime_message_and_pre_message env now msg mf =
     bind (query (\<lambda>_. needs_pre_message env msg mf)) (\<lambda>needed.
       if needed then
         bind (render (v_mime env) now (set_as_post_message mf)) (\<lambda>post.
         bind (render (v_mime env) now (set_as_pre_message_for post mf)) (\<lambda>pre. ret (Some pre, post)))
       else bind (render (v_mime env) now mf) (\<lambda>rendered. ret (None, rendered)))"

definition get_published_secondary_self_addrs :: "ctx \<Rightarrow> ustr list" where
  "get_published_secondary_self_addrs s =
     map t_addr (rev (sort_key t_add_timestamp (sort_key t_id
       (filter (\<lambda>t. t_is_published t \<and> config_db (config s) ''configured_addr'' \<noteq> Some (utf8_encode (t_addr t))) (transports s)))))"

definition add_self_recipients :: "ctx \<Rightarrow> ustr list \<Rightarrow> bool \<Rightarrow> ustr list res" where
  "add_self_recipients s recipients encrypted =
     res_bind (get_primary_self_addr (config s)) (\<lambda>from.
       Inr (recipients @ (if encrypted then get_published_secondary_self_addrs s else []) @ [utf8_decode from]))"

definition get_max_smtp_rcpt_to :: "send_env \<Rightarrow> ctx \<Rightarrow> nat" where
  "get_max_smtp_rcpt_to env s =
     (case v_provider_max_rcpt env of Some n \<Rightarrow> n | None \<Rightarrow> if get_config_bool (config s) IsChatmail then 999 else 50)"

fun chunks :: "nat \<Rightarrow> 'a list \<Rightarrow> 'a list list" where
  "chunks n [] = []"
| "chunks n (x # xs) = (if n = 0 then [] else take n (x # xs) # chunks n (drop n (x # xs)))"

definition insert_smtp :: "string \<Rightarrow> ustr list \<Rightarrow> string \<Rightarrow> msg_id \<Rightarrow> ctx \<Rightarrow> ctx" where
  "insert_smtp mid recipients mime msg_id s =
     (let i = Suc (smtp_seq s)
      in s\<lparr>smtp_tbl := smtp_tbl s @ [\<lparr>sm_id = i, sm_rfc724_mid = mid, sm_recipients = recipients, sm_mime = mime,
                                      sm_msg_id = msg_id, sm_retries = 0\<rparr>], smtp_seq := i\<rparr>)"

text \<open>The identifiers in the list \<open>sync_ids\<close> that is put into the statement.\<close>

definition parse_sync_ids :: "string \<Rightarrow> nat list res" where
  "parse_sync_ids ids =
     (if ids = [] then Inr []
      else case those (map (parse_int 0 i64_max) (split_on (CHR '','') ids)) of
        Some ns \<Rightarrow> Inr (map nat ns)
      | None \<Rightarrow> Inl ''syntax error'')"

definition insert_jobs :: "nat \<Rightarrow> ustr list \<Rightarrow> RenderedEmail option \<Rightarrow> RenderedEmail \<Rightarrow> msg_id \<Rightarrow> nat list act" where
  "insert_jobs chunk_size recipients pre rendered i = transaction (
     bind (case re_sync_ids_to_delete rendered of
             Some ids \<Rightarrow> bind (query (\<lambda>_. parse_sync_ids ids)) (\<lambda>ns.
               modify (\<lambda>s. s\<lparr>multi_device_sync := filter (\<lambda>(n, _). n \<notin> set ns) (multi_device_sync s)\<rparr>))
           | None \<Rightarrow> ret ()) (\<lambda>_.
     bind (ensure (chunk_size \<noteq> 0) ''chunk size must be non-zero'') (\<lambda>_.
     let cs = chunks chunk_size recipients;
         jobs = concat (map (\<lambda>rs. (case pre of Some p \<Rightarrow> [(re_rfc724_mid p, rs, re_message p)] | None \<Rightarrow> [])
                                  @ [(re_rfc724_mid rendered, rs, re_message rendered)]) cs)
     in bind (modify (fold (\<lambda>(mid, rs, mime). insert_smtp mid rs mime i) jobs)) (\<lambda>_. ret (map (\<lambda>_. 1) jobs)))))"

definition needs_encryption :: "ctx \<Rightarrow> Message \<Rightarrow> bool" where
  "needs_encryption s msg \<longleftrightarrow>
     Params_get_bool GuaranteeE2ee (mg_param msg) = Some True
     \<or> Params_get_bool ForcePlaintext (mg_param msg) \<noteq> Some True \<and> get_config_bool (config s) ForceEncryption"

text \<open>The failure of a step marks the message as failed before the error is passed on.\<close>

definition or_mark_failed :: "(Message act \<Rightarrow> unit act) \<Rightarrow> Message \<Rightarrow> 'a act \<Rightarrow> 'a act" where
  "or_mark_failed handle msg m s =
     (case m s of
        (Inr x, s') \<Rightarrow> (Inr x, s')
      | (Inl e, s') \<Rightarrow> bind (handle (lift (set_msg_failed msg (utf8_decode e)))) (\<lambda>_. fail e) s')"

definition propagate :: "'a act \<Rightarrow> unit act" where
  "propagate m = bind m (\<lambda>_. ret ())"

definition update_group_timestamps :: "Message \<Rightarrow> unit act" where
  "update_group_timestamps msg =
     (let cmd = Params_get_cmd (mg_param msg)
      in only_if (cmd = GroupNameChanged \<or> cmd = GroupDescriptionChanged)
        (bind (lift (ChatId_update_timestamp (mg_chat_id msg)
           (if cmd = GroupNameChanged then GroupNameTimestamp else GroupDescriptionTimestamp) (mg_timestamp_sort msg))) (\<lambda>_. ret ())))"

definition has_no_job :: "ctx \<Rightarrow> Message \<Rightarrow> ustr list \<Rightarrow> bool" where
  "has_no_job s msg recipients \<longleftrightarrow>
     Params_get_int Param.WebxdcIntegration (mg_param msg) \<noteq> None \<and> mg_hidden msg
     \<or> \<not> get_config_bool (config s) BccSelf \<and> recipients = []"

definition mark_without_job :: "Message \<Rightarrow> Message act" where
  "mark_without_job msg =
     (let msg1 = msg\<lparr>mg_param := Params_set_int GuaranteeE2ee 1 (mg_param msg)\<rparr>
      in bind (exec (update_param msg1)) (\<lambda>_.
         bind (lift (set_delivered (mg_id msg1))) (\<lambda>_. ret (msg1\<lparr>mg_state := OutDelivered\<rparr>))))"

definition refuse_unencrypted :: "int \<Rightarrow> Message \<Rightarrow> 'a act" where
  "refuse_unencrypted now msg =
     bind (gets (\<lambda>s. stock s (UnencryptedEmail (case get_config (config s) ConfiguredAddr of
         Some a \<Rightarrow> (case split_on (CHR ''@'') a of _ # d # _ \<Rightarrow> d | _ \<Rightarrow> []) | None \<Rightarrow> [])))) (\<lambda>text.
     bind (lift (set_msg_failed msg text)) (\<lambda>_.
     bind (lift (add_info_msg_with_cmd now (mg_chat_id msg) text InvalidUnencryptedMail (Some (mg_timestamp_sort msg)) (mg_timestamp_sort msg)
             None None None)) (\<lambda>_.
     fail ''e2e encryption unavailable'')))"

definition sort_to_bottom :: "Message \<Rightarrow> ctx \<Rightarrow> ctx" where
  "sort_to_bottom msg s =
     update_msg (mg_id msg) (\<lambda>m. m\<lparr>
       m_timestamp := (case list_max (map m_timestamp (filter (\<lambda>r. m_state r \<in> set [InFresh, InNoticed, InSeen, OutPending, OutFailed, OutDelivered]
           \<and> m_chat_id r = mg_chat_id msg \<and> m_id r \<le> mg_id msg) (msgs s))) of Some t \<Rightarrow> t | None \<Rightarrow> 0),
       m_pre_rfc724_mid := mg_pre_rfc724_mid msg, m_subject := mg_subject msg, m_param := mg_param msg\<rparr>) s"

definition set_kml_sent_timestamp :: "chat_id \<Rightarrow> int \<Rightarrow> ctx \<Rightarrow> ctx" where
  "set_kml_sent_timestamp chat ts s = s\<lparr>chats := upd_where (\<lambda>c. ch_id c = chat) (\<lambda>c. c\<lparr>ch_locations_last_sent := ts\<rparr>) (chats s)\<rparr>"

definition rendered_msg :: "Message \<Rightarrow> RenderedEmail option \<Rightarrow> RenderedEmail \<Rightarrow> Message" where
  "rendered_msg msg pre rendered =
     msg\<lparr>mg_pre_rfc724_mid := (case pre of Some p \<Rightarrow> re_rfc724_mid p | None \<Rightarrow> mg_pre_rfc724_mid msg),
         mg_param := (if re_is_encrypted rendered then Params_set_int GuaranteeE2ee 1 (mg_param msg)
                      else Params_remove GuaranteeE2ee (mg_param msg)),
         mg_subject := re_subject rendered\<rparr>"

definition queue_rendered :: "send_env \<Rightarrow> int \<Rightarrow> Message \<Rightarrow> bool \<Rightarrow> ustr list \<Rightarrow> RenderedEmail option \<times> RenderedEmail \<Rightarrow> (nat list \<times> Message) act" where
  "queue_rendered env now msg attach_selfavatar recipients mails =
     (let (pre, rendered) = mails; msg' = rendered_msg msg pre rendered
      in bind (only_if (re_last_added_location_id rendered \<noteq> None) (modify (set_kml_sent_timestamp (mg_chat_id msg) now))) (\<lambda>_.
         bind (only_if attach_selfavatar (modify (set_selfavatar_timestamp (mg_chat_id msg) now))) (\<lambda>_.
         bind (exec (\<lambda>s. sql_msg_id (mg_id msg) (sort_to_bottom msg' s))) (\<lambda>_.
         bind (gets (get_max_smtp_rcpt_to env)) (\<lambda>chunk_size.
         bind (insert_jobs chunk_size recipients pre rendered (mg_id msg)) (\<lambda>ids. ret (ids, msg')))))))"

definition create_send_msg_jobs :: "send_env \<Rightarrow> int \<Rightarrow> Message \<Rightarrow> (nat list \<times> Message) act" where
  "create_send_msg_jobs env now msg =
     bind (update_group_timestamps msg) (\<lambda>_.
     bind (gets (\<lambda>s. needs_encryption s msg)) (\<lambda>needs.
     bind (or_mark_failed ignore msg (lift (from_msg now msg))) (\<lambda>mf.
     bind (query (\<lambda>s. get_primary_self_addr (config s))) (\<lambda>from.
     bind (gets (\<lambda>s. filter (\<lambda>x. lower s x \<noteq> lower s (utf8_decode from)) (mf_recipients mf))) (\<lambda>recipients.
     bind (gets (\<lambda>s. has_no_job s msg recipients)) (\<lambda>no_job.
       if no_job then bind (mark_without_job msg) (\<lambda>msg'. ret ([], msg'))
       else
         bind (or_mark_failed propagate msg (render_mime_message_and_pre_message env now msg mf)) (\<lambda>(pre, rendered).
         bind (query (\<lambda>s. if get_config_bool (config s) BccSelf then add_self_recipients s recipients (re_is_encrypted rendered)
                          else Inr recipients)) (\<lambda>all_recipients.
           if needs \<and> \<not> re_is_encrypted rendered then refuse_unencrypted now msg
           else queue_rendered env now msg (mf_attach_selfavatar mf) all_recipients (pre, rendered)))))))))"


section \<open>Sending\<close>

definition sendable_anyway :: "Message \<Rightarrow> CantSendReason \<Rightarrow> bool" where
  "sendable_anyway msg reason =
     (let cmd = Params_get_cmd (mg_param msg)
      in case reason of
           ContactRequest \<Rightarrow> cmd = SecurejoinMessage
         | NotAMember \<Rightarrow> cmd = MemberRemovedFromGroup
         | InBroadcastChat \<Rightarrow> cmd = MemberRemovedFromGroup \<or> cmd = SecurejoinMessage
         | MissingKey \<Rightarrow> Params_get_bool ForcePlaintext (mg_param msg) = Some True
         | _ \<Rightarrow> False)"

definition check_sendable :: "chat_id \<Rightarrow> chat_row \<Rightarrow> Message \<Rightarrow> unit act" where
  "check_sendable chat c msg =
     bind (query (\<lambda>s. why_cant_send_ex s (sendable_anyway msg) c)) (\<lambda>reason.
       case reason of
         Some r \<Rightarrow> fail (''Cannot send: '' @ CantSendReason_to_string r)
       | None \<Rightarrow>
           bind (query (\<lambda>s. if ch_type c \<noteq> Single \<and> \<not> get_config_bool (config s) Config.Bot then quoted_message s msg else Inr None)) (\<lambda>quoted.
             case quoted of
               Some q \<Rightarrow> ensure (mg_chat_id q = chat) ''Quote of message cannot be sent''
             | None \<Rightarrow> ret ()))"

definition mark_guaranteed :: "chat_row \<Rightarrow> Message \<Rightarrow> Message act" where
  "mark_guaranteed c msg =
     (if mg_state msg = Undefined \<and> Params_get_cmd (mg_param msg) \<noteq> SecurejoinMessage then
        bind (query (\<lambda>s. is_encrypted s c)) (\<lambda>enc.
          if enc then
            let msg' = msg\<lparr>mg_param := Params_set_int GuaranteeE2ee 1 (mg_param msg)\<rparr>
            in bind (only_if (mg_id msg \<noteq> 0) (exec (update_param msg'))) (\<lambda>_. ret msg')
          else ret msg)
      else ret msg)"

definition prepare_send_msg :: "send_env \<Rightarrow> int \<Rightarrow> chat_id \<Rightarrow> Message \<Rightarrow> (nat list \<times> Message) act" where
  "prepare_send_msg env now chat msg0 =
     bind (query (\<lambda>s. load_from_db s chat)) (\<lambda>c.
     bind (check_sendable chat c msg0) (\<lambda>_.
     let draft = (mg_state msg0 = OutDraft);
         msg1 = (if draft then msg0\<lparr>mg_hidden := False\<rparr> else msg0);
         update_msg_id = (if draft \<and> \<not> MsgId_is_special (mg_id msg1) \<and> mg_chat_id msg1 = chat then Some (mg_id msg1) else None)
     in bind (mark_guaranteed c msg1) (\<lambda>msg2.
        bind (query (\<lambda>_. prepare_msg_blob (v_process env) (msg2\<lparr>mg_state := OutPending, mg_timestamp_sort := now\<rparr>))) (\<lambda>msg3.
        bind (only_if (\<not> mg_hidden msg3) (exec (unarchive_if_not_muted now chat (mg_state msg3)))) (\<lambda>_.
        bind (prepare_msg_raw env now c update_msg_id msg3) (\<lambda>msg4.
        bind (create_send_msg_jobs env now msg4) (\<lambda>(ids, msg5).
        bind (only_if (ids \<noteq> []) (ignore (exec (donation_request_maybe now)))) (\<lambda>_. ret (ids, msg5)))))))))"

definition send_msg :: "send_env \<Rightarrow> int \<Rightarrow> chat_id \<Rightarrow> Message \<Rightarrow> msg_id act" where
  "send_msg env now chat msg0 =
     bind (ensure (\<not> ChatId_is_special chat) ''chat_id cannot be a special chat'') (\<lambda>_.
     let msg1 = (if mg_state msg0 \<noteq> Undefined
                 then msg0\<lparr>mg_param := Params_remove ForcePlaintext (Params_remove GuaranteeE2ee (mg_param msg0))\<rparr> else msg0);
         msg2 = (if is_system_message msg1 then msg1\<lparr>mg_text := sanitize_bidi_characters (mg_text msg1)\<rparr> else msg1)
     in bind (prepare_send_msg env now chat msg2) (\<lambda>(ids, msg3).
        bind (only_if (ids \<noteq> [])
          (bind (only_if (\<not> mg_hidden msg3) (modify (emit_msgs_changed (mg_chat_id msg3) (mg_id msg3)))) (\<lambda>_.
           bind (only_if (Params_exists SetLatitude (mg_param msg3)) (modify (emit_location_changed (Some ContactId_SELF)))) (\<lambda>_.
           modify interrupt_smtp)))) (\<lambda>_. ret (mg_id msg3))))"

definition send_text_msg :: "send_env \<Rightarrow> int \<Rightarrow> chat_id \<Rightarrow> ustr \<Rightarrow> msg_id act" where
  "send_text_msg env now chat text =
     bind (ensure (\<not> ChatId_is_special chat) ''bad chat_id, can not be a special chat'') (\<lambda>_.
     bind (run (Message_new_text text)) (\<lambda>msg. send_msg env now chat msg))"

end
