(* ===== verification/SendSafety.thy ===== *)
theory SendSafety
  imports SendMsg
begin

text \<open>
  What the sending of a message puts into the SMTP queue: the recipients are split completely and into chunks that the
  server accepts, and a message that has to be encrypted is never queued in another form.
\<close>

section \<open>Chunks\<close>

lemma concat_chunks: "n \<noteq> 0 \<Longrightarrow> concat (chunks n xs) = xs"
  by (induction n xs rule: chunks.induct) (simp_all del: take_Cons drop_Cons)

lemma chunk_bounds: "c \<in> set (chunks n xs) \<Longrightarrow> c \<noteq> [] \<and> length c \<le> n"
  by (induction n xs rule: chunks.induct) (auto split: if_splits)


section \<open>Steps that do not touch the queue\<close>

interpretation queue_same: state_relation "\<lambda>s s'. smtp_tbl s' = smtp_tbl s"
  by unfold_locales simp_all

lemma smtp_set_msg_failed: "set_msg_failed msg e s = Inr (m, s') \<Longrightarrow> smtp_tbl s' = smtp_tbl s"
  by (auto simp: set_msg_failed_def Let_def update_msg_def split: if_splits)

lemma smtp_add_info_msg_with_cmd:
  "add_info_msg_with_cmd now chat text cmd ts ts' parent from ar s = Inr (i, s') \<Longrightarrow> smtp_tbl s' = smtp_tbl s"
  by (auto simp: add_info_msg_with_cmd_def create_outgoing_rfc724_mid_def insert_msg_def Let_def res_bind_eq_Inr)

lemma smtp_self_fingerprint: "smtp_tbl (snd (ChatBase.get_self_fingerprint s)) = smtp_tbl s"
  by (simp add: ChatBase.get_self_fingerprint_def split: option.splits)

lemma smtp_collect_members:
  assumes "collect_members now msg chat addr fp s = Inr (r, s')"
  shows "smtp_tbl s' = smtp_tbl s"
proof -
  have "smtp_tbl (scaleup_recipients msg chat ids s) = smtp_tbl s" for ids
    by (simp add: scaleup_recipients_def scaleup_origin_def Let_def)
  with assms show ?thesis by (auto simp: collect_members_def res_bind_eq_Inr Let_def)
qed

text \<open>What holds of the value, if there is one, by the structure of the program.\<close>

definition res_all :: "('a \<Rightarrow> bool) \<Rightarrow> 'a res \<Rightarrow> bool" where
  "res_all P r \<longleftrightarrow> (\<forall>x. r = Inr x \<longrightarrow> P x)"

lemma res_all_rules:
  "res_all P (Inl e)"
  "P x \<Longrightarrow> res_all P (Inr x)"
  "(\<And>y. m = Inr y \<Longrightarrow> res_all P (f y)) \<Longrightarrow> res_all P (res_bind m f)"
  "(\<And>a b. p = (a, b) \<Longrightarrow> res_all P (g a b)) \<Longrightarrow> res_all P (case p of (a, b) \<Rightarrow> g a b)"
  "(\<And>a b. p = (a, b) \<Longrightarrow> res_all P (k a b t)) \<Longrightarrow> res_all P ((case p of (a, b) \<Rightarrow> k a b) t)"
  "(opt = None \<Longrightarrow> res_all P r) \<Longrightarrow> (\<And>y. opt = Some y \<Longrightarrow> res_all P (h y)) \<Longrightarrow> res_all P (case opt of None \<Rightarrow> r | Some y \<Rightarrow> h y)"
  "(c \<Longrightarrow> res_all P r) \<Longrightarrow> (\<not> c \<Longrightarrow> res_all P r') \<Longrightarrow> res_all P (if c then r else r')"
  by (auto simp: res_all_def res_bind_eq_Inr split: prod.splits option.splits)

lemma res_allD: "res_all P r \<Longrightarrow> r = Inr x \<Longrightarrow> P x"
  by (simp add: res_all_def)

lemma from_msg_result:
  "res_all (\<lambda>(mf, s'). smtp_tbl s' = smtp_tbl s \<and> (\<exists>chat. mf_loaded mf = LoadedMessage chat msg)) (from_msg now msg s)"
proof -
  obtain fp s1 where fp: "ChatBase.get_self_fingerprint s = (fp, s1)" by fastforce
  with smtp_self_fingerprint [of s] have s1: "smtp_tbl s1 = smtp_tbl s" by simp
  show ?thesis
    unfolding from_msg_def Let_def fp
  proof (intro res_all_rules, goal_cases)
    case (1 chat self_addr d1 d2 fp' s2 x acc_keys s3 acc keys row)
    from 1(4,5,6) s1 have "smtp_tbl s3 = smtp_tbl s"
      by (auto simp only: prod.inject res_bind_eq_Inr sum.inject dest!: smtp_collect_members split: if_splits option.splits)
    then show ?case by simp
  qed
qed

lemma smtp_from_msg: "from_msg now msg s = Inr (mf, s') \<Longrightarrow> smtp_tbl s' = smtp_tbl s"
  using res_allD [OF from_msg_result] by fastforce

lemma from_msg_loaded: "from_msg now msg s = Inr (mf, s') \<Longrightarrow> \<exists>chat. mf_loaded mf = LoadedMessage chat msg"
  using res_allD [OF from_msg_result] by fastforce

lemma smtp_gossip_keys: "smtp_tbl (snd (gossip_keys env now chat msg multiple keys (part, s))) = smtp_tbl s"
  by (induction keys arbitrary: part s) (auto simp: Let_def set_gossiped_timestamp_def split: prod.splits)

lemma smtp_add_gossip: "smtp_tbl (snd (add_gossip env now mf keys part s)) = smtp_tbl s"
  by (simp add: add_gossip_def smtp_gossip_keys split: Loaded.splits)

lemma smtp_encrypt_part: "smtp_tbl (snd (encrypt_part env now mf keys part s)) = smtp_tbl s"
  by (auto simp: encrypt_part_def Let_def add_info_msg_def split: option.splits sum.splits prod.splits dest: smtp_add_info_msg_with_cmd)

lemma smtp_render_inner: "smtp_tbl (snd (render_inner env now mf s)) = smtp_tbl s"
proof -
  have "smtp_tbl (snd (render_mid mf s)) = smtp_tbl s"
    by (simp add: render_mid_def create_outgoing_rfc724_mid_def split: Loaded.splits PreMessageMode.splits)
  then show ?thesis
    by (auto simp: render_inner_def Let_def smtp_self_fingerprint split: sum.splits prod.splits)
qed

lemma smtp_render: "smtp_tbl (snd (render env now mf s)) = smtp_tbl s"
proof -
  obtain x s1 where inn: "render_inner env now mf s = (x, s1)" by fastforce
  then have s1: "smtp_tbl s1 = smtp_tbl s" using smtp_render_inner [of env now mf s] by simp
  have "smtp_tbl (snd (outer_part env now mf g message s1)) = smtp_tbl s1" for g message
    using smtp_add_gossip smtp_encrypt_part
    by (simp add: outer_part_def Let_def split: option.splits prod.splits) (metis snd_conv)
  with inn s1 show ?thesis by (auto simp: render_def Let_def split: sum.splits prod.splits) (metis snd_conv)
qed

lemmas queue_same_rules [intro] = queue_same.keeps_rules

lemma same_or_mark_failed:
  assumes "queue_same.keeps_rel m" "\<And>m :: Message act. queue_same.keeps_rel m \<Longrightarrow> queue_same.keeps_rel (handle m)"
  shows "queue_same.keeps_rel (or_mark_failed handle msg m)"
proof -
  have "queue_same.keeps_rel (bind (handle (lift (set_msg_failed msg e'))) (\<lambda>_. fail e))" for e e'
    by (intro queue_same.keeps_bind queue_same.keeps_fail assms(2) queue_same.keeps_lift) (rule smtp_set_msg_failed)
  then have h: "smtp_tbl (snd (bind (handle (lift (set_msg_failed msg e'))) (\<lambda>_. fail e) s)) = smtp_tbl s" for e e' s
    unfolding queue_same.keeps_rel_def by blast
  show ?thesis
    unfolding queue_same.keeps_rel_def
  proof
    fix s
    obtain r s' where m: "m s = (r, s')" by fastforce
    with queue_same.keepsD [OF assms(1)] have "smtp_tbl s' = smtp_tbl s" by blast
    then show "smtp_tbl (snd (or_mark_failed handle msg m s)) = smtp_tbl s"
      using m by (cases r) (simp_all add: or_mark_failed_def h [rule_format])
  qed
qed

lemma or_mark_failed_Inr: "or_mark_failed handle msg m s = (Inr x, s') \<longleftrightarrow> m s = (Inr x, s')"
  by (auto simp: or_mark_failed_def bind_def fail_def split: prod.splits sum.splits)

lemma same_render: "queue_same.keeps_rel (render (v_mime env) now mf)"
  by (simp add: queue_same.keeps_rel_def smtp_render)

lemma same_render_all: "queue_same.keeps_rel (render_mime_message_and_pre_message env now msg mf)"
  unfolding render_mime_message_and_pre_message_def by (intro queue_same.keeps_rules same_render)

lemma same_update_group_timestamps: "queue_same.keeps_rel (update_group_timestamps msg)"
  unfolding update_group_timestamps_def Let_def
  by (intro queue_same.keeps_rules queue_same.keeps_lift)
    (auto simp: ChatId_update_timestamp_def set_chat_param_def Let_def split: option.splits prod.splits if_splits)

interpretation config_same: state_relation "\<lambda>s s'. config s' = config s"
  by unfold_locales simp_all

lemma config_update_group_timestamps: "update_group_timestamps msg s = (r, s') \<Longrightarrow> config s' = config s"
proof -
  have "config_same.keeps_rel (update_group_timestamps msg)"
    unfolding update_group_timestamps_def Let_def
    by (intro config_same.keeps_rules config_same.keeps_lift)
      (auto simp: ChatId_update_timestamp_def set_chat_param_def Let_def split: option.splits prod.splits if_splits)
  then show "update_group_timestamps msg s = (r, s') \<Longrightarrow> config s' = config s" by (rule config_same.keepsD)
qed

lemma same_mark_without_job: "queue_same.keeps_rel (mark_without_job msg)"
  unfolding mark_without_job_def Let_def
  by (intro queue_same.keeps_rules queue_same.keeps_lift queue_same.keeps_exec)
    (auto simp: update_param_def sql_msg_id_def update_msg_def set_delivered_def Let_def split: if_splits option.splits)

lemma same_refuse_unencrypted: "queue_same.keeps_rel (refuse_unencrypted now msg)"
  unfolding refuse_unencrypted_def
  by (intro queue_same.keeps_rules queue_same.keeps_lift) (rule smtp_set_msg_failed smtp_add_info_msg_with_cmd, assumption)+

lemma same_from_msg: "queue_same.keeps_rel (or_mark_failed ignore msg (lift (from_msg now msg)))"
  by (intro same_or_mark_failed queue_same.keeps_rules queue_same.keeps_lift) (rule smtp_from_msg)

lemma same_render_all_failing: "queue_same.keeps_rel (or_mark_failed propagate msg (render_mime_message_and_pre_message env now msg mf))"
  unfolding propagate_def by (intro same_or_mark_failed queue_same.keeps_rules same_render_all)


section \<open>Sealed mails\<close>

text \<open>A mail for a message of which only the outer headers are readable: the rest was encrypted to the keys of the
  recipients and the own key or with the secret of the broadcast channel.\<close>

definition sealed_for :: "mime_env \<Rightarrow> int \<Rightarrow> ctx \<Rightarrow> Message \<Rightarrow> string \<Rightarrow> bool" where
  "sealed_for env now s0 msg mime \<longleftrightarrow>
     (\<exists>mf s1 mode keys s date mid ciphertext.
        from_msg now msg s0 = Inr (mf, s1) \<and> mf_encryption_pubkeys mf = Some keys
        \<and> mime = e_write_part env (MimePart
            ([(''Content-Type'', HContentType ''multipart/encrypted; protocol=\"application/pgp-encrypted\"'' []),
              (''MIME-Version'', HRaw ''1.0'')] @ shown_headers (mf\<lparr>mf_pre_message_mode := mode\<rparr>) date mid)
            (BodyParts [MimePart_new ''application/pgp-encrypted'' (BodyText (''Version: 1'' @ CRLF)),
                        MimePart_new ''application/octet-stream'' (BodyText ciphertext)]))
        \<and> encrypted_for env mf keys s ciphertext)"

lemma render_sealed:
  assumes "render env now (mf\<lparr>mf_pre_message_mode := mode\<rparr>) s = (Inr r, s')" "mf_encryption_pubkeys mf \<noteq> None"
    and mf: "from_msg now msg s0 = Inr (mf, s1)"
  shows "sealed_for env now s0 msg (re_message r)"
proof -
  from assms(2) obtain keys where keys: "mf_encryption_pubkeys (mf\<lparr>mf_pre_message_mode := mode\<rparr>) = Some keys" by auto
  have "encrypted_for env (mf\<lparr>mf_pre_message_mode := mode\<rparr>) keys s ct = encrypted_for env mf keys s ct" for ct
    by (simp add: encrypted_for_def)
  then show ?thesis
    using render_encrypted [OF keys assms(1)] keys mf unfolding sealed_for_def by (simp, blast)
qed

lemma render_is_encrypted: "render env now mf s = (Inr r, s') \<Longrightarrow> re_is_encrypted r \<longleftrightarrow> mf_encryption_pubkeys mf \<noteq> None"
  by (auto simp: render_def Let_def res_bind_eq_Inr split: prod.splits sum.splits)

lemma render_all_sealed:
  assumes render: "render_mime_message_and_pre_message env now msg mf s = (Inr (pre, rendered), s')"
    and enc: "re_is_encrypted rendered" and mf: "from_msg now msg s0 = Inr (mf, s1)"
  shows "sealed_for (v_mime env) now s0 msg (re_message rendered)"
    and "pre = Some p \<Longrightarrow> sealed_for (v_mime env) now s0 msg (re_message p)"
proof -
  have mode: "mf\<lparr>mf_pre_message_mode := mf_pre_message_mode mf\<rparr> = mf" by simp
  have keys: "mf_encryption_pubkeys mf \<noteq> None"
    using render enc
    by (auto simp: render_mime_message_and_pre_message_def bind_Inr set_as_post_message_def split: if_splits dest: render_is_encrypted)
  note sealed = render_sealed [OF _ keys mf]
  show "sealed_for (v_mime env) now s0 msg (re_message rendered)"
    using render sealed sealed [of _ "mf_pre_message_mode mf", unfolded mode]
    by (auto simp: render_mime_message_and_pre_message_def bind_Inr set_as_post_message_def split: if_splits)
  show "sealed_for (v_mime env) now s0 msg (re_message p)" if "pre = Some p"
    using render that sealed
    by (auto simp: render_mime_message_and_pre_message_def bind_Inr set_as_pre_message_for_def split: if_splits)
qed

text \<open>The state an action leaves, followed along its steps.\<close>

definition leaves :: "(ctx \<Rightarrow> bool) \<Rightarrow> 'a act \<Rightarrow> ctx \<Rightarrow> bool" where
  "leaves Q m s \<longleftrightarrow> Q (snd (m s))"

lemma leaves_bind:
  "leaves Q m s \<Longrightarrow> (\<And>x s'. m s = (Inr x, s') \<Longrightarrow> leaves Q (f x) s') \<Longrightarrow> leaves Q (bind m f) s"
  by (auto simp: leaves_def bind_def split: prod.splits sum.splits)

definition queue_grows :: "send_env \<Rightarrow> int \<Rightarrow> ctx \<Rightarrow> Message \<Rightarrow> ctx \<Rightarrow> ctx \<Rightarrow> bool" where
  "queue_grows env now s0 msg s s' \<longleftrightarrow>
     (\<exists>jobs. smtp_tbl s' = smtp_tbl s @ jobs \<and> (\<forall>j \<in> set jobs. sm_msg_id j = mg_id msg \<and> sealed_for (v_mime env) now s0 msg (sm_mime j)))"

lemma leaves_same:
  "queue_same.keeps_rel m \<Longrightarrow> smtp_tbl s' = smtp_tbl s \<Longrightarrow> leaves (queue_grows env now s0 msg s) m s'"
  unfolding leaves_def queue_grows_def queue_same.keeps_rel_def by (rule exI [of _ "[]"]) simp

lemma leaves_bind_same:
  assumes "queue_same.keeps_rel m" "smtp_tbl s1 = smtp_tbl s"
    and "\<And>x s2. m s1 = (Inr x, s2) \<Longrightarrow> smtp_tbl s2 = smtp_tbl s \<Longrightarrow> leaves (queue_grows env now s0 msg s) (f x) s2"
  shows "leaves (queue_grows env now s0 msg s) (bind m f) s1"
  using assms(3) queue_same.keepsD [OF assms(1)] assms(2) by (intro leaves_bind leaves_same assms) fastforce+

lemma leaves_cases:
  "(b \<Longrightarrow> leaves Q m s) \<Longrightarrow> (\<not> b \<Longrightarrow> leaves Q n s) \<Longrightarrow> leaves Q (if b then m else n) s"
  "(\<And>x y. p = (x, y) \<Longrightarrow> leaves Q (f x y) s) \<Longrightarrow> leaves Q (case p of (x, y) \<Rightarrow> f x y) s"
  by (simp_all split: prod.splits)

lemma smtp_insert:
  "smtp_tbl (insert_smtp mid rs mime i s) = smtp_tbl s @ [\<lparr>sm_id = Suc (smtp_seq s), sm_rfc724_mid = mid, sm_recipients = rs,
     sm_mime = mime, sm_msg_id = i, sm_retries = 0\<rparr>]"
  by (simp add: insert_smtp_def Let_def)

lemma insert_smtp_jobs:
  "\<exists>rows. smtp_tbl (fold (\<lambda>(mid, rs, mime). insert_smtp mid rs mime i) jobs s) = smtp_tbl s @ rows
     \<and> map (\<lambda>r. (sm_rfc724_mid r, sm_recipients r, sm_mime r)) rows = jobs \<and> (\<forall>r \<in> set rows. sm_msg_id r = i)"
proof (induction jobs arbitrary: s)
  case (Cons job jobs)
  obtain mid rs mime where job: "job = (mid, rs, mime)" by (cases job)
  from Cons [of "insert_smtp mid rs mime i s"] obtain rows where
    "smtp_tbl (fold (\<lambda>(mid, rs, mime). insert_smtp mid rs mime i) jobs (insert_smtp mid rs mime i s))
       = smtp_tbl (insert_smtp mid rs mime i s) @ rows"
    "map (\<lambda>r. (sm_rfc724_mid r, sm_recipients r, sm_mime r)) rows = jobs" "\<forall>r \<in> set rows. sm_msg_id r = i"
    by blast
  then show ?case
    by (intro exI [of _ "\<lparr>sm_id = Suc (smtp_seq s), sm_rfc724_mid = mid, sm_recipients = rs, sm_mime = mime,
          sm_msg_id = i, sm_retries = 0\<rparr> # rows"]) (simp add: job smtp_insert)
qed simp

definition chunk_jobs :: "nat \<Rightarrow> ustr list \<Rightarrow> RenderedEmail option \<Rightarrow> RenderedEmail \<Rightarrow> (string \<times> ustr list \<times> string) list" where
  "chunk_jobs n recipients pre rendered =
     concat (map (\<lambda>rs. (case pre of Some p \<Rightarrow> [(re_rfc724_mid p, rs, re_message p)] | None \<Rightarrow> [])
                       @ [(re_rfc724_mid rendered, rs, re_message rendered)]) (chunks n recipients))"

lemma insert_jobs_success:
  assumes "insert_jobs n recipients pre rendered i s = (Inr ids, s')"
  shows "n \<noteq> 0 \<and> (\<exists>rows. smtp_tbl s' = smtp_tbl s @ rows \<and> (\<forall>r \<in> set rows. sm_msg_id r = i)
     \<and> map (\<lambda>r. (sm_rfc724_mid r, sm_recipients r, sm_mime r)) rows = chunk_jobs n recipients pre rendered)"
proof -
  have "n \<noteq> 0 \<and> (\<exists>s1. smtp_tbl s1 = smtp_tbl s
      \<and> s' = fold (\<lambda>(mid, rs, mime). insert_smtp mid rs mime i) (chunk_jobs n recipients pre rendered) s1)"
    using assms unfolding insert_jobs_def Let_def chunk_jobs_def [symmetric]
  proof (cases "re_sync_ids_to_delete rendered")
    case (Some x)
    then show ?thesis
      using assms unfolding insert_jobs_def Let_def chunk_jobs_def [symmetric]
      by (auto simp: bind_Inr intro!: exI [of _ "s\<lparr>multi_device_sync := _\<rparr>"])
  qed (auto simp: bind_Inr)
  then obtain s1 where s1: "n \<noteq> 0" "smtp_tbl s1 = smtp_tbl s"
      "s' = fold (\<lambda>(mid, rs, mime). insert_smtp mid rs mime i) (chunk_jobs n recipients pre rendered) s1" by blast
  show ?thesis
    using s1(1) insert_smtp_jobs [of i "chunk_jobs n recipients pre rendered" s1, folded s1(3), unfolded s1(2)] by blast
qed

lemma insert_jobs_rows:
  "\<exists>rows. smtp_tbl (snd (insert_jobs n recipients pre rendered i s)) = smtp_tbl s @ rows
     \<and> (\<forall>r \<in> set rows. sm_msg_id r = i)
     \<and> (rows = [] \<or> map (\<lambda>r. (sm_rfc724_mid r, sm_recipients r, sm_mime r)) rows = chunk_jobs n recipients pre rendered)"
proof -
  obtain x s' where x: "insert_jobs n recipients pre rendered i s = (x, s')" by fastforce
  show ?thesis
  proof (cases x)
    case (Inl e)
    with x have "s' = s" unfolding insert_jobs_def transaction_def by (simp split: prod.splits sum.splits)
    with x show ?thesis by (intro exI [of _ "[]"]) simp
  next
    case (Inr ids)
    from insert_jobs_success [OF x [unfolded Inr]] x show ?thesis by auto
  qed
qed

lemma chunk_jobs_rendered:
  assumes "\<And>p. pre = Some p \<Longrightarrow> re_rfc724_mid p \<noteq> re_rfc724_mid rendered"
  shows "map (fst \<circ> snd) (filter (\<lambda>job. fst job = re_rfc724_mid rendered) (chunk_jobs n recipients pre rendered)) = chunks n recipients"
proof -
  have "map (fst \<circ> snd) (filter (\<lambda>job. fst job = re_rfc724_mid rendered)
      (concat (map (\<lambda>rs. (case pre of Some p \<Rightarrow> [(re_rfc724_mid p, rs, re_message p)] | None \<Rightarrow> [])
                       @ [(re_rfc724_mid rendered, rs, re_message rendered)]) cs))) = cs" for cs
    using assms by (induction cs) (auto split: option.splits)
  then show ?thesis by (simp add: chunk_jobs_def)
qed

lemma smtp_sort_to_bottom: "sql_msg_id i (sort_to_bottom msg s) = Inr s' \<Longrightarrow> smtp_tbl s' = smtp_tbl s"
  by (auto simp: sql_msg_id_def sort_to_bottom_def update_msg_def simp del: One_nat_def split: if_splits)

lemma queue_rendered_grows:
  assumes "sealed_for (v_mime env) now s0 msg (re_message rendered)" "\<And>p. pre = Some p \<Longrightarrow> sealed_for (v_mime env) now s0 msg (re_message p)"
    and "smtp_tbl s1 = smtp_tbl s"
  shows "leaves (queue_grows env now s0 msg s) (queue_rendered env now msg avatar recipients (pre, rendered)) s1"
proof -
  have jobs: "sealed_for (v_mime env) now s0 msg mime" if "(mid, rs, mime) \<in> set (chunk_jobs n recipients pre rendered)" for mid rs mime n
    using that assms by (auto simp: chunk_jobs_def split: option.splits)
  have ins: "leaves (queue_grows env now s0 msg s) (insert_jobs n recipients pre rendered (mg_id msg)) s2"
    if s2: "smtp_tbl s2 = smtp_tbl s" for n s2
  proof -
    obtain rows where rows: "smtp_tbl (snd (insert_jobs n recipients pre rendered (mg_id msg) s2)) = smtp_tbl s @ rows"
      "\<forall>r \<in> set rows. sm_msg_id r = mg_id msg"
      "rows = [] \<or> map (\<lambda>r. (sm_rfc724_mid r, sm_recipients r, sm_mime r)) rows = chunk_jobs n recipients pre rendered"
      using insert_jobs_rows [of n recipients pre rendered "mg_id msg" s2] unfolding s2 by blast
    have "sealed_for (v_mime env) now s0 msg (sm_mime r)" if r: "r \<in> set rows" for r
    proof -
      from r rows(3) have "map (\<lambda>r. (sm_rfc724_mid r, sm_recipients r, sm_mime r)) rows = chunk_jobs n recipients pre rendered" by auto
      with r have "(sm_rfc724_mid r, sm_recipients r, sm_mime r) \<in> set (chunk_jobs n recipients pre rendered)"
        by (metis (no_types, lifting) image_eqI list.set_map)
      then show ?thesis by (rule jobs)
    qed
    with rows show ?thesis by (auto simp: leaves_def queue_grows_def)
  qed
  have last: "leaves (queue_grows env now s0 msg s) (bind (insert_jobs n recipients pre rendered (mg_id msg)) (\<lambda>ids. ret (ids, m))) s2"
    if "smtp_tbl s2 = smtp_tbl s" for n m s2
    using ins [OF that, of n] by (intro leaves_bind) (auto simp: leaves_def ret_def)
  show ?thesis
    unfolding queue_rendered_def Let_def prod.case
    by (intro leaves_bind_same last assms(3) queue_same.keeps_only_if queue_same.keeps_gets queue_same.keeps_modify queue_same.keeps_exec)
      (simp_all add: set_kml_sent_timestamp_def set_selfavatar_timestamp_def smtp_sort_to_bottom)
qed

lemma create_jobs_grow:
  assumes "needs_encryption s msg"
  shows "leaves (queue_grows env now (snd (update_group_timestamps msg s)) msg s) (create_send_msg_jobs env now msg) s"
proof -
  have sealed: "sealed_for (v_mime env) now (snd (update_group_timestamps msg s)) msg (re_message rendered)"
      "pre = Some p \<Longrightarrow> sealed_for (v_mime env) now (snd (update_group_timestamps msg s)) msg (re_message p)"
    if "update_group_timestamps msg s = (Inr u, s1)" "from_msg now msg s1 = Inr (mf, s2)"
      "render_mime_message_and_pre_message env now msg mf s3 = (Inr (pre, rendered), s4)"
      "needs_encryption s1 msg \<longrightarrow> re_is_encrypted rendered" for u s1 mf s2 s3 pre rendered s4 p
    using render_all_sealed [OF that(3) _ that(2)] config_update_group_timestamps [OF that(1)] that(1,4) assms(1)
    by (auto simp: needs_encryption_def)
  show ?thesis
    unfolding create_send_msg_jobs_def
  proof (intro leaves_bind_same leaves_cases same_update_group_timestamps same_from_msg same_render_all_failing same_mark_without_job
      queue_same.keeps_query queue_same.keeps_gets leaves_same [OF same_refuse_unencrypted] leaves_same [OF queue_same.keeps_ret]
      queue_rendered_grows HOL.refl, assumption+, goal_cases)
    case 1
    note p = 1(3,5,14,16,19) [unfolded or_mark_failed_Inr gets_Inr lift_Inr]
    show ?case using p by (intro sealed(1) [OF 1(1)]) auto
  next
    case 2
    note p = 2(3,5,14,16,19,20) [unfolded or_mark_failed_Inr gets_Inr lift_Inr]
    show ?case using p by (intro sealed(2) [OF 2(1)]) auto
  qed assumption
qed

text \<open>C38: a message that has to be encrypted -- because the chat guarantees it or because the user demands it -- is never put into the
  queue of outgoing mails in another form: whatever happens on the way, errors included, the queue grows only by mails for
  this message that are encrypted to the keys \<open>from_msg\<close> collected for its recipients (and the own key) or with the secret of the
  channel, and that show nothing but the outer headers.\<close>

theorem create_send_msg_jobs_sealed:
  assumes "needs_encryption s msg"
  shows "\<exists>jobs. smtp_tbl (snd (create_send_msg_jobs env now msg s)) = smtp_tbl s @ jobs
           \<and> (\<forall>j \<in> set jobs. sm_msg_id j = mg_id msg \<and> sealed_for (v_mime env) now (snd (update_group_timestamps msg s)) msg (sm_mime j))"
  using create_jobs_grow [OF assms] by (simp add: leaves_def queue_grows_def)

definition sample_send_env :: send_env where
  "sample_send_env = \<lparr>v_mime = sample_env, v_process = (\<lambda>m. Inr m), v_filebytes = (\<lambda>m. Inr None), v_provider_max_rcpt = None,
     v_requests_map = (\<lambda>m. Inr False)\<rparr>"

definition guaranteed_msg :: Message where
  "guaranteed_msg = group_msg\<lparr>mg_param := Params_set_int GuaranteeE2ee 1 Params_new\<rparr>"

theorem create_send_msg_jobs_sealed_witness:
  "\<exists>jobs. smtp_tbl (snd (create_send_msg_jobs sample_send_env 100 guaranteed_msg MimeFactory.group_ctx))
       = smtp_tbl MimeFactory.group_ctx @ jobs
     \<and> (\<forall>j \<in> set jobs. sm_msg_id j = 12 \<and> sealed_for sample_env 100
          (snd (update_group_timestamps guaranteed_msg MimeFactory.group_ctx)) guaranteed_msg (sm_mime j))"
proof -
  have "needs_encryption MimeFactory.group_ctx guaranteed_msg"
    by (simp add: needs_encryption_def guaranteed_msg_def Params_get_bool_def Params_get_int_def Params_set_int_def parse_int_show_int
        i32_min_def i32_max_def)
  from create_send_msg_jobs_sealed [OF this, of sample_send_env 100] show ?thesis
    by (simp add: sample_send_env_def guaranteed_msg_def group_params)
qed

text \<open>C39: The recipients of a message are split into mails that the server accepts: the jobs that the transaction adds to the queue have
  between one and \<open>chunk_size\<close> recipients, and the jobs of the mail itself have, one after the other, all the recipients in their order,
  none lost and none twice.\<close>

theorem insert_jobs_recipients:
  assumes "insert_jobs n recipients pre rendered i s = (Inr ids, s')"
    and "\<And>p. pre = Some p \<Longrightarrow> re_rfc724_mid p \<noteq> re_rfc724_mid rendered"
  shows "\<exists>rows. smtp_tbl s' = smtp_tbl s @ rows
     \<and> (\<forall>r \<in> set rows. sm_msg_id r = i \<and> sm_recipients r \<noteq> [] \<and> length (sm_recipients r) \<le> n)
     \<and> concat (map sm_recipients (filter (\<lambda>r. sm_rfc724_mid r = re_rfc724_mid rendered) rows)) = recipients"
proof -
  let ?job = "\<lambda>r. (sm_rfc724_mid r, sm_recipients r, sm_mime r)"
  obtain rows where rows: "smtp_tbl s' = smtp_tbl s @ rows" "\<forall>r \<in> set rows. sm_msg_id r = i"
    "map ?job rows = chunk_jobs n recipients pre rendered" and n: "n \<noteq> 0"
    using insert_jobs_success [OF assms(1)] by blast
  have "?job r \<in> set (chunk_jobs n recipients pre rendered)" if "r \<in> set rows" for r
    unfolding rows(3) [symmetric] using that by auto
  then have "sm_recipients r \<in> set (chunks n recipients)" if "r \<in> set rows" for r
    using that by (fastforce simp: chunk_jobs_def split: option.splits)
  then have bounds: "\<forall>r \<in> set rows. sm_recipients r \<noteq> [] \<and> length (sm_recipients r) \<le> n"
    using chunk_bounds by blast
  have "map sm_recipients (filter (\<lambda>r. sm_rfc724_mid r = re_rfc724_mid rendered) rows)
      = map (fst \<circ> snd) (filter (\<lambda>job. fst job = re_rfc724_mid rendered) (map ?job rows))"
    by (simp add: filter_map comp_def)
  also have "\<dots> = chunks n recipients"
    unfolding rows(3) by (rule chunk_jobs_rendered [OF assms(2)])
  finally show ?thesis using rows(1,2) bounds concat_chunks [OF n] by (intro exI [of _ rows]) simp
qed

theorem insert_jobs_recipients_witness:
  "\<exists>rows. smtp_tbl (snd (insert_jobs 2 [U ''a'', U ''b'', U ''c''] None
        \<lparr>re_message = ''mail'', re_is_encrypted = True, re_last_added_location_id = None, re_sync_ids_to_delete = None,
          re_rfc724_mid = ''m@x'', re_subject = []\<rparr> 12 MimeFactory.group_ctx)) = smtp_tbl MimeFactory.group_ctx @ rows
     \<and> (\<forall>r \<in> set rows. sm_msg_id r = 12 \<and> sm_recipients r \<noteq> [] \<and> length (sm_recipients r) \<le> 2)
     \<and> concat (map sm_recipients (filter (\<lambda>r. sm_rfc724_mid r = ''m@x'') rows)) = [U ''a'', U ''b'', U ''c'']"
proof -
  let ?r = "\<lparr>re_message = ''mail'', re_is_encrypted = True, re_last_added_location_id = None, re_sync_ids_to_delete = None,
          re_rfc724_mid = ''m@x'', re_subject = []\<rparr>"
  have "\<exists>ids s'. insert_jobs 2 [U ''a'', U ''b'', U ''c''] None ?r 12 MimeFactory.group_ctx = (Inr ids, s')"
    by (simp add: insert_jobs_def transaction_def bind_def ret_def ensure_def modify_def)
  then obtain ids s' where j: "insert_jobs 2 [U ''a'', U ''b'', U ''c''] None ?r 12 MimeFactory.group_ctx = (Inr ids, s')" by blast
  show ?thesis using insert_jobs_recipients [OF j] unfolding j by simp
qed

end
