(* ===== verification/SendText.thy ===== *)
theory SendText
  imports SendSafety
begin

text \<open>
  The whole way of a text from the user to the queue.
\<close>

section \<open>Sending a text\<close>

text \<open>What holds of the result of an action, if it succeeds.\<close>

definition yields :: "('a \<Rightarrow> bool) \<Rightarrow> 'a act \<Rightarrow> bool" where
  "yields P m \<longleftrightarrow> (\<forall>s x s'. m s = (Inr x, s') \<longrightarrow> P x)"

lemma yieldsD: "yields P m \<Longrightarrow> m s = (Inr x, s') \<Longrightarrow> P x"
  unfolding yields_def by blast

lemma yields_rules:
  "P x \<Longrightarrow> yields P (ret x)"
  "yields P (fail e)"
  "(\<And>s x s'. m s = (Inr x, s') \<Longrightarrow> yields P (f x)) \<Longrightarrow> yields P (bind m f)"
  "(\<And>a b. p = (a, b) \<Longrightarrow> yields P (g a b)) \<Longrightarrow> yields P (case p of (a, b) \<Rightarrow> g a b)"
  "(c \<Longrightarrow> yields P k) \<Longrightarrow> (\<not> c \<Longrightarrow> yields P n) \<Longrightarrow> yields P (if c then k else n)"
  unfolding yields_def bind_Inr by (simp, simp, blast, cases p, simp, simp)

lemma smtp_frame:
  "smtp_tbl (set_config_row key val s) = smtp_tbl s" "smtp_tbl (interrupt_ephemeral_task s) = smtp_tbl s"
  "smtp_tbl (interrupt_smtp s) = smtp_tbl s" "smtp_tbl (add_sync_item now item s) = smtp_tbl s"
  by (simp_all add: set_config_row_def interrupt_ephemeral_task_def interrupt_smtp_def add_sync_item_def split: option.splits)

lemma smtp_store_config:
  assumes "key \<noteq> ConfiguredAddr"
  shows "res_all (\<lambda>(v, s'). smtp_tbl s' = smtp_tbl s) (store_config now b key val s)"
  unfolding store_config_def Let_def by (intro res_all_rules) (simp_all add: assms smtp_frame)

lemma smtp_set_config:
  assumes "key \<noteq> ConfiguredAddr" "set_config_internal now key val s = Inr s'"
  shows "smtp_tbl s' = smtp_tbl s"
proof -
  have store: "smtp_tbl s1 = smtp_tbl s" if "store_config now b key val s = Inr (v, s1)" for b v s1
    using res_allD [OF smtp_store_config [OF assms(1)] that] by simp
  have "res_all (\<lambda>s'. smtp_tbl s' = smtp_tbl s) (set_config_internal now key val s)"
    unfolding set_config_internal_def set_config_ex_def Let_def
    by (intro res_all_rules) (auto simp: smtp_frame simp del: insert_iff dest: store split: option.split)
  with assms(2) show ?thesis by (simp add: res_all_def)
qed

lemma smtp_unarchive: "unarchive_if_not_muted now chat st s = Inr s' \<Longrightarrow> smtp_tbl s' = smtp_tbl s"
  by (auto simp: unarchive_if_not_muted_def res_bind_eq_Inr Let_def split: if_splits)

lemma smtp_get_for_contact: "get_for_contact now i s = Inr (c, s') \<Longrightarrow> smtp_tbl s' = smtp_tbl s"
  by (auto simp: get_for_contact_def ChatIdBlocked_get_for_contact_def insert_chat_def insert_single_member_def add_e2ee_notice_def
      res_bind_eq_Inr Let_def split: option.splits if_splits dest!: smtp_add_info_msg_with_cmd)

lemma smtp_insert_device_msg: "insert_device_msg now pf msg s = Inr (x, s') \<Longrightarrow> smtp_tbl s' = smtp_tbl s"
  by (auto simp: insert_device_msg_def create_outgoing_rfc724_mid_def insert_msg_def res_bind_eq_Inr Let_def
      split: if_splits dest!: smtp_get_for_contact smtp_unarchive)

lemma smtp_add_device_msg:
  assumes "add_device_msg now pf None (Some msg) s = Inr (i, s')"
  shows "smtp_tbl s' = smtp_tbl s"
proof -
  have "res_all (\<lambda>(i, s'). smtp_tbl s' = smtp_tbl s) (add_device_msg now pf None (Some msg) s)"
    unfolding add_device_msg_def add_device_msg_with_importance_def Let_def emit_msg_event_def option.case
    by (intro res_all_rules) (simp_all add: smtp_insert_device_msg)
  with assms show ?thesis by (simp add: res_all_def)
qed

lemma smtp_new_text: "Message_new_text txt s = (msg, s') \<Longrightarrow> smtp_tbl s' = smtp_tbl s"
  by (auto simp: Message_new_text_def create_outgoing_rfc724_mid_def)

lemma smtp_add_device_text:
  assumes "add_device_text now txt s = Inr s'"
  shows "smtp_tbl s' = smtp_tbl s"
proof -
  obtain msg s1 where new: "Message_new_text txt s = (msg, s1)" by fastforce
  then obtain i where "add_device_msg now (\<lambda>_. Inl ''attachment missing'') None (Some msg) s1 = Inr (i, s')"
    using assms by (auto simp: add_device_text_def res_bind_eq_Inr)
  then show ?thesis using smtp_add_device_msg smtp_new_text [OF new] by simp
qed

lemma smtp_donation_request: "donation_request_maybe now s = Inr s' \<Longrightarrow> smtp_tbl s' = smtp_tbl s"
  by (auto simp: donation_request_maybe_def res_bind_eq_Inr Let_def split: if_splits dest!: smtp_set_config [rotated] smtp_add_device_text)

lemma guarantee_kept:
  "k \<noteq> GuaranteeE2ee \<Longrightarrow> Params_get_bool GuaranteeE2ee (Params_set_int k i p) = Params_get_bool GuaranteeE2ee p"
  "k \<noteq> GuaranteeE2ee \<Longrightarrow> Params_get_bool GuaranteeE2ee (Params_set_optional k v p) = Params_get_bool GuaranteeE2ee p"
  by (simp_all add: Params_get_bool_def Params_get_int_def Params_set_int_def Params_set_optional_def split: option.splits)

text \<open>A message with this text that is marked for encryption.\<close>

definition guaranteed :: "ustr \<Rightarrow> Message \<Rightarrow> bool" where
  "guaranteed txt msg \<longleftrightarrow> Params_get_bool GuaranteeE2ee (mg_param msg) = Some True \<and> mg_text msg = txt"

lemma smtp_update_param: "update_param msg s = Inr s' \<Longrightarrow> smtp_tbl s' = smtp_tbl s"
  by (auto simp: update_param_def sql_msg_id_def update_msg_def split: if_splits)

lemma keeps_case_prod: "(\<And>a b. p = (a, b) \<Longrightarrow> queue_same.keeps_rel (f a b)) \<Longrightarrow> queue_same.keeps_rel (case p of (a, b) \<Rightarrow> f a b)"
  by (cases p) simp

lemma same_integration: "queue_same.keeps_rel (update_webxdc_integration_database env now msg)"
  unfolding update_webxdc_integration_database_def Let_def
  by (intro queue_same.keeps_rules queue_same.keeps_exec keeps_case_prod)
    (erule smtp_update_param smtp_set_config [rotated]; simp)+

lemma integration_guaranteed:
  "update_webxdc_integration_database env now msg s = (Inr msg', s') \<Longrightarrow> guaranteed txt msg' = guaranteed txt msg \<and> mg_chat_id msg' = mg_chat_id msg"
  by (auto simp: update_webxdc_integration_database_def Let_def bind_Inr guaranteed_def guarantee_kept split: if_splits)

lemma smtp_message_rows:
  "create_outgoing_rfc724_mid s = (mid, s') \<Longrightarrow> smtp_tbl s' = smtp_tbl s"
  "insert_msg f s = (i, s') \<Longrightarrow> smtp_tbl s' = smtp_tbl s"
  "insert_own_location ts chat s = (l, s') \<Longrightarrow> smtp_tbl s' = smtp_tbl s"
  "sql_msg_id i (update_msg i f s) = Inr s' \<Longrightarrow> smtp_tbl s' = smtp_tbl s"
  "smtp_tbl (set_chat_param chat p s) = smtp_tbl s"
  "smtp_tbl (maybe_set_logging_xdc msg c s) = smtp_tbl s"
  by (auto simp: create_outgoing_rfc724_mid_def insert_msg_def insert_own_location_def sql_msg_id_def update_msg_def set_chat_param_def
      maybe_set_logging_xdc_def set_debug_logging_xdc_def smtp_frame Let_def split: if_splits option.splits)

lemma same_prepare_msg_raw: "queue_same.keeps_rel (prepare_msg_raw env now c i msg)"
  unfolding prepare_msg_raw_def Let_def fill_mid_def prepare_recipient_def store_msg_def
  by (intro queue_same.keeps_rules queue_same.keeps_exec queue_same.keeps_run queue_same.keeps_modify keeps_case_prod same_integration)
    (erule smtp_message_rows smtp_frame | rule smtp_message_rows smtp_frame)+

lemma fill_mid_guaranteed: "fill_mid msg s = (Inr msg', s') \<Longrightarrow> guaranteed txt msg' = guaranteed txt msg"
  by (auto simp: fill_mid_def bind_Inr guaranteed_def split: if_splits)

lemma prepare_recipient_guaranteed: "prepare_recipient c msg s = (Inr (to, c', msg'), s') \<Longrightarrow> guaranteed txt msg' = guaranteed txt msg \<and> ch_id c' = ch_id c"
  by (auto simp: prepare_recipient_def bind_Inr guaranteed_def guarantee_kept Let_def split: if_splits option.splits)

lemma prepare_msg_raw_guaranteed: "yields (\<lambda>msg'. guaranteed txt msg' = guaranteed txt msg \<and> mg_chat_id msg' = ch_id c) (prepare_msg_raw env now c i msg)"
proof -
  have upd: "guaranteed txt (m\<lparr>mg_in_reply_to := r, mg_chat_id := ch, mg_from_id := f, mg_id := j\<rparr>) = guaranteed txt m"
      "guaranteed txt (m\<lparr>mg_param := Params_set_optional Param.Bot v (mg_param m)\<rparr>) = guaranteed txt m" for m r ch f j v
    by (simp_all add: guaranteed_def guarantee_kept)
  show ?thesis
    unfolding prepare_msg_raw_def Let_def
    by (intro yields_rules) (auto simp: bind_Inr upd dest!: fill_mid_guaranteed prepare_recipient_guaranteed integration_guaranteed
      split: if_splits)
qed

lemma load_from_db_id: "load_from_db s chat = Inr c \<Longrightarrow> ch_id c = chat"
  by (auto simp: load_from_db_def chat_row_of_def Let_def dest: sel_one_Some split: option.splits if_splits)

lemma same_check_sendable: "queue_same.keeps_rel (check_sendable chat c msg)"
  unfolding check_sendable_def by (intro queue_same.keeps_rules)

lemma same_mark_guaranteed: "queue_same.keeps_rel (mark_guaranteed c msg)"
  unfolding mark_guaranteed_def Let_def by (intro queue_same.keeps_rules queue_same.keeps_exec) (rule smtp_update_param)

lemma check_sendable_state: "check_sendable chat c msg s = (r, s') \<Longrightarrow> s' = s"
  by (auto simp: check_sendable_def bind_def query_def fail_def ensure_def ret_def split: sum.splits option.splits if_splits)

lemma guaranteed_set: "guaranteed (mg_text msg) (msg\<lparr>mg_param := Params_set_int GuaranteeE2ee 1 p\<rparr>)"
  by (simp add: guaranteed_def Params_get_bool_def Params_get_int_def Params_set_int_def parse_int_show_int i32_min_def i32_max_def)

lemma mark_guaranteed_sets:
  assumes "mark_guaranteed c msg s = (Inr msg', s')" "mg_state msg = Undefined" "Params_get_cmd (mg_param msg) \<noteq> SecurejoinMessage"
    "is_encrypted s c = Inr True"
  shows "guaranteed (mg_text msg) msg'" "mg_viewtype msg' = mg_viewtype msg"
  using assms by (auto simp: mark_guaranteed_def bind_Inr Let_def guaranteed_set)

definition queue_safe :: "send_env \<Rightarrow> int \<Rightarrow> chat_id \<Rightarrow> ustr \<Rightarrow> ctx \<Rightarrow> ctx \<Rightarrow> bool" where
  "queue_safe env now chat txt s s' \<longleftrightarrow> (\<exists>msg s0. mg_chat_id msg = chat \<and> mg_text msg = txt \<and> queue_grows env now s0 msg s s')"

lemma safe_same:
  assumes "queue_same.keeps_rel m" "smtp_tbl s1 = smtp_tbl s"
  shows "leaves (queue_safe env now chat txt s) m s1"
  using leaves_same [OF assms, of env now s "Message_default\<lparr>mg_chat_id := chat, mg_text := txt\<rparr>"]
  unfolding leaves_def queue_safe_def by force

lemma safe_bind_same:
  assumes "queue_same.keeps_rel m" "smtp_tbl s1 = smtp_tbl s"
    and "\<And>x s2. m s1 = (Inr x, s2) \<Longrightarrow> smtp_tbl s2 = smtp_tbl s \<Longrightarrow> leaves (queue_safe env now chat txt s) (f x) s2"
  shows "leaves (queue_safe env now chat txt s) (bind m f) s1"
  using assms(3) queue_same.keepsD [OF assms(1)] assms(2) by (intro leaves_bind safe_same assms) fastforce+

lemma safe_then_same:
  assumes "leaves (queue_safe env now chat txt s) m s1" "\<And>x. queue_same.keeps_rel (f x)"
  shows "leaves (queue_safe env now chat txt s) (bind m f) s1"
proof (rule leaves_bind [OF assms(1)])
  fix x s2
  assume "m s1 = (Inr x, s2)"
  with assms(1) have "queue_safe env now chat txt s s2" by (simp add: leaves_def)
  moreover have "smtp_tbl (snd (f x s2)) = smtp_tbl s2"
    using assms(2) unfolding queue_same.keeps_rel_def by blast
  ultimately show "leaves (queue_safe env now chat txt s) (f x) s2"
    by (simp add: leaves_def queue_safe_def queue_grows_def)
qed

lemma create_jobs_safe:
  assumes "guaranteed txt msg" "mg_chat_id msg = chat" "smtp_tbl s1 = smtp_tbl s"
  shows "leaves (queue_safe env now chat txt s) (create_send_msg_jobs env now msg) s1"
  using create_jobs_grow [of s1 msg env now] assms
  unfolding leaves_def queue_safe_def queue_grows_def needs_encryption_def guaranteed_def by auto

lemma prepare_send_msg_safe:
  assumes "mg_viewtype msg = Text" "mg_state msg = Undefined" "Params_get_cmd (mg_param msg) \<noteq> SecurejoinMessage"
    and "load_from_db s chat = Inr c" "is_encrypted s c = Inr True"
  shows "leaves (queue_safe env now chat (mg_text msg) s) (prepare_send_msg env now chat msg) s"
proof -
  have un: "queue_same.keeps_rel (exec (unarchive_if_not_muted now chat st))" for st
    by (rule queue_same.keeps_exec) (rule smtp_unarchive)
  have don: "queue_same.keeps_rel (exec (donation_request_maybe now))"
    by (rule queue_same.keeps_exec) (rule smtp_donation_request)
  have chat: "ch_id c = chat" using assms(4) by (rule load_from_db_id)
  have g: "guaranteed (mg_text msg) msg4 \<and> mg_chat_id msg4 = chat"
    if "check_sendable chat c msg s = (Inr u, s1)" "mark_guaranteed c msg s1 = (Inr msg2, s2)"
      "prepare_msg_blob (v_process env) (msg2\<lparr>mg_state := OutPending, mg_timestamp_sort := now\<rparr>) = Inr msg3"
      "prepare_msg_raw env now c i msg3 s3 = (Inr msg4, s4)" for u s1 msg2 s2 msg3 i s3 msg4 s4
  proof -
    have "guaranteed (mg_text msg) msg2" "mg_viewtype msg2 = Text"
      using mark_guaranteed_sets [OF that(2)] check_sendable_state [OF that(1)] assms by auto
    with that(3) have "guaranteed (mg_text msg) msg3" by (auto simp: prepare_msg_blob_def guaranteed_def)
    then show ?thesis using yieldsD [OF prepare_msg_raw_guaranteed that(4)] chat by blast
  qed
  have tail: "leaves (queue_safe env now chat (mg_text msg) s) (bind (create_send_msg_jobs env now msg4) (\<lambda>(ids, msg5).
      bind (only_if (ids \<noteq> []) (ignore (exec (donation_request_maybe now)))) (\<lambda>_. ret (ids, msg5)))) s1"
    if "guaranteed (mg_text msg) msg4 \<and> mg_chat_id msg4 = chat" "smtp_tbl s1 = smtp_tbl s" for msg4 s1
    using that by (intro safe_then_same create_jobs_safe keeps_case_prod queue_same.keeps_rules don) simp_all
  show ?thesis
    unfolding prepare_send_msg_def Let_def
  proof (intro tail safe_bind_same same_check_sendable same_mark_guaranteed same_prepare_msg_raw un
        queue_same.keeps_query queue_same.keeps_only_if HOL.refl, assumption+, goal_cases)
    case (1 c' s1 u s2 msg2 s3 msg3 s4 v s5 msg4 s6)
    from 1(1) assms(4) have "c' = c" "s1 = s" by simp_all
    with 1(3,5,7,11) assms(2) show ?case by (intro g) (simp_all, blast)
  qed assumption
qed

lemma random_frame:
  "chat_row_of (s\<lparr>random_used := n\<rparr>) chat = chat_row_of s chat" "stock (s\<lparr>random_used := n\<rparr>) = stock s"
  "contact_of (s\<lparr>random_used := n\<rparr>) i = contact_of s i" "chats_contacts (s\<lparr>random_used := n\<rparr>) = chats_contacts s"
  "config (s\<lparr>random_used := n\<rparr>) = config s" "self_fingerprint (s\<lparr>random_used := n\<rparr>) = self_fingerprint s"
  by (simp_all add: chat_row_of_def contact_of_def)

lemma get_chat_contacts_random: "get_chat_contacts (s\<lparr>random_used := n\<rparr>) chat = get_chat_contacts s chat"
  unfolding get_chat_contacts_def ord_self_def ord_seen_def ord_id_def random_frame ..

lemma get_by_id_random: "get_by_id (s\<lparr>random_used := n\<rparr>) i = get_by_id s i"
  unfolding get_by_id_def get_by_id_optional_def config_text_def random_frame ..

lemma load_random: "load_from_db (s\<lparr>random_used := n\<rparr>) chat = load_from_db s chat"
  unfolding load_from_db_def random_frame get_by_id_random get_chat_contacts_random ..

lemma is_encrypted_random: "is_encrypted (s\<lparr>random_used := n\<rparr>) c = is_encrypted s c"
  unfolding is_encrypted_def random_frame ..

lemma send_msg_safe:
  assumes "mg_viewtype msg = Text" "mg_state msg = Undefined" "\<not> is_system_message msg"
    and "load_from_db s chat = Inr c" "is_encrypted s c = Inr True"
  shows "leaves (queue_safe env now chat (mg_text msg) s) (send_msg env now chat msg) s"
proof -
  have same: "queue_same.keeps_rel (modify (emit_msgs_changed ch i))" "queue_same.keeps_rel (modify (emit_location_changed l))"
    "queue_same.keeps_rel (modify interrupt_smtp)" for ch i l
    by (rule queue_same.keeps_modify; simp add: interrupt_smtp_def emit_location_changed_def Let_def split: option.split)+
  have prep: "leaves (queue_safe env now chat (mg_text msg) s) (prepare_send_msg env now chat msg) s"
    using assms by (intro prepare_send_msg_safe) (auto simp: is_system_message_def)
  have "leaves (queue_safe env now chat (mg_text msg) s) (bind (prepare_send_msg env now chat msg) (\<lambda>(ids, msg3).
        bind (only_if (ids \<noteq> [])
          (bind (only_if (\<not> mg_hidden msg3) (modify (emit_msgs_changed (mg_chat_id msg3) (mg_id msg3)))) (\<lambda>_.
           bind (only_if (Params_exists SetLatitude (mg_param msg3)) (modify (emit_location_changed (Some ContactId_SELF)))) (\<lambda>_.
           modify interrupt_smtp)))) (\<lambda>_. ret (mg_id msg3)))) s"
    by (intro safe_then_same prep keeps_case_prod queue_same.keeps_rules same)
  then show ?thesis
    using assms(2,3) unfolding send_msg_def by (intro safe_bind_same queue_same.keeps_ensure HOL.refl) simp
qed

lemma send_text_safe:
  assumes "load_from_db s chat = Inr c" "is_encrypted s c = Inr True"
  shows "leaves (queue_safe env now chat txt s) (send_text_msg env now chat txt) s"
proof -
  define n where "n = Suc (random_used s)"
  define msg where "msg = Message_default\<lparr>mg_viewtype := Text, mg_text := txt, mg_rfc724_mid := random_id s (random_used s) @ ''@localhost''\<rparr>"
  have new: "Message_new_text txt s = (msg, s\<lparr>random_used := n\<rparr>)" "mg_text msg = txt" "mg_viewtype msg = Text"
    "mg_state msg = Undefined"
    by (simp_all add: Message_new_text_def create_outgoing_rfc724_mid_def n_def msg_def Message_default_def)
  have "mg_param msg = Params_new"
    by (simp add: msg_def Message_default_def)
  then have new': "\<not> is_system_message msg"
    by (simp add: is_system_message_def Params_get_cmd_def Params_get_int_def)
  have "leaves (queue_safe env now chat txt (s\<lparr>random_used := n\<rparr>)) (send_msg env now chat msg) (s\<lparr>random_used := n\<rparr>)"
    using send_msg_safe [of msg "s\<lparr>random_used := n\<rparr>" chat c env now] new new' assms by (simp add: load_random is_encrypted_random)
  then have "leaves (queue_safe env now chat txt s) (send_msg env now chat msg) (s\<lparr>random_used := n\<rparr>)"
    by (simp add: leaves_def queue_safe_def queue_grows_def)
  with new(1) have "leaves (queue_safe env now chat txt s) (bind (run (Message_new_text txt)) (\<lambda>msg. send_msg env now chat msg)) s"
    by (simp add: leaves_def bind_def [of "run _"] run_def)
  moreover have "leaves (queue_safe env now chat txt s) (fail e) s" for e
    by (intro safe_same queue_same.keeps_fail HOL.refl)
  ultimately show ?thesis
    by (simp add: send_text_msg_def leaves_def bind_def [of "ensure _ _"] ensure_def fail_def)
qed

text \<open>C37: A text that the user sends to a chat that is encrypted -- a single chat with a contact that has a key, a group with an identifier,
  a channel or the chat with oneself -- reaches the queue of outgoing mails only sealed: in every state, and also when the sending
  fails on the way, the queue grows only by mails for a message of this chat with this text, encrypted to the keys that \<open>from_msg\<close>
  collects for it.\<close>

theorem send_text_msg_sealed:
  assumes "load_from_db s chat = Inr c" "is_encrypted s c = Inr True"
  shows "\<exists>msg s0 jobs. mg_chat_id msg = chat \<and> mg_text msg = txt
           \<and> smtp_tbl (snd (send_text_msg env now chat txt s)) = smtp_tbl s @ jobs
           \<and> (\<forall>j \<in> set jobs. sm_msg_id j = mg_id msg \<and> sealed_for (v_mime env) now s0 msg (sm_mime j))"
  using send_text_safe [OF assms, of env now "txt"] unfolding leaves_def queue_safe_def queue_grows_def by blast

theorem send_text_msg_sealed_witness:
  "\<exists>msg s0 jobs. mg_chat_id msg = 11 \<and> mg_text msg = [72, 105]
     \<and> smtp_tbl (snd (send_text_msg sample_send_env 100 11 [72, 105] MimeFactory.group_ctx)) = smtp_tbl MimeFactory.group_ctx @ jobs
     \<and> (\<forall>j \<in> set jobs. sm_msg_id j = mg_id msg \<and> sealed_for sample_env 100 s0 msg (sm_mime j))"
proof -
  have "is_encrypted MimeFactory.group_ctx group_chat = Inr True"
    by (simp add: is_encrypted_def group_chat_def chat_row0_def)
  from send_text_msg_sealed [OF group_load this, of "[72, 105]" sample_send_env 100] show ?thesis
    by (simp add: sample_send_env_def)
qed


section \<open>Refusal\<close>


definition request_ctx :: ctx where
  "request_ctx = ctx0\<lparr>chats := [(chat_row0 11 Group)\<lparr>ch_grpid := [71], ch_blocked := Request\<rparr>]\<rparr>"


end
