(* ===== verification/Spec2Isabelle.thy ===== *)
theory Spec2Isabelle
  imports GroupChanges Ephemeral ImapSets ImapSelect ServerParams Ratelimit ContactNames ReadReceipts MemberHeaders MessageText
    SendText
begin

text \<open>
  A verification library for the chat core.
\<close>

end
